(* ===== verification/Prelude.thy ===== *)
theory Prelude
  imports Main
begin

text \<open>
  What every component shares: the results of fallible Go functions, the parts of the Go
  standard library the services call on strings and integers, and tables of rows with the
  SQL statements the services run on them.

  A table is the list of its rows, in insertion order. \<open>SELECT ... WHERE p\<close> that reads one
  row is \<open>List.find p\<close>, a query that reads many is \<open>filter p\<close>, an \<open>INSERT\<close> appends,
  \<open>UPDATE ... SET f WHERE p\<close> is \<open>update_where p f\<close> and \<open>DELETE\<close> is a \<open>filter\<close>.
\<close>

named_theorems table_simps \<open>how lookups, keys and filters see inserted and updated rows\<close>
named_theorems result_splits \<open>case splits for fallible results\<close>

section \<open>Identifiers, instants and results\<close>

text \<open>
  A UUID is an opaque identifier. An instant is a number of microseconds since the Unix
  epoch, the resolution of the \<open>timestamptz\<close> columns. A date is a day number since the
  epoch.
\<close>

type_synonym uuid = nat
type_synonym instant = int
type_synonym date = int

definition result_bind :: "'e + 'a \<Rightarrow> ('a \<Rightarrow> 'e + 'b) \<Rightarrow> 'e + 'b" where
  "result_bind r f = (case r of Inl e \<Rightarrow> Inl e | Inr x \<Rightarrow> f x)"

lemma result_bind_simps [simp]:
  "result_bind (Inl e) f = Inl e"
  "result_bind (Inr x) f = f x"
  by (simp_all add: result_bind_def)

lemma result_bind_Inr_iff:
  "result_bind r f = Inr y \<longleftrightarrow> (\<exists>x. r = Inr x \<and> f x = Inr y)"
  by (cases r) auto

section \<open>Integers as Go divides them\<close>

text \<open>Go's \<open>/\<close> and \<open>%\<close> truncate towards zero; \<open>div\<close> and \<open>mod\<close> round down.\<close>

definition quot :: "int \<Rightarrow> int \<Rightarrow> int" where
  "quot a b = sgn a * sgn b * (\<bar>a\<bar> div \<bar>b\<bar>)"

definition rem :: "int \<Rightarrow> int \<Rightarrow> int" where
  "rem a b = a - b * quot a b"

lemma quot_nonneg [simp]: "0 \<le> a \<Longrightarrow> 0 < b \<Longrightarrow> quot a b = a div b"
  by (cases "a = 0") (simp_all add: quot_def sgn_if)

lemma rem_nonneg [simp]: "0 \<le> a \<Longrightarrow> 0 < b \<Longrightarrow> rem a b = a mod b"
  by (simp add: rem_def minus_mult_div_eq_mod)

lemma quot_le_0: "a \<le> 0 \<Longrightarrow> 0 < b \<Longrightarrow> quot a b \<le> 0"
  by (auto simp: quot_def sgn_if pos_imp_zdiv_nonneg_iff)

section \<open>Strings\<close>

text \<open>
  A Go string is its bytes. \<open>TrimSpace\<close> removes leading and trailing Unicode white space:
  the ASCII spaces and the UTF-8 encodings of U+0085, U+00A0, U+1680, U+2000 to U+200A,
  U+2028, U+2029, U+202F, U+205F and U+3000.
\<close>

definition space_encodings :: "string list" where
  "space_encodings =
     [[CHR 0x09], [CHR 0x0A], [CHR 0x0B], [CHR 0x0C], [CHR 0x0D], [CHR 0x20],
      [CHR 0xC2, CHR 0x85], [CHR 0xC2, CHR 0xA0], [CHR 0xE1, CHR 0x9A, CHR 0x80],
      [CHR 0xE2, CHR 0x80, CHR 0x80], [CHR 0xE2, CHR 0x80, CHR 0x81],
      [CHR 0xE2, CHR 0x80, CHR 0x82], [CHR 0xE2, CHR 0x80, CHR 0x83],
      [CHR 0xE2, CHR 0x80, CHR 0x84], [CHR 0xE2, CHR 0x80, CHR 0x85],
      [CHR 0xE2, CHR 0x80, CHR 0x86], [CHR 0xE2, CHR 0x80, CHR 0x87],
      [CHR 0xE2, CHR 0x80, CHR 0x88], [CHR 0xE2, CHR 0x80, CHR 0x89],
      [CHR 0xE2, CHR 0x80, CHR 0x8A], [CHR 0xE2, CHR 0x80, CHR 0xA8],
      [CHR 0xE2, CHR 0x80, CHR 0xA9], [CHR 0xE2, CHR 0x80, CHR 0xAF],
      [CHR 0xE2, CHR 0x81, CHR 0x9F], [CHR 0xE3, CHR 0x80, CHR 0x80]]"

fun strip_prefix :: "string \<Rightarrow> string \<Rightarrow> string option" where
  "strip_prefix [] s = Some s"
| "strip_prefix (c # cs) [] = None"
| "strip_prefix (c # cs) (d # ds) = (if c = d then strip_prefix cs ds else None)"

fun strip_any :: "string list \<Rightarrow> string \<Rightarrow> string option" where
  "strip_any [] s = None"
| "strip_any (p # ps) s = (case strip_prefix p s of Some r \<Rightarrow> Some r | None \<Rightarrow> strip_any ps s)"

lemma strip_prefix_append: "strip_prefix p s = Some r \<Longrightarrow> s = p @ r"
  by (induction p s rule: strip_prefix.induct) (auto split: if_splits)

lemma strip_any_length:
  "strip_any ps s = Some r \<Longrightarrow> [] \<notin> set ps \<Longrightarrow> length r < length s"
  by (induction ps) (auto split: option.splits dest: strip_prefix_append simp: neq_Nil_conv)

text \<open>The encodings are non-empty, so each round of trimming consumes a byte.\<close>

function trim_front :: "string list \<Rightarrow> string \<Rightarrow> string" where
  "trim_front ps s =
     (if [] \<in> set ps then s
      else case strip_any ps s of None \<Rightarrow> s | Some r \<Rightarrow> trim_front ps r)"
  by pat_completeness auto
termination
  by (relation "measure (\<lambda>(ps, s). length s)") (auto dest: strip_any_length)

declare trim_front.simps [simp del]

definition trim_space :: "string \<Rightarrow> string" where
  "trim_space s =
     rev (trim_front (map rev space_encodings) (rev (trim_front space_encodings s)))"

lemma trim_front_Nil [simp]: "[] \<notin> set ps \<Longrightarrow> trim_front ps [] = []"
proof -
  assume "[] \<notin> set ps"
  moreover have "strip_prefix p [] = None" if "p \<noteq> []" for p
    using that by (cases p) auto
  ultimately have "strip_any ps [] = None"
    by (induction ps) auto
  with \<open>[] \<notin> set ps\<close> show ?thesis by (simp add: trim_front.simps)
qed

lemma trim_front_length: "length (trim_front ps s) \<le> length s"
proof (induction ps s rule: trim_front.induct)
  case (1 ps s)
  show ?case
  proof (cases "[] \<in> set ps \<or> strip_any ps s = None")
    case True
    then show ?thesis by (auto simp: trim_front.simps [of ps s])
  next
    case False
    then obtain r where r: "strip_any ps s = Some r" "[] \<notin> set ps" by auto
    then show ?thesis
      using "1.IH" [of r] strip_any_length [of ps s r]
      by (simp add: trim_front.simps [of ps s])
  qed
qed

lemma trim_space_length: "length (trim_space s) \<le> length s"
  using trim_front_length [of "map rev space_encodings" "rev (trim_front space_encodings s)"]
    trim_front_length [of space_encodings s]
  by (simp add: trim_space_def)

text \<open>
  \<open>strings.ToLower\<close> and PostgreSQL's \<open>lower\<close> on ASCII letters; bytes of non-ASCII characters
  are left as they are.
\<close>

definition lower_char :: "char \<Rightarrow> char" where
  "lower_char c = (let n = of_char c :: nat in
     if 65 \<le> n \<and> n \<le> 90 then char_of (n + 32) else c)"

definition to_lower :: "string \<Rightarrow> string" where
  "to_lower s = map lower_char s"

lemma lower_char_idem [simp]: "lower_char (lower_char c) = lower_char c"
  by (simp add: lower_char_def Let_def)

lemma to_lower_idem [simp]: "to_lower (to_lower s) = to_lower s"
  by (simp add: to_lower_def)

lemma length_to_lower [simp]: "length (to_lower s) = length s"
  by (simp add: to_lower_def)

section \<open>Tables\<close>

lemma disjoint_grow: "x \<notin> X \<Longrightarrow> X \<inter> Y = {} \<Longrightarrow> Z \<subseteq> insert x Y \<Longrightarrow> X \<inter> Z = {}"
  by blast

definition update_where :: "('r \<Rightarrow> bool) \<Rightarrow> ('r \<Rightarrow> 'r) \<Rightarrow> 'r list \<Rightarrow> 'r list" where
  "update_where p f t = map (\<lambda>r. if p r then f r else r) t"

definition rows_affected :: "('r \<Rightarrow> bool) \<Rightarrow> 'r list \<Rightarrow> nat" where
  "rows_affected p t = length (filter p t)"

definition by_key :: "('r \<Rightarrow> 'k) \<Rightarrow> 'k \<Rightarrow> 'r list \<Rightarrow> 'r option" where
  "by_key key k t = List.find (\<lambda>r. key r = k) t"

definition set_by_key :: "('r \<Rightarrow> 'k) \<Rightarrow> 'k \<Rightarrow> ('r \<Rightarrow> 'r) \<Rightarrow> 'r list \<Rightarrow> 'r list" where
  "set_by_key key k f t = update_where (\<lambda>r. key r = k) f t"

definition unique_on :: "('r \<Rightarrow> 'k) \<Rightarrow> 'r list \<Rightarrow> bool" where
  "unique_on key t \<longleftrightarrow> distinct (map key t)"

lemma update_where_Nil [simp]: "update_where p f [] = []"
  by (simp add: update_where_def)

lemma length_update_where [simp]: "length (update_where p f t) = length t"
  by (simp add: update_where_def)

lemma in_update_where:
  "r \<in> set (update_where p f t) \<longleftrightarrow> (\<exists>q\<in>set t. r = (if p q then f q else q))"
  by (auto simp: update_where_def)

lemma find_Some_iff2:
  "List.find p t = Some r \<Longrightarrow> r \<in> set t \<and> p r"
  by (induction t) (auto split: if_splits)

lemma find_None_all: "List.find p t = None \<longleftrightarrow> (\<forall>r\<in>set t. \<not> p r)"
  by (auto simp: find_None_iff)

lemma find_append: "List.find p (xs @ ys) =
    (case List.find p xs of Some r \<Rightarrow> Some r | None \<Rightarrow> List.find p ys)"
  by (induction xs) auto

lemma by_key_mem: "by_key key k t = Some r \<Longrightarrow> r \<in> set t \<and> key r = k"
  by (auto simp: by_key_def dest: find_Some_iff2)

lemma by_key_None: "by_key key k t = None \<longleftrightarrow> k \<notin> key ` set t"
  by (auto simp: by_key_def find_None_all)

lemma by_key_unique:
  "unique_on key t \<Longrightarrow> r \<in> set t \<Longrightarrow> by_key key (key r) t = Some r"
  by (induction t) (auto simp: by_key_def unique_on_def)

lemma by_key_append [table_simps]:
  "by_key key k (t @ [r]) =
     (case by_key key k t of Some q \<Rightarrow> Some q | None \<Rightarrow> if key r = k then Some r else None)"
  by (simp add: by_key_def find_append split: option.split)

lemma unique_on_append [table_simps]:
  "unique_on key (t @ [r]) \<longleftrightarrow> unique_on key t \<and> key r \<notin> key ` set t"
  by (auto simp: unique_on_def)

lemma unique_on_inj:
  "unique_on key t \<Longrightarrow> a \<in> set t \<Longrightarrow> b \<in> set t \<Longrightarrow> key a = key b \<Longrightarrow> a = b"
  by (auto simp: unique_on_def distinct_map dest: inj_onD)

text \<open>A partial unique index, on the rows that satisfy \<open>p\<close>.\<close>

lemma partial_unique_iff:
  assumes "unique_on idk t"
  shows "unique_on key (filter p t) \<longleftrightarrow>
    (\<forall>a\<in>set t. \<forall>b\<in>set t. p a \<longrightarrow> p b \<longrightarrow> key a = key b \<longrightarrow> a = b)"
  using assms by (auto simp: unique_on_def distinct_map inj_on_def)

lemma unique_on_update_where:
  assumes "unique_on idk t" and "\<And>r. idk (f r) = idk r"
    and "\<And>a b. \<lbrakk>a \<in> set t; b \<in> set t; q (if p a then f a else a); q (if p b then f b else b);
      key (if p a then f a else a) = key (if p b then f b else b)\<rbrakk> \<Longrightarrow> a = b"
  shows "unique_on key (filter q (update_where p f t))"
proof -
  have "map idk (update_where p f t) = map idk t"
    by (simp add: update_where_def assms(2))
  then have "unique_on idk (update_where p f t)" using assms(1) by (simp add: unique_on_def)
  then show ?thesis
    unfolding partial_unique_iff [OF \<open>unique_on idk (update_where p f t)\<close>]
  proof (intro ballI impI)
    fix x y
    assume "x \<in> set (update_where p f t)" "y \<in> set (update_where p f t)"
      and q: "q x" "q y" "key x = key y"
    then obtain a b where ab: "a \<in> set t" "b \<in> set t" "x = (if p a then f a else a)"
        "y = (if p b then f b else b)"
      unfolding in_update_where by blast
    have "a = b" using assms(3) [OF ab(1,2)] q unfolding ab(3,4) by blast
    then show "x = y" using ab(3,4) by simp
  qed
qed

lemma in_map_filter: "y \<in> set (List.map_filter f xs) \<longleftrightarrow> (\<exists>x\<in>set xs. f x = Some y)"
  by (induction xs) (auto simp: List.map_filter_simps split: option.split)

lemma filter_only:
  assumes "distinct t" and "\<And>b. b \<in> set t \<Longrightarrow> p b \<Longrightarrow> b = a"
  shows "filter p t = (if a \<in> set t \<and> p a then [a] else [])"
  using assms by (induction t) auto

subsection \<open>Updates that keep a key\<close>

text \<open>
  What a client of a table relies on when it updates rows: the update does not touch the
  column the table is looked up by. Every \<open>UPDATE\<close> of the model is an instance.
\<close>

locale key_update =
  fixes key :: "'r \<Rightarrow> 'k" and f :: "'r \<Rightarrow> 'r"
  assumes key_kept: "key (f r) = key r"
begin

lemma map_key_update: "map key (update_where p f t) = map key t"
  by (induction t) (auto simp: update_where_def key_kept)

lemma unique_update: "unique_on key (update_where p f t) \<longleftrightarrow> unique_on key t"
  by (simp add: unique_on_def map_key_update)

lemma keys_update: "key ` set (update_where p f t) = key ` set t"
  by (metis list.set_map map_key_update)

lemma find_update:
  "by_key key k (update_where p f t) =
     map_option (\<lambda>r. if p r then f r else r) (by_key key k t)"
  by (induction t) (auto simp: by_key_def update_where_def key_kept)

lemma find_set_same:
  "by_key key k (set_by_key key k f t) = map_option f (by_key key k t)"
proof (cases "by_key key k t")
  case None
  then show ?thesis by (simp add: set_by_key_def find_update)
next
  case (Some r)
  then have "key r = k" by (auto dest: by_key_mem)
  with Some show ?thesis by (simp add: set_by_key_def find_update)
qed

lemma set_set:
  "set_by_key key k g (set_by_key key k f t) = set_by_key key k (\<lambda>r. g (f r)) t"
  by (induction t) (auto simp: set_by_key_def update_where_def key_kept)

lemma find_set_other:
  "j \<noteq> k \<Longrightarrow> by_key key j (set_by_key key k f t) = by_key key j t"
  by (cases "by_key key j t") (auto simp: set_by_key_def find_update dest: by_key_mem)

end

end
