(* ===== verification/Httpx.thy ===== *)
theory Httpx
  imports Prelude
begin

text \<open>
  \<open>internal/platform/httpx\<close>: the error envelope every handler answers with, and pagination.
  An error is its HTTP status, its stable code and the names of the fields it reports; the
  human-readable texts and the wrapped internal error are left out.
\<close>

section \<open>The error envelope\<close>

record api_error =
  ae_status :: int
  ae_code :: string
  ae_fields :: "string list"

definition httpx_new :: "int \<Rightarrow> string \<Rightarrow> api_error" where
  "httpx_new st code = \<lparr>ae_status = st, ae_code = code, ae_fields = []\<rparr>"

definition ErrUnauthorized :: api_error where
  "ErrUnauthorized = httpx_new 401 ''UNAUTHENTICATED''"

definition ErrForbidden :: api_error where
  "ErrForbidden = httpx_new 403 ''FORBIDDEN''"

definition ErrOutOfScope :: api_error where
  "ErrOutOfScope = httpx_new 403 ''OUT_OF_SCOPE''"

definition ErrNotFound :: api_error where
  "ErrNotFound = httpx_new 404 ''NOT_FOUND''"

definition ErrRateLimited :: api_error where
  "ErrRateLimited = httpx_new 429 ''RATE_LIMITED''"

definition ErrCSRF :: api_error where
  "ErrCSRF = httpx_new 403 ''CSRF_REJECTED''"

definition Validation :: "string list \<Rightarrow> api_error" where
  "Validation fs = (httpx_new 400 ''VALIDATION_ERROR'')\<lparr>ae_fields := fs\<rparr>"

definition ValidationMsg :: api_error where
  "ValidationMsg = httpx_new 400 ''VALIDATION_ERROR''"

definition Conflict :: "string \<Rightarrow> api_error" where
  "Conflict code = httpx_new 409 code"

definition Unprocessable :: "string \<Rightarrow> api_error" where
  "Unprocessable code = httpx_new 422 code"

definition Internal :: api_error where
  "Internal = httpx_new 500 ''INTERNAL_ERROR''"

lemmas api_error_defs =
  httpx_new_def ErrUnauthorized_def ErrForbidden_def ErrOutOfScope_def ErrNotFound_def
  ErrRateLimited_def ErrCSRF_def Validation_def ValidationMsg_def Conflict_def
  Unprocessable_def Internal_def

text \<open>
  What a database call or a transaction body returns when it fails: an API error built by the
  service, a constraint of the schema (by name), no row, a sentinel of the attendance service,
  a statement the database rejects (an argument it cannot cast, a negative \<open>OFFSET\<close>), an
  object the store did not take, or a commit that did not go through.
\<close>

datatype go_error =
    Api api_error
  | UniqueViolation string
  | CheckViolation string
  | ForeignKeyViolation string
  | NotNullViolation string
  | NoRows
  | NotOpen
  | QueryFailed
  | StorageFailed
  | CommitFailed

text \<open>\<open>db.IsUniqueViolation\<close>: an empty name matches every unique constraint.\<close>

definition IsUniqueViolation :: "go_error \<Rightarrow> string \<Rightarrow> bool" where
  "IsUniqueViolation err constraint =
     (case err of UniqueViolation n \<Rightarrow> constraint = [] \<or> n = constraint | _ \<Rightarrow> False)"

text \<open>\<open>httpx.Fail\<close>: an error that is not an API error is reported as a generic 500.\<close>

definition Fail :: "go_error \<Rightarrow> api_error" where
  "Fail err = (case err of Api ae \<Rightarrow> ae | _ \<Rightarrow> Internal)"

lemma Fail_Api [simp]: "Fail (Api e) = e"
  by (simp add: Fail_def)

text \<open>
  \<open>ErrorHandler\<close>: what the framework reports, by its HTTP status, or what a handler returned.
\<close>

datatype handler_error = FiberError int | HandlerError go_error

definition ErrorHandler :: "handler_error \<Rightarrow> api_error" where
  "ErrorHandler err =
     (case err of
        FiberError code \<Rightarrow>
          if code = 413 then httpx_new 413 ''IMAGE_TOO_LARGE'' else httpx_new code ''HTTP_ERROR''
      | HandlerError e \<Rightarrow> Fail e)"

section \<open>Transactions\<close>

text \<open>
  \<open>Pool.InTx\<close>: the body runs on the database and returns an error or a new database with a
  result. An error rolls back; otherwise the commit is attempted, and \<open>commit_ok\<close> says
  whether it goes through.
\<close>

definition in_tx ::
  "bool \<Rightarrow> ('db \<Rightarrow> go_error + 'db \<times> 'a) \<Rightarrow> 'db \<Rightarrow> 'db \<times> (go_error + 'a)" where
  "in_tx commit_ok fn db =
     (case fn db of
        Inl e \<Rightarrow> (db, Inl e)
      | Inr (db', x) \<Rightarrow> if commit_ok then (db', Inr x) else (db, Inl CommitFailed))"

lemma in_tx_error: "in_tx ok fn db = (db', Inl e) \<Longrightarrow> db' = db"
  by (auto simp: in_tx_def split: sum.splits if_splits)

lemma in_tx_ok: "in_tx ok fn db = (db', Inr x) \<longleftrightarrow> ok \<and> fn db = Inr (db', x)"
  by (auto simp: in_tx_def split: sum.splits prod.splits)

lemma in_tx_cases [case_names error ok]:
  assumes "in_tx ok fn db = (db', r)"
  obtains (error) e where "r = Inl e" "db' = db"
  | (ok) x where "ok" "r = Inr x" "fn db = Inr (db', x)"
  using assms by (auto simp: in_tx_def split: sum.splits prod.splits if_splits)

section \<open>Pagination\<close>

text \<open>
  Query parameters reach \<open>ParsePage\<close> through \<open>strconv.Atoi\<close>, whose error is dropped: a
  string that is no number (\<open>None\<close>) gives 0, one out of range the nearest 64-bit value. An
  absent parameter is the default, \<open>Some 1\<close> and \<open>Some 25\<close>.
\<close>

definition max_int64 :: int where "max_int64 = 9223372036854775807"

definition min_int64 :: int where "min_int64 = - 9223372036854775808"

definition wrap64 :: "int \<Rightarrow> int" where
  "wrap64 n = (n + 2 ^ 63) mod 2 ^ 64 - 2 ^ 63"

definition clamp64 :: "int \<Rightarrow> int" where
  "clamp64 n = max min_int64 (min max_int64 n)"

record page =
  pg_page :: int
  pg_size :: int

definition Offset :: "page \<Rightarrow> int" where
  "Offset p = wrap64 ((pg_page p - 1) * pg_size p)"

definition Limit :: "page \<Rightarrow> int" where
  "Limit p = pg_size p"

definition ParsePage :: "int option \<Rightarrow> int option \<Rightarrow> page" where
  "ParsePage page_q size_q =
     (let page = (case page_q of None \<Rightarrow> 0 | Some n \<Rightarrow> clamp64 n);
          size = (case size_q of None \<Rightarrow> 0 | Some n \<Rightarrow> clamp64 n);
          page = (if page < 1 then 1 else page);
          size = (if size < 1 then 25 else size);
          size = (if 500 < size then 500 else size)
      in \<lparr>pg_page = page, pg_size = size\<rparr>)"

record page_meta =
  pm_page :: int
  pm_size :: int
  pm_total :: int
  pm_total_pages :: int

definition NewPageMeta :: "page \<Rightarrow> int \<Rightarrow> page_meta" where
  "NewPageMeta p tot =
     (let tp = quot tot (pg_size p);
          tp = (if rem tot (pg_size p) \<noteq> 0 then tp + 1 else tp)
      in \<lparr>pm_page = pg_page p, pm_size = pg_size p, pm_total = tot, pm_total_pages = tp\<rparr>)"

text \<open>\<open>LIMIT\<close> and \<open>OFFSET\<close> on an ordered result; PostgreSQL rejects a negative offset.\<close>

definition page_rows :: "page \<Rightarrow> 'r list \<Rightarrow> go_error + 'r list" where
  "page_rows p rows =
     (if Offset p < 0 then Inl QueryFailed
      else Inr (take (nat (Limit p)) (drop (nat (Offset p)) rows)))"

lemma ParsePage_bounds:
  "1 \<le> pg_page (ParsePage a b) \<and> pg_page (ParsePage a b) \<le> max_int64 \<and>
   1 \<le> pg_size (ParsePage a b) \<and> pg_size (ParsePage a b) \<le> 500"
  by (auto simp: ParsePage_def Let_def clamp64_def max_int64_def min_int64_def
      split: option.splits)

lemma wrap64_id: "min_int64 \<le> n \<Longrightarrow> n \<le> max_int64 \<Longrightarrow> wrap64 n = n"
  by (simp add: wrap64_def min_int64_def max_int64_def)

lemma ceil_div_bounds:
  fixes t s :: int
  assumes "0 < s" and "0 < t"
  shows "(t div s + (if t mod s \<noteq> 0 then 1 else 0) - 1) * s < t"
    and "t \<le> (t div s + (if t mod s \<noteq> 0 then 1 else 0)) * s"
proof -
  have eq: "s * (t div s) + t mod s = t" by simp
  have m: "0 \<le> t mod s" "t mod s < s" using assms by simp_all
  show "(t div s + (if t mod s \<noteq> 0 then 1 else 0) - 1) * s < t"
  proof (cases "t mod s = 0")
    case True
    then have "s * (t div s) = t" using eq by simp
    with True assms show ?thesis by (simp add: algebra_simps)
  next
    case False
    with m(1) have "s * (t div s) < t" using eq by linarith
    with False show ?thesis by (simp add: algebra_simps)
  qed
  show "t \<le> (t div s + (if t mod s \<noteq> 0 then 1 else 0)) * s"
  proof (cases "t mod s = 0")
    case True
    then have "s * (t div s) = t" using eq by simp
    with True show ?thesis by (simp add: algebra_simps)
  next
    case False
    have "t \<le> s * (t div s) + s" using eq m(2) by linarith
    with False show ?thesis by (simp add: algebra_simps)
  qed
qed

lemma NewPageMeta_pages:
  assumes "0 < pg_size p" and "0 \<le> tot"
  shows "pm_total_pages (NewPageMeta p tot) =
    tot div pg_size p + (if tot mod pg_size p \<noteq> 0 then 1 else 0)"
  using assms by (simp add: NewPageMeta_def Let_def)

end
