(* ===== verification/Geofence.thy ===== *)
theory Geofence
  imports Complex_Main Prelude
begin

text \<open>
  \<open>internal/attendance/geofence.go\<close>: the distance between the client's fix and the site, and
  the location status the server derives from it. A \<open>float64\<close> is a real, an infinity or NaN;
  comparisons follow IEEE 754, so every one that involves NaN is false. The rounding of the
  trigonometric functions is left out.
\<close>

section \<open>Floating-point values\<close>

datatype f64 = Fin real | PosInf | NegInf | NaN

definition f64_less :: "f64 \<Rightarrow> f64 \<Rightarrow> bool" where
  "f64_less a b =
     (case (a, b) of
        (NaN, _) \<Rightarrow> False | (_, NaN) \<Rightarrow> False
      | (Fin x, Fin y) \<Rightarrow> x < y
      | (NegInf, NegInf) \<Rightarrow> False | (NegInf, _) \<Rightarrow> True
      | (_, PosInf) \<Rightarrow> a \<noteq> PosInf
      | _ \<Rightarrow> False)"

definition f64_le :: "f64 \<Rightarrow> f64 \<Rightarrow> bool" where
  "f64_le a b = (a \<noteq> NaN \<and> b \<noteq> NaN \<and> \<not> f64_less b a)"

lemma f64_less_Fin [simp]: "f64_less (Fin x) (Fin y) \<longleftrightarrow> x < y"
  by (simp add: f64_less_def)

lemma f64_less_NaN [simp]: "\<not> f64_less NaN a" "\<not> f64_less a NaN"
  by (cases a; simp add: f64_less_def)+

lemma f64_le_Fin [simp]: "f64_le (Fin x) (Fin y) \<longleftrightarrow> x \<le> y"
  by (auto simp: f64_le_def)

lemma f64_inf_bounds [simp]: "f64_less NegInf (Fin x)" "f64_less (Fin x) PosInf"
  "\<not> f64_less PosInf (Fin x)" "\<not> f64_less (Fin x) NegInf"
  by (simp_all add: f64_less_def)

section \<open>Distance\<close>

definition earthRadiusM :: real where "earthRadiusM = 6371000"

definition toRad :: "real \<Rightarrow> real" where "toRad d = d * pi / 180"

definition haversine_a :: "real \<Rightarrow> real \<Rightarrow> real \<Rightarrow> real \<Rightarrow> real" where
  "haversine_a lat1 lon1 lat2 lon2 =
     (let dLat = toRad (lat2 - lat1);
          dLon = toRad (lon2 - lon1)
      in sin (dLat / 2) * sin (dLat / 2) +
         cos (toRad lat1) * cos (toRad lat2) * sin (dLon / 2) * sin (dLon / 2))"

definition HaversineM :: "real \<Rightarrow> real \<Rightarrow> real \<Rightarrow> real \<Rightarrow> real" where
  "HaversineM lat1 lon1 lat2 lon2 =
     2 * earthRadiusM * arcsin (sqrt (haversine_a lat1 lon1 lat2 lon2))"

text \<open>An argument that is not finite makes every term, and so the distance, NaN.\<close>

definition HaversineM_f64 :: "f64 \<Rightarrow> f64 \<Rightarrow> real \<Rightarrow> real \<Rightarrow> f64" where
  "HaversineM_f64 lat lon siteLat siteLon =
     (case (lat, lon) of
        (Fin a, Fin b) \<Rightarrow> Fin (HaversineM a b siteLat siteLon)
      | _ \<Rightarrow> NaN)"

section \<open>Location status\<close>

datatype location_status =
  LocationVerified | LocationOutsideRadius | LocationLowAccuracy | LocationUnavailable

record location_input =
  li_latitude :: "f64 option"
  li_longitude :: "f64 option"
  li_accuracy :: "f64 option"
  li_reason :: string

record location_result =
  lr_status :: location_status
  lr_distance :: "f64 option"
  lr_radius :: "int option"

definition accuracyOK :: "f64 option \<Rightarrow> f64 \<Rightarrow> bool" where
  "accuracyOK acc threshold =
     (case acc of None \<Rightarrow> False | Some a \<Rightarrow> f64_le (Fin 0) a \<and> f64_le a threshold)"

definition out_of_bounds :: "f64 \<Rightarrow> f64 \<Rightarrow> bool" where
  "out_of_bounds lat lon =
     (f64_less lat (Fin (- 90)) \<or> f64_less (Fin 90) lat \<or>
      f64_less lon (Fin (- 180)) \<or> f64_less (Fin 180) lon)"

definition unavailable_result :: location_result where
  "unavailable_result = \<lparr>lr_status = LocationUnavailable, lr_distance = None, lr_radius = None\<rparr>"

definition EvaluateLocation ::
  "location_input \<Rightarrow> real \<Rightarrow> real \<Rightarrow> int \<Rightarrow> f64 \<Rightarrow> location_result" where
  "EvaluateLocation inp siteLat siteLon radiusM threshold =
     (case (li_latitude inp, li_longitude inp) of
        (Some lat, Some lon) \<Rightarrow>
          if out_of_bounds lat lon then unavailable_result
          else
            let dist = HaversineM_f64 lat lon siteLat siteLon;
                status = (if \<not> accuracyOK (li_accuracy inp) threshold then LocationLowAccuracy
                          else if f64_less (Fin (of_int radiusM)) dist then LocationOutsideRadius
                          else LocationVerified)
            in \<lparr>lr_status = status, lr_distance = Some dist, lr_radius = Some radiusM\<rparr>
      | _ \<Rightarrow> unavailable_result)"

section \<open>Facts about the distance\<close>

lemma cos_toRad_nonneg: "\<bar>lat\<bar> \<le> 90 \<Longrightarrow> 0 \<le> cos (toRad lat)"
proof -
  assume "\<bar>lat\<bar> \<le> 90"
  then have "\<bar>lat\<bar> * pi / 180 \<le> 90 * pi / 180" by (intro divide_right_mono mult_right_mono) auto
  then have "\<bar>toRad lat\<bar> \<le> pi / 2" by (simp add: toRad_def abs_mult)
  then show ?thesis by (intro cos_ge_zero) (auto simp: abs_le_iff)
qed

lemma haversine_a_cosines:
  "1 - 2 * haversine_a lat1 lon1 lat2 lon2 =
     sin (toRad lat1) * sin (toRad lat2) +
     cos (toRad lat1) * cos (toRad lat2) * cos (toRad (lon2 - lon1))"
proof -
  have half: "2 * (sin (x / 2) * sin (x / 2)) = 1 - cos x" for x :: real
    using cos_double_sin [of "x / 2"] by (simp add: power2_eq_square)
  have diff: "toRad (lat2 - lat1) = toRad lat2 - toRad lat1"
    by (simp add: toRad_def field_simps)
  have "2 * haversine_a lat1 lon1 lat2 lon2 =
      (1 - cos (toRad (lat2 - lat1))) +
      cos (toRad lat1) * cos (toRad lat2) * (1 - cos (toRad (lon2 - lon1)))"
    unfolding half [symmetric] by (simp add: haversine_a_def Let_def algebra_simps)
  then show ?thesis by (simp add: diff cos_diff algebra_simps)
qed

lemma haversine_a_range:
  assumes "\<bar>lat1\<bar> \<le> 90" and "\<bar>lat2\<bar> \<le> 90"
  shows "0 \<le> haversine_a lat1 lon1 lat2 lon2 \<and> haversine_a lat1 lon1 lat2 lon2 \<le> 1"
proof -
  define c where "c = cos (toRad lat1) * cos (toRad lat2)"
  define L where "L = cos (toRad (lon2 - lon1))"
  have c: "0 \<le> c" using assms by (simp add: c_def cos_toRad_nonneg)
  have L: "- 1 \<le> L" "L \<le> 1" by (simp_all add: L_def)
  have "c * L \<le> c" "- c \<le> c * L"
    using c L mult_left_mono [of L 1 c] mult_left_mono [of "- 1" L c] by auto
  moreover have "sin (toRad lat1) * sin (toRad lat2) + c = cos (toRad lat1 - toRad lat2)"
    by (simp add: c_def cos_diff)
  moreover have "sin (toRad lat1) * sin (toRad lat2) - c = - cos (toRad lat1 + toRad lat2)"
    by (simp add: c_def cos_add)
  moreover have "cos (toRad lat1 - toRad lat2) \<le> 1" "cos (toRad lat1 + toRad lat2) \<le> 1"
    by simp_all
  ultimately show ?thesis
    using haversine_a_cosines [of lat1 lon1 lat2 lon2] unfolding c_def [symmetric] L_def [symmetric]
    by linarith
qed

text \<open>
  The distance is the great-circle distance: the angle it spans at the Earth's centre has
  the cosine the spherical law of cosines gives for the two points, and it lies between zero
  and half the circumference.
\<close>

theorem HaversineM_great_circle:
  assumes "\<bar>lat1\<bar> \<le> 90" and "\<bar>lat2\<bar> \<le> 90"
  shows "cos (HaversineM lat1 lon1 lat2 lon2 / earthRadiusM) =
      sin (toRad lat1) * sin (toRad lat2) +
      cos (toRad lat1) * cos (toRad lat2) * cos (toRad (lon2 - lon1)) \<and>
    0 \<le> HaversineM lat1 lon1 lat2 lon2 \<and>
    HaversineM lat1 lon1 lat2 lon2 \<le> pi * earthRadiusM"
proof -
  define a where "a = haversine_a lat1 lon1 lat2 lon2"
  have a: "0 \<le> a" "a \<le> 1" using haversine_a_range [OF assms] by (simp_all add: a_def)
  then have s: "0 \<le> sqrt a" "sqrt a \<le> 1" by simp_all
  have R: "0 < earthRadiusM" by (simp add: earthRadiusM_def)
  have m: "- 1 \<le> sqrt a" using s(1) by linarith
  have "cos (2 * arcsin (sqrt a)) = 1 - 2 * a"
  proof -
    have "sin (arcsin (sqrt a)) = sqrt a" using m s(2) by (rule sin_arcsin)
    then show ?thesis using a by (simp add: cos_double_sin)
  qed
  moreover have "0 \<le> arcsin (sqrt a)" "arcsin (sqrt a) \<le> pi / 2"
    using s arcsin_le_arcsin [of 0 "sqrt a"] arcsin_bounded [OF m s(2)] by auto
  ultimately show ?thesis
    using R haversine_a_cosines [of lat1 lon1 lat2 lon2]
    by (simp add: HaversineM_def a_def [symmetric] field_simps)
qed

theorem HaversineM_great_circle_witness:
  "cos (HaversineM 0 0 90 0 / earthRadiusM) = 0"
  using HaversineM_great_circle [of 0 90 0 0] by (simp add: toRad_def)

lemma HaversineM_sym: "HaversineM lat1 lon1 lat2 lon2 = HaversineM lat2 lon2 lat1 lon1"
proof -
  have "toRad (a - b) / 2 = - (toRad (b - a) / 2)" for a b
    by (simp add: toRad_def field_simps)
  then have neg: "sin (toRad (a - b) / 2) = - sin (toRad (b - a) / 2)" for a b
    by (metis sin_minus)
  have "haversine_a lat1 lon1 lat2 lon2 = haversine_a lat2 lon2 lat1 lon1"
    unfolding haversine_a_def Let_def
    by (simp only: neg [of lat1 lat2]
        neg [of lon1 lon2])
      (simp add: mult_ac)
  then show ?thesis by (simp add: HaversineM_def)
qed

lemma HaversineM_same: "HaversineM lat lon lat lon = 0"
  by (simp add: HaversineM_def haversine_a_def toRad_def)

section \<open>Facts about the status\<close>

text \<open>
  The specification of the distance, without the haversine formula: the two places as unit vectors
  from the Earth's centre, and the arc between them on a sphere of 6371 km.
\<close>

definition place :: "real \<Rightarrow> real \<Rightarrow> real \<times> real \<times> real" where
  "place lat lon =
     (let u = lat * pi / 180; v = lon * pi / 180
      in (cos u * cos v, cos u * sin v, sin u))"

definition surface_distance :: "real \<Rightarrow> real \<Rightarrow> real \<Rightarrow> real \<Rightarrow> real" where
  "surface_distance lat1 lon1 lat2 lon2 =
     (case (place lat1 lon1, place lat2 lon2) of
        ((x1, y1, z1), (x2, y2, z2)) \<Rightarrow> 6371000 * arccos (x1 * x2 + y1 * y2 + z1 * z2))"

lemma HaversineM_surface:
  assumes "\<bar>lat1\<bar> \<le> 90" and "\<bar>lat2\<bar> \<le> 90"
  shows "HaversineM lat1 lon1 lat2 lon2 = surface_distance lat1 lon1 lat2 lon2"
proof -
  define d where "d = HaversineM lat1 lon1 lat2 lon2 / earthRadiusM"
  have R: "0 < earthRadiusM" by (simp add: earthRadiusM_def)
  have "0 \<le> d" "d \<le> pi" and c: "cos d = sin (toRad lat1) * sin (toRad lat2) +
      cos (toRad lat1) * cos (toRad lat2) * cos (toRad (lon2 - lon1))"
    using HaversineM_great_circle [OF assms] R by (simp_all add: d_def field_simps)
  moreover have "cos (toRad (lon2 - lon1)) =
      cos (toRad lon1) * cos (toRad lon2) + sin (toRad lon1) * sin (toRad lon2)"
    using cos_diff [of "toRad lon2" "toRad lon1"] by (simp add: toRad_def field_simps)
  ultimately have "arccos (cos (toRad lat1) * cos (toRad lon1) * (cos (toRad lat2) * cos (toRad lon2)) +
      cos (toRad lat1) * sin (toRad lon1) * (cos (toRad lat2) * sin (toRad lon2)) +
      sin (toRad lat1) * sin (toRad lat2)) = d"
    using arccos_cos [of d] by (simp add: algebra_simps)
  then have "surface_distance lat1 lon1 lat2 lon2 = earthRadiusM * d"
    by (simp add: surface_distance_def place_def Let_def toRad_def earthRadiusM_def)
  then show ?thesis using R by (simp add: d_def)
qed

lemma accuracyOK_Fin:
  "accuracyOK acc (Fin threshold) \<longleftrightarrow> (\<exists>x. acc = Some (Fin x) \<and> 0 \<le> x \<and> x \<le> threshold)"
proof (cases acc)
  case (Some a)
  then show ?thesis
    by (cases a) (auto simp: accuracyOK_def f64_le_def f64_less_def)
qed (simp add: accuracyOK_def)

lemma out_of_bounds_Fin: "out_of_bounds (Fin lat) (Fin lon) \<longleftrightarrow> 90 < \<bar>lat\<bar> \<or> 180 < \<bar>lon\<bar>"
  by (auto simp: out_of_bounds_def)

text \<open>
  C19. What the server makes of a fix, for a site whose latitude lies between the poles: without a
  coordinate, or with one beyond 90 or 180 degrees, the location is unavailable and nothing is
  measured; otherwise the distance reported is the arc between the two places on the Earth, and
  the fix has low accuracy unless its accuracy is reported, not negative and within the
  threshold, is verified when the arc is at most the radius, and outside when it is longer.
\<close>

theorem EvaluateLocation_classified:
  assumes "\<bar>siteLat\<bar> \<le> 90"
  shows "EvaluateLocation \<lparr>li_latitude = Some (Fin lat), li_longitude = Some (Fin lon),
        li_accuracy = acc, li_reason = why\<rparr> siteLat siteLon radius (Fin threshold) =
      (if 90 < \<bar>lat\<bar> \<or> 180 < \<bar>lon\<bar>
       then \<lparr>lr_status = LocationUnavailable, lr_distance = None, lr_radius = None\<rparr>
       else \<lparr>lr_status =
           (if \<not> (\<exists>x. acc = Some (Fin x) \<and> 0 \<le> x \<and> x \<le> threshold) then LocationLowAccuracy
            else if surface_distance lat lon siteLat siteLon \<le> of_int radius then LocationVerified
            else LocationOutsideRadius),
         lr_distance = Some (Fin (surface_distance lat lon siteLat siteLon)),
         lr_radius = Some radius\<rparr>) \<and>
    EvaluateLocation \<lparr>li_latitude = None, li_longitude = lon', li_accuracy = acc, li_reason = why\<rparr>
        siteLat siteLon radius t = \<lparr>lr_status = LocationUnavailable, lr_distance = None, lr_radius = None\<rparr> \<and>
    EvaluateLocation \<lparr>li_latitude = lat', li_longitude = None, li_accuracy = acc, li_reason = why\<rparr>
        siteLat siteLon radius t = \<lparr>lr_status = LocationUnavailable, lr_distance = None, lr_radius = None\<rparr>"
proof -
  have "HaversineM lat lon siteLat siteLon = surface_distance lat lon siteLat siteLon" if "\<bar>lat\<bar> \<le> 90"
    using that assms by (rule HaversineM_surface)
  then show ?thesis
    by (auto simp: EvaluateLocation_def unavailable_result_def out_of_bounds_Fin accuracyOK_Fin
        HaversineM_f64_def Let_def not_less not_le split: option.split)
qed

text \<open>A quarter of the equator is outside a radius of 100 m.\<close>

theorem EvaluateLocation_classified_witness:
  "EvaluateLocation \<lparr>li_latitude = Some (Fin 0), li_longitude = Some (Fin 90),
       li_accuracy = Some (Fin 10), li_reason = []\<rparr> 0 0 100 (Fin 50) =
     \<lparr>lr_status = LocationOutsideRadius, lr_distance = Some (Fin (6371000 * (pi / 2))),
      lr_radius = Some 100\<rparr>"
proof -
  have d: "surface_distance 0 90 0 0 = 6371000 * (pi / 2)"
    by (simp add: surface_distance_def place_def)
  have "\<not> 6371000 * (pi / 2) \<le> (100 :: real)" using pi_ge_two by simp
  then show ?thesis
    using EvaluateLocation_classified [of 0 0 90 "Some (Fin 10)" "[]" 0 100 50] by (simp add: d)
qed

lemma EvaluateLocation_distance_iff:
  "lr_distance (EvaluateLocation inp siteLat siteLon radiusM threshold) = None \<longleftrightarrow>
     lr_status (EvaluateLocation inp siteLat siteLon radiusM threshold) = LocationUnavailable"
  by (auto simp: EvaluateLocation_def unavailable_result_def Let_def split: option.splits)

text \<open>
  A low-accuracy fix is reported as such wherever it is, and an accurate finite fix outside
  the radius is never reported as verified.
\<close>

theorem EvaluateLocation_low_accuracy_wins:
  assumes "li_latitude inp = Some (Fin lat)" and "li_longitude inp = Some (Fin lon)"
    and "\<bar>lat\<bar> \<le> 90" and "\<bar>lon\<bar> \<le> 180"
  shows "lr_status (EvaluateLocation inp siteLat siteLon radiusM threshold) =
    (if \<not> accuracyOK (li_accuracy inp) threshold then LocationLowAccuracy
     else if of_int radiusM < HaversineM lat lon siteLat siteLon then LocationOutsideRadius
     else LocationVerified)"
  using assms
  by (auto simp: EvaluateLocation_def out_of_bounds_def HaversineM_f64_def Let_def abs_le_iff)

theorem EvaluateLocation_low_accuracy_wins_witness:
  "lr_status (EvaluateLocation
      \<lparr>li_latitude = Some (Fin 14), li_longitude = Some (Fin 121), li_accuracy = Some (Fin 10),
       li_reason = []\<rparr> 14 121 100 (Fin 50)) = LocationVerified"
  by (subst EvaluateLocation_low_accuracy_wins [where lat = 14 and lon = 121])
    (simp_all add: accuracyOK_def HaversineM_same)

text \<open>
  A coordinate that is not a number passes the bounds check, and an accurate fix with one
  is reported as verified for every site.
\<close>

theorem EvaluateLocation_NaN_verified:
  assumes "li_latitude inp = Some NaN" and "li_longitude inp = Some (Fin lon)"
    and "\<bar>lon\<bar> \<le> 180" and "li_accuracy inp = Some (Fin acc)"
    and "0 \<le> acc" and "acc \<le> limit"
  shows "lr_status (EvaluateLocation inp siteLat siteLon radiusM (Fin limit)) = LocationVerified"
  using assms
  by (auto simp: EvaluateLocation_def out_of_bounds_def HaversineM_f64_def accuracyOK_def
      Let_def abs_le_iff)

theorem EvaluateLocation_NaN_verified_witness:
  "lr_status (EvaluateLocation
      \<lparr>li_latitude = Some NaN, li_longitude = Some (Fin 121), li_accuracy = Some (Fin 10),
       li_reason = []\<rparr> 14 121 100 (Fin 50)) = LocationVerified"
  by (rule EvaluateLocation_NaN_verified [where lon = 121 and acc = 10]) simp_all

end
