(* ===== verification/Clock.thy ===== *)
theory Clock
  imports Httpx
begin

text \<open>
  \<open>internal/attendance/date.go\<close>: the institution-local calendar date of a server timestamp.
  The IANA database is not part of the repository: \<open>tzdb\<close>, a parameter, gives for a zone
  name the offset from UTC in force at an instant, and \<open>None\<close> for a name
  \<open>time.LoadLocation\<close> rejects.
\<close>

type_synonym zone = "instant \<Rightarrow> int"
type_synonym tzdb = "string \<Rightarrow> zone option"

definition us_per_day :: int where "us_per_day = 86400000000"

definition us_per_hour :: int where "us_per_hour = 3600000000"

definition us_per_minute :: int where "us_per_minute = 60000000"

definition date_in :: "zone \<Rightarrow> instant \<Rightarrow> date" where
  "date_in z t = (t + z t) div us_per_day"

definition LocalDate :: "tzdb \<Rightarrow> instant \<Rightarrow> string \<Rightarrow> date option" where
  "LocalDate tzdb t timezone = map_option (\<lambda>z. date_in z t) (tzdb timezone)"

definition MustLocalDate :: "tzdb \<Rightarrow> instant \<Rightarrow> string \<Rightarrow> date" where
  "MustLocalDate tzdb t timezone =
     (case LocalDate tzdb t timezone of None \<Rightarrow> t div us_per_day | Some d \<Rightarrow> d)"

text \<open>Local hour and ISO weekday (Monday is 1); day 0 of the epoch is a Thursday.\<close>

definition local_hour :: "zone \<Rightarrow> instant \<Rightarrow> int" where
  "local_hour z t = (t + z t) mod us_per_day div us_per_hour"

definition go_weekday :: "zone \<Rightarrow> instant \<Rightarrow> int" where
  "go_weekday z t = (date_in z t + 4) mod 7"

definition iso_weekday :: "zone \<Rightarrow> instant \<Rightarrow> int" where
  "iso_weekday z t = (let w = go_weekday z t in if w = 0 then 7 else w)"

lemma iso_weekday_range: "1 \<le> iso_weekday z t \<and> iso_weekday z t \<le> 7"
proof -
  have "0 \<le> go_weekday z t" "go_weekday z t < 7" by (simp_all add: go_weekday_def)
  then show ?thesis by (auto simp: iso_weekday_def Let_def)
qed


lemma local_hour_range: "0 \<le> local_hour z t \<and> local_hour z t < 24"
proof -
  define m where "m = (t + z t) mod 86400000000"
  have "0 \<le> m" "m < 86400000000" by (simp_all add: m_def)
  then have "0 \<le> m div 3600000000 \<and> m div 3600000000 < 24"
    by arith
  then show ?thesis
    by (simp add: local_hour_def us_per_day_def us_per_hour_def m_def)
qed

end
