(* ===== verification/Hours.thy ===== *)
theory Hours
  imports Complex_Main Clock
begin

text \<open>
  \<open>internal/attendance/hours.go\<close>: the minutes credited for a session and the progress
  percentage. \<open>CreditedMinutes\<close> is written over exact minutes; the Go code goes through
  \<open>Duration.Minutes\<close>, a \<open>float64\<close>. \<open>CreditedMinutes_f64\<close> is the code with its rounding,
  for a parameter \<open>rnd\<close> that rounds a real result to a \<open>float64\<close>, and the two agree on every
  session shorter than 131072 minutes (91 days).
\<close>

section \<open>Credited minutes\<close>

datatype break_type = BreakNone | FixedAfterThreshold

record break_rule =
  br_type :: break_type
  br_threshold :: int
  br_deduction :: int

text \<open>\<open>Time.Sub\<close> saturates at the range of \<open>Duration\<close> (here in microseconds).\<close>

definition max_duration_us :: int where "max_duration_us = 9223372036854775"

definition time_sub :: "instant \<Rightarrow> instant \<Rightarrow> int" where
  "time_sub out inn = max (- max_duration_us) (min max_duration_us (out - inn))"

definition break_deduction :: "break_rule \<Rightarrow> int \<Rightarrow> int" where
  "break_deduction rule elapsed =
     (if br_type rule = FixedAfterThreshold \<and> 0 < br_threshold rule \<and>
         0 < br_deduction rule \<and> br_threshold rule \<le> elapsed
      then min (br_deduction rule) elapsed else 0)"

definition CreditedMinutes :: "instant \<Rightarrow> instant \<Rightarrow> break_rule \<Rightarrow> int \<times> int \<times> int" where
  "CreditedMinutes inn out rule =
     (let elapsed = quot (time_sub out inn) us_per_minute;
          elapsed = (if elapsed < 0 then 0 else elapsed);
          deducted = break_deduction rule elapsed
      in (elapsed, deducted, elapsed - deducted))"

definition elapsed_of :: "int \<times> int \<times> int \<Rightarrow> int" where
  "elapsed_of r = fst r"

definition credited_of :: "int \<times> int \<times> int \<Rightarrow> int" where
  "credited_of r = snd (snd r)"

definition ProgressPercent :: "int \<Rightarrow> int \<Rightarrow> int" where
  "ProgressPercent completed required =
     (if required \<le> 0 then 0 else min (quot (completed * 100) required) 100)"

lemma CreditedMinutes_nonneg_span:
  assumes "0 \<le> out - inn" and "out - inn \<le> max_duration_us"
  shows "elapsed_of (CreditedMinutes inn out rule) = (out - inn) div us_per_minute"
  using assms
  by (simp add: CreditedMinutes_def elapsed_of_def Let_def time_sub_def us_per_minute_def
      pos_imp_zdiv_neg_iff)

lemma CreditedMinutes_backwards:
  assumes "out \<le> inn"
  shows "CreditedMinutes inn out rule = (0, 0, 0)"
proof -
  have "time_sub out inn \<le> 0" using assms by (simp add: time_sub_def max_duration_us_def)
  then have "quot (time_sub out inn) us_per_minute \<le> 0"
    by (simp add: quot_le_0 us_per_minute_def)
  then show ?thesis by (auto simp: CreditedMinutes_def break_deduction_def Let_def)
qed

section \<open>What the services rely on\<close>

text \<open>
  Time Out and an approved correction store the credited minutes in a column checked to be
  non-negative, and the break policy only ever takes away from the elapsed minutes.
\<close>

locale credit_policy =
  fixes credit :: "instant \<Rightarrow> instant \<Rightarrow> break_rule \<Rightarrow> int \<times> int \<times> int"
  assumes elapsed_nonneg: "0 \<le> elapsed_of (credit inn out rule)"
    and deduction_within: "0 \<le> fst (snd (credit inn out rule)) \<and>
      fst (snd (credit inn out rule)) \<le> elapsed_of (credit inn out rule)"
    and credited_rest: "credited_of (credit inn out rule) =
      elapsed_of (credit inn out rule) - fst (snd (credit inn out rule))"
begin

lemma credited_nonneg: "0 \<le> credited_of (credit inn out rule)"
  using deduction_within [of inn out rule] by (simp add: credited_rest)

lemma credited_le_elapsed: "credited_of (credit inn out rule) \<le> elapsed_of (credit inn out rule)"
  using deduction_within [of inn out rule] by (simp add: credited_rest)

end

lemma break_deduction_range:
  "0 \<le> e \<Longrightarrow> 0 \<le> break_deduction rule e \<and> break_deduction rule e \<le> e"
  by (simp add: break_deduction_def)

interpretation hours: credit_policy CreditedMinutes
  by unfold_locales
    (auto simp: CreditedMinutes_def elapsed_of_def credited_of_def Let_def break_deduction_range)

lemma credited_within:
  assumes "inn < out"
  shows "0 \<le> credited_of (CreditedMinutes inn out rule)"
    and "credited_of (CreditedMinutes inn out rule) * us_per_minute \<le> out - inn"
proof -
  show "0 \<le> credited_of (CreditedMinutes inn out rule)" by (rule hours.credited_nonneg)
  define d where "d = time_sub out inn"
  have d: "0 \<le> d" "d \<le> out - inn" using assms by (simp_all add: d_def time_sub_def max_duration_us_def)
  have "elapsed_of (CreditedMinutes inn out rule) = d div us_per_minute"
    using d(1) by (simp add: CreditedMinutes_def elapsed_of_def Let_def d_def [symmetric] us_per_minute_def
        pos_imp_zdiv_neg_iff)
  then have "credited_of (CreditedMinutes inn out rule) \<le> d div us_per_minute"
    using hours.credited_le_elapsed [of inn out rule] by simp
  then show "credited_of (CreditedMinutes inn out rule) * us_per_minute \<le> out - inn"
    using d(2) by (simp add: us_per_minute_def)
qed

section \<open>Progress\<close>

lemma ProgressPercent_range:
  assumes "0 \<le> completed"
  shows "0 \<le> ProgressPercent completed required \<and> ProgressPercent completed required \<le> 100"
  using assms by (simp add: ProgressPercent_def pos_imp_zdiv_nonneg_iff)

lemma ProgressPercent_full_iff:
  assumes "0 \<le> completed" and "0 < required"
  shows "ProgressPercent completed required = 100 \<longleftrightarrow> required \<le> completed"
proof -
  have "100 \<le> completed * 100 div required \<longleftrightarrow> 100 * required \<le> completed * 100"
  proof
    assume "100 * required \<le> completed * 100"
    then have "(100 * required) div required \<le> completed * 100 div required"
      using assms by (intro zdiv_mono1)
    then show "100 \<le> completed * 100 div required" using assms by simp
  next
    assume "100 \<le> completed * 100 div required"
    then have "100 * required \<le> (completed * 100 div required) * required"
      using assms by (intro mult_right_mono) auto
    also have "\<dots> \<le> completed * 100"
      using assms div_mult_mod_eq [of "completed * 100" required]
        pos_mod_sign [of required "completed * 100"] by linarith
    finally show "100 * required \<le> completed * 100" .
  qed
  then show ?thesis using assms by (auto simp: ProgressPercent_def min_def)
qed

section \<open>The code's floating-point minutes\<close>

text \<open>
  \<open>rnd\<close> rounds to the nearest \<open>float64\<close>: a relative error of at most \<open>2 ^ -53\<close> on normal
  numbers, and no error on the integers a \<open>float64\<close> holds.
\<close>

definition f64_rounding :: "(real \<Rightarrow> real) \<Rightarrow> bool" where
  "f64_rounding rnd \<longleftrightarrow>
     (\<forall>x. x = 0 \<or> 1 / 2 ^ 100 \<le> \<bar>x\<bar> \<and> \<bar>x\<bar> \<le> 2 ^ 100 \<longrightarrow> \<bar>rnd x - x\<bar> \<le> \<bar>x\<bar> / 2 ^ 53) \<and>
     (\<forall>n::int. \<bar>n\<bar> \<le> 2 ^ 53 \<longrightarrow> rnd (of_int n) = of_int n)"

definition ns_per_minute :: int where "ns_per_minute = 60000000000"

text \<open>\<open>Duration.Minutes\<close> and the conversion \<open>int(...)\<close>, which truncates.\<close>

definition Minutes_f64 :: "(real \<Rightarrow> real) \<Rightarrow> int \<Rightarrow> real" where
  "Minutes_f64 rnd d =
     rnd (rnd (of_int (quot d ns_per_minute)) +
          rnd (rnd (of_int (rem d ns_per_minute)) / 60000000000))"

definition go_int :: "real \<Rightarrow> int" where
  "go_int x = (if 0 \<le> x then \<lfloor>x\<rfloor> else \<lceil>x\<rceil>)"

definition CreditedMinutes_f64 ::
  "(real \<Rightarrow> real) \<Rightarrow> instant \<Rightarrow> instant \<Rightarrow> break_rule \<Rightarrow> int \<times> int \<times> int" where
  "CreditedMinutes_f64 rnd inn out rule =
     (let elapsed = go_int (Minutes_f64 rnd (1000 * time_sub out inn));
          elapsed = (if elapsed < 0 then 0 else elapsed);
          deducted = break_deduction rule elapsed
      in (elapsed, deducted, elapsed - deducted))"

lemma f64_rounding_id: "f64_rounding (\<lambda>x. x)"
  by (simp add: f64_rounding_def)

lemma minutes_sum_rounding:
  fixes m q q' v :: real
  assumes "0 \<le> m" "m \<le> 131071" "0 \<le> q" "q \<le> 1 - 1 / 60000000000"
    and "q = 0 \<or> 1 / 60000000000 \<le> q"
    and "\<bar>q' - q\<bar> \<le> q / 2 ^ 53" and "\<bar>v - (m + q')\<bar> \<le> (m + q') / 2 ^ 53"
    and "q = 0 \<Longrightarrow> v = m"
  shows "m \<le> v \<and> v < m + 1"
proof (cases "q = 0")
  case True
  with assms(8) show ?thesis by simp
next
  case False
  have q': "q' \<le> q + q / 2 ^ 53" "q - q / 2 ^ 53 \<le> q'"
    using assms(6) by linarith+
  have v: "v \<le> (m + q') + (m + q') / 2 ^ 53" "(m + q') - (m + q') / 2 ^ 53 \<le> v"
    using assms(7) by linarith+
  from False assms(5) have ql: "1 / 60000000000 \<le> q" by simp
  define e :: real where "e = 1 / 2 ^ 53"
  have "q' \<le> q + q * e" "q - q * e \<le> q'" "v \<le> (m + q') + (m + q') * e"
      "(m + q') - (m + q') * e \<le> v"
    using q' v by (simp_all add: e_def)
  moreover have "0 \<le> q * e" "q * e \<le> e"
    using assms(3,4) by (auto simp: e_def intro: mult_right_le_one_le mult_left_le_one_le)
  moreover have "e \<le> 1 / 9007199254740992" "0 \<le> e" by (simp_all add: e_def)
  moreover have "0 \<le> (m + q') * e \<and> (m + q') * e \<le> 131073 * e"
  proof -
    have "0 \<le> q'" using q'(2) ql by simp
    moreover have "q' \<le> 2" using q'(1) assms(4) by simp
    ultimately have "0 \<le> m + q'" "m + q' \<le> 131073" using assms(1,2) by auto
    then show ?thesis using \<open>0 \<le> e\<close> by (auto intro!: mult_right_mono)
  qed
  ultimately show ?thesis using ql assms(1-4) by linarith
qed

lemma Minutes_f64_bounds:
  assumes rnd: "f64_rounding rnd" and d: "0 \<le> d" "d < 131072 * ns_per_minute"
  shows "of_int (d div ns_per_minute) \<le> Minutes_f64 rnd d \<and>
    Minutes_f64 rnd d < of_int (d div ns_per_minute) + 1"
proof -
  have err: "\<bar>rnd x - x\<bar> \<le> \<bar>x\<bar> / 2 ^ 53"
    if "x = 0 \<or> 1 / 2 ^ 100 \<le> \<bar>x\<bar> \<and> \<bar>x\<bar> \<le> 2 ^ 100" for x
    using rnd that unfolding f64_rounding_def by blast
  have exact: "rnd (of_int n) = of_int n" if "\<bar>n\<bar> \<le> 2 ^ 53" for n :: int
    using rnd that unfolding f64_rounding_def by blast
  define m where "m = d div ns_per_minute"
  define s where "s = d mod ns_per_minute"
  have m: "0 \<le> m" "m \<le> 131071" and s: "0 \<le> s" "s \<le> 59999999999"
    using d by (simp_all add: m_def s_def ns_per_minute_def pos_imp_zdiv_nonneg_iff)
  define q :: real where "q = of_int s / 60000000000"
  have q: "0 \<le> q" "q \<le> 1 - 1 / 60000000000" and q0: "q = 0 \<or> 1 / 60000000000 \<le> q"
    using s by (auto simp: q_def field_simps)
  have rm: "rnd (of_int m) = of_int m" and rs: "rnd (of_int s) = of_int s"
    using m s by (auto intro!: exact)
  have v: "Minutes_f64 rnd d = rnd (of_int m + rnd q)"
    using d by (simp add: Minutes_f64_def ns_per_minute_def m_def s_def q_def
        flip: rm rs) (simp add: rm [unfolded m_def ns_per_minute_def]
        rs [unfolded s_def ns_per_minute_def])
  have eq: "\<bar>rnd q - q\<bar> \<le> q / 2 ^ 53"
    using err [of q] q q0 by auto
  have rq0: "rnd q = 0" if "q = 0" using eq that by simp
  have rq1: "1 / 2 ^ 37 \<le> rnd q" if "q \<noteq> 0"
  proof -
    have "q - q / 2 ^ 53 \<le> rnd q" using eq by linarith
    then show ?thesis using q0 that by simp
  qed
  have rq2: "rnd q \<le> 2"
  proof -
    have "rnd q \<le> q + q / 2 ^ 53" using eq by linarith
    then show ?thesis using q(2) by simp
  qed
  have rq_ge: "0 \<le> rnd q"
  proof (cases "q = 0")
    case False
    have "(0::real) \<le> 1 / 2 ^ 37" by simp
    also have "\<dots> \<le> rnd q" by (rule rq1 [OF False])
    finally show ?thesis .
  next
    case True
    from rq0 [OF True] show ?thesis by simp
  qed
  have sum_ge: "0 \<le> of_int m + rnd q" using m rq_ge by simp
  have le: "of_int m + rnd q \<le> 2 ^ 100" using m rq2 by simp
  have sum_pos: "of_int m + rnd q = 0 \<or> 1 / 2 ^ 100 \<le> \<bar>of_int m + rnd q\<bar> \<and>
      \<bar>of_int m + rnd q\<bar> \<le> 2 ^ 100"
  proof (cases "m = 0 \<and> q = 0")
    case False
    have "(1::real) / 2 ^ 100 \<le> 1 / 2 ^ 37" by simp
    moreover have "1 / 2 ^ 37 \<le> of_int m + rnd q"
    proof (cases "q = 0")
      case True
      then have "(1::real) \<le> of_int m" using False m by simp
      then show ?thesis using rq0 [OF True] by simp
    qed (use m rq1 in \<open>auto intro: add_increasing\<close>)
    ultimately show ?thesis using sum_ge le by linarith
  next
    case True
    then show ?thesis using rq0 by simp
  qed
  have ev: "\<bar>rnd (of_int m + rnd q) - (of_int m + rnd q)\<bar> \<le> (of_int m + rnd q) / 2 ^ 53"
    using err [OF sum_pos] sum_ge by simp
  have z: "rnd (of_int m + rnd q) = of_int m" if "q = 0"
    using that exact [of 0] rm by simp
  show ?thesis
    unfolding v using minutes_sum_rounding [OF _ _ q q0 eq ev z] m by (simp add: m_def)
qed

lemma go_int_Minutes_f64:
  assumes "f64_rounding rnd" and "0 \<le> d" "d < 131072 * ns_per_minute"
  shows "go_int (Minutes_f64 rnd d) = d div ns_per_minute"
proof -
  have b: "of_int (d div ns_per_minute) \<le> Minutes_f64 rnd d"
      "Minutes_f64 rnd d < of_int (d div ns_per_minute) + 1"
    using Minutes_f64_bounds [OF assms] by auto
  moreover have "0 \<le> d div ns_per_minute"
    using assms by (simp add: ns_per_minute_def pos_imp_zdiv_nonneg_iff)
  ultimately show ?thesis by (auto simp: go_int_def floor_eq_iff)
qed

text \<open>
  C18. The exact-minute model and the code's floating-point computation give the same elapsed,
  deducted and credited minutes for every session under 131072 minutes, whatever the rounding
  of \<open>float64\<close> arithmetic does within its error bound.
\<close>

theorem CreditedMinutes_f64_exact:
  assumes "f64_rounding rnd" and "inn \<le> out" and "out - inn < 131072 * us_per_minute"
  shows "CreditedMinutes_f64 rnd inn out rule = CreditedMinutes inn out rule"
proof -
  define d where "d = time_sub out inn"
  have d: "d = out - inn" "0 \<le> d" "d < 131072 * us_per_minute"
    using assms(2,3) by (auto simp: d_def time_sub_def max_duration_us_def us_per_minute_def)
  have "go_int (Minutes_f64 rnd (1000 * d)) = (1000 * d) div ns_per_minute"
    using d by (intro go_int_Minutes_f64 assms(1)) (auto simp: ns_per_minute_def us_per_minute_def)
  also have "\<dots> = quot d us_per_minute"
    using d(2) by (simp add: ns_per_minute_def us_per_minute_def)
  finally show ?thesis
    by (simp add: CreditedMinutes_f64_def CreditedMinutes_def d_def)
qed

theorem CreditedMinutes_f64_exact_witness:
  "CreditedMinutes_f64 (\<lambda>x. x) 0 28800000000
     \<lparr>br_type = FixedAfterThreshold, br_threshold = 240, br_deduction = 30\<rparr> = (480, 30, 450)"
  by (subst CreditedMinutes_f64_exact [OF f64_rounding_id])
    (simp_all add: CreditedMinutes_def break_deduction_def time_sub_def max_duration_us_def
      us_per_minute_def)

end
