(* ===== verification/Schema.thy ===== *)
theory Schema
  imports Httpx Geofence Hours
begin

text \<open>
  The database the services share: one record per table of
  \<open>internal/platform/db/migrations\<close>, the constraints the inserts and updates rely on, and the
  record of all tables. Enumerated \<open>text\<close> columns are datatypes, since their CHECK constraints
  admit nothing else. Columns no modelled query reads (\<open>updated_at\<close>, most \<open>created_at\<close>,
  \<open>created_by\<close>, the user-agent and IP of a session, the JSON metadata of an audit event) are
  left out. An \<open>INSERT\<close> checks the row's CHECK constraints, then the primary key, then the
  other unique indexes in the order of their creation, as PostgreSQL does.
\<close>

section \<open>Rows\<close>

datatype role = RTrainee | RCoordinator | RAdmin
datatype account_status = AccActive | AccInactive | AccLocked

record user_row =
  us_id :: uuid
  us_email :: string
  us_password_hash :: string
  us_role :: role
  us_status :: account_status
  us_display_name :: string
  us_last_login :: "instant option"

record session_row =
  ss_id :: uuid
  ss_user :: uuid
  ss_token_hash :: string
  ss_csrf_hash :: "string option"
  ss_expires :: instant
  ss_revoked :: "instant option"
  ss_last_seen :: "instant option"

record trainee_row =
  tp_id :: uuid
  tp_user :: uuid
  tp_student_number :: string
  tp_program :: "string option"
  tp_year_level :: "string option"
  tp_contact :: "string option"

record scope_row =
  sc_coordinator :: uuid
  sc_trainee :: uuid

record site_row =
  si_id :: uuid
  si_name :: string
  si_address :: string
  si_latitude :: real
  si_longitude :: real
  si_radius :: int
  si_active :: bool

datatype assignment_status = AsPlanned | AsActive | AsCompleted | AsSuspended | AsCancelled

record assignment_row =
  as_id :: uuid
  as_trainee :: uuid
  as_site :: uuid
  as_start :: date
  as_end :: "date option"
  as_required :: int
  as_break_type :: break_type
  as_break_threshold :: "int option"
  as_break_deduction :: int
  as_weekdays :: "int list option"
  as_status :: assignment_status
  as_created :: instant

record settings_row =
  st_timezone :: string
  st_low_accuracy :: int
  st_near_completion :: int
  st_journal_cutoff :: int
  st_unusual_minutes :: int
  st_retention :: "int option"

datatype attendance_status = AtOpen | AtValid | AtFlagged | AtCorrected

record attendance_row =
  at_id :: uuid
  at_trainee :: uuid
  at_assignment :: uuid
  at_date :: date
  at_original_in :: instant
  at_original_out :: "instant option"
  at_effective_in :: instant
  at_effective_out :: "instant option"
  at_credited :: "int option"
  at_status :: attendance_status
  at_flags :: "string list"
  at_version :: int
  at_closed :: "instant option"
  at_created :: instant

datatype evidence_action = ActTimeIn | ActTimeOut

record evidence_row =
  ev_id :: uuid
  ev_attendance :: uuid
  ev_trainee :: uuid
  ev_action :: evidence_action
  ev_client_action :: uuid
  ev_server_at :: instant
  ev_device_at :: "instant option"
  ev_device_offset :: "int option"
  ev_latitude :: "f64 option"
  ev_longitude :: "f64 option"
  ev_accuracy :: "f64 option"
  ev_distance :: "f64 option"
  ev_radius :: "int option"
  ev_location_status :: location_status
  ev_exception_reason :: "string option"
  ev_original_key :: string
  ev_watermarked_key :: string
  ev_original_sha :: string
  ev_watermarked_sha :: string
  ev_mime :: string
  ev_size :: int
  ev_width :: int
  ev_height :: int
  ev_watermark_text :: string

datatype journal_status = JDraft | JSubmitted | JReviewed | JNeedsRevision

record journal_row =
  jo_id :: uuid
  jo_attendance :: uuid
  jo_trainee :: uuid
  jo_narrative :: "string option"
  jo_status :: journal_status
  jo_submitted :: "instant option"
  jo_reviewed :: "instant option"
  jo_revisions :: int
  jo_updated :: instant

record journal_evidence_row =
  je_id :: uuid
  je_journal :: uuid
  je_key :: string
  je_sha :: string
  je_mime :: string
  je_size :: int
  je_width :: int
  je_height :: int
  je_created :: instant

datatype review_decision = RvReviewed | RvNeedsRevision

record review_row =
  rv_id :: uuid
  rv_journal :: uuid
  rv_reviewer :: uuid
  rv_decision :: review_decision
  rv_comment :: "string option"
  rv_created :: instant

datatype correction_type = MissedTimeOut | IncorrectTime | FieldAssignment | GpsIssue | OtherCorrection
datatype correction_status = CrPending | CrApproved | CrRejected | CrCancelled

record correction_row =
  cr_id :: uuid
  cr_attendance :: uuid
  cr_trainee :: uuid
  cr_type :: correction_type
  cr_reason :: string
  cr_proposed_in :: "instant option"
  cr_proposed_out :: "instant option"
  cr_status :: correction_status
  cr_requested :: instant
  cr_decided_by :: "uuid option"
  cr_comment :: "string option"
  cr_decided :: "instant option"

record adjustment_row =
  ad_id :: uuid
  ad_attendance :: uuid
  ad_correction :: uuid
  ad_effective_in :: instant
  ad_effective_out :: "instant option"
  ad_credited :: "int option"
  ad_approved_by :: uuid

text \<open>
  The event key of a notification: the code builds a string from a fixed prefix and the
  fixed-width texts of its identifiers, so two keys are equal exactly when the prefix and the
  identifiers are.
\<close>

datatype event_key =
    CompletionKey uuid uuid
  | JournalReviewKey uuid nat
  | CorrectionKey uuid correction_status
  | OpenReminderKey uuid
  | JournalReminderKey uuid
  | AttendanceReminderKey uuid date

record notification_row =
  nt_id :: uuid
  nt_recipient :: uuid
  nt_key :: event_key
  nt_type :: string
  nt_resource_type :: string
  nt_resource :: "uuid option"
  nt_read :: "instant option"
  nt_created :: instant

record audit_row =
  au_actor :: "uuid option"
  au_type :: string
  au_resource_type :: string
  au_resource :: "uuid option"

section \<open>The database\<close>

record database =
  db_users :: "user_row list"
  db_sessions :: "session_row list"
  db_trainees :: "trainee_row list"
  db_scopes :: "scope_row list"
  db_sites :: "site_row list"
  db_assignments :: "assignment_row list"
  db_settings :: settings_row
  db_attendance :: "attendance_row list"
  db_evidence :: "evidence_row list"
  db_journals :: "journal_row list"
  db_journal_evidence :: "journal_evidence_row list"
  db_reviews :: "review_row list"
  db_corrections :: "correction_row list"
  db_adjustments :: "adjustment_row list"
  db_notifications :: "notification_row list"
  db_audit :: "audit_row list"

text \<open>
  The clocks an operation reads: \<open>time.Now()\<close> of the server process, and \<open>now()\<close> of its
  database transaction.
\<close>

record clock =
  ck_now :: instant
  ck_dbnow :: instant

section \<open>CHECK constraints\<close>

text \<open>PostgreSQL orders NaN above every other value.\<close>

definition pg_nonneg :: "f64 \<Rightarrow> bool" where
  "pg_nonneg x = (case x of Fin r \<Rightarrow> 0 \<le> r | PosInf \<Rightarrow> True | NegInf \<Rightarrow> False | NaN \<Rightarrow> True)"

definition opt_all :: "('a \<Rightarrow> bool) \<Rightarrow> 'a option \<Rightarrow> bool" where
  "opt_all p x = (case x of None \<Rightarrow> True | Some v \<Rightarrow> p v)"

lemma opt_all_simps [simp]: "opt_all p None" "opt_all p (Some v) = p v"
  by (simp_all add: opt_all_def)

definition attendance_check :: "attendance_row \<Rightarrow> bool" where
  "attendance_check r =
     (opt_all (\<lambda>c. 0 \<le> c) (at_credited r) \<and>
      opt_all (\<lambda>t. at_original_in r < t) (at_original_out r) \<and>
      opt_all (\<lambda>t. at_effective_in r < t) (at_effective_out r))"

definition evidence_check :: "evidence_row \<Rightarrow> bool" where
  "evidence_check r =
     (opt_all pg_nonneg (ev_accuracy r) \<and> opt_all pg_nonneg (ev_distance r) \<and>
      0 < ev_size r \<and> 0 < ev_width r \<and> 0 < ev_height r \<and>
      (ev_location_status r \<noteq> LocationUnavailable \<or> ev_exception_reason r \<noteq> None))"

definition assignment_check :: "assignment_row \<Rightarrow> bool" where
  "assignment_check r =
     (0 < as_required r \<and> opt_all (\<lambda>t. 0 \<le> t) (as_break_threshold r) \<and>
      0 \<le> as_break_deduction r \<and>
      opt_all (list_all (\<lambda>d. 1 \<le> d \<and> d \<le> 7)) (as_weekdays r) \<and>
      opt_all (\<lambda>e. as_start r \<le> e) (as_end r) \<and>
      (as_break_type r = BreakNone \<or> as_break_threshold r \<noteq> None))"

definition adjustment_check :: "adjustment_row \<Rightarrow> bool" where
  "adjustment_check r =
     (opt_all (\<lambda>c. 0 \<le> c) (ad_credited r) \<and>
      opt_all (\<lambda>t. ad_effective_in r < t) (ad_effective_out r))"

definition review_check :: "review_row \<Rightarrow> bool" where
  "review_check r = (rv_decision r = RvNeedsRevision \<longrightarrow> rv_comment r \<noteq> None)"

definition journal_evidence_check :: "journal_evidence_row \<Rightarrow> bool" where
  "journal_evidence_check r = (0 < je_size r \<and> 0 < je_width r \<and> 0 < je_height r)"

section \<open>Inserts\<close>

text \<open>
  \<open>insert_row\<close> appends a row to a table after its checks: a failing CHECK, then each unique
  key in turn, by the name the error carries.
\<close>

definition taken :: "('r \<Rightarrow> 'k) \<Rightarrow> 'r \<Rightarrow> 'r list \<Rightarrow> bool" where
  "taken key r t = list_ex (\<lambda>q. key q = key r) t"

lemma taken_iff: "taken key r t \<longleftrightarrow> key r \<in> key ` set t"
  by (auto simp: taken_def list_ex_iff image_iff) metis

fun first_violation :: "(bool \<times> go_error) list \<Rightarrow> go_error option" where
  "first_violation [] = None"
| "first_violation ((bad, e) # cs) = (if bad then Some e else first_violation cs)"

definition insert_row :: "(bool \<times> go_error) list \<Rightarrow> 'db \<Rightarrow> go_error + 'db" where
  "insert_row checks db' = (case first_violation checks of Some e \<Rightarrow> Inl e | None \<Rightarrow> Inr db')"

definition insert_attendance :: "attendance_row \<Rightarrow> database \<Rightarrow> go_error + database" where
  "insert_attendance r db =
     insert_row
       [(\<not> attendance_check r, CheckViolation ''attendance_sessions_check''),
        (taken at_id r (db_attendance db), UniqueViolation ''attendance_sessions_pkey''),
        (taken (\<lambda>q. (at_trainee q, at_date q)) r (db_attendance db),
         UniqueViolation ''attendance_sessions_trainee_date_key'')]
       (db\<lparr>db_attendance := db_attendance db @ [r]\<rparr>)"

definition insert_evidence :: "evidence_row \<Rightarrow> database \<Rightarrow> go_error + database" where
  "insert_evidence r db =
     insert_row
       [(\<not> evidence_check r, CheckViolation ''attendance_evidence_check''),
        (taken ev_id r (db_evidence db), UniqueViolation ''attendance_evidence_pkey''),
        (taken (\<lambda>q. (ev_trainee q, ev_client_action q)) r (db_evidence db),
         UniqueViolation ''attendance_evidence_client_action_key''),
        (taken (\<lambda>q. (ev_attendance q, ev_action q)) r (db_evidence db),
         UniqueViolation ''attendance_evidence_action_key'')]
       (db\<lparr>db_evidence := db_evidence db @ [r]\<rparr>)"

text \<open>\<open>INSERT ... ON CONFLICT (attendance_id) DO NOTHING RETURNING id\<close>: no row on conflict.\<close>

definition insert_journal ::
  "journal_row \<Rightarrow> database \<Rightarrow> go_error + database \<times> uuid option" where
  "insert_journal r db =
     (if taken jo_attendance r (db_journals db) then Inr (db, None)
      else if taken jo_id r (db_journals db) then Inl (UniqueViolation ''daily_journals_pkey'')
      else Inr (db\<lparr>db_journals := db_journals db @ [r]\<rparr>, Some (jo_id r)))"

definition insert_review :: "review_row \<Rightarrow> database \<Rightarrow> go_error + database" where
  "insert_review r db =
     insert_row
       [(\<not> review_check r, CheckViolation ''journal_reviews_check''),
        (taken rv_id r (db_reviews db), UniqueViolation ''journal_reviews_pkey'')]
       (db\<lparr>db_reviews := db_reviews db @ [r]\<rparr>)"

definition insert_journal_evidence ::
  "journal_evidence_row \<Rightarrow> database \<Rightarrow> go_error + database" where
  "insert_journal_evidence r db =
     insert_row
       [(\<not> journal_evidence_check r, CheckViolation ''journal_evidence_check''),
        (taken je_id r (db_journal_evidence db), UniqueViolation ''journal_evidence_pkey'')]
       (db\<lparr>db_journal_evidence := db_journal_evidence db @ [r]\<rparr>)"

text \<open>The partial unique index \<open>correction_requests_one_pending\<close> covers pending rows only.\<close>

definition insert_correction :: "correction_row \<Rightarrow> database \<Rightarrow> go_error + database" where
  "insert_correction r db =
     insert_row
       [(taken cr_id r (db_corrections db), UniqueViolation ''correction_requests_pkey''),
        (cr_status r = CrPending \<and>
         taken cr_attendance r (filter (\<lambda>q. cr_status q = CrPending) (db_corrections db)),
         UniqueViolation ''correction_requests_one_pending'')]
       (db\<lparr>db_corrections := db_corrections db @ [r]\<rparr>)"

definition insert_adjustment :: "adjustment_row \<Rightarrow> database \<Rightarrow> go_error + database" where
  "insert_adjustment r db =
     insert_row
       [(\<not> adjustment_check r, CheckViolation ''attendance_adjustments_check''),
        (taken ad_id r (db_adjustments db), UniqueViolation ''attendance_adjustments_pkey''),
        (taken ad_correction r (db_adjustments db),
         UniqueViolation ''attendance_adjustments_correction_request_id_key'')]
       (db\<lparr>db_adjustments := db_adjustments db @ [r]\<rparr>)"

text \<open>\<open>audit.Record\<close> ignores the error of its insert; an audit row has no unique key but its id.\<close>

definition Record :: "uuid option \<Rightarrow> string \<Rightarrow> string \<Rightarrow> uuid option \<Rightarrow> database \<Rightarrow> database" where
  "Record actor etype rtype rid db =
     db\<lparr>db_audit := db_audit db @
        [\<lparr>au_actor = actor, au_type = etype, au_resource_type = rtype, au_resource = rid\<rparr>]\<rparr>"

lemma first_violation_None: "first_violation cs = None \<longleftrightarrow> list_all (\<lambda>c. \<not> fst c) cs"
  by (induction cs rule: first_violation.induct) auto

lemma insert_row_Inr: "insert_row cs db' = Inr x \<longleftrightarrow> first_violation cs = None \<and> x = db'"
  by (auto simp: insert_row_def split: option.split)

lemma insert_attendance_Inr:
  "insert_attendance r db = Inr db' \<longleftrightarrow>
     attendance_check r \<and> at_id r \<notin> at_id ` set (db_attendance db) \<and>
     (at_trainee r, at_date r) \<notin> (\<lambda>q. (at_trainee q, at_date q)) ` set (db_attendance db) \<and>
     db' = db\<lparr>db_attendance := db_attendance db @ [r]\<rparr>"
  by (auto simp: insert_attendance_def insert_row_Inr taken_iff)

lemma insert_evidence_Inr:
  "insert_evidence r db = Inr db' \<longleftrightarrow>
     evidence_check r \<and> ev_id r \<notin> ev_id ` set (db_evidence db) \<and>
     (ev_trainee r, ev_client_action r) \<notin>
       (\<lambda>q. (ev_trainee q, ev_client_action q)) ` set (db_evidence db) \<and>
     (ev_attendance r, ev_action r) \<notin> (\<lambda>q. (ev_attendance q, ev_action q)) ` set (db_evidence db) \<and>
     db' = db\<lparr>db_evidence := db_evidence db @ [r]\<rparr>"
  by (auto simp: insert_evidence_def insert_row_Inr taken_iff)

lemma insert_journal_Inr:
  "insert_journal r db = Inr (db', jid) \<longleftrightarrow>
     (if jo_attendance r \<in> jo_attendance ` set (db_journals db)
      then db' = db \<and> jid = None
      else jo_id r \<notin> jo_id ` set (db_journals db) \<and>
        db' = db\<lparr>db_journals := db_journals db @ [r]\<rparr> \<and> jid = Some (jo_id r))"
  by (auto simp: insert_journal_def taken_iff)

lemma insert_correction_Inr:
  "insert_correction r db = Inr db' \<longleftrightarrow>
     cr_id r \<notin> cr_id ` set (db_corrections db) \<and>
     \<not> (cr_status r = CrPending \<and>
        (\<exists>q\<in>set (db_corrections db). cr_status q = CrPending \<and> cr_attendance q = cr_attendance r)) \<and>
     db' = db\<lparr>db_corrections := db_corrections db @ [r]\<rparr>"
  by (auto simp: insert_correction_def insert_row_Inr taken_iff image_iff)

lemma insert_adjustment_Inr:
  "insert_adjustment r db = Inr db' \<longleftrightarrow>
     adjustment_check r \<and> ad_id r \<notin> ad_id ` set (db_adjustments db) \<and>
     ad_correction r \<notin> ad_correction ` set (db_adjustments db) \<and>
     db' = db\<lparr>db_adjustments := db_adjustments db @ [r]\<rparr>"
  by (auto simp: insert_adjustment_def insert_row_Inr taken_iff)

lemma insert_review_Inr:
  "insert_review r db = Inr db' \<longleftrightarrow>
     review_check r \<and> rv_id r \<notin> rv_id ` set (db_reviews db) \<and>
     db' = db\<lparr>db_reviews := db_reviews db @ [r]\<rparr>"
  by (auto simp: insert_review_def insert_row_Inr taken_iff)

lemma insert_journal_evidence_Inr:
  "insert_journal_evidence r db = Inr db' \<longleftrightarrow>
     journal_evidence_check r \<and> je_id r \<notin> je_id ` set (db_journal_evidence db) \<and>
     db' = db\<lparr>db_journal_evidence := db_journal_evidence db @ [r]\<rparr>"
  by (auto simp: insert_journal_evidence_def insert_row_Inr taken_iff)

lemmas insert_Inr =
  insert_attendance_Inr insert_evidence_Inr insert_journal_Inr insert_correction_Inr
  insert_adjustment_Inr insert_review_Inr insert_journal_evidence_Inr

section \<open>Updates\<close>

text \<open>
  \<open>UPDATE ... WHERE id = $1\<close> on a table with CHECK constraints: the new version of every row
  it changes is checked.
\<close>

definition update_attendance ::
  "uuid \<Rightarrow> (attendance_row \<Rightarrow> attendance_row) \<Rightarrow> database \<Rightarrow> go_error + database" where
  "update_attendance i f db =
     (if list_all (\<lambda>r. at_id r = i \<longrightarrow> attendance_check (f r)) (db_attendance db)
      then Inr (db\<lparr>db_attendance := set_by_key at_id i f (db_attendance db)\<rparr>)
      else Inl (CheckViolation ''attendance_sessions_check''))"

definition update_journal ::
  "uuid \<Rightarrow> (journal_row \<Rightarrow> journal_row) \<Rightarrow> database \<Rightarrow> database" where
  "update_journal i f db = db\<lparr>db_journals := set_by_key jo_id i f (db_journals db)\<rparr>"

definition update_correction ::
  "uuid \<Rightarrow> (correction_row \<Rightarrow> correction_row) \<Rightarrow> database \<Rightarrow> database" where
  "update_correction i f db = db\<lparr>db_corrections := set_by_key cr_id i f (db_corrections db)\<rparr>"

lemma update_attendance_Inr:
  "update_attendance i f db = Inr db' \<longleftrightarrow>
     (\<forall>r\<in>set (db_attendance db). at_id r = i \<longrightarrow> attendance_check (f r)) \<and>
     db' = db\<lparr>db_attendance := set_by_key at_id i f (db_attendance db)\<rparr>"
  by (auto simp: update_attendance_def list_all_iff)

section \<open>Lookups\<close>

definition find_attendance :: "uuid \<Rightarrow> database \<Rightarrow> attendance_row option" where
  "find_attendance i db = by_key at_id i (db_attendance db)"

definition find_assignment :: "uuid \<Rightarrow> database \<Rightarrow> assignment_row option" where
  "find_assignment i db = by_key as_id i (db_assignments db)"

definition find_site :: "uuid \<Rightarrow> database \<Rightarrow> site_row option" where
  "find_site i db = by_key si_id i (db_sites db)"

definition find_user :: "uuid \<Rightarrow> database \<Rightarrow> user_row option" where
  "find_user i db = by_key us_id i (db_users db)"

definition find_trainee :: "uuid \<Rightarrow> database \<Rightarrow> trainee_row option" where
  "find_trainee i db = by_key tp_id i (db_trainees db)"

definition trainee_of_user :: "uuid \<Rightarrow> database \<Rightarrow> trainee_row option" where
  "trainee_of_user u db = by_key tp_user u (db_trainees db)"

definition find_journal :: "uuid \<Rightarrow> database \<Rightarrow> journal_row option" where
  "find_journal i db = by_key jo_id i (db_journals db)"

definition journal_of :: "uuid \<Rightarrow> database \<Rightarrow> journal_row option" where
  "journal_of a db = by_key jo_attendance a (db_journals db)"

definition find_correction :: "uuid \<Rightarrow> database \<Rightarrow> correction_row option" where
  "find_correction i db = by_key cr_id i (db_corrections db)"

text \<open>\<open>COALESCE(sum(credited_minutes), 0)\<close>: NULL rows do not count.\<close>

definition credited_sum :: "attendance_row list \<Rightarrow> int" where
  "credited_sum rows =
     sum_list (map (\<lambda>r. case at_credited r of None \<Rightarrow> 0 | Some c \<Rightarrow> c) rows)"

text \<open>\<open>ORDER BY key DESC\<close>; rows with equal keys keep their table order.\<close>

definition order_desc :: "('r \<Rightarrow> int) \<Rightarrow> 'r list \<Rightarrow> 'r list" where
  "order_desc key rows = sort_key (\<lambda>r. - key r) rows"

end
