(* ===== verification/Calendar.thy ===== *)
theory Calendar
  imports Clock
begin

text \<open>
  The part of Go's \<open>time\<close> package the services use on calendar dates: the proleptic Gregorian
  calendar, \<open>Format\<close> with the layouts \<open>2006-01-02\<close> and \<open>15:04:05\<close>, and \<open>Parse\<close> with the
  layout \<open>2006-01-02\<close>. A date is a day number; day 0 is 1 January 1970. Formatting and
  parsing are inverse on the years 0 to 9999.
\<close>

section \<open>Years and months\<close>

definition is_leap :: "int \<Rightarrow> bool" where
  "is_leap y = (y mod 4 = 0 \<and> (y mod 100 \<noteq> 0 \<or> y mod 400 = 0))"

definition days_before_year :: "int \<Rightarrow> int" where
  "days_before_year y = 365 * y + (y + 3) div 4 - (y + 99) div 100 + (y + 399) div 400"

definition year_days :: "int \<Rightarrow> int" where
  "year_days y = (if is_leap y then 366 else 365)"

fun days_before_month :: "bool \<Rightarrow> nat \<Rightarrow> int" where
  "days_before_month leap 0 = 0"
| "days_before_month leap (Suc m) = days_before_month leap m +
     (if m = 0 then 0
      else if m = 2 then (if leap then 29 else 28)
      else if m = 4 \<or> m = 6 \<or> m = 9 \<or> m = 11 then 30 else 31)"

definition days_in_month :: "bool \<Rightarrow> nat \<Rightarrow> int" where
  "days_in_month leap m = days_before_month leap (Suc m) - days_before_month leap m"

definition epoch_days :: int where "epoch_days = 719528"

definition date_of :: "int \<Rightarrow> nat \<Rightarrow> int \<Rightarrow> date" where
  "date_of y m d =
     days_before_year y + days_before_month (is_leap y) m + d - 1 - epoch_days"

definition year_of :: "date \<Rightarrow> int" where
  "year_of n =
     (let n = n + epoch_days; y = 400 * n div 146097
      in if n < days_before_year y then y - 1
         else if days_before_year (y + 1) \<le> n then y + 1 else y)"

fun month_scan :: "bool \<Rightarrow> int \<Rightarrow> nat \<Rightarrow> nat" where
  "month_scan leap k 0 = 1"
| "month_scan leap k (Suc m) =
     (if m = 0 \<or> days_before_month leap (Suc m) \<le> k then Suc m else month_scan leap k m)"

definition civil :: "date \<Rightarrow> int \<times> nat \<times> int" where
  "civil n =
     (let y = year_of n; k = n + epoch_days - days_before_year y; m = month_scan (is_leap y) k 12
      in (y, m, k - days_before_month (is_leap y) m + 1))"

definition valid_civil :: "int \<Rightarrow> nat \<Rightarrow> int \<Rightarrow> bool" where
  "valid_civil y m d =
     (1 \<le> m \<and> m \<le> 12 \<and> 1 \<le> d \<and> d \<le> days_in_month (is_leap y) m)"

lemma div_Suc_int:
  fixes a k :: int
  assumes k: "0 < k"
  shows "(a + 1) div k = a div k + (if (a + 1) mod k = 0 then 1 else 0)"
proof -
  define q r where "q = a div k" and "r = a mod k"
  have a: "a = k * q + r" and r: "0 \<le> r" "r < k" using k by (simp_all add: q_def r_def)
  show ?thesis
  proof (cases "r = k - 1")
    case True
    with a have "a + 1 = (q + 1) * k" by (simp add: algebra_simps)
    then show ?thesis using k by (simp add: q_def)
  next
    case False
    then have r1: "0 \<le> r + 1" "r + 1 < k" using r by auto
    have e: "a + 1 = r + 1 + k * q" using a by simp
    have "(r + 1 + k * q) div k = q" "(r + 1 + k * q) mod k = r + 1"
      using r1 k by (simp_all add: div_pos_pos_trivial mod_pos_pos_trivial)
    then show ?thesis unfolding e q_def [symmetric] using r1 r by simp
  qed
qed

lemma div_bounds:
  assumes "0 < (k::int)"
  shows "k * (a div k) \<le> a" and "a < k * (a div k) + k"
proof -
  define q where "q = k * (a div k)"
  define r where "r = a mod k"
  have "q + r = a" "0 \<le> r" "r < k" using assms by (simp_all add: q_def r_def)
  then have "q \<le> a" "a < q + k" by linarith+
  then show "k * (a div k) \<le> a" "a < k * (a div k) + k" by (simp_all add: q_def)
qed

lemma leap_count:
  "(c \<Longrightarrow> b) \<Longrightarrow> (b \<Longrightarrow> a) \<Longrightarrow>
     (if a then 1 else 0) - (if b then 1 else 0) + (if c then 1 else 0) =
     (if a \<and> (\<not> b \<or> c) then 1 else (0::int))"
  by auto

lemma days_before_year_Suc: "days_before_year (y + 1) = days_before_year y + year_days y"
proof -
  have 4: "(y + 4) div 4 = (y + 3) div 4 + (if y mod 4 = 0 then 1 else 0)"
    using div_Suc_int [of 4 "y + 3"] by simp
  have 100: "(y + 100) div 100 = (y + 99) div 100 + (if y mod 100 = 0 then 1 else 0)"
    using div_Suc_int [of 100 "y + 99"] by simp
  have 400: "(y + 400) div 400 = (y + 399) div 400 + (if y mod 400 = 0 then 1 else 0)"
    using div_Suc_int [of 400 "y + 399"] by simp
  have "y mod 100 = 0" if "y mod 400 = 0"
    using mod_mod_cancel [of 100 400 y] that by simp
  moreover have "y mod 4 = 0" if "y mod 100 = 0"
    using mod_mod_cancel [of 4 100 y] that by simp
  ultimately have c: "(if y mod 4 = 0 then 1 else 0) - (if y mod 100 = 0 then 1 else 0) +
      (if y mod 400 = 0 then 1 else 0) = (if is_leap y then 1 else (0::int))"
    unfolding is_leap_def by (rule leap_count)
  have "days_before_year (y + 1) =
      365 * (y + 1) + (y + 4) div 4 - (y + 100) div 100 + (y + 400) div 400"
  proof -
    have "y + 1 + 3 = y + 4" "y + 1 + 99 = y + 100" "y + 1 + 399 = y + 400" by simp_all
    then show ?thesis unfolding days_before_year_def by (simp only:)
  qed
  also have "\<dots> = 365 * y + (y + 3) div 4 - (y + 99) div 100 + (y + 399) div 400 + 365 +
      ((if y mod 4 = 0 then 1 else 0) - (if y mod 100 = 0 then 1 else 0) +
       (if y mod 400 = 0 then 1 else 0))"
    unfolding 4 100 400 by (simp only: distrib_left mult_1_right algebra_simps)
  also have "\<dots> = days_before_year y + year_days y"
    unfolding c by (simp only: days_before_year_def year_days_def split: if_split) simp
  finally show ?thesis .
qed

lemma year_days_pos: "0 < year_days y"
  by (simp add: year_days_def)

lemma days_before_year_mono: "a \<le> b \<Longrightarrow> days_before_year a \<le> days_before_year b"
proof (induction b rule: int_ge_induct)
  case (step b)
  then show ?case using days_before_year_Suc [of b] year_days_pos [of b] by simp
qed simp

lemma days_before_year_bounds:
  "146097 * y - 396 \<le> 400 * days_before_year y"
  "400 * days_before_year y \<le> 146097 * y + 699"
proof -
  define p q r where "p = (y + 3) div 4" and "q = (y + 99) div 100" and "r = (y + 399) div 400"
  have "4 * p \<le> y + 3" "y < 4 * p + 1" "100 * q \<le> y + 99" "y < 100 * q + 1"
    "400 * r \<le> y + 399" "y < 400 * r + 1"
    using div_bounds [of 4 "y + 3"] div_bounds [of 100 "y + 99"] div_bounds [of 400 "y + 399"]
    by (simp_all add: p_def q_def r_def)
  moreover have "days_before_year y = 365 * y + p - q + r"
    by (simp add: days_before_year_def p_def q_def r_def)
  ultimately show "146097 * y - 396 \<le> 400 * days_before_year y"
      "400 * days_before_year y \<le> 146097 * y + 699" by linarith+
qed

lemma year_of_bounds:
  "days_before_year (year_of n) \<le> n + epoch_days \<and>
   n + epoch_days < days_before_year (year_of n + 1)"
proof -
  define N where "N = n + epoch_days"
  define y where "y = 400 * N div 146097"
  have y: "146097 * y \<le> 400 * N" "400 * N < 146097 * y + 146097"
    using div_bounds [of 146097 "400 * N"] by (simp_all add: y_def)
  have "400 * days_before_year (y - 1) \<le> 400 * N"
    using days_before_year_bounds(2) [of "y - 1"] y(1) by simp
  then have lo: "days_before_year (y - 1) \<le> N" by simp
  have "400 * N < 400 * days_before_year (y + 2)"
    using days_before_year_bounds(1) [of "y + 2"] y(2) by simp
  then have hi: "N < days_before_year (y + 2)" by simp
  have "y + 1 + 1 = y + 2" by simp
  then show ?thesis
    using lo hi unfolding year_of_def Let_def N_def [symmetric] y_def [symmetric]
    by (auto simp: add.commute)
qed

lemma year_of_unique:
  assumes "days_before_year y \<le> n + epoch_days" and "n + epoch_days < days_before_year (y + 1)"
  shows "year_of n = y"
proof (rule ccontr)
  assume "year_of n \<noteq> y"
  then consider "year_of n + 1 \<le> y" | "y + 1 \<le> year_of n" by linarith
  then show False
    using assms year_of_bounds [of n] days_before_year_mono [of "year_of n + 1" y]
      days_before_year_mono [of "y + 1" "year_of n"]
    by cases linarith+
qed

lemma month_cases:
  assumes "1 \<le> (m::nat)" and "m \<le> 12"
  obtains "m = 1" | "m = 2" | "m = 3" | "m = 4" | "m = 5" | "m = 6" | "m = 7" | "m = 8"
    | "m = 9" | "m = 10" | "m = 11" | "m = 12"
  using assms by (cases m) (auto simp: le_Suc_eq numeral_eq_Suc)

lemma month_scan_unique:
  assumes "1 \<le> m" and "m \<le> 12" and "days_before_month l m \<le> k" and "k < days_before_month l (Suc m)"
  shows "month_scan l k 12 = m"
  using assms(1,2)
  by (cases rule: month_cases)
    (insert assms(3,4), cases l; simp add: eval_nat_numeral)+

lemma month_scan_bounds:
  assumes "0 \<le> k" and "k < (if l then 366 else 365)"
  shows "1 \<le> month_scan l k 12 \<and> month_scan l k 12 \<le> 12 \<and>
    days_before_month l (month_scan l k 12) \<le> k \<and> k < days_before_month l (Suc (month_scan l k 12))"
  using assms by (cases l) (simp_all add: eval_nat_numeral)

lemma year_end: "days_before_month l 13 = (if l then 366 else 365)"
  by (cases l) (simp_all add: eval_nat_numeral)

lemma days_before_month_range:
  assumes "1 \<le> m" and "m \<le> 12"
  shows "0 \<le> days_before_month l m \<and> days_before_month l (Suc m) \<le> (if l then 366 else 365)"
  using assms by (cases rule: month_cases) (cases l; simp add: eval_nat_numeral)+

lemma civil_date_of:
  assumes "valid_civil y m d"
  shows "civil (date_of y m d) = (y, m, d)"
proof -
  define k where "k = days_before_month (is_leap y) m + d - 1"
  have m: "1 \<le> m" "m \<le> 12" and d: "1 \<le> d" "d \<le> days_in_month (is_leap y) m"
    using assms by (simp_all add: valid_civil_def)
  have k: "days_before_month (is_leap y) m \<le> k" "k < days_before_month (is_leap y) (Suc m)"
    using d by (simp_all add: k_def days_in_month_def)
  have r: "0 \<le> k" "k < year_days y"
    using k days_before_month_range [OF m, of "is_leap y"] by (auto simp: year_days_def)
  have n: "date_of y m d + epoch_days = days_before_year y + k"
    by (simp add: date_of_def k_def)
  have "year_of (date_of y m d) = y"
    by (rule year_of_unique) (use n r days_before_year_Suc [of y] in linarith)+
  then show ?thesis
    using n month_scan_unique [OF m k] by (simp add: civil_def Let_def k_def)
qed

lemma date_of_civil:
  assumes "civil n = (y, m, d)"
  shows "valid_civil y m d \<and> date_of y m d = n"
proof -
  define k where "k = n + epoch_days - days_before_year (year_of n)"
  have k: "0 \<le> k" "k < (if is_leap (year_of n) then 366 else 365)"
    using year_of_bounds [of n] days_before_year_Suc [of "year_of n"]
    by (auto simp: k_def year_days_def)
  have "y = year_of n" "m = month_scan (is_leap y) k 12"
      "d = k - days_before_month (is_leap y) m + 1"
    using assms by (auto simp: civil_def Let_def k_def)
  then show ?thesis
    using month_scan_bounds [OF k]
    by (auto simp: valid_civil_def days_in_month_def date_of_def k_def)
qed

section \<open>Formatting and parsing\<close>

definition digit :: "nat \<Rightarrow> char" where "digit n = char_of (48 + n mod 10)"

definition digit_val :: "char \<Rightarrow> nat option" where
  "digit_val c = (let n = of_char c :: nat in if 48 \<le> n \<and> n \<le> 57 then Some (n - 48) else None)"

fun decimal :: "nat \<Rightarrow> string" where
  "decimal n = (if n < 10 then [digit n] else decimal (n div 10) @ [digit n])"

declare decimal.simps [simp del]

definition pad2 :: "nat \<Rightarrow> string" where
  "pad2 n = [digit (n div 10), digit n]"

definition pad4 :: "nat \<Rightarrow> string" where
  "pad4 n = [digit (n div 1000), digit (n div 100), digit (n div 10), digit n]"

text \<open>A year is printed with at least four digits, and a sign when it is negative.\<close>

definition format_year :: "int \<Rightarrow> string" where
  "format_year y =
     (let a = nat \<bar>y\<bar>; s = (if a \<le> 9999 then pad4 a else decimal a)
      in if y < 0 then CHR ''-'' # s else s)"

definition format_date :: "date \<Rightarrow> string" where
  "format_date n =
     (let (y, m, d) = civil n in format_year y @ ''-'' @ pad2 m @ ''-'' @ pad2 (nat d))"

definition format_time :: "zone \<Rightarrow> instant \<Rightarrow> string" where
  "format_time z t =
     (let s = nat ((t + z t) mod us_per_day div 1000000)
      in pad2 (s div 3600) @ '':'' @ pad2 (s div 60 mod 60) @ '':'' @ pad2 (s mod 60))"

definition format_datetime :: "zone \<Rightarrow> instant \<Rightarrow> string" where
  "format_datetime z t = format_date (date_in z t) @ '' '' @ format_time z t"

fun digits_val :: "string \<Rightarrow> nat \<Rightarrow> nat option" where
  "digits_val [] acc = Some acc"
| "digits_val (c # cs) acc =
     (case digit_val c of None \<Rightarrow> None | Some d \<Rightarrow> digits_val cs (10 * acc + d))"

text \<open>\<open>time.Parse("2006-01-02", s)\<close>: four, two and two digits, and a date that exists.\<close>

definition parse_date :: "string \<Rightarrow> date option" where
  "parse_date s =
     (if length s = 10 \<and> s ! 4 = CHR ''-'' \<and> s ! 7 = CHR ''-'' then
        (case (digits_val (take 4 s) 0, digits_val (take 2 (drop 5 s)) 0, digits_val (drop 8 s) 0) of
           (Some y, Some m, Some d) \<Rightarrow>
             if valid_civil (int y) m (int d) then Some (date_of (int y) m (int d)) else None
         | _ \<Rightarrow> None)
      else None)"

lemma digit_val_digit [simp]: "digit_val (digit n) = Some (n mod 10)"
proof -
  have "n mod 10 < 10" by simp
  then have "of_char (digit n) = 48 + n mod 10" unfolding digit_def by simp
  then show ?thesis using \<open>n mod 10 < 10\<close> by (simp add: digit_val_def Let_def)
qed

lemma digits_pad2: "n < 100 \<Longrightarrow> digits_val (pad2 n) 0 = Some n"
  by (simp add: pad2_def)

lemma digits_pad4:
  assumes "n < 10000"
  shows "digits_val (pad4 n) 0 = Some n"
proof -
  have "n div 10 div 10 = n div 100" "n div 100 div 10 = n div 1000"
    by (simp_all add: div_mult2_eq [symmetric])
  then have "10 * (n div 1000) + n div 100 mod 10 = n div 100"
    "10 * (n div 100) + n div 10 mod 10 = n div 10" "10 * (n div 10) + n mod 10 = n"
    by (metis mult_div_mod_eq)+
  moreover have "n div 1000 mod 10 = n div 1000" using assms by simp
  ultimately show ?thesis by (simp add: pad4_def)
qed

lemma valid_civil_small: "valid_civil y m d \<Longrightarrow> 0 \<le> d \<and> nat d < 100 \<and> m < 100"
proof -
  assume v: "valid_civil y m d"
  then have m: "1 \<le> m" "m \<le> 12" by (simp_all add: valid_civil_def)
  then have "days_in_month (is_leap y) m \<le> 31"
    by (cases rule: month_cases) (cases "is_leap y"; simp add: days_in_month_def eval_nat_numeral)+
  with v show ?thesis by (auto simp: valid_civil_def)
qed

text \<open>
  Printing a calendar date and parsing the text back gives the date, for every date of the
  years 0 to 9999: the dates the API writes are the dates it accepts.
\<close>

theorem parse_format_date:
  assumes "0 \<le> year_of n" and "year_of n \<le> 9999"
  shows "parse_date (format_date n) = Some n"
proof -
  obtain y m d where c: "civil n = (y, m, d)" by (cases "civil n") auto
  have y: "y = year_of n" using c by (simp add: civil_def Let_def)
  have v: "valid_civil y m d" and n: "date_of y m d = n" using date_of_civil [OF c] by auto
  have s: "format_date n = pad4 (nat y) @ ''-'' @ pad2 m @ ''-'' @ pad2 (nat d)"
  proof -
    have "nat \<bar>y\<bar> = nat y" "nat y \<le> 9999" "\<not> y < 0" using assms y by simp_all
    then show ?thesis by (simp add: format_date_def c format_year_def Let_def)
  qed
  have len: "length (pad4 k) = 4" "length (pad2 k) = 2" for k
    by (simp_all add: pad4_def pad2_def)
  have "digits_val (pad4 (nat y)) 0 = Some (nat y)" "digits_val (pad2 m) 0 = Some m"
      "digits_val (pad2 (nat d)) 0 = Some (nat d)"
    using assms y valid_civil_small [OF v] by (auto intro: digits_pad4 digits_pad2)
  then show ?thesis
    using v n assms y valid_civil_small [OF v]
    by (simp add: parse_date_def s len nth_append)
qed

theorem parse_format_date_witness:
  "parse_date (format_date 20454) = Some 20454 \<and> format_date 20454 = ''2026-01-01''"
proof -
  have c: "civil 20454 = (2026, 1, 1)"
    using civil_date_of [of 2026 1 1]
    by (simp add: valid_civil_def days_in_month_def date_of_def epoch_days_def
        days_before_year_def is_leap_def)
  then have y: "year_of 20454 = 2026" by (simp add: civil_def Let_def)
  have f: "format_date 20454 = ''2026-01-01''"
    by (simp add: format_date_def c format_year_def Let_def pad4_def pad2_def digit_def
        char_of_def bit_0)
  show ?thesis using parse_format_date [of 20454] y f by simp
qed

end
