(* ===== verification/Evidence.thy ===== *)
theory Evidence
  imports Schema Calendar
begin

text \<open>
  \<open>internal/attendance/evidence_validator.go\<close>, \<open>evidence_service.go\<close> and the text of
  \<open>watermark.go\<close>: the checks on an uploaded photo, the storage of the original and of its
  watermarked derivative, and their removal when a later step fails.

  Image decoding, the drawing and JPEG encoding of the watermark and SHA-256 are the fields of
  the parameter \<open>media\<close>. The object store is a map from keys to bytes; each of its calls may
  fail, as a parameter tells by key, and a failing call changes nothing. The texts of the
  UUIDs in the object keys are arguments.
\<close>

type_synonym bytes = string
type_synonym bucket = "string \<Rightarrow> bytes option"

record 'img media =
  md_decode :: "bytes \<Rightarrow> ('img \<times> string) option"
  md_bounds :: "'img \<Rightarrow> int \<times> int"
  md_render :: "'img \<Rightarrow> string list \<Rightarrow> bytes option"
  md_sha :: "bytes \<Rightarrow> string"

record store_env =
  en_put_ok :: "string \<Rightarrow> bool"
  en_delete_ok :: "string \<Rightarrow> bool"

definition store_put ::
  "store_env \<Rightarrow> string \<Rightarrow> bytes \<Rightarrow> bucket \<Rightarrow> bucket \<times> (go_error + unit)" where
  "store_put env k data b =
     (if en_put_ok env k then (b(k \<mapsto> data), Inr ()) else (b, Inl StorageFailed))"

definition store_delete ::
  "store_env \<Rightarrow> string \<Rightarrow> bucket \<Rightarrow> bucket \<times> (go_error + unit)" where
  "store_delete env k b =
     (if en_delete_ok env k then (b(k := None), Inr ()) else (b, Inl StorageFailed))"

section \<open>Validation\<close>

definition maxImageDimension :: int where "maxImageDimension = 8000"
definition minImageDimension :: int where "minImageDimension = 32"

definition allowedMime :: "string \<Rightarrow> bool" where
  "allowedMime m = (m \<in> {''image/jpeg'', ''image/png'', ''image/webp''})"

record 'img validated_image =
  vi_image :: 'img
  vi_mime :: string
  vi_width :: int
  vi_height :: int
  vi_size :: int

definition ValidateEvidenceImage ::
  "'img media \<Rightarrow> bytes \<Rightarrow> int \<Rightarrow> api_error + 'img validated_image" where
  "ValidateEvidenceImage md data maxBytes =
     (if length data = 0 then Inl (Validation [''photo''])
      else if maxBytes < int (length data) then Inl (httpx_new 413 ''IMAGE_TOO_LARGE'')
      else case md_decode md data of
          None \<Rightarrow> Inl (httpx_new 415 ''INVALID_IMAGE'')
        | Some (img, format) \<Rightarrow>
            let mime = ''image/'' @ format; (w, h) = md_bounds md img in
            if \<not> allowedMime mime then Inl (httpx_new 415 ''INVALID_IMAGE'')
            else if w < minImageDimension \<or> h < minImageDimension
            then Inl (httpx_new 415 ''INVALID_IMAGE'')
            else if maxImageDimension < w \<or> maxImageDimension < h
            then Inl (httpx_new 415 ''INVALID_IMAGE'')
            else Inr \<lparr>vi_image = img, vi_mime = mime, vi_width = w, vi_height = h,
                      vi_size = int (length data)\<rparr>)"

section \<open>Keys and texts\<close>

definition ext_of :: "string \<Rightarrow> string" where
  "ext_of mime =
     (if mime = ''image/jpeg'' then ''jpg'' else if mime = ''image/png'' then ''png''
      else if mime = ''image/webp'' then ''webp'' else [])"

definition evidenceKey :: "string \<Rightarrow> string \<Rightarrow> string \<Rightarrow> string" where
  "evidenceKey kind mime uid = ''attendance/'' @ kind @ ''/'' @ uid @ ''.'' @ ext_of mime"

fun joinLines :: "string list \<Rightarrow> string" where
  "joinLines [] = []"
| "joinLines [l] = l"
| "joinLines (l # ls) = l @ '' / '' @ joinLines ls"

definition location_status_text :: "location_status \<Rightarrow> string" where
  "location_status_text s =
     (case s of LocationVerified \<Rightarrow> ''verified'' | LocationOutsideRadius \<Rightarrow> ''outside_radius''
      | LocationLowAccuracy \<Rightarrow> ''low_accuracy'' | LocationUnavailable \<Rightarrow> ''unavailable'')"

record watermark_context =
  wm_trainee :: string
  wm_student :: string
  wm_action :: string
  wm_time :: instant
  wm_timezone :: string
  wm_site :: string
  wm_location :: location_status

text \<open>The dash is U+2014 and the dot U+00B7, in UTF-8.\<close>

definition em_dash :: string where "em_dash = [CHR 0xE2, CHR 0x80, CHR 0x94]"
definition mid_dot :: string where "mid_dot = [CHR 0xC2, CHR 0xB7]"

definition BuildWatermarkText :: "tzdb \<Rightarrow> watermark_context \<Rightarrow> string list" where
  "BuildWatermarkText tzdb w =
     (let z = (case tzdb (wm_timezone w) of None \<Rightarrow> (\<lambda>_. 0) | Some z \<Rightarrow> z)
      in [wm_trainee w @ '' ('' @ wm_student w @ '') '' @ em_dash @ '' '' @ wm_action w,
          format_datetime z (wm_time w) @ '' '' @ wm_timezone w @ '' @ '' @ wm_site w @
            '' '' @ mid_dot @ '' GPS: '' @ location_status_text (wm_location w)])"

section \<open>Storage\<close>

record stored_evidence =
  se_original_key :: string
  se_watermarked_key :: string
  se_original_sha :: string
  se_watermarked_sha :: string
  se_mime :: string
  se_size :: int
  se_width :: int
  se_height :: int
  se_text :: string

definition StoreEvidence ::
  "'img media \<Rightarrow> tzdb \<Rightarrow> store_env \<Rightarrow> string \<Rightarrow> string \<Rightarrow> bytes \<Rightarrow> int \<Rightarrow> watermark_context \<Rightarrow>
   bucket \<Rightarrow> bucket \<times> (go_error + stored_evidence)" where
  "StoreEvidence md tzdb env uid1 uid2 raw maxBytes wm b =
     (case ValidateEvidenceImage md raw maxBytes of
        Inl e \<Rightarrow> (b, Inl (Api e))
      | Inr img \<Rightarrow>
          let origKey = evidenceKey ''original'' (vi_mime img) uid1 in
          case store_put env origKey raw b of
            (b1, Inl e) \<Rightarrow> (b1, Inl e)
          | (b1, Inr _) \<Rightarrow>
              let ls = BuildWatermarkText tzdb wm in
              case md_render md (vi_image img) ls of
                None \<Rightarrow> (fst (store_delete env origKey b1), Inl StorageFailed)
              | Some wmBytes \<Rightarrow>
                  let wmKey = evidenceKey ''watermarked'' ''image/jpeg'' uid2 in
                  case store_put env wmKey wmBytes b1 of
                    (b2, Inl e) \<Rightarrow> (fst (store_delete env origKey b2), Inl e)
                  | (b2, Inr _) \<Rightarrow>
                      (b2, Inr \<lparr>se_original_key = origKey, se_watermarked_key = wmKey,
                         se_original_sha = md_sha md raw, se_watermarked_sha = md_sha md wmBytes,
                         se_mime = vi_mime img, se_size = vi_size img, se_width = vi_width img,
                         se_height = vi_height img, se_text = joinLines ls\<rparr>))"

definition Cleanup :: "store_env \<Rightarrow> stored_evidence \<Rightarrow> bucket \<Rightarrow> bucket" where
  "Cleanup env ev b =
     fst (store_delete env (se_watermarked_key ev) (fst (store_delete env (se_original_key ev) b)))"

section \<open>Lemmas\<close>

lemma ValidateEvidenceImage_Inr:
  assumes "ValidateEvidenceImage md data maxBytes = Inr img"
  shows "0 < vi_size img" "vi_size img \<le> maxBytes" "vi_size img = int (length data)"
    "minImageDimension \<le> vi_width img" "vi_width img \<le> maxImageDimension"
    "minImageDimension \<le> vi_height img" "vi_height img \<le> maxImageDimension"
    "allowedMime (vi_mime img)"
  using assms
  by (auto simp: ValidateEvidenceImage_def Let_def split: if_splits option.splits prod.splits)

lemma evidence_keys_differ:
  "evidenceKey ''original'' m u \<noteq> evidenceKey ''watermarked'' n v"
  by (simp add: evidenceKey_def)

text \<open>
  \<open>fresh_keys\<close>: the new UUIDs name no stored object. \<open>deletes_work\<close>: the store carries out
  the deletions it is asked for.
\<close>

definition fresh_keys :: "string \<Rightarrow> string \<Rightarrow> bucket \<Rightarrow> bool" where
  "fresh_keys uid1 uid2 b \<longleftrightarrow>
     (\<forall>m. b (evidenceKey ''original'' m uid1) = None \<and> b (evidenceKey ''watermarked'' m uid2) = None)"

definition deletes_work :: "store_env \<Rightarrow> bool" where
  "deletes_work env \<longleftrightarrow> (\<forall>k. en_delete_ok env k)"

lemma StoreEvidence_Inr:
  assumes "StoreEvidence md tzdb env u1 u2 raw maxBytes wm b = (b', Inr ev)"
  obtains img wmBytes where "ValidateEvidenceImage md raw maxBytes = Inr img"
    and "md_render md (vi_image img) (BuildWatermarkText tzdb wm) = Some wmBytes"
    and "ev = \<lparr>se_original_key = evidenceKey ''original'' (vi_mime img) u1,
      se_watermarked_key = evidenceKey ''watermarked'' ''image/jpeg'' u2,
      se_original_sha = md_sha md raw, se_watermarked_sha = md_sha md wmBytes,
      se_mime = vi_mime img, se_size = vi_size img, se_width = vi_width img,
      se_height = vi_height img, se_text = joinLines (BuildWatermarkText tzdb wm)\<rparr>"
    and "b' = b(se_original_key ev \<mapsto> raw, se_watermarked_key ev \<mapsto> wmBytes)"
  using assms
  by (auto simp: StoreEvidence_def store_put_def Let_def
      split: sum.splits if_splits option.splits prod.splits)

lemma StoreEvidence_metadata:
  assumes "StoreEvidence md tzdb env u1 u2 raw maxBytes wm b = (b', Inr ev)"
  shows "0 < se_size ev \<and> 0 < se_width ev \<and> 0 < se_height ev"
proof (rule StoreEvidence_Inr [OF assms])
  fix img wmBytes
  assume "ValidateEvidenceImage md raw maxBytes = Inr img"
    and ev: "ev = \<lparr>se_original_key = evidenceKey ''original'' (vi_mime img) u1,
      se_watermarked_key = evidenceKey ''watermarked'' ''image/jpeg'' u2,
      se_original_sha = md_sha md raw, se_watermarked_sha = md_sha md wmBytes,
      se_mime = vi_mime img, se_size = vi_size img, se_width = vi_width img,
      se_height = vi_height img, se_text = joinLines (BuildWatermarkText tzdb wm)\<rparr>"
  then show ?thesis
    using ValidateEvidenceImage_Inr [of md raw maxBytes img] by (simp add: minImageDimension_def)
qed

lemma StoreEvidence_Inl:
  assumes "StoreEvidence md tzdb env u1 u2 raw maxBytes wm b = (b', Inl e)"
    and "fresh_keys u1 u2 b" and "deletes_work env"
  shows "b' = b"
  using assms
  by (auto simp: StoreEvidence_def store_put_def store_delete_def Let_def fresh_keys_def
      deletes_work_def fun_upd_idem_iff
      split: sum.splits if_splits option.splits prod.splits)

lemma Cleanup_restores:
  assumes "StoreEvidence md tzdb env u1 u2 raw maxBytes wm b = (b', Inr ev)"
    and "fresh_keys u1 u2 b" and "deletes_work env"
  shows "Cleanup env ev b' = b"
proof -
  obtain m wmBytes where
    k: "se_original_key ev = evidenceKey ''original'' m u1"
      "se_watermarked_key ev = evidenceKey ''watermarked'' ''image/jpeg'' u2"
    and b': "b' = b(se_original_key ev \<mapsto> raw, se_watermarked_key ev \<mapsto> wmBytes)"
    using StoreEvidence_Inr [OF assms(1)] by (metis stored_evidence.select_convs(1,2))
  have "b (se_original_key ev) = None" "b (se_watermarked_key ev) = None"
    using assms(2) k by (auto simp: fresh_keys_def)
  then show ?thesis
    using assms(3) by (auto simp: Cleanup_def store_delete_def b' deletes_work_def fun_eq_iff)
qed

end
