(* ===== verification/Examples.thy ===== *)
theory Examples
  imports Schema
begin

text \<open>
  Concrete data the witnesses evaluate on: a small institution with one trainee, who has an
  active assignment at one site, and a coordinator whose scope holds the trainee.
\<close>

definition demo_assignment :: assignment_row where
  "demo_assignment = \<lparr>as_id = 7, as_trainee = 2, as_site = 1, as_start = 0, as_end = None,
     as_required = 60, as_break_type = BreakNone, as_break_threshold = None,
     as_break_deduction = 0, as_weekdays = Some [1, 2, 3, 4, 5], as_status = AsActive,
     as_created = 0\<rparr>"

definition demo_settings :: settings_row where
  "demo_settings = \<lparr>st_timezone = ''UTC'', st_low_accuracy = 100, st_near_completion = 9000,
     st_journal_cutoff = 24, st_unusual_minutes = 960, st_retention = None\<rparr>"

definition demo_db :: database where
  "demo_db = \<lparr>
     db_users =
       [\<lparr>us_id = 10, us_email = ''t@x'', us_password_hash = ''h'', us_role = RTrainee,
         us_status = AccActive, us_display_name = ''T'', us_last_login = None\<rparr>,
        \<lparr>us_id = 11, us_email = ''c@x'', us_password_hash = ''h'', us_role = RCoordinator,
         us_status = AccActive, us_display_name = ''C'', us_last_login = None\<rparr>],
     db_sessions = [],
     db_trainees = [\<lparr>tp_id = 2, tp_user = 10, tp_student_number = ''S1'', tp_program = None,
       tp_year_level = None, tp_contact = None\<rparr>],
     db_scopes = [\<lparr>sc_coordinator = 11, sc_trainee = 2\<rparr>],
     db_sites = [\<lparr>si_id = 1, si_name = ''Site'', si_address = ''A'', si_latitude = 14,
       si_longitude = 121, si_radius = 100, si_active = True\<rparr>],
     db_assignments = [demo_assignment],
     db_settings = demo_settings,
     db_attendance = [], db_evidence = [], db_journals = [], db_journal_evidence = [],
     db_reviews = [], db_corrections = [], db_adjustments = [], db_notifications = [],
     db_audit = []\<rparr>"

definition demo_clock :: "int \<Rightarrow> clock" where
  "demo_clock t = \<lparr>ck_now = t, ck_dbnow = t\<rparr>"

lemmas demo_db_defs = demo_db_def demo_assignment_def demo_settings_def demo_clock_def

end
