(* ===== verification/Notifications.thy ===== *)
theory Notifications
  imports Examples
begin

text \<open>
  \<open>internal/notifications\<close>: in-app notifications, made at most once for each recipient and
  event key, the completion milestone, and the recipient's list and read operations. Texts of
  notifications are left out.
\<close>

section \<open>Creation\<close>

definition new_note ::
  "uuid \<Rightarrow> clock \<Rightarrow> uuid \<Rightarrow> event_key \<Rightarrow> string \<Rightarrow> string \<Rightarrow> uuid option \<Rightarrow> notification_row" where
  "new_note nid ck recipient key ntype rtype rid =
     \<lparr>nt_id = nid, nt_recipient = recipient, nt_key = key, nt_type = ntype,
      nt_resource_type = rtype, nt_resource = rid, nt_read = None, nt_created = ck_dbnow ck\<rparr>"

definition note_key :: "notification_row \<Rightarrow> uuid \<times> event_key" where
  "note_key n = (nt_recipient n, nt_key n)"

text \<open>\<open>ON CONFLICT DO NOTHING\<close>: a conflict on any unique index skips the row.\<close>

definition CreateTx :: "notification_row \<Rightarrow> database \<Rightarrow> database \<times> bool" where
  "CreateTx n db =
     (if taken nt_id n (db_notifications db) \<or> taken note_key n (db_notifications db)
      then (db, False)
      else (db\<lparr>db_notifications := db_notifications db @ [n]\<rparr>, True))"

text \<open>The sum ranges over the sessions of the trainee on the assignment, whatever their status.\<close>

definition completion_reached :: "uuid \<Rightarrow> assignment_row \<Rightarrow> database \<Rightarrow> bool" where
  "completion_reached traineeID a db =
     (as_required a \<le> credited_sum
        (filter (\<lambda>s. at_trainee s = traineeID \<and> at_assignment s = as_id a) (db_attendance db)))"

definition NotifyCompletionIfReachedTx ::
  "uuid \<Rightarrow> clock \<Rightarrow> uuid \<Rightarrow> uuid \<Rightarrow> uuid \<Rightarrow> database \<Rightarrow> go_error + database" where
  "NotifyCompletionIfReachedTx nid ck traineeUser traineeID assignmentID db =
     (case find_assignment assignmentID db of
        None \<Rightarrow> Inl NoRows
      | Some a \<Rightarrow>
          if \<not> completion_reached traineeID a db then Inr db
          else Inr (fst (CreateTx
            (new_note nid ck traineeUser (CompletionKey traineeID assignmentID)
               ''completion_milestone'' ''ojt_assignment'' (Some assignmentID)) db)))"

section \<open>Reading\<close>

definition list_filter :: "uuid \<Rightarrow> bool \<Rightarrow> notification_row \<Rightarrow> bool" where
  "list_filter userID unreadOnly n =
     (nt_recipient n = userID \<and> (\<not> unreadOnly \<or> nt_read n = None))"

definition List_notifications ::
  "uuid \<Rightarrow> bool \<Rightarrow> page \<Rightarrow> database \<Rightarrow> go_error + notification_row list \<times> int \<times> int" where
  "List_notifications userID unreadOnly p db =
     (let rows = filter (list_filter userID unreadOnly) (db_notifications db);
          tot = int (length rows);
          unread = int (length (filter (list_filter userID True) (db_notifications db)))
      in result_bind (page_rows p (order_desc nt_created rows))
           (\<lambda>items. Inr (items, tot, unread)))"

definition unread_of :: "uuid \<Rightarrow> notification_row \<Rightarrow> bool" where
  "unread_of userID n = (nt_recipient n = userID \<and> nt_read n = None)"

definition set_read :: "clock \<Rightarrow> notification_row \<Rightarrow> notification_row" where
  "set_read ck n = n\<lparr>nt_read := Some (ck_dbnow ck)\<rparr>"

definition MarkRead :: "clock \<Rightarrow> uuid \<Rightarrow> uuid \<Rightarrow> database \<Rightarrow> database \<times> (go_error + unit)" where
  "MarkRead ck userID i db =
     (let p = (\<lambda>n. nt_id n = i \<and> unread_of userID n);
          db' = db\<lparr>db_notifications := update_where p (set_read ck) (db_notifications db)\<rparr>
      in if rows_affected p (db_notifications db) = 0 \<and>
            \<not> list_ex (\<lambda>n. nt_id n = i \<and> nt_recipient n = userID) (db_notifications db')
         then (db', Inl (Api ErrNotFound)) else (db', Inr ()))"

definition MarkAllRead :: "clock \<Rightarrow> uuid \<Rightarrow> database \<Rightarrow> database" where
  "MarkAllRead ck userID db =
     db\<lparr>db_notifications := update_where (unread_of userID) (set_read ck) (db_notifications db)\<rparr>"

text \<open>Handlers: the identifier of the path, \<open>None\<close> when it is no UUID.\<close>

definition ReadNotification ::
  "clock \<Rightarrow> uuid \<Rightarrow> uuid option \<Rightarrow> database \<Rightarrow> database \<times> (api_error + unit)" where
  "ReadNotification ck actor param db =
     (case param of
        None \<Rightarrow> (db, Inl ErrNotFound)
      | Some i \<Rightarrow>
          (case MarkRead ck actor i db of
             (db', Inl e) \<Rightarrow> (db', Inl (Fail e))
           | (db', Inr u) \<Rightarrow> (db', Inr u)))"

definition ReadAllNotifications :: "clock \<Rightarrow> uuid \<Rightarrow> database \<Rightarrow> database" where
  "ReadAllNotifications ck actor db = MarkAllRead ck actor db"

definition ListNotifications ::
  "uuid \<Rightarrow> bool \<Rightarrow> int option \<Rightarrow> int option \<Rightarrow> database \<Rightarrow>
   api_error + notification_row list \<times> int \<times> page_meta" where
  "ListNotifications actor unread page_q size_q db =
     (let page = ParsePage page_q size_q
      in case List_notifications actor unread page db of
           Inl e \<Rightarrow> Inl Internal
         | Inr (items, tot, unread_count) \<Rightarrow> Inr (items, unread_count, NewPageMeta page tot))"

section \<open>The event sink\<close>

text \<open>
  The services that raise events rely on this contract only: an event whose key is known is
  skipped, any other is recorded once. \<open>emit_all\<close> is the loop of a service that raises
  several events and counts the recorded ones.
\<close>

fun emit_all :: "('e \<Rightarrow> 's \<Rightarrow> 's \<times> bool) \<Rightarrow> 'e list \<Rightarrow> 's \<Rightarrow> 's \<times> int" where
  "emit_all create [] s = (s, 0)"
| "emit_all create (e # es) s =
     (let (s', ok) = create e s; (s'', n) = emit_all create es s'
      in (s'', if ok then n + 1 else n))"

lemma emit_all_append:
  "emit_all create (xs @ ys) s =
     (let (s1, m) = emit_all create xs s; (s2, n) = emit_all create ys s1 in (s2, m + n))"
  by (induction xs arbitrary: s) (simp_all add: case_prod_beta Let_def)

lemma emit_all_nonneg: "0 \<le> snd (emit_all create es s)"
  by (induction es arbitrary: s) (simp_all add: case_prod_beta Let_def)

locale event_sink =
  fixes create :: "'e \<Rightarrow> 's \<Rightarrow> 's \<times> bool"
    and key_of :: "'e \<Rightarrow> 'k" and id_of :: "'e \<Rightarrow> uuid"
    and keys :: "'s \<Rightarrow> 'k set" and ids :: "'s \<Rightarrow> uuid set"
  assumes recorded: "create e s = (s', True) \<Longrightarrow>
      key_of e \<notin> keys s \<and> keys s' = insert (key_of e) (keys s) \<and> ids s' = insert (id_of e) (ids s)"
    and skipped: "create e s = (s', False) \<Longrightarrow>
      s' = s \<and> (key_of e \<in> keys s \<or> id_of e \<in> ids s)"
begin

lemma known_skipped: "key_of e \<in> keys s \<Longrightarrow> create e s = (s, False)"
  by (cases "create e s"; cases "snd (create e s)") (auto dest: recorded skipped)

lemma all_known_skipped: "key_of ` set es \<subseteq> keys s \<Longrightarrow> emit_all create es s = (s, 0)"
  by (induction es) (auto simp: known_skipped)

lemma keys_grow: "keys s \<subseteq> keys (fst (create e s))"
  by (cases "create e s"; cases "snd (create e s)") (auto dest: recorded skipped)

lemma emit_keys_grow: "keys s \<subseteq> keys (fst (emit_all create es s))"
proof (induction es arbitrary: s)
  case (Cons e es)
  have "keys s \<subseteq> keys (fst (create e s))" by (rule keys_grow)
  also have "\<dots> \<subseteq> keys (fst (emit_all create es (fst (create e s))))" by (rule Cons.IH)
  finally show ?case by (simp add: case_prod_beta)
qed simp

lemma fresh_recorded:
  "id_of e \<notin> ids s \<Longrightarrow> key_of e \<in> keys (fst (create e s)) \<and>
     ids (fst (create e s)) \<subseteq> insert (id_of e) (ids s)"
  by (cases "create e s"; cases "snd (create e s)") (auto dest: recorded skipped)

lemma emit_all_recorded:
  "distinct (map id_of es) \<Longrightarrow> id_of ` set es \<inter> ids s = {} \<Longrightarrow>
     key_of ` set es \<subseteq> keys (fst (emit_all create es s))"
proof (induction es arbitrary: s)
  case (Cons e es)
  define s' where "s' = fst (create e s)"
  have s': "key_of e \<in> keys s'" "ids s' \<subseteq> insert (id_of e) (ids s)"
    using Cons.prems fresh_recorded [of e s] by (auto simp: s'_def)
  have d: "id_of e \<notin> id_of ` set es" "id_of ` set es \<inter> ids s = {}"
    using Cons.prems by auto
  have "id_of ` set es \<inter> ids s' = {}" by (rule disjoint_grow [OF d s'(2)])
  then have "key_of ` set es \<subseteq> keys (fst (emit_all create es s'))"
    using Cons.prems by (intro Cons.IH) simp_all
  moreover have "keys s' \<subseteq> keys (fst (emit_all create es s'))" by (rule emit_keys_grow)
  ultimately show ?case using s'(1) by (auto simp: case_prod_beta s'_def)
qed simp

lemma emit_keys_bound: "keys (fst (emit_all create es s)) \<subseteq> keys s \<union> key_of ` set es"
proof (induction es arbitrary: s)
  case (Cons e es)
  have "keys (fst (create e s)) \<subseteq> insert (key_of e) (keys s)"
    by (cases "create e s"; cases "snd (create e s)") (auto dest: recorded skipped)
  then show ?case using Cons.IH [of "fst (create e s)"] by (auto simp: case_prod_beta)
qed simp

lemma emit_ids_bound: "ids (fst (emit_all create es s)) \<subseteq> ids s \<union> id_of ` set es"
proof (induction es arbitrary: s)
  case (Cons e es)
  have "ids (fst (create e s)) \<subseteq> insert (id_of e) (ids s)"
    by (cases "create e s"; cases "snd (create e s)") (auto dest: recorded skipped)
  then show ?case using Cons.IH [of "fst (create e s)"] by (auto simp: case_prod_beta)
qed simp

text \<open>With fresh identifiers a round records exactly the keys it is given.\<close>

lemma emit_keys_exact:
  assumes "distinct (map id_of es)" and "id_of ` set es \<inter> ids s = {}"
  shows "keys (fst (emit_all create es s)) = keys s \<union> key_of ` set es"
  using emit_all_recorded [OF assms] emit_keys_grow emit_keys_bound by blast

text \<open>A second round over the same keys, with whatever new identifiers, records nothing.\<close>

lemma emit_all_idempotent:
  assumes "distinct (map id_of es)" and "id_of ` set es \<inter> ids s = {}"
    and "key_of ` set es' \<subseteq> key_of ` set es"
  shows "emit_all create es' (fst (emit_all create es s)) = (fst (emit_all create es s), 0)"
  using emit_all_recorded [OF assms(1,2)] assms(3) by (intro all_known_skipped) auto

end

definition note_keys :: "database \<Rightarrow> (uuid \<times> event_key) set" where
  "note_keys db = note_key ` set (db_notifications db)"

definition note_ids :: "database \<Rightarrow> uuid set" where
  "note_ids db = nt_id ` set (db_notifications db)"

interpretation sink: event_sink CreateTx note_key nt_id note_keys note_ids
  by unfold_locales
    (auto simp: CreateTx_def taken_iff note_keys_def note_ids_def split: if_splits)

section \<open>Invariant and ownership\<close>

definition notifications_ok :: "database \<Rightarrow> bool" where
  "notifications_ok db \<longleftrightarrow>
     unique_on nt_id (db_notifications db) \<and> unique_on note_key (db_notifications db)"

lemma new_note_sel [simp]:
  "nt_id (new_note nid ck r k t rt ri) = nid"
  "note_key (new_note nid ck r k t rt ri) = (r, k)"
  "nt_recipient (new_note nid ck r k t rt ri) = r"
  "nt_key (new_note nid ck r k t rt ri) = k"
  "nt_read (new_note nid ck r k t rt ri) = None"
  by (simp_all add: new_note_def note_key_def)

lemma CreateTx_ok: "notifications_ok db \<Longrightarrow> notifications_ok (fst (CreateTx n db))"
  by (auto simp: CreateTx_def notifications_ok_def taken_iff unique_on_append)

lemma same_notifications: "\<exists>ns. db = db\<lparr>db_notifications := ns\<rparr>"
  by (rule exI [of _ "db_notifications db"]) simp

lemma CreateTx_frame: "\<exists>ns. fst (CreateTx n db) = db\<lparr>db_notifications := ns\<rparr>"
proof
  show "fst (CreateTx n db) =
      db\<lparr>db_notifications := db_notifications (fst (CreateTx n db))\<rparr>"
    by (simp add: CreateTx_def)
qed

lemma NotifyCompletion_cases:
  assumes "NotifyCompletionIfReachedTx nid ck u t a db = Inr db'"
  obtains "db' = db" | n where "db' = fst (CreateTx n db)"
  using assms by (auto simp: NotifyCompletionIfReachedTx_def split: option.splits if_splits)

lemma NotifyCompletion_frame:
  assumes "NotifyCompletionIfReachedTx nid ck u t a db = Inr db'"
  shows "\<exists>ns. db' = db\<lparr>db_notifications := ns\<rparr>"
  using assms
proof (cases rule: NotifyCompletion_cases)
  case 1
  with same_notifications [of db] show ?thesis by simp
next
  case (2 n)
  with CreateTx_frame [of n db] show ?thesis by simp
qed

lemma NotifyCompletion_ok:
  "NotifyCompletionIfReachedTx nid ck u t a db = Inr db' \<Longrightarrow> notifications_ok db \<Longrightarrow>
     notifications_ok db'"
  by (erule NotifyCompletion_cases) (auto intro: CreateTx_ok)

interpretation read_id: key_update nt_id "set_read ck"
  by unfold_locales (simp add: set_read_def)

interpretation read_owner: key_update "\<lambda>n. (nt_id n, nt_recipient n)" "set_read ck"
  by unfold_locales (simp add: set_read_def)

interpretation read_key: key_update note_key "set_read ck"
  by unfold_locales (simp add: set_read_def note_key_def)

lemma MarkRead_ok: "notifications_ok db \<Longrightarrow> notifications_ok (fst (MarkRead ck u i db))"
  by (simp add: MarkRead_def Let_def notifications_ok_def read_id.unique_update
      read_key.unique_update)

lemma MarkAllRead_ok: "notifications_ok db \<Longrightarrow> notifications_ok (MarkAllRead ck u db)"
  by (simp add: MarkAllRead_def notifications_ok_def read_id.unique_update
      read_key.unique_update)

section \<open>Properties\<close>

text \<open>
  The completion milestone fires at most once: whenever the recipient already has the
  milestone of this trainee and assignment, another recalculation leaves the database as it is.
\<close>

theorem NotifyCompletion_once:
  assumes "find_assignment a db = Some asn"
    and "(u, CompletionKey t a) \<in> note_keys db"
  shows "NotifyCompletionIfReachedTx nid ck u t a db = Inr db"
  using assms sink.known_skipped
  by (simp add: NotifyCompletionIfReachedTx_def)

theorem NotifyCompletion_once_witness:
  "NotifyCompletionIfReachedTx 91 \<lparr>ck_now = 5, ck_dbnow = 5\<rparr> 10 2 7
     (demo_db\<lparr>db_notifications := [new_note 90 \<lparr>ck_now = 1, ck_dbnow = 1\<rparr> 10
        (CompletionKey 2 7) [] [] None]\<rparr>) =
   Inr (demo_db\<lparr>db_notifications := [new_note 90 \<lparr>ck_now = 1, ck_dbnow = 1\<rparr> 10
        (CompletionKey 2 7) [] [] None]\<rparr>)"
  by (rule NotifyCompletion_once [where asn = demo_assignment])
    (simp_all add: demo_db_def demo_assignment_def find_assignment_def by_key_def
      note_keys_def)

text \<open>
  Marking a notification read succeeds exactly for a notification of the caller; it is then
  read, notifications of other users and the other notifications of the caller are untouched,
  and one that was already read keeps its first time.
\<close>

theorem MarkRead_effect:
  assumes "notifications_ok db"
  shows "(snd (MarkRead ck u i db) = Inr () \<longleftrightarrow>
       (\<exists>n\<in>set (db_notifications db). nt_id n = i \<and> nt_recipient n = u)) \<and>
    (\<forall>j. by_key nt_id j (db_notifications (fst (MarkRead ck u i db))) =
       map_option (\<lambda>n. if j = i \<and> nt_recipient n = u \<and> nt_read n = None then set_read ck n else n)
         (by_key nt_id j (db_notifications db)))"
proof -
  define p where "p = (\<lambda>n. nt_id n = i \<and> unread_of u n)"
  have own: "(\<exists>n\<in>set (update_where p (set_read ck) t). nt_id n = i \<and> nt_recipient n = u) \<longleftrightarrow>
      (\<exists>n\<in>set t. nt_id n = i \<and> nt_recipient n = u)" for t
    using read_owner.keys_update [of p ck t] by (auto simp: set_eq_iff image_iff) metis+
  have none: "rows_affected p t = 0 \<longleftrightarrow> (\<forall>n\<in>set t. \<not> p n)" for t
    by (auto simp: rows_affected_def filter_empty_conv)
  have "snd (MarkRead ck u i db) = Inr () \<longleftrightarrow>
      (\<exists>n\<in>set (db_notifications db). nt_id n = i \<and> nt_recipient n = u)"
    using none [of "db_notifications db"] own [of "db_notifications db"]
    by (auto simp: MarkRead_def Let_def list_ex_iff p_def [symmetric]) (auto simp: p_def unread_of_def)
  moreover have "by_key nt_id j (db_notifications (fst (MarkRead ck u i db))) =
      map_option (\<lambda>n. if j = i \<and> nt_recipient n = u \<and> nt_read n = None then set_read ck n else n)
        (by_key nt_id j (db_notifications db))" for j
    by (cases "by_key nt_id j (db_notifications db)")
      (auto simp: MarkRead_def Let_def read_id.find_update unread_of_def dest: by_key_mem)
  ultimately show ?thesis by blast
qed

theorem MarkRead_effect_witness:
  "snd (MarkRead \<lparr>ck_now = 5, ck_dbnow = 5\<rparr> 10 90 (demo_db\<lparr>db_notifications :=
     [new_note 90 \<lparr>ck_now = 1, ck_dbnow = 1\<rparr> 10 (CompletionKey 2 7) [] [] None]\<rparr>)) = Inr ()"
  by (subst MarkRead_effect [THEN conjunct1])
    (simp_all add: notifications_ok_def unique_on_def)

end
