(* ===== verification/Attendance.thy ===== *)
theory Attendance
  imports Evidence Notifications
begin

text \<open>
  \<open>internal/attendance/service.go\<close> and \<open>handlers.go\<close>: Time In and Time Out.

  Each of the two operations reads the database, stores the photo, and then runs one
  transaction; other requests may commit in between. The three points at which an operation
  meets the database are therefore separate arguments: \<open>db0\<close> for the reads before the
  transaction, \<open>db1\<close> for the transaction, and \<open>db2\<close>, a function of the database the
  transaction leaves, for the read after it. A request that runs alone has \<open>db0 = db1\<close> and
  \<open>db2 = id\<close>.
\<close>

section \<open>Inputs, outputs and context\<close>

record 'img service =
  sv_media :: "'img media"
  sv_tzdb :: tzdb
  sv_store :: store_env
  sv_max_bytes :: int

record evidence_input =
  in_client_action :: uuid
  in_photo :: bytes
  in_device_at :: "instant option"
  in_device_offset :: "int option"
  in_latitude :: "f64 option"
  in_longitude :: "f64 option"
  in_accuracy :: "f64 option"
  in_reason :: string

record attendance_view =
  av_id :: uuid
  av_date :: date
  av_status :: attendance_status
  av_time_in :: instant
  av_time_out :: "instant option"
  av_credited :: "int option"
  av_location :: location_status
  av_distance :: "f64 option"
  av_accuracy :: "f64 option"
  av_flags :: "string list"

record progress_view =
  pv_completed :: int
  pv_required :: int
  pv_remaining :: int
  pv_percent :: int

record time_out_result =
  to_attendance :: attendance_view
  to_progress :: progress_view
  to_journal :: "(uuid \<times> journal_status) option"

text \<open>The identifiers the database and the service draw for one operation.\<close>

record new_ids =
  id_session :: uuid
  id_evidence :: uuid
  id_journal :: uuid
  id_note :: uuid
  id_key1 :: string
  id_key2 :: string

record trainee_ctx =
  tc_trainee :: uuid
  tc_name :: string
  tc_student :: string
  tc_timezone :: string
  tc_low_accuracy :: f64
  tc_unusual :: int

definition traineeCtx :: "uuid \<Rightarrow> database \<Rightarrow> api_error + trainee_ctx" where
  "traineeCtx userID db =
     (case trainee_of_user userID db of
        None \<Rightarrow> Inl ErrForbidden
      | Some tp \<Rightarrow>
          (case find_user (tp_user tp) db of
             None \<Rightarrow> Inl ErrForbidden
           | Some u \<Rightarrow> Inr \<lparr>tc_trainee = tp_id tp, tc_name = us_display_name u,
               tc_student = tp_student_number tp, tc_timezone = st_timezone (db_settings db),
               tc_low_accuracy = Fin (of_int (st_low_accuracy (db_settings db))),
               tc_unusual = st_unusual_minutes (db_settings db)\<rparr>))"

record site_ctx =
  sx_assignment :: uuid
  sx_site :: uuid
  sx_name :: string
  sx_latitude :: real
  sx_longitude :: real
  sx_radius :: int
  sx_rule :: break_rule
  sx_required :: int

definition break_rule_of :: "assignment_row \<Rightarrow> break_rule" where
  "break_rule_of a = \<lparr>br_type = as_break_type a,
     br_threshold = (case as_break_threshold a of None \<Rightarrow> 0 | Some t \<Rightarrow> t),
     br_deduction = as_break_deduction a\<rparr>"

definition site_ctx_of :: "assignment_row \<Rightarrow> site_row \<Rightarrow> site_ctx" where
  "site_ctx_of a s = \<lparr>sx_assignment = as_id a, sx_site = si_id s, sx_name = si_name s,
     sx_latitude = si_latitude s, sx_longitude = si_longitude s, sx_radius = si_radius s,
     sx_rule = break_rule_of a, sx_required = as_required a\<rparr>"

definition in_effect :: "uuid \<Rightarrow> date \<Rightarrow> assignment_row \<Rightarrow> bool" where
  "in_effect traineeID today a =
     (as_trainee a = traineeID \<and> as_status a = AsActive \<and> as_start a \<le> today \<and>
      (case as_end a of None \<Rightarrow> True | Some e \<Rightarrow> today \<le> e))"

definition activeSite :: "trainee_ctx \<Rightarrow> date \<Rightarrow> database \<Rightarrow> site_ctx option" where
  "activeSite tc today db =
     (case order_desc as_start
            (filter (\<lambda>a. in_effect (tc_trainee tc) today a \<and> find_site (as_site a) db \<noteq> None)
               (db_assignments db)) of
        [] \<Rightarrow> None
      | a # _ \<Rightarrow> map_option (site_ctx_of a) (find_site (as_site a) db))"

definition siteForAssignment :: "uuid \<Rightarrow> database \<Rightarrow> go_error + site_ctx" where
  "siteForAssignment assignmentID db =
     (case find_assignment assignmentID db of
        None \<Rightarrow> Inl NoRows
      | Some a \<Rightarrow> (case find_site (as_site a) db of
          None \<Rightarrow> Inl NoRows | Some s \<Rightarrow> Inr (site_ctx_of a s)))"

definition locationFor ::
  "evidence_input \<Rightarrow> site_ctx \<Rightarrow> f64 \<Rightarrow> api_error + location_result" where
  "locationFor inp site lowAccM =
     (let res = EvaluateLocation
            \<lparr>li_latitude = in_latitude inp, li_longitude = in_longitude inp,
             li_accuracy = in_accuracy inp, li_reason = []\<rparr>
            (sx_latitude site) (sx_longitude site) (sx_radius site) lowAccM
      in if lr_status res = LocationUnavailable \<and> in_reason inp = []
         then Inl (Unprocessable ''LOCATION_REASON_REQUIRED'') else Inr res)"

definition flagsFor :: "location_status \<Rightarrow> string list" where
  "flagsFor st =
     (case st of LocationOutsideRadius \<Rightarrow> [''outside_radius'']
      | LocationLowAccuracy \<Rightarrow> [''low_accuracy'']
      | LocationUnavailable \<Rightarrow> [''unavailable_location'']
      | LocationVerified \<Rightarrow> [])"

definition wmCtx ::
  "trainee_ctx \<Rightarrow> site_ctx \<Rightarrow> evidence_action \<Rightarrow> instant \<Rightarrow> location_result \<Rightarrow> watermark_context"
where
  "wmCtx tc site action now loc =
     \<lparr>wm_trainee = tc_name tc, wm_student = tc_student tc,
      wm_action = (if action = ActTimeOut then ''Time Out'' else ''Time In''),
      wm_time = now, wm_timezone = tc_timezone tc, wm_site = sx_name site,
      wm_location = lr_status loc\<rparr>"

fun merge_into :: "string list \<Rightarrow> string list \<Rightarrow> string list" where
  "merge_into out [] = out"
| "merge_into out (f # fs) = merge_into (if f \<in> set out then out else out @ [f]) fs"

definition mergeFlags :: "string list \<Rightarrow> string list \<Rightarrow> string list" where
  "mergeFlags existing new = merge_into [] (existing @ new)"

definition nullStr :: "string \<Rightarrow> string option" where
  "nullStr s = (if s = [] then None else Some s)"

definition storageUnavailable :: api_error where
  "storageUnavailable = httpx_new 503 ''STORAGE_UNAVAILABLE''"

definition counted_status :: "attendance_status \<Rightarrow> bool" where
  "counted_status st = (st = AtValid \<or> st = AtFlagged \<or> st = AtCorrected)"

definition progress :: "uuid \<Rightarrow> int \<Rightarrow> database \<Rightarrow> progress_view" where
  "progress assignmentID requiredMin db =
     (let completed = credited_sum
            (filter (\<lambda>s. at_assignment s = assignmentID \<and> counted_status (at_status s))
               (db_attendance db))
      in \<lparr>pv_completed = completed, pv_required = requiredMin,
          pv_remaining = max (requiredMin - completed) 0,
          pv_percent = ProgressPercent completed requiredMin\<rparr>)"

section \<open>Replays\<close>

definition view_of :: "attendance_row \<Rightarrow> evidence_row \<Rightarrow> attendance_view" where
  "view_of s e =
     \<lparr>av_id = at_id s, av_date = at_date s, av_status = at_status s,
      av_time_in = at_effective_in s, av_time_out = at_effective_out s,
      av_credited = at_credited s, av_location = ev_location_status e,
      av_distance = ev_distance e, av_accuracy = ev_accuracy e, av_flags = at_flags s\<rparr>"

definition action_of :: "uuid \<Rightarrow> uuid \<Rightarrow> evidence_row \<Rightarrow> bool" where
  "action_of traineeID actionID e = (ev_trainee e = traineeID \<and> ev_client_action e = actionID)"

definition findReplay :: "uuid \<Rightarrow> uuid \<Rightarrow> database \<Rightarrow> attendance_view option" where
  "findReplay traineeID actionID db =
     (case List.find (action_of traineeID actionID) (db_evidence db) of
        None \<Rightarrow> None
      | Some e \<Rightarrow> map_option (\<lambda>s. view_of s e) (find_attendance (ev_attendance e) db))"

definition replayTimeOut :: "uuid \<Rightarrow> uuid \<Rightarrow> uuid \<Rightarrow> database \<Rightarrow> time_out_result option" where
  "replayTimeOut traineeID actionID attendanceID db =
     (case List.find (\<lambda>e. action_of traineeID actionID e \<and> ev_action e = ActTimeOut)
             (db_evidence db) of
        None \<Rightarrow> None
      | Some e \<Rightarrow>
          (case find_attendance (ev_attendance e) db of
             None \<Rightarrow> None
           | Some s \<Rightarrow>
               (case find_assignment (at_assignment s) db of
                  None \<Rightarrow> None
                | Some a \<Rightarrow>
                    if at_id s \<noteq> attendanceID then None
                    else Some \<lparr>to_attendance = view_of s e,
                      to_progress = progress (at_assignment s) (as_required a) db,
                      to_journal = map_option (\<lambda>j. (jo_id j, jo_status j))
                        (journal_of attendanceID db)\<rparr>)))"

section \<open>Time In\<close>

definition evidence_of ::
  "new_ids \<Rightarrow> uuid \<Rightarrow> trainee_ctx \<Rightarrow> evidence_action \<Rightarrow> instant \<Rightarrow> evidence_input \<Rightarrow>
   location_result \<Rightarrow> stored_evidence \<Rightarrow> evidence_row" where
  "evidence_of ids attendanceID tc action now inp loc ev =
     \<lparr>ev_id = id_evidence ids, ev_attendance = attendanceID, ev_trainee = tc_trainee tc,
      ev_action = action, ev_client_action = in_client_action inp, ev_server_at = now,
      ev_device_at = in_device_at inp, ev_device_offset = in_device_offset inp,
      ev_latitude = in_latitude inp, ev_longitude = in_longitude inp,
      ev_accuracy = in_accuracy inp, ev_distance = lr_distance loc, ev_radius = lr_radius loc,
      ev_location_status = lr_status loc, ev_exception_reason = nullStr (in_reason inp),
      ev_original_key = se_original_key ev, ev_watermarked_key = se_watermarked_key ev,
      ev_original_sha = se_original_sha ev, ev_watermarked_sha = se_watermarked_sha ev,
      ev_mime = se_mime ev, ev_size = se_size ev, ev_width = se_width ev,
      ev_height = se_height ev, ev_watermark_text = se_text ev\<rparr>"

definition session_of ::
  "new_ids \<Rightarrow> clock \<Rightarrow> trainee_ctx \<Rightarrow> site_ctx \<Rightarrow> date \<Rightarrow> string list \<Rightarrow> attendance_row" where
  "session_of ids ck tc site today flags =
     \<lparr>at_id = id_session ids, at_trainee = tc_trainee tc, at_assignment = sx_assignment site,
      at_date = today, at_original_in = ck_now ck, at_original_out = None,
      at_effective_in = ck_now ck, at_effective_out = None, at_credited = None,
      at_status = AtOpen, at_flags = flags, at_version = 1, at_closed = None,
      at_created = ck_dbnow ck\<rparr>"

definition TimeInTx ::
  "new_ids \<Rightarrow> clock \<Rightarrow> uuid \<Rightarrow> trainee_ctx \<Rightarrow> site_ctx \<Rightarrow> date \<Rightarrow> evidence_input \<Rightarrow>
   location_result \<Rightarrow> stored_evidence \<Rightarrow> database \<Rightarrow> go_error + database \<times> uuid" where
  "TimeInTx ids ck userID tc site today inp loc ev db =
     result_bind (insert_attendance (session_of ids ck tc site today (flagsFor (lr_status loc))) db)
       (\<lambda>db. result_bind
          (insert_evidence (evidence_of ids (id_session ids) tc ActTimeIn (ck_now ck) inp loc ev) db)
          (\<lambda>db. Inr (Record (Some userID) ''attendance.time_in'' ''attendance_session''
             (Some (id_session ids)) db, id_session ids)))"

definition time_in_view ::
  "uuid \<Rightarrow> date \<Rightarrow> instant \<Rightarrow> evidence_input \<Rightarrow> location_result \<Rightarrow> attendance_view" where
  "time_in_view i today now inp loc =
     \<lparr>av_id = i, av_date = today, av_status = AtOpen, av_time_in = now, av_time_out = None,
      av_credited = None, av_location = lr_status loc, av_distance = lr_distance loc,
      av_accuracy = in_accuracy inp, av_flags = flagsFor (lr_status loc)\<rparr>"

definition TimeIn_failed ::
  "trainee_ctx \<Rightarrow> evidence_input \<Rightarrow> go_error \<Rightarrow> database \<Rightarrow> api_error + attendance_view \<times> bool" where
  "TimeIn_failed tc inp e db =
     (if IsUniqueViolation e ''attendance_evidence_client_action_key'' then
        (case findReplay (tc_trainee tc) (in_client_action inp) db of
           Some prev \<Rightarrow> Inr (prev, True)
         | None \<Rightarrow> Inl Internal)
      else if IsUniqueViolation e ''attendance_sessions_trainee_date_key''
      then Inl (Conflict ''ATTENDANCE_ALREADY_EXISTS_TODAY'')
      else Inl Internal)"

definition TimeIn ::
  "'img service \<Rightarrow> clock \<Rightarrow> new_ids \<Rightarrow> bool \<Rightarrow> uuid \<Rightarrow> evidence_input \<Rightarrow>
   database \<Rightarrow> database \<Rightarrow> (database \<Rightarrow> database) \<Rightarrow> bucket \<Rightarrow>
   (database \<times> bucket) \<times> (api_error + attendance_view \<times> bool)" where
  "TimeIn sv ck ids commit_ok userID inp db0 db1 db2 b =
     (case traineeCtx userID db0 of
        Inl e \<Rightarrow> ((db1, b), Inl e)
      | Inr tc \<Rightarrow>
        let now = ck_now ck; today = MustLocalDate (sv_tzdb sv) now (tc_timezone tc) in
        case activeSite tc today db0 of
          None \<Rightarrow> ((db1, b), Inl (httpx_new 403 ''NO_ACTIVE_ASSIGNMENT''))
        | Some site \<Rightarrow>
        case findReplay (tc_trainee tc) (in_client_action inp) db0 of
          Some prev \<Rightarrow> ((db1, b), Inr (prev, True))
        | None \<Rightarrow>
        case locationFor inp site (tc_low_accuracy tc) of
          Inl e \<Rightarrow> ((db1, b), Inl e)
        | Inr loc \<Rightarrow>
        case StoreEvidence (sv_media sv) (sv_tzdb sv) (sv_store sv) (id_key1 ids) (id_key2 ids)
               (in_photo inp) (sv_max_bytes sv) (wmCtx tc site ActTimeIn now loc) b of
          (b', Inl e) \<Rightarrow> ((db1, b'), Inl (case e of Api ae \<Rightarrow> ae | _ \<Rightarrow> storageUnavailable))
        | (b', Inr ev) \<Rightarrow>
        case in_tx commit_ok (TimeInTx ids ck userID tc site today inp loc ev) db1 of
          (db', Inl e) \<Rightarrow> ((db', Cleanup (sv_store sv) ev b'), TimeIn_failed tc inp e (db2 db'))
        | (db', Inr i) \<Rightarrow> ((db', b'), Inr (time_in_view i today now inp loc, False)))"

section \<open>Time Out\<close>

definition draft_journal :: "uuid \<Rightarrow> clock \<Rightarrow> uuid \<Rightarrow> uuid \<Rightarrow> journal_row" where
  "draft_journal jid ck attendanceID traineeID =
     \<lparr>jo_id = jid, jo_attendance = attendanceID, jo_trainee = traineeID, jo_narrative = None,
      jo_status = JDraft, jo_submitted = None, jo_reviewed = None, jo_revisions = 0,
      jo_updated = ck_dbnow ck\<rparr>"

definition close_flags :: "trainee_ctx \<Rightarrow> int \<Rightarrow> string list \<Rightarrow> location_status \<Rightarrow> string list" where
  "close_flags tc elapsed curFlags st =
     (let newFlags = mergeFlags curFlags (flagsFor st)
      in if tc_unusual tc \<le> elapsed then mergeFlags newFlags [''unusual_duration''] else newFlags)"

definition close_session ::
  "instant \<Rightarrow> int \<Rightarrow> attendance_status \<Rightarrow> string list \<Rightarrow> attendance_row \<Rightarrow> attendance_row" where
  "close_session now credited st flags s =
     s\<lparr>at_original_out := Some now, at_effective_out := Some now, at_credited := Some credited,
       at_status := st, at_flags := flags, at_closed := Some now, at_version := at_version s + 1\<rparr>"

definition TimeOutTx ::
  "new_ids \<Rightarrow> clock \<Rightarrow> uuid \<Rightarrow> trainee_ctx \<Rightarrow> site_ctx \<Rightarrow> uuid \<Rightarrow> uuid \<Rightarrow> evidence_input \<Rightarrow>
   location_result \<Rightarrow> stored_evidence \<Rightarrow> database \<Rightarrow>
   go_error + database \<times> attendance_view \<times> uuid option" where
  "TimeOutTx ids ck userID tc site attendanceID assignmentID inp loc ev db =
     (case find_attendance attendanceID db of
        None \<Rightarrow> Inl NoRows
      | Some cur \<Rightarrow>
        if at_status cur \<noteq> AtOpen then Inl NotOpen
        else
          let now = ck_now ck;
              (elapsed, _, credited) = CreditedMinutes (at_effective_in cur) now (sx_rule site);
              newFlags = close_flags tc elapsed (at_flags cur) (lr_status loc);
              newStatus = (if newFlags \<noteq> [] then AtFlagged else AtValid)
          in result_bind
               (insert_evidence (evidence_of ids attendanceID tc ActTimeOut now inp loc ev) db)
             (\<lambda>db. result_bind
               (update_attendance attendanceID (close_session now credited newStatus newFlags) db)
             (\<lambda>db. result_bind
               (insert_journal (draft_journal (id_journal ids) ck attendanceID (tc_trainee tc)) db)
             (\<lambda>(db, jid).
               let journalID = (case jid of Some j \<Rightarrow> Some j
                     | None \<Rightarrow> map_option jo_id (journal_of attendanceID db))
               in result_bind
                    (NotifyCompletionIfReachedTx (id_note ids) ck userID (tc_trainee tc)
                       assignmentID db)
                  (\<lambda>db. Inr (Record (Some userID) ''attendance.time_out'' ''attendance_session''
                       (Some attendanceID) db,
                     \<lparr>av_id = attendanceID, av_date = at_date cur, av_status = newStatus,
                      av_time_in = at_effective_in cur, av_time_out = Some now,
                      av_credited = Some credited, av_location = lr_status loc,
                      av_distance = lr_distance loc, av_accuracy = in_accuracy inp,
                      av_flags = newFlags\<rparr>, journalID))))))"

definition TimeOut_failed ::
  "trainee_ctx \<Rightarrow> uuid \<Rightarrow> evidence_input \<Rightarrow> go_error \<Rightarrow> database \<Rightarrow>
   api_error + time_out_result \<times> bool" where
  "TimeOut_failed tc attendanceID inp e db =
     (if e = NotOpen then Inl (Conflict ''ATTENDANCE_NOT_OPEN'')
      else if IsUniqueViolation e ''attendance_evidence_client_action_key'' then
        (case replayTimeOut (tc_trainee tc) (in_client_action inp) attendanceID db of
           Some prev \<Rightarrow> Inr (prev, True)
         | None \<Rightarrow> Inl Internal)
      else Inl Internal)"

definition TimeOut ::
  "'img service \<Rightarrow> clock \<Rightarrow> new_ids \<Rightarrow> bool \<Rightarrow> uuid \<Rightarrow> uuid \<Rightarrow> evidence_input \<Rightarrow>
   database \<Rightarrow> database \<Rightarrow> (database \<Rightarrow> database) \<Rightarrow> bucket \<Rightarrow>
   (database \<times> bucket) \<times> (api_error + time_out_result \<times> bool)" where
  "TimeOut sv ck ids commit_ok userID attendanceID inp db0 db1 db2 b =
     (case traineeCtx userID db0 of
        Inl e \<Rightarrow> ((db1, b), Inl e)
      | Inr tc \<Rightarrow>
        case find_attendance attendanceID db0 of
          None \<Rightarrow> ((db1, b), Inl (httpx_new 404 ''ATTENDANCE_NOT_FOUND''))
        | Some att \<Rightarrow>
        if at_trainee att \<noteq> tc_trainee tc
        then ((db1, b), Inl (httpx_new 404 ''ATTENDANCE_NOT_FOUND''))
        else
        case replayTimeOut (tc_trainee tc) (in_client_action inp) attendanceID db0 of
          Some prev \<Rightarrow> ((db1, b), Inr (prev, True))
        | None \<Rightarrow>
        if at_status att \<noteq> AtOpen then ((db1, b), Inl (Conflict ''ATTENDANCE_NOT_OPEN''))
        else
        case siteForAssignment (at_assignment att) db0 of
          Inl e \<Rightarrow> ((db1, b), Inl Internal)
        | Inr site \<Rightarrow>
        case locationFor inp site (tc_low_accuracy tc) of
          Inl e \<Rightarrow> ((db1, b), Inl e)
        | Inr loc \<Rightarrow>
        case StoreEvidence (sv_media sv) (sv_tzdb sv) (sv_store sv) (id_key1 ids) (id_key2 ids)
               (in_photo inp) (sv_max_bytes sv) (wmCtx tc site ActTimeOut (ck_now ck) loc) b of
          (b', Inl e) \<Rightarrow> ((db1, b'), Inl (case e of Api ae \<Rightarrow> ae | _ \<Rightarrow> storageUnavailable))
        | (b', Inr ev) \<Rightarrow>
        case in_tx commit_ok
               (TimeOutTx ids ck userID tc site attendanceID (at_assignment att) inp loc ev) db1 of
          (db', Inl e) \<Rightarrow>
            ((db', Cleanup (sv_store sv) ev b'), TimeOut_failed tc attendanceID inp e (db2 db'))
        | (db', Inr (view, journalID)) \<Rightarrow>
            ((db', b'), Inr (\<lparr>to_attendance = view,
               to_progress = progress (at_assignment att) (sx_required site) (db2 db'),
               to_journal = map_option (\<lambda>j. (j, JDraft)) journalID\<rparr>, False)))"

section \<open>Handlers\<close>

text \<open>
  The multipart form after its fields have been read: \<open>None\<close> for an identifier that is no UUID
  and for a photo that is absent or cannot be read; the numeric fields as \<open>parseEvidenceForm\<close>
  leaves them, malformed ones being absent. A photo is cut at 64 MB.
\<close>

record evidence_form =
  fm_client_action :: "uuid option"
  fm_photo_present :: bool
  fm_photo :: "bytes option"
  fm_device_at :: "instant option"
  fm_device_offset :: "int option"
  fm_latitude :: "f64 option"
  fm_longitude :: "f64 option"
  fm_accuracy :: "f64 option"
  fm_reason :: string

definition parseEvidenceForm :: "evidence_form \<Rightarrow> api_error + evidence_input" where
  "parseEvidenceForm f =
     (case fm_client_action f of
        None \<Rightarrow> Inl (Validation [''client_action_id''])
      | Some ca \<Rightarrow>
          if \<not> fm_photo_present f then Inl (Validation [''photo''])
          else case fm_photo f of
              None \<Rightarrow> Inl (httpx_new 415 ''INVALID_IMAGE'')
            | Some raw \<Rightarrow> Inr \<lparr>in_client_action = ca, in_photo = take 67108864 raw,
                in_device_at = fm_device_at f, in_device_offset = fm_device_offset f,
                in_latitude = fm_latitude f, in_longitude = fm_longitude f,
                in_accuracy = fm_accuracy f, in_reason = fm_reason f\<rparr>)"

text \<open>The status of the answer: 201 for a new session, 200 for a replay and for every Time Out.\<close>

definition handle_TimeIn ::
  "'img service \<Rightarrow> clock \<Rightarrow> new_ids \<Rightarrow> bool \<Rightarrow> uuid \<Rightarrow> evidence_form \<Rightarrow>
   database \<Rightarrow> database \<Rightarrow> (database \<Rightarrow> database) \<Rightarrow> bucket \<Rightarrow>
   (database \<times> bucket) \<times> (api_error + int \<times> attendance_view)" where
  "handle_TimeIn sv ck ids commit_ok actor form db0 db1 db2 b =
     (case parseEvidenceForm form of
        Inl e \<Rightarrow> ((db1, b), Inl e)
      | Inr inp \<Rightarrow>
          (case TimeIn sv ck ids commit_ok actor inp db0 db1 db2 b of
             (st, Inl e) \<Rightarrow> (st, Inl e)
           | (st, Inr (v, replayed)) \<Rightarrow> (st, Inr (if replayed then 200 else 201, v))))"

definition handle_TimeOut ::
  "'img service \<Rightarrow> clock \<Rightarrow> new_ids \<Rightarrow> bool \<Rightarrow> uuid \<Rightarrow> uuid option \<Rightarrow> evidence_form \<Rightarrow>
   database \<Rightarrow> database \<Rightarrow> (database \<Rightarrow> database) \<Rightarrow> bucket \<Rightarrow>
   (database \<times> bucket) \<times> (api_error + int \<times> time_out_result)" where
  "handle_TimeOut sv ck ids commit_ok actor param form db0 db1 db2 b =
     (case param of
        None \<Rightarrow> ((db1, b), Inl (httpx_new 404 ''ATTENDANCE_NOT_FOUND''))
      | Some i \<Rightarrow>
          (case parseEvidenceForm form of
             Inl e \<Rightarrow> ((db1, b), Inl e)
           | Inr inp \<Rightarrow>
               (case TimeOut sv ck ids commit_ok actor i inp db0 db1 db2 b of
                  (st, Inl e) \<Rightarrow> (st, Inl e)
                | (st, Inr (r, _)) \<Rightarrow> (st, Inr (200, r)))))"

end
