(* ===== verification/Access.thy ===== *)
theory Access
  imports Examples
begin

text \<open>
  \<open>internal/auth\<close>: server-side sessions, the CSRF secret, the middleware that turns a cookie
  into an actor, role guards, and the coordinator scope. SHA-256 (\<open>sha256Hex\<close>) and the password
  functions, which rest on Argon2, are parameters; so are the random tokens, as arguments.
\<close>

section \<open>Principals and scope\<close>

record auth_user =
  ac_id :: uuid
  ac_email :: string
  ac_role :: role
  ac_status :: account_status
  ac_name :: string

definition auth_user_of :: "user_row \<Rightarrow> auth_user" where
  "auth_user_of u = \<lparr>ac_id = us_id u, ac_email = us_email u, ac_role = us_role u,
     ac_status = us_status u, ac_name = us_display_name u\<rparr>"

definition IsStaff :: "auth_user \<Rightarrow> bool" where
  "IsStaff u = (ac_role u = RCoordinator \<or> ac_role u = RAdmin)"

definition CanAccessTrainee :: "auth_user \<Rightarrow> uuid \<Rightarrow> database \<Rightarrow> bool" where
  "CanAccessTrainee staff traineeID db =
     (if ac_role staff = RAdmin then True
      else if ac_role staff \<noteq> RCoordinator then False
      else list_ex (\<lambda>s. sc_coordinator s = ac_id staff \<and> sc_trainee s = traineeID) (db_scopes db))"

text \<open>\<open>None\<close> is Go's nil slice: no filter. The empty list matches nothing.\<close>

definition ScopedTraineeIDs :: "auth_user \<Rightarrow> database \<Rightarrow> uuid list option" where
  "ScopedTraineeIDs staff db =
     (if ac_role staff = RAdmin then None
      else if ac_role staff \<noteq> RCoordinator then Some []
      else Some (map sc_trainee (filter (\<lambda>s. sc_coordinator s = ac_id staff) (db_scopes db))))"

text \<open>The filter of the list queries: \<open>$1::uuid[] IS NULL OR trainee_id = ANY($1)\<close>.\<close>

definition in_scope :: "uuid list option \<Rightarrow> uuid \<Rightarrow> bool" where
  "in_scope scope t = (case scope of None \<Rightarrow> True | Some ids \<Rightarrow> t \<in> set ids)"

text \<open>
  The contract the staff endpoints rest on: the check of a single trainee and the filter of a
  list grant the same access. A list made through the filter then shows exactly the rows that
  the single checks would let through.
\<close>

locale scope_policy =
  fixes may_access :: "'u \<Rightarrow> uuid \<Rightarrow> 's \<Rightarrow> bool"
    and scope_of :: "'u \<Rightarrow> 's \<Rightarrow> uuid list option"
  assumes agree: "in_scope (scope_of u s) t \<longleftrightarrow> may_access u t s"
begin

lemma filter_agrees:
  "filter (\<lambda>r. in_scope (scope_of u s) (owner r) \<and> q r) rows =
     filter (\<lambda>r. may_access u (owner r) s \<and> q r) rows"
  by (simp add: agree)

lemma no_leak:
  "r \<in> set (filter (\<lambda>r. in_scope (scope_of u s) (owner r) \<and> q r) rows) \<Longrightarrow>
     may_access u (owner r) s"
  by (simp add: agree)

end

lemma scope_agrees:
  "in_scope (ScopedTraineeIDs u db) t \<longleftrightarrow> CanAccessTrainee u t db"
  by (auto simp: in_scope_def ScopedTraineeIDs_def CanAccessTrainee_def list_ex_iff)

interpretation scope: scope_policy CanAccessTrainee ScopedTraineeIDs
  by unfold_locales (rule scope_agrees)

text \<open>
  C20. The single-trainee check and the list filter are the same policy: an administrator
  reaches every trainee, a coordinator exactly the trainees of the scope table, anyone else
  none.
\<close>

theorem scope_policy_characterised:
  "(in_scope (ScopedTraineeIDs u db) t \<longleftrightarrow> CanAccessTrainee u t db) \<and>
   (CanAccessTrainee u t db \<longleftrightarrow> ac_role u = RAdmin \<or>
      (ac_role u = RCoordinator \<and>
       (\<exists>s\<in>set (db_scopes db). sc_coordinator s = ac_id u \<and> sc_trainee s = t)))"
  using scope.agree by (auto simp: CanAccessTrainee_def list_ex_iff)

section \<open>Sessions\<close>

text \<open>\<open>Create\<close>: the new row's identifier and the two random tokens are arguments.\<close>

definition Create_session ::
  "(string \<Rightarrow> string) \<Rightarrow> clock \<Rightarrow> int \<Rightarrow> uuid \<Rightarrow> uuid \<Rightarrow> string \<Rightarrow> string \<Rightarrow> database \<Rightarrow>
   go_error + database" where
  "Create_session sha ck ttl sid userID token csrf db =
     (let r = \<lparr>ss_id = sid, ss_user = userID, ss_token_hash = sha token,
            ss_csrf_hash = Some (sha csrf), ss_expires = ck_now ck + ttl, ss_revoked = None,
            ss_last_seen = None\<rparr>
      in insert_row
           [(taken ss_id r (db_sessions db), UniqueViolation ''user_sessions_pkey''),
            (taken ss_token_hash r (db_sessions db),
             UniqueViolation ''user_sessions_token_hash_key'')]
           (db\<lparr>db_sessions := db_sessions db @ [r]\<rparr>))"

definition live :: "instant \<Rightarrow> session_row \<Rightarrow> bool" where
  "live now s = (ss_revoked s = None \<and> now < ss_expires s)"

text \<open>\<open>Resolve\<close>: \<open>None\<close> stands for \<open>ErrSessionInvalid\<close>.\<close>

definition Resolve ::
  "(string \<Rightarrow> string) \<Rightarrow> clock \<Rightarrow> string \<Rightarrow> database \<Rightarrow> database \<times> (session_row \<times> auth_user) option"
where
  "Resolve sha ck token db =
     (case List.find (\<lambda>s. ss_token_hash s = sha token \<and> live (ck_dbnow ck) s \<and>
              find_user (ss_user s) db \<noteq> None) (db_sessions db) of
        None \<Rightarrow> (db, None)
      | Some s \<Rightarrow>
          (case find_user (ss_user s) db of
             None \<Rightarrow> (db, None)
           | Some u \<Rightarrow>
               if us_status u \<noteq> AccActive then (db, None)
               else (db\<lparr>db_sessions := set_by_key ss_id (ss_id s)
                        (\<lambda>s. s\<lparr>ss_last_seen := Some (ck_dbnow ck)\<rparr>) (db_sessions db)\<rparr>,
                     Some (s, auth_user_of u))))"

definition revoke :: "clock \<Rightarrow> session_row \<Rightarrow> session_row" where
  "revoke ck s = s\<lparr>ss_revoked := Some (ck_dbnow ck)\<rparr>"

definition Revoke :: "(string \<Rightarrow> string) \<Rightarrow> clock \<Rightarrow> string \<Rightarrow> database \<Rightarrow> database" where
  "Revoke sha ck token db = db\<lparr>db_sessions :=
     update_where (\<lambda>s. ss_token_hash s = sha token \<and> ss_revoked s = None) (revoke ck)
       (db_sessions db)\<rparr>"

definition RevokeAllForUser :: "clock \<Rightarrow> uuid \<Rightarrow> database \<Rightarrow> database" where
  "RevokeAllForUser ck userID db = db\<lparr>db_sessions :=
     update_where (\<lambda>s. ss_user s = userID \<and> ss_revoked s = None) (revoke ck) (db_sessions db)\<rparr>"

definition RotateCSRF :: "(string \<Rightarrow> string) \<Rightarrow> uuid \<Rightarrow> string \<Rightarrow> database \<Rightarrow> database" where
  "RotateCSRF sha sessionID token db = db\<lparr>db_sessions :=
     set_by_key ss_id sessionID (\<lambda>s. s\<lparr>ss_csrf_hash := Some (sha token)\<rparr>) (db_sessions db)\<rparr>"

text \<open>The stored hash is compared with the hash of the presented token; an empty one never fits.\<close>

definition ValidCSRF :: "(string \<Rightarrow> string) \<Rightarrow> session_row option \<Rightarrow> string \<Rightarrow> bool" where
  "ValidCSRF sha sess presented =
     (case sess of
        None \<Rightarrow> False
      | Some s \<Rightarrow>
          let h = (case ss_csrf_hash s of None \<Rightarrow> [] | Some h \<Rightarrow> h)
          in if presented = [] \<or> h = [] then False else sha presented = h)"

section \<open>Middleware\<close>

definition RequireAuth ::
  "(string \<Rightarrow> string) \<Rightarrow> clock \<Rightarrow> string \<Rightarrow> database \<Rightarrow>
   database \<times> (api_error + session_row \<times> auth_user)" where
  "RequireAuth sha ck cookie db =
     (if cookie = [] then (db, Inl ErrUnauthorized)
      else case Resolve sha ck cookie db of
          (db', None) \<Rightarrow> (db', Inl ErrUnauthorized)
        | (db', Some (s, u)) \<Rightarrow> (db', Inr (s, u)))"

datatype http_method = GET | HEAD | OPTIONS | POST | PUT | PATCH | DELETE

definition CSRFProtect ::
  "(string \<Rightarrow> string) \<Rightarrow> string list \<Rightarrow> http_method \<Rightarrow> string \<Rightarrow> session_row option \<Rightarrow> string \<Rightarrow>
   api_error option" where
  "CSRFProtect sha allowed meth origin sess presented =
     (if meth = GET \<or> meth = HEAD \<or> meth = OPTIONS then None
      else if origin \<noteq> [] \<and> origin \<notin> set allowed then Some ErrCSRF
      else if \<not> ValidCSRF sha sess presented then Some ErrCSRF
      else None)"

definition RequireRole :: "role list \<Rightarrow> auth_user option \<Rightarrow> api_error option" where
  "RequireRole roles actor =
     (case actor of
        None \<Rightarrow> Some ErrUnauthorized
      | Some u \<Rightarrow> if ac_role u \<notin> set roles then Some ErrForbidden else None)"

section \<open>Login, logout and the own account\<close>

record password_env =
  pw_verify :: "string \<Rightarrow> string \<Rightarrow> (bool \<times> bool) option"
  pw_hash :: "string \<Rightarrow> string option"

definition ErrInvalidCredentials :: api_error where
  "ErrInvalidCredentials = httpx_new 401 ''INVALID_CREDENTIALS''"

definition ErrAccountInactive :: api_error where
  "ErrAccountInactive = httpx_new 403 ''ACCOUNT_INACTIVE''"

definition set_user :: "uuid \<Rightarrow> (user_row \<Rightarrow> user_row) \<Rightarrow> database \<Rightarrow> database" where
  "set_user i f db = db\<lparr>db_users := set_by_key us_id i f (db_users db)\<rparr>"

definition user_by_email :: "string \<Rightarrow> database \<Rightarrow> user_row option" where
  "user_by_email email db = List.find (\<lambda>u. to_lower (us_email u) = to_lower email) (db_users db)"

definition Login ::
  "(string \<Rightarrow> string) \<Rightarrow> password_env \<Rightarrow> clock \<Rightarrow> int \<Rightarrow> uuid \<Rightarrow> string \<Rightarrow> string \<Rightarrow>
   string \<Rightarrow> string \<Rightarrow> database \<Rightarrow> database \<times> (api_error + auth_user \<times> instant)" where
  "Login sha pw ck ttl sid token csrf email password db =
     (case user_by_email email db of
        None \<Rightarrow> (db, Inl ErrInvalidCredentials)
      | Some u \<Rightarrow>
          (case pw_verify pw password (us_password_hash u) of
             None \<Rightarrow> (db, Inl ErrInvalidCredentials)
           | Some (ok, needsRehash) \<Rightarrow>
               if \<not> ok then (db, Inl ErrInvalidCredentials)
               else if us_status u \<noteq> AccActive then (db, Inl ErrAccountInactive)
               else
                 let db1 = (if needsRehash
                       then (case pw_hash pw password of
                           Some h \<Rightarrow> set_user (us_id u) (\<lambda>u. u\<lparr>us_password_hash := h\<rparr>) db
                         | None \<Rightarrow> db)
                       else db)
                 in case Create_session sha ck ttl sid (us_id u) token csrf db1 of
                      Inl e \<Rightarrow> (db1, Inl Internal)
                    | Inr db2 \<Rightarrow>
                        (set_user (us_id u) (\<lambda>u. u\<lparr>us_last_login := Some (ck_dbnow ck)\<rparr>) db2,
                         Inr (auth_user_of u, ck_now ck + ttl))))"

text \<open>\<open>handlers.go\<close>: the body, \<open>None\<close> when it is no JSON; every failed login is audited.\<close>

definition handle_Login ::
  "(string \<Rightarrow> string) \<Rightarrow> password_env \<Rightarrow> clock \<Rightarrow> int \<Rightarrow> uuid \<Rightarrow> string \<Rightarrow> string \<Rightarrow>
   (string \<times> string) option \<Rightarrow> database \<Rightarrow> database \<times> (api_error + auth_user \<times> instant)" where
  "handle_Login sha pw ck ttl sid token csrf body db =
     (case body of
        None \<Rightarrow> (db, Inl ValidationMsg)
      | Some (email, password) \<Rightarrow>
          let email = trim_space email in
          if email = [] \<or> password = [] then (db, Inl (Validation [''email'', ''password'']))
          else case Login sha pw ck ttl sid token csrf email password db of
              (db', Inl e) \<Rightarrow> (Record None ''auth.login_failed'' ''user'' None db', Inl e)
            | (db', Inr (u, ex)) \<Rightarrow>
                (Record (Some (ac_id u)) ''auth.login'' ''user'' (Some (ac_id u)) db', Inr (u, ex)))"

definition Logout :: "(string \<Rightarrow> string) \<Rightarrow> clock \<Rightarrow> string \<Rightarrow> database \<Rightarrow> database" where
  "Logout sha ck token db = (if token = [] then db else Revoke sha ck token db)"

definition UpdateProfile ::
  "auth_user option \<Rightarrow> string \<Rightarrow> string \<Rightarrow> database \<Rightarrow> database \<times> (api_error + auth_user)" where
  "UpdateProfile actor email displayName db =
     (case actor of
        None \<Rightarrow> (db, Inl ErrUnauthorized)
      | Some u \<Rightarrow>
          let email = to_lower (trim_space email);
              displayName = trim_space displayName;
              email = (if ac_role u = RTrainee then ac_email u else email);
              fs = (if email = [] \<or> CHR ''@'' \<notin> set email then [''email''] else []) @
                   (if displayName = [] then [''display_name''] else [])
          in if fs \<noteq> [] then (db, Inl (Validation fs))
             else if list_ex (\<lambda>q. us_id q \<noteq> ac_id u \<and> to_lower (us_email q) = to_lower email) (db_users db) \<and>
                     find_user (ac_id u) db \<noteq> None
             then (db, Inl (Validation [''email'']))
             else
               let db' = set_user (ac_id u)
                     (\<lambda>r. r\<lparr>us_email := email, us_display_name := displayName\<rparr>) db
               in case find_user (ac_id u) db' of
                    None \<Rightarrow> (db, Inl Internal)
                  | Some r \<Rightarrow> (db', Inr (auth_user_of r)))"

definition ChangePassword ::
  "password_env \<Rightarrow> auth_user option \<Rightarrow> string \<Rightarrow> string \<Rightarrow> database \<Rightarrow>
   database \<times> (api_error + unit)" where
  "ChangePassword pw actor current new db =
     (case actor of
        None \<Rightarrow> (db, Inl ErrUnauthorized)
      | Some u \<Rightarrow>
          let fs = (if current = [] then [''current_password''] else []) @
                   (if length new < 8 then [''new_password''] else [])
          in if fs \<noteq> [] then (db, Inl (Validation fs))
             else case find_user (ac_id u) db of
                 None \<Rightarrow> (db, Inl ErrUnauthorized)
               | Some r \<Rightarrow>
                   (case pw_verify pw current (us_password_hash r) of
                      Some (True, _) \<Rightarrow>
                        (case pw_hash pw new of
                           None \<Rightarrow> (db, Inl Internal)
                         | Some h \<Rightarrow>
                             (set_user (ac_id u) (\<lambda>r. r\<lparr>us_password_hash := h\<rparr>) db, Inr ()))
                    | _ \<Rightarrow> (db, Inl (Validation [''current_password'']))))"

section \<open>Handlers of the own account\<close>

text \<open>
  \<open>TokenOf\<close> is the token \<open>RequireAuth\<close> stored, empty without one; the cookie stands in for it. The
  cookie itself is cleared in every case.
\<close>

definition handle_Logout ::
  "(string \<Rightarrow> string) \<Rightarrow> clock \<Rightarrow> auth_user option \<Rightarrow> string \<Rightarrow> string \<Rightarrow> database \<Rightarrow> database" where
  "handle_Logout sha ck actor tokenOf cookie db =
     (let token = (if tokenOf = [] then cookie else tokenOf);
          db' = Logout sha ck token db
      in case actor of
           None \<Rightarrow> db'
         | Some u \<Rightarrow> Record (Some (ac_id u)) ''auth.logout'' ''user'' (Some (ac_id u)) db')"

record user_dto =
  dto_id :: uuid
  dto_display_name :: string
  dto_role :: role
  dto_email :: string

definition toUserDTO :: "auth_user \<Rightarrow> user_dto" where
  "toUserDTO u = \<lparr>dto_id = ac_id u, dto_display_name = ac_name u, dto_role = ac_role u,
     dto_email = ac_email u\<rparr>"

definition handle_Me :: "auth_user option \<Rightarrow> api_error + user_dto" where
  "handle_Me actor = (case actor of None \<Rightarrow> Inl ErrUnauthorized | Some u \<Rightarrow> Inr (toUserDTO u))"

definition handle_UpdateMe ::
  "auth_user option \<Rightarrow> (string \<times> string) option \<Rightarrow> database \<Rightarrow> database \<times> (api_error + user_dto)"
where
  "handle_UpdateMe actor body db =
     (case body of
        None \<Rightarrow> (db, Inl ValidationMsg)
      | Some (email, name) \<Rightarrow>
          (case UpdateProfile actor email name db of
             (db', Inl e) \<Rightarrow> (db', Inl e)
           | (db', Inr u) \<Rightarrow>
               (Record (Some (ac_id u)) ''auth.profile_updated'' ''user'' (Some (ac_id u)) db',
                Inr (toUserDTO u))))"

definition handle_CSRFToken ::
  "(string \<Rightarrow> string) \<Rightarrow> session_row option \<Rightarrow> string \<Rightarrow> database \<Rightarrow> database \<times> (api_error + string)"
where
  "handle_CSRFToken sha sess token db =
     (case sess of
        None \<Rightarrow> (db, Inl ErrUnauthorized)
      | Some s \<Rightarrow> (RotateCSRF sha (ss_id s) token db, Inr token))"

definition handle_ChangePassword ::
  "password_env \<Rightarrow> auth_user option \<Rightarrow> (string \<times> string) option \<Rightarrow> database \<Rightarrow>
   database \<times> (api_error + unit)" where
  "handle_ChangePassword pw actor body db =
     (case body of
        None \<Rightarrow> (db, Inl ValidationMsg)
      | Some (current, new) \<Rightarrow>
          (case ChangePassword pw actor current new db of
             (db', Inl e) \<Rightarrow> (db', Inl e)
           | (db', Inr _) \<Rightarrow>
               (case actor of
                  None \<Rightarrow> (db', Inl ErrUnauthorized)
                | Some u \<Rightarrow> (Record (Some (ac_id u)) ''auth.password_changed'' ''user''
                    (Some (ac_id u)) db', Inr ()))))"

section \<open>Address masking\<close>

text \<open>
  An address is its bytes, 4 or 16 of them; \<open>To4\<close> unwraps an IPv4 address in either form.
\<close>

definition To4 :: "nat list \<Rightarrow> nat list option" where
  "To4 ip =
     (if length ip = 4 then Some ip
      else if length ip = 16 \<and> take 12 ip = replicate 10 0 @ [255, 255] then Some (drop 12 ip)
      else None)"

definition maskIP :: "nat list \<Rightarrow> nat list" where
  "maskIP ip =
     (case To4 ip of
        Some v4 \<Rightarrow> v4[3 := 0]
      | None \<Rightarrow> take 6 ip @ replicate 10 0)"

text \<open>The masked address keeps 24 bits of an IPv4 and 48 bits of an IPv6 address, no more.\<close>

lemma maskIP_forgets:
  assumes "length ip \<in> {4, 16}" and "length ip' = length ip"
    and "To4 ip = None \<longleftrightarrow> To4 ip' = None"
    and "case To4 ip of None \<Rightarrow> take 6 ip = take 6 ip'
       | Some v \<Rightarrow> \<exists>v'. To4 ip' = Some v' \<and> take 3 v = take 3 v'"
  shows "maskIP ip = maskIP ip'"
proof (cases "To4 ip")
  case None
  then show ?thesis using assms(3,4) by (simp add: maskIP_def)
next
  case (Some v)
  then obtain v' where v': "To4 ip' = Some v'" "take 3 v = take 3 v'" using assms(4) by auto
  have "length v = 4" "length v' = 4" using Some v'(1) by (auto simp: To4_def split: if_splits)
  then have "v[3 := 0] = take 3 v @ [0]" "v'[3 := 0] = take 3 v' @ [0]"
    by (simp_all add: list_update_append1 upd_conv_take_nth_drop)
  then show ?thesis using Some v' by (simp add: maskIP_def)
qed

end
