(* ===== verification/Search.thy ===== *)
theory Search
  imports Prelude
begin

text \<open>
  PostgreSQL's \<open>ILIKE '%'||q||'%'\<close>, the search of the list queries. The search term reaches the
  pattern unescaped, so its percent and underscore signs are wildcards and a backslash quotes
  the next character. \<open>is_cont\<close> tells the continuation bytes of UTF-8: an underscore stands for
  one character, not one byte. Case is folded on ASCII letters.
\<close>

definition is_cont :: "char \<Rightarrow> bool" where
  "is_cont c = (128 \<le> (of_char c :: nat) \<and> (of_char c :: nat) < 192)"

function like :: "string \<Rightarrow> string \<Rightarrow> bool" where
  "like [] s = (s = [])"
| "like (c # ps) s =
     (if c = CHR ''%'' then like ps s \<or> (case s of [] \<Rightarrow> False | _ # s' \<Rightarrow> like (c # ps) s')
      else if c = CHR ''_'' then (case s of [] \<Rightarrow> False | _ # s' \<Rightarrow> like ps (dropWhile is_cont s'))
      else if c = CHR 0x5C then
        (case ps of [] \<Rightarrow> False
         | d # ps' \<Rightarrow> (case s of [] \<Rightarrow> False | e # s' \<Rightarrow> e = d \<and> like ps' s'))
      else (case s of [] \<Rightarrow> False | e # s' \<Rightarrow> e = c \<and> like ps s'))"
  by pat_completeness auto
termination
  by (relation "measure (\<lambda>(ps, s). length ps + length s)")
    (auto simp: less_Suc_eq_le intro: le_trans [OF length_dropWhile_le])

declare like.simps(2) [simp del]

definition ilike :: "string \<Rightarrow> string \<Rightarrow> bool" where
  "ilike s q = like (to_lower (''%'' @ q @ ''%'')) (to_lower s)"

text \<open>An absent or blank term matches everything; any other must occur in one of the columns.\<close>

definition search_any :: "string \<Rightarrow> string list \<Rightarrow> bool" where
  "search_any q columns =
     (let q = trim_space q in q = [] \<or> list_ex (\<lambda>s. ilike s q) columns)"

definition plain :: "string \<Rightarrow> bool" where
  "plain q = (CHR ''%'' \<notin> set q \<and> CHR ''_'' \<notin> set q \<and> CHR 0x5C \<notin> set q)"

lemma like_percent: "like (CHR ''%'' # ps) s \<longleftrightarrow> (\<exists>a b. s = a @ b \<and> like ps b)"
proof (induction s)
  case Nil
  then show ?case by (simp add: like.simps(2))
next
  case (Cons c s)
  show ?case
  proof
    assume "like (CHR ''%'' # ps) (c # s)"
    then consider "like ps (c # s)" | "like (CHR ''%'' # ps) s" by (auto simp: like.simps(2))
    then show "\<exists>a b. c # s = a @ b \<and> like ps b"
    proof cases
      case 1
      then have "c # s = [] @ (c # s) \<and> like ps (c # s)" by simp
      then show ?thesis by blast
    next
      case 2
      then obtain a b where "s = a @ b" "like ps b" using Cons.IH by blast
      then have "c # s = (c # a) @ b \<and> like ps b" by simp
      then show ?thesis by blast
    qed
  next
    assume "\<exists>a b. c # s = a @ b \<and> like ps b"
    then show "like (CHR ''%'' # ps) (c # s)"
      using Cons.IH by (auto simp: like.simps(2) Cons_eq_append_conv)
  qed
qed

lemma like_percent_end: "like ''%'' s"
  by (auto simp: like_percent)

lemma like_plain:
  "plain q \<Longrightarrow> like (q @ ps) s \<longleftrightarrow> (\<exists>b. s = q @ b \<and> like ps b)"
proof (induction q arbitrary: s)
  case (Cons c q)
  then have "plain q" "c \<noteq> CHR ''%''" "c \<noteq> CHR ''_''" "c \<noteq> CHR 0x5C"
    by (auto simp: plain_def)
  then show ?case using Cons.IH by (cases s) (auto simp: like.simps(2))
qed simp

lemma of_lower_char:
  "(of_char (lower_char c) :: nat) =
     (let n = of_char c in if 65 \<le> n \<and> n \<le> 90 then n + 32 else n)"
  by (simp add: lower_char_def Let_def)

lemma lower_char_fixed:
  assumes "lower_char c = d"
    and "(of_char d :: nat) < 65 \<or> 90 < (of_char d :: nat) \<and> (of_char d :: nat) < 97"
  shows "c = d"
proof -
  have "(of_char c :: nat) = of_char d"
    using of_lower_char [of c] assms by (simp add: Let_def split: if_splits)
  then show ?thesis by simp
qed

lemma plain_to_lower:
  assumes "plain q" shows "plain (to_lower q)"
proof -
  have "lower_char c \<noteq> d" if "c \<in> set q" "d \<in> {CHR ''%'', CHR ''_'', CHR 0x5C}" for c d
  proof
    assume l: "lower_char c = d"
    have "(of_char d :: nat) < 65 \<or> 90 < (of_char d :: nat) \<and> (of_char d :: nat) < 97"
      using that(2) by auto
    from lower_char_fixed [OF l this] that assms show False by (auto simp: plain_def)
  qed
  then have "d \<notin> lower_char ` set q" if "d \<in> {CHR ''%'', CHR ''_'', CHR 0x5C}" for d
    using that by (metis imageE)
  then show ?thesis unfolding plain_def to_lower_def set_map by blast
qed

text \<open>A term without wildcards is found exactly in the texts that contain it, case aside.\<close>

lemma ilike_plain:
  assumes "plain q"
  shows "ilike s q \<longleftrightarrow> (\<exists>a b. to_lower s = a @ to_lower q @ b)"
proof -
  have "to_lower (''%'' @ q @ ''%'') = CHR ''%'' # to_lower q @ ''%''"
    by (simp add: to_lower_def lower_char_def Let_def)
  then show ?thesis
    using like_plain [OF plain_to_lower [OF assms]] like_percent_end
    by (auto simp: ilike_def like_percent)
qed

end
