(* ===== verification/Assignments.thy ===== *)
theory Assignments
  imports Attendance Access Search Calendar
begin

text \<open>
  \<open>internal/assignments\<close>: the assignment of a trainee to a site, with its dates, required minutes
  and break policy. \<open>uuid.Parse\<close> is a third-party function and so a parameter. A create or an
  update reads the database before it writes, outside any transaction: the reads are on \<open>db0\<close>,
  the statement that writes and the read of its result on \<open>db1\<close>.
\<close>

section \<open>Inputs\<close>

record break_input =
  bi_type :: string
  bi_threshold :: "int option"
  bi_deduction :: "int option"

record assignment_create =
  ac_trainee_id :: string
  ac_site_id :: string
  ac_start :: string
  ac_end :: "string option"
  ac_required :: "int option"
  ac_break :: "break_input option"
  ac_weekdays :: "int list option"
  ac_as_status :: string

record assignment_patch =
  ap_site_id :: "string option"
  ap_start :: "string option"
  ap_end :: "string option"
  ap_required :: "int option"
  ap_break :: "break_input option"
  ap_weekdays :: "int list option"
  ap_status :: "string option"

definition assignment_status_of :: "string \<Rightarrow> assignment_status option" where
  "assignment_status_of s =
     (if s = ''planned'' then Some AsPlanned
      else if s = ''active'' then Some AsActive
      else if s = ''completed'' then Some AsCompleted
      else if s = ''suspended'' then Some AsSuspended
      else if s = ''cancelled'' then Some AsCancelled else None)"

definition parseDate :: "string \<Rightarrow> date option" where
  "parseDate s = parse_date (trim_space s)"

definition validateBreakRule ::
  "break_input option \<Rightarrow> string list \<times> break_type \<times> int option \<times> int" where
  "validateBreakRule br =
     (case br of
        None \<Rightarrow> ([], BreakNone, None, 0)
      | Some b \<Rightarrow>
          if bi_type b = ''none'' then ([], BreakNone, None, 0)
          else if bi_type b = ''fixed_after_threshold'' then
            let bad_t = (case bi_threshold b of None \<Rightarrow> True | Some t \<Rightarrow> t < 0);
                bad_d = (case bi_deduction b of None \<Rightarrow> True | Some d \<Rightarrow> d < 0)
            in ((if bad_t then [''break_rule.threshold_minutes''] else []) @
                (if bad_d then [''break_rule.deduction_minutes''] else []),
                FixedAfterThreshold,
                (if bad_t then None else bi_threshold b),
                (if bad_d then 0 else case bi_deduction b of None \<Rightarrow> 0 | Some d \<Rightarrow> d))
          else ([''break_rule.type''], BreakNone, None, 0))"

definition validateWeekdays :: "int list \<Rightarrow> string list" where
  "validateWeekdays days =
     (if list_ex (\<lambda>d. d < 1 \<or> 7 < d) days then [''expected_weekdays''] else [])"

section \<open>Reading\<close>

record assignment_view =
  asv_row :: assignment_row
  asv_site_name :: string
  asv_trainee_name :: string
  asv_completed :: int

definition completed_minutes :: "uuid \<Rightarrow> database \<Rightarrow> int" where
  "completed_minutes a db =
     credited_sum (filter (\<lambda>s. at_assignment s = a \<and> counted_status (at_status s)) (db_attendance db))"

text \<open>\<open>scanAssignment\<close> over the joined row; absent weekdays are read as none.\<close>

definition scanAssignment :: "database \<Rightarrow> assignment_row \<Rightarrow> assignment_view option" where
  "scanAssignment db a =
     Option.bind (find_site (as_site a) db) (\<lambda>s.
     Option.bind (find_trainee (as_trainee a) db) (\<lambda>tp.
     map_option (\<lambda>u.
       \<lparr>asv_row = a\<lparr>as_weekdays := Some (case as_weekdays a of None \<Rightarrow> [] | Some ds \<Rightarrow> ds)\<rparr>,
        asv_site_name = si_name s, asv_trainee_name = us_display_name u,
        asv_completed = completed_minutes (as_id a) db\<rparr>) (find_user (tp_user tp) db)))"

definition Get_assignment :: "uuid \<Rightarrow> database \<Rightarrow> go_error + assignment_view" where
  "Get_assignment i db =
     (case Option.bind (find_assignment i db) (scanAssignment db) of
        None \<Rightarrow> Inl (Api ErrNotFound) | Some v \<Rightarrow> Inr v)"

text \<open>\<open>today\<close> is the database's \<open>CURRENT_DATE\<close>.\<close>

definition ActiveForTrainee :: "uuid \<Rightarrow> date \<Rightarrow> database \<Rightarrow> assignment_view option" where
  "ActiveForTrainee traineeID today db =
     (case List.map_filter (scanAssignment db)
             (order_desc as_start (filter (in_effect traineeID today) (db_assignments db))) of
        [] \<Rightarrow> None | v # _ \<Rightarrow> Some v)"

definition assignment_status_text :: "assignment_status \<Rightarrow> string" where
  "assignment_status_text st = (case st of AsPlanned \<Rightarrow> ''planned'' | AsActive \<Rightarrow> ''active''
     | AsCompleted \<Rightarrow> ''completed'' | AsSuspended \<Rightarrow> ''suspended'' | AsCancelled \<Rightarrow> ''cancelled'')"

text \<open>Filters that do not parse, and a status that is none, are ignored.\<close>

definition assignment_matches ::
  "uuid list option \<Rightarrow> uuid option \<Rightarrow> uuid option \<Rightarrow> assignment_status option \<Rightarrow> string \<Rightarrow>
   assignment_view \<Rightarrow> bool" where
  "assignment_matches scope trainee site status q v =
     (let a = asv_row v
      in in_scope scope (as_trainee a) \<and> opt_all (\<lambda>t. as_trainee a = t) trainee \<and>
         opt_all (\<lambda>s. as_site a = s) site \<and> opt_all (\<lambda>s. as_status a = s) status \<and>
         search_any q [asv_trainee_name v, asv_site_name v])"

definition List_assignments ::
  "(string \<Rightarrow> uuid option) \<Rightarrow> page \<Rightarrow> uuid list option \<Rightarrow> string \<Rightarrow> string \<Rightarrow> string \<Rightarrow> string \<Rightarrow>
   database \<Rightarrow> go_error + assignment_view list \<times> int" where
  "List_assignments uuid_parse p scope traineeID siteID status q db =
     (let rows = filter (assignment_matches scope (uuid_parse traineeID) (uuid_parse siteID)
              (assignment_status_of status) q)
            (List.map_filter (scanAssignment db) (db_assignments db))
      in result_bind (page_rows p (order_desc (\<lambda>v. as_created (asv_row v)) rows))
           (\<lambda>items. Inr (items, int (length rows))))"

section \<open>Writing\<close>

text \<open>
  The columns are \<open>integer\<close>: a Go value outside 32 bits fails to encode. The foreign keys are
  checked after the unique index \<open>ojt_assignments_one_active_per_trainee\<close>, which covers the
  active rows only.
\<close>

definition fits_int4 :: "int \<Rightarrow> bool" where
  "fits_int4 n = (- (2 ^ 31) \<le> n \<and> n < 2 ^ 31)"

definition assignment_checks ::
  "assignment_row \<Rightarrow> assignment_row list \<Rightarrow> database \<Rightarrow> (bool \<times> go_error) list" where
  "assignment_checks r others db =
     [(\<not> (fits_int4 (as_required r) \<and> opt_all fits_int4 (as_break_threshold r) \<and>
          fits_int4 (as_break_deduction r)), QueryFailed),
      (\<not> assignment_check r, CheckViolation ''ojt_assignments_check''),
      (taken as_id r others, UniqueViolation ''ojt_assignments_pkey''),
      (as_status r = AsActive \<and> taken as_trainee r (filter (\<lambda>q. as_status q = AsActive) others),
       UniqueViolation ''ojt_assignments_one_active_per_trainee''),
      (find_trainee (as_trainee r) db = None \<or> find_site (as_site r) db = None,
       ForeignKeyViolation ''ojt_assignments'')]"

definition insert_assignment :: "assignment_row \<Rightarrow> database \<Rightarrow> go_error + database" where
  "insert_assignment r db =
     insert_row (assignment_checks r (db_assignments db) db)
       (db\<lparr>db_assignments := db_assignments db @ [r]\<rparr>)"

text \<open>\<open>UPDATE ... WHERE id = $1\<close>: no row, no change and no check.\<close>

definition update_assignment ::
  "uuid \<Rightarrow> (assignment_row \<Rightarrow> assignment_row) \<Rightarrow> database \<Rightarrow> go_error + database" where
  "update_assignment i f db =
     (case find_assignment i db of
        None \<Rightarrow> Inr db
      | Some a \<Rightarrow>
          insert_row (assignment_checks (f a) (filter (\<lambda>q. as_id q \<noteq> i) (db_assignments db)) db)
            (db\<lparr>db_assignments := set_by_key as_id i f (db_assignments db)\<rparr>))"

text \<open>The end date of a request: absent or blank is none, \<open>None\<close> is malformed.\<close>

definition end_date_of :: "string option \<Rightarrow> date option option" where
  "end_date_of s =
     (case s of
        None \<Rightarrow> Some None
      | Some t \<Rightarrow> if trim_space t = [] then Some None
                  else (case parseDate t of None \<Rightarrow> None | Some d \<Rightarrow> Some (Some d)))"

definition end_before_start :: "date option option \<Rightarrow> date option \<Rightarrow> bool" where
  "end_before_start e st =
     (case (e, st) of (Some (Some d), Some s) \<Rightarrow> d < s | _ \<Rightarrow> False)"

text \<open>The fields a create reports, and the row it inserts when it reports none.\<close>

definition create_fields :: "(string \<Rightarrow> uuid option) \<Rightarrow> assignment_create \<Rightarrow> string list" where
  "create_fields uuid_parse inp =
     (if uuid_parse (trim_space (ac_trainee_id inp)) = None then [''trainee_id''] else []) @
     (if uuid_parse (trim_space (ac_site_id inp)) = None then [''site_id''] else []) @
     (if parseDate (ac_start inp) = None then [''start_date''] else []) @
     (if end_date_of (ac_end inp) = None \<or>
         end_before_start (end_date_of (ac_end inp)) (parseDate (ac_start inp))
      then [''end_date''] else []) @
     (if \<not> (case ac_required inp of None \<Rightarrow> False | Some n \<Rightarrow> 0 < n) then [''required_minutes''] else []) @
     (if ac_as_status inp \<noteq> [] \<and> assignment_status_of (ac_as_status inp) = None
      then [''status''] else []) @
     validateWeekdays (case ac_weekdays inp of None \<Rightarrow> [] | Some ds \<Rightarrow> ds) @
     fst (validateBreakRule (ac_break inp))"

definition create_row ::
  "uuid \<Rightarrow> clock \<Rightarrow> uuid \<Rightarrow> uuid \<Rightarrow> date \<Rightarrow> int \<Rightarrow> assignment_create \<Rightarrow> assignment_row" where
  "create_row aid ck traineeID siteID start required inp =
     (let (_, ruleType, threshold, deduction) = validateBreakRule (ac_break inp)
      in \<lparr>as_id = aid, as_trainee = traineeID, as_site = siteID, as_start = start,
          as_end = (case end_date_of (ac_end inp) of None \<Rightarrow> None | Some e \<Rightarrow> e),
          as_required = required, as_break_type = ruleType, as_break_threshold = threshold,
          as_break_deduction = deduction, as_weekdays = ac_weekdays inp,
          as_status = (case assignment_status_of (ac_as_status inp) of
              None \<Rightarrow> AsPlanned | Some st \<Rightarrow> st),
          as_created = ck_dbnow ck\<rparr>)"

text \<open>What an assignment statement that failed is answered with.\<close>

definition assignment_failed :: "go_error \<Rightarrow> go_error" where
  "assignment_failed e =
     (if IsUniqueViolation e ''ojt_assignments_one_active_per_trainee''
      then Api (Conflict ''ACTIVE_ASSIGNMENT_EXISTS'') else Api Internal)"

definition Create_assignment ::
  "(string \<Rightarrow> uuid option) \<Rightarrow> uuid \<Rightarrow> clock \<Rightarrow> assignment_create \<Rightarrow> database \<Rightarrow> database \<Rightarrow>
   database \<times> (go_error + assignment_view)" where
  "Create_assignment uuid_parse aid ck inp db0 db1 =
     (if create_fields uuid_parse inp \<noteq> []
      then (db1, Inl (Api (Validation (create_fields uuid_parse inp))))
      else
        case (uuid_parse (trim_space (ac_trainee_id inp)), uuid_parse (trim_space (ac_site_id inp)),
              parseDate (ac_start inp), ac_required inp) of
          (Some traineeID, Some siteID, Some start, Some required) \<Rightarrow>
            (case find_site siteID db0 of
               None \<Rightarrow> (db1, Inl (Api (Validation [''site_id''])))
             | Some s \<Rightarrow>
                 if \<not> si_active s then (db1, Inl (Api (Validation [''site_id''])))
                 else if find_trainee traineeID db0 = None
                 then (db1, Inl (Api (Validation [''trainee_id''])))
                 else
                   case insert_assignment (create_row aid ck traineeID siteID start required inp) db1 of
                     Inl e \<Rightarrow> (db1, Inl (assignment_failed e))
                   | Inr db' \<Rightarrow> (db', Get_assignment aid db'))
        | _ \<Rightarrow> (db1, Inl (Api Internal)))"

text \<open>The columns after a patch: what the patch gives, or what the row has; \<open>None\<close> is malformed.\<close>

definition patched_site ::
  "(string \<Rightarrow> uuid option) \<Rightarrow> assignment_row \<Rightarrow> assignment_patch \<Rightarrow> uuid option" where
  "patched_site uuid_parse cur inp =
     (case ap_site_id inp of None \<Rightarrow> Some (as_site cur) | Some s \<Rightarrow> uuid_parse s)"

definition patched_start :: "assignment_row \<Rightarrow> assignment_patch \<Rightarrow> date option" where
  "patched_start cur inp =
     (case ap_start inp of None \<Rightarrow> Some (as_start cur) | Some s \<Rightarrow> parseDate s)"

definition patched_end :: "assignment_row \<Rightarrow> assignment_patch \<Rightarrow> date option option" where
  "patched_end cur inp =
     (case ap_end inp of None \<Rightarrow> Some (as_end cur) | Some s \<Rightarrow> end_date_of (Some s))"

definition patched_status :: "assignment_row \<Rightarrow> assignment_patch \<Rightarrow> assignment_status option" where
  "patched_status cur inp =
     (case ap_status inp of None \<Rightarrow> Some (as_status cur) | Some s \<Rightarrow> assignment_status_of s)"

definition patched_break ::
  "assignment_row \<Rightarrow> assignment_patch \<Rightarrow> string list \<times> break_type \<times> int option \<times> int" where
  "patched_break cur inp =
     (case ap_break inp of
        None \<Rightarrow> ([], as_break_type cur, as_break_threshold cur, as_break_deduction cur)
      | Some b \<Rightarrow> validateBreakRule (Some b))"

text \<open>
  \<open>patch_row\<close> computes the row an update writes, from the row \<open>cur\<close> it has read: the first
  malformed field is reported alone.
\<close>

definition patch_row ::
  "(string \<Rightarrow> uuid option) \<Rightarrow> assignment_row \<Rightarrow> assignment_patch \<Rightarrow> string list + assignment_row" where
  "patch_row uuid_parse cur inp =
     (case patched_site uuid_parse cur inp of
        None \<Rightarrow> Inl [''site_id'']
      | Some siteID \<Rightarrow>
     (case patched_start cur inp of
        None \<Rightarrow> Inl [''start_date'']
      | Some start \<Rightarrow>
     (case patched_end cur inp of
        None \<Rightarrow> Inl [''end_date'']
      | Some ed \<Rightarrow>
     if \<not> opt_all (\<lambda>e. start \<le> e) ed then Inl [''end_date'']
     else if \<not> opt_all (\<lambda>n. 0 < n) (ap_required inp) then Inl [''required_minutes'']
     else
     (case patched_status cur inp of
        None \<Rightarrow> Inl [''status'']
      | Some status \<Rightarrow>
     if \<not> opt_all (\<lambda>ds. validateWeekdays ds = []) (ap_weekdays inp) then Inl [''expected_weekdays'']
     else
     (case patched_break cur inp of (bad, ruleType, threshold, deduction) \<Rightarrow>
       if bad \<noteq> [] then Inl bad
       else Inr (cur\<lparr>as_site := siteID, as_start := start, as_end := ed,
            as_required := (case ap_required inp of None \<Rightarrow> as_required cur | Some n \<Rightarrow> n),
            as_break_type := ruleType, as_break_threshold := threshold,
            as_break_deduction := deduction,
            as_weekdays := (case ap_weekdays inp of None \<Rightarrow> as_weekdays cur | Some ds \<Rightarrow> Some ds),
            as_status := status\<rparr>))))))"

text \<open>The columns the statement sets; the others are those of the row it meets.\<close>

definition set_assignment :: "assignment_row \<Rightarrow> assignment_row \<Rightarrow> assignment_row" where
  "set_assignment new a =
     a\<lparr>as_site := as_site new, as_start := as_start new, as_end := as_end new,
       as_required := as_required new, as_break_type := as_break_type new,
       as_break_threshold := as_break_threshold new,
       as_break_deduction := as_break_deduction new, as_weekdays := as_weekdays new,
       as_status := as_status new\<rparr>"

definition Update_assignment ::
  "(string \<Rightarrow> uuid option) \<Rightarrow> uuid \<Rightarrow> assignment_patch \<Rightarrow> database \<Rightarrow> database \<Rightarrow>
   database \<times> (go_error + assignment_view)" where
  "Update_assignment uuid_parse i inp db0 db1 =
     (case Get_assignment i db0 of
        Inl e \<Rightarrow> (db1, Inl e)
      | Inr v \<Rightarrow>
          (case patch_row uuid_parse (asv_row v) inp of
             Inl fs \<Rightarrow> (db1, Inl (Api (Validation fs)))
           | Inr new \<Rightarrow>
               (case update_assignment i (set_assignment new) db1 of
                  Inl e \<Rightarrow> (db1, Inl (assignment_failed e))
                | Inr db' \<Rightarrow> (db', Get_assignment i db'))))"

section \<open>Handlers\<close>

definition checkScope :: "auth_user \<Rightarrow> uuid \<Rightarrow> database \<Rightarrow> api_error option" where
  "checkScope actor traineeID db =
     (if CanAccessTrainee actor traineeID db then None else Some ErrOutOfScope)"

definition handle_List_assignments ::
  "(string \<Rightarrow> uuid option) \<Rightarrow> auth_user \<Rightarrow> int option \<Rightarrow> int option \<Rightarrow> string \<Rightarrow> string \<Rightarrow> string \<Rightarrow>
   string \<Rightarrow> database \<Rightarrow> api_error + assignment_view list \<times> page_meta" where
  "handle_List_assignments uuid_parse actor page_q size_q traineeID siteID status q db =
     (let page = ParsePage page_q size_q
      in case List_assignments uuid_parse page (ScopedTraineeIDs actor db) traineeID siteID status q
                db of
           Inl e \<Rightarrow> Inl Internal
         | Inr (items, tot) \<Rightarrow> Inr (items, NewPageMeta page tot))"

text \<open>The scope is checked only when the identifier parses as it stands, with its blanks.\<close>

definition handle_Create_assignment ::
  "(string \<Rightarrow> uuid option) \<Rightarrow> uuid \<Rightarrow> clock \<Rightarrow> auth_user \<Rightarrow> assignment_create option \<Rightarrow>
   database \<Rightarrow> database \<Rightarrow> database \<times> (api_error + assignment_view)" where
  "handle_Create_assignment uuid_parse aid ck actor body db0 db1 =
     (case body of
        None \<Rightarrow> (db1, Inl ValidationMsg)
      | Some inp \<Rightarrow>
          (case (case uuid_parse (ac_trainee_id inp) of
                   None \<Rightarrow> None | Some t \<Rightarrow> checkScope actor t db0) of
             Some e \<Rightarrow> (db1, Inl e)
           | None \<Rightarrow>
               (case Create_assignment uuid_parse aid ck inp db0 db1 of
                  (db', Inl e) \<Rightarrow> (db', Inl (Fail e))
                | (db', Inr a) \<Rightarrow>
                    (Record (Some (ac_id actor)) ''assignment.created'' ''ojt_assignment''
                       (Some (as_id (asv_row a))) db', Inr a))))"

text \<open>An assignment out of scope is reported as absent.\<close>

definition scoped_assignment ::
  "auth_user \<Rightarrow> uuid \<Rightarrow> database \<Rightarrow> api_error + assignment_view" where
  "scoped_assignment actor i db =
     (case Get_assignment i db of
        Inl e \<Rightarrow> Inl (Fail e)
      | Inr v \<Rightarrow>
          (case checkScope actor (as_trainee (asv_row v)) db of
             Some e \<Rightarrow> Inl (if ae_code e = ''OUT_OF_SCOPE'' then ErrNotFound else e)
           | None \<Rightarrow> Inr v))"

definition handle_Get_assignment ::
  "auth_user \<Rightarrow> uuid option \<Rightarrow> database \<Rightarrow> api_error + assignment_view" where
  "handle_Get_assignment actor param db =
     (case param of None \<Rightarrow> Inl ErrNotFound | Some i \<Rightarrow> scoped_assignment actor i db)"

definition handle_Update_assignment ::
  "(string \<Rightarrow> uuid option) \<Rightarrow> auth_user \<Rightarrow> uuid option \<Rightarrow> assignment_patch option \<Rightarrow>
   database \<Rightarrow> database \<Rightarrow> database \<times> (api_error + assignment_view)" where
  "handle_Update_assignment uuid_parse actor param body db0 db1 =
     (case param of
        None \<Rightarrow> (db1, Inl ErrNotFound)
      | Some i \<Rightarrow>
          (case scoped_assignment actor i db0 of
             Inl e \<Rightarrow> (db1, Inl e)
           | Inr _ \<Rightarrow>
               (case body of
                  None \<Rightarrow> (db1, Inl ValidationMsg)
                | Some inp \<Rightarrow>
                    (case Update_assignment uuid_parse i inp db0 db1 of
                       (db', Inl e) \<Rightarrow> (db', Inl (Fail e))
                     | (db', Inr a) \<Rightarrow>
                         (Record (Some (ac_id actor)) ''assignment.updated'' ''ojt_assignment''
                            (Some (as_id (asv_row a))) db', Inr a)))))"

end
