(* ===== verification/AttendanceLaws.thy ===== *)
theory AttendanceLaws
  imports Attendance
begin

text \<open>
  What Time In and Time Out guarantee: the state a success leaves, that every other outcome
  leaves the database and the object store as they were, and that retries are idempotent.
\<close>

section \<open>A run\<close>

text \<open>A service whose decoder takes every photo for a JPEG of 640 by 480 pixels, in UTC.\<close>

definition demo_sv :: "unit service" where
  "demo_sv = \<lparr>sv_media = \<lparr>md_decode = (\<lambda>_. Some ((), ''jpeg'')), md_bounds = (\<lambda>_. (640, 480)),
       md_render = (\<lambda>_ _. Some ''wm''), md_sha = (\<lambda>s. s)\<rparr>,
     sv_tzdb = (\<lambda>_. Some (\<lambda>_. 0)),
     sv_store = \<lparr>en_put_ok = (\<lambda>_. True), en_delete_ok = (\<lambda>_. True)\<rparr>,
     sv_max_bytes = 1000\<rparr>"

definition demo_ids :: "nat \<Rightarrow> new_ids" where
  "demo_ids n = \<lparr>id_session = n, id_evidence = n + 1, id_journal = n + 2, id_note = n + 3,
     id_key1 = ''k1'', id_key2 = ''k2''\<rparr>"

definition demo_input :: "nat \<Rightarrow> evidence_input" where
  "demo_input a = \<lparr>in_client_action = a, in_photo = ''p'', in_device_at = None,
     in_device_offset = None, in_latitude = None, in_longitude = None, in_accuracy = None,
     in_reason = ''indoors''\<rparr>"

lemmas demo_defs = demo_db_defs demo_sv_def demo_ids_def demo_input_def

lemmas time_in_eval = TimeIn_def traineeCtx_def trainee_of_user_def find_user_def by_key_def
  activeSite_def order_desc_def in_effect_def find_site_def site_ctx_of_def MustLocalDate_def
  LocalDate_def date_in_def findReplay_def locationFor_def EvaluateLocation_def
  unavailable_result_def StoreEvidence_def ValidateEvidenceImage_def allowedMime_def
  minImageDimension_def maxImageDimension_def store_put_def in_tx_def TimeInTx_def
  insert_attendance_def insert_evidence_def insert_row_def taken_def attendance_check_def
  session_of_def evidence_of_def evidence_check_def wmCtx_def nullStr_def flagsFor_def us_per_day_def
  Let_def

lemma demo_time_in:
  "\<exists>db' b' v. TimeIn demo_sv (demo_clock 0) (demo_ids 100) True 10 (demo_input 50) demo_db demo_db id
     (\<lambda>_. None) = ((db', b'), Inr (v, False))"
  by (simp add: demo_defs time_in_eval)

section \<open>Time In\<close>

lemma TimeInTx_Inr:
  "TimeInTx ids ck u tc site today inp loc ev db = Inr (db', i) \<longleftrightarrow>
     i = id_session ids \<and>
     (let s = session_of ids ck tc site today (flagsFor (lr_status loc));
          e = evidence_of ids (id_session ids) tc ActTimeIn (ck_now ck) inp loc ev
      in id_session ids \<notin> at_id ` set (db_attendance db) \<and>
         (tc_trainee tc, today) \<notin> (\<lambda>q. (at_trainee q, at_date q)) ` set (db_attendance db) \<and>
         evidence_check e \<and> id_evidence ids \<notin> ev_id ` set (db_evidence db) \<and>
         (tc_trainee tc, in_client_action inp) \<notin>
           (\<lambda>q. (ev_trainee q, ev_client_action q)) ` set (db_evidence db) \<and>
         (id_session ids, ActTimeIn) \<notin>
           (\<lambda>q. (ev_attendance q, ev_action q)) ` set (db_evidence db) \<and>
         db' = Record (Some u) ''attendance.time_in'' ''attendance_session''
           (Some (id_session ids))
           (db\<lparr>db_attendance := db_attendance db @ [s], db_evidence := db_evidence db @ [e]\<rparr>))"
  by (auto simp: TimeInTx_def result_bind_Inr_iff insert_attendance_Inr insert_evidence_Inr
      Let_def session_of_def evidence_of_def attendance_check_def)

lemma TimeInTx_frame:
  assumes "TimeInTx ids ck u tc site today inp loc ev db = Inr (db', i)"
  shows "\<exists>a e au. db' = db\<lparr>db_attendance := a, db_evidence := e, db_audit := au\<rparr>"
  using assms unfolding TimeInTx_Inr Let_def Record_def by auto

lemma TimeIn_failed_not_new: "TimeIn_failed tc inp e db \<noteq> Inr (v, False)"
  by (auto simp: TimeIn_failed_def split: option.splits)

lemma TimeIn_done:
  assumes "TimeIn sv ck ids ok u inp db0 db1 db2 b = ((db', b'), Inr (v, False))"
  obtains tc site loc ev where "traineeCtx u db0 = Inr tc"
    and "activeSite tc (MustLocalDate (sv_tzdb sv) (ck_now ck) (tc_timezone tc)) db0 = Some site"
    and "findReplay (tc_trainee tc) (in_client_action inp) db0 = None"
    and "locationFor inp site (tc_low_accuracy tc) = Inr loc"
    and "StoreEvidence (sv_media sv) (sv_tzdb sv) (sv_store sv) (id_key1 ids) (id_key2 ids)
      (in_photo inp) (sv_max_bytes sv) (wmCtx tc site ActTimeIn (ck_now ck) loc) b = (b', Inr ev)"
    and "ok"
    and "TimeInTx ids ck u tc site (MustLocalDate (sv_tzdb sv) (ck_now ck) (tc_timezone tc))
      inp loc ev db1 = Inr (db', id_session ids)"
    and "v = time_in_view (id_session ids)
      (MustLocalDate (sv_tzdb sv) (ck_now ck) (tc_timezone tc)) (ck_now ck) inp loc"
  using assms
  by (auto simp: TimeIn_def Let_def TimeIn_failed_not_new TimeInTx_Inr in_tx_ok
      split: sum.splits option.splits prod.splits)

text \<open>
  C7. A Time In that records a session adds exactly one open session and its time_in evidence,
  on the institution's local date, for the assignment in effect that day, with the server's
  time; the trainee had no session that day; both stored objects are in the bucket; the client
  gets that session.
\<close>

theorem TimeIn_success:
  assumes "TimeIn sv ck ids ok u inp db0 db1 db2 b = ((db', b'), Inr (v, False))"
  shows "\<exists>tc site loc ev s e.
    traineeCtx u db0 = Inr tc \<and>
    activeSite tc (at_date s) db0 = Some site \<and>
    at_date s = MustLocalDate (sv_tzdb sv) (ck_now ck) (tc_timezone tc) \<and>
    s = session_of ids ck tc site (at_date s) (flagsFor (lr_status loc)) \<and>
    e = evidence_of ids (at_id s) tc ActTimeIn (ck_now ck) inp loc ev \<and>
    db_attendance db' = db_attendance db1 @ [s] \<and> db_evidence db' = db_evidence db1 @ [e] \<and>
    (\<forall>q\<in>set (db_attendance db1). \<not> (at_trainee q = at_trainee s \<and> at_date q = at_date s)) \<and>
    at_status s = AtOpen \<and> at_original_in s = ck_now ck \<and> at_credited s = None \<and>
    v = view_of s e \<and>
    b' (ev_original_key e) = Some (in_photo inp) \<and> b' (ev_watermarked_key e) \<noteq> None"
proof -
  obtain tc site loc ev where d: "traineeCtx u db0 = Inr tc"
      "activeSite tc (MustLocalDate (sv_tzdb sv) (ck_now ck) (tc_timezone tc)) db0 = Some site"
      "TimeInTx ids ck u tc site (MustLocalDate (sv_tzdb sv) (ck_now ck) (tc_timezone tc))
        inp loc ev db1 = Inr (db', id_session ids)"
      "v = time_in_view (id_session ids)
        (MustLocalDate (sv_tzdb sv) (ck_now ck) (tc_timezone tc)) (ck_now ck) inp loc"
    and st: "StoreEvidence (sv_media sv) (sv_tzdb sv) (sv_store sv) (id_key1 ids) (id_key2 ids)
      (in_photo inp) (sv_max_bytes sv) (wmCtx tc site ActTimeIn (ck_now ck) loc) b = (b', Inr ev)"
    using TimeIn_done [OF assms] by metis
  define today where "today = MustLocalDate (sv_tzdb sv) (ck_now ck) (tc_timezone tc)"
  define s where "s = session_of ids ck tc site today (flagsFor (lr_status loc))"
  define e where "e = evidence_of ids (id_session ids) tc ActTimeIn (ck_now ck) inp loc ev"
  have s: "at_id s = id_session ids" "at_date s = today" "at_trainee s = tc_trainee tc"
      "at_status s = AtOpen" "at_original_in s = ck_now ck" "at_credited s = None"
    by (simp_all add: s_def session_of_def)
  have keys: "b' (ev_original_key e) = Some (in_photo inp)" "b' (ev_watermarked_key e) \<noteq> None"
    using st by (auto elim!: StoreEvidence_Inr
        simp: e_def evidence_of_def evidence_keys_differ [symmetric] evidence_keys_differ)
  have v: "v = view_of s e"
    using d(4) by (simp add: time_in_view_def view_of_def s_def session_of_def e_def
        evidence_of_def today_def)
  have tx: "db_attendance db' = db_attendance db1 @ [s]" "db_evidence db' = db_evidence db1 @ [e]"
      "\<forall>q\<in>set (db_attendance db1). \<not> (at_trainee q = at_trainee s \<and> at_date q = at_date s)"
    using d(3) s(2,3) unfolding TimeInTx_Inr today_def [symmetric] s_def [symmetric]
      e_def [symmetric] Let_def
    by (auto simp: Record_def image_iff)
  have eqs: "e = evidence_of ids (at_id s) tc ActTimeIn (ck_now ck) inp loc ev"
      "s = session_of ids ck tc site (at_date s) (flagsFor (lr_status loc))"
    unfolding s(1,2) by (simp_all add: e_def s_def)
  have site: "activeSite tc (at_date s) db0 = Some site"
      "at_date s = MustLocalDate (sv_tzdb sv) (ck_now ck) (tc_timezone tc)"
    using d(2) s(2) by (simp_all add: today_def)
  show ?thesis
    by (intro exI [of _ tc] exI [of _ site] exI [of _ loc] exI [of _ ev] exI [of _ s]
        exI [of _ e] conjI; fact d(1) site eqs tx s(4-6) v keys)
qed

theorem TimeIn_success_witness:
  "\<exists>db' b' v s. TimeIn demo_sv (demo_clock 0) (demo_ids 100) True 10 (demo_input 50) demo_db demo_db id
     (\<lambda>_. None) = ((db', b'), Inr (v, False)) \<and> db_attendance db' = [s] \<and> at_status s = AtOpen"
proof -
  obtain db' b' v where run: "TimeIn demo_sv (demo_clock 0) (demo_ids 100) True 10 (demo_input 50)
      demo_db demo_db id (\<lambda>_. None) = ((db', b'), Inr (v, False))"
    using demo_time_in by blast
  have "db_attendance demo_db = []" by (simp add: demo_db_def)
  with TimeIn_success [OF run] run show ?thesis by auto
qed

text \<open>
  C8. A Time In that records nothing - an error or a replay - leaves the database as the
  transaction found it, and removes the objects it stored.
\<close>

theorem TimeIn_otherwise_unchanged:
  assumes "TimeIn sv ck ids ok u inp db0 db1 db2 b = ((db', b'), r)"
    and "\<nexists>v. r = Inr (v, False)"
    and "fresh_keys (id_key1 ids) (id_key2 ids) b" and "deletes_work (sv_store sv)"
  shows "db' = db1 \<and> b' = b"
  using assms StoreEvidence_Inl [OF _ assms(3,4)] Cleanup_restores [OF _ assms(3,4)]
  by (auto simp: TimeIn_def Let_def dest!: in_tx_error
      split: sum.splits option.splits prod.splits)

definition full_sv :: "unit service" where
  "full_sv = demo_sv\<lparr>sv_store := \<lparr>en_put_ok = (\<lambda>k. take 18 k = ''attendance/original''),
     en_delete_ok = (\<lambda>_. True)\<rparr>\<rparr>"

theorem TimeIn_otherwise_unchanged_witness:
  "TimeIn full_sv (demo_clock 0) (demo_ids 100) True 10 (demo_input 50) demo_db demo_db id
     (\<lambda>_. None) = ((demo_db, \<lambda>_. None), Inl storageUnavailable)"
proof -
  obtain db' b' r where run: "TimeIn full_sv (demo_clock 0) (demo_ids 100) True 10 (demo_input 50)
      demo_db demo_db id (\<lambda>_. None) = ((db', b'), r)"
    by (metis surj_pair)
  have "snd (TimeIn full_sv (demo_clock 0) (demo_ids 100) True 10 (demo_input 50)
      demo_db demo_db id (\<lambda>_. None)) = Inl storageUnavailable"
    by (simp add: full_sv_def demo_defs time_in_eval evidenceKey_def store_delete_def)
  then have "r = Inl storageUnavailable" by (simp add: run)
  moreover have "deletes_work (sv_store full_sv)" "fresh_keys u1 u2 (\<lambda>_. None)" for u1 u2
    by (simp_all add: deletes_work_def full_sv_def fresh_keys_def)
  ultimately show ?thesis using TimeIn_otherwise_unchanged [OF run] by (simp add: run)
qed

lemma TimeInTx_findReplay:
  assumes "TimeInTx ids ck u tc site today inp loc ev db = Inr (db', i)"
  shows "findReplay (tc_trainee tc) (in_client_action inp) db' =
    Some (time_in_view i today (ck_now ck) inp loc)"
proof -
  define s where "s = session_of ids ck tc site today (flagsFor (lr_status loc))"
  define e where "e = evidence_of ids (id_session ids) tc ActTimeIn (ck_now ck) inp loc ev"
  have sel: "at_id s = id_session ids" "ev_attendance e = id_session ids"
      "action_of (tc_trainee tc) (in_client_action inp) e"
    by (simp_all add: s_def e_def session_of_def evidence_of_def action_of_def)
  have tx: "i = id_session ids" "db_attendance db' = db_attendance db @ [s]"
      "db_evidence db' = db_evidence db @ [e]"
      "id_session ids \<notin> at_id ` set (db_attendance db)"
      "(tc_trainee tc, in_client_action inp) \<notin>
        (\<lambda>q. (ev_trainee q, ev_client_action q)) ` set (db_evidence db)"
    using assms unfolding TimeInTx_Inr s_def [symmetric] e_def [symmetric] Let_def
    by (simp_all add: Record_def)
  have "List.find (action_of (tc_trainee tc) (in_client_action inp)) (db_evidence db) = None"
    unfolding find_None_all action_of_def using tx(5) by (auto simp: image_iff)
  moreover have "find_attendance (id_session ids) db' = Some s"
    using tx(4) by (simp add: find_attendance_def tx(2) by_key_append by_key_None [THEN iffD2] sel)
  moreover have "view_of s e = time_in_view i today (ck_now ck) inp loc"
    by (simp add: s_def e_def view_of_def session_of_def evidence_of_def time_in_view_def tx(1))
  ultimately show ?thesis by (simp add: findReplay_def tx(3) find_append sel)
qed

text \<open>
  A retry is idempotent: after a Time In has recorded a session, the same client action,
  sent again on any day an assignment is in effect, with whatever other fields, answers with the
  recorded session as a replay and changes nothing.
\<close>

theorem TimeIn_retry:
  assumes "TimeIn sv ck ids ok u inp db0 db1 db2 b = ((db', b'), Inr (v, False))"
    and "traineeCtx u db' = traineeCtx u db0" and "traineeCtx u db0 = Inr tc"
    and "activeSite tc (MustLocalDate (sv_tzdb sv) (ck_now ck') (tc_timezone tc)) db' \<noteq> None"
    and "in_client_action inp' = in_client_action inp"
  shows "TimeIn sv ck' ids' ok' u inp' db' db3 db4 b3 = ((db3, b3), Inr (v, True))"
proof -
  have "findReplay (tc_trainee tc) (in_client_action inp) db' = Some v"
  proof (rule TimeIn_done [OF assms(1)])
    fix tc' site loc ev
    assume "traineeCtx u db0 = Inr tc'" "TimeInTx ids ck u tc' site (MustLocalDate (sv_tzdb sv)
        (ck_now ck) (tc_timezone tc')) inp loc ev db1 = Inr (db', id_session ids)"
      "v = time_in_view (id_session ids) (MustLocalDate (sv_tzdb sv) (ck_now ck) (tc_timezone tc'))
        (ck_now ck) inp loc"
    then show ?thesis using assms(3) TimeInTx_findReplay by fastforce
  qed
  then show ?thesis using assms(2-5) by (auto simp: TimeIn_def Let_def)
qed

theorem TimeIn_retry_witness:
  "\<exists>db' b' v. TimeIn demo_sv (demo_clock 0) (demo_ids 100) True 10 (demo_input 50) demo_db demo_db id
       (\<lambda>_. None) = ((db', b'), Inr (v, False)) \<and>
     TimeIn demo_sv (demo_clock 60000000) (demo_ids 200) True 10 (demo_input 50) db' db' id b' =
       ((db', b'), Inr (v, True))"
proof -
  obtain db' b' v where run: "TimeIn demo_sv (demo_clock 0) (demo_ids 100) True 10 (demo_input 50)
      demo_db demo_db id (\<lambda>_. None) = ((db', b'), Inr (v, False))"
    using demo_time_in by blast
  have same: "db_users db' = db_users demo_db" "db_trainees db' = db_trainees demo_db"
      "db_settings db' = db_settings demo_db" "db_assignments db' = db_assignments demo_db"
      "db_sites db' = db_sites demo_db"
    by (auto intro: TimeIn_done [OF run] dest!: TimeInTx_frame)
  obtain tc where tc: "traineeCtx 10 demo_db = Inr tc"
    using TimeIn_done [OF run] by blast
  have "traineeCtx 10 db' = traineeCtx 10 demo_db"
    unfolding traineeCtx_def trainee_of_user_def find_user_def same ..
  moreover have "activeSite tc (MustLocalDate (sv_tzdb demo_sv) (ck_now (demo_clock 60000000))
      (tc_timezone tc)) db' \<noteq> None"
    using tc unfolding activeSite_def find_site_def same
    by (auto simp: demo_defs time_in_eval)
  ultimately show ?thesis
    using run TimeIn_retry [OF run _ tc] by (auto simp: demo_input_def)
qed

section \<open>Two requests at once\<close>

lemma TimeInTx_second:
  assumes "TimeInTx ids ck u tc site today inp loc ev db = Inr (db', i)"
    and "tc_trainee tc' = tc_trainee tc" and "id_session ids' \<notin> at_id ` set (db_attendance db')"
  shows "TimeInTx ids' ck' u tc' site' today inp' loc' ev' db' =
    Inl (UniqueViolation ''attendance_sessions_trainee_date_key'')"
proof -
  define s where "s = session_of ids ck tc site today (flagsFor (lr_status loc))"
  have "db_attendance db' = db_attendance db @ [s]"
    using assms(1) unfolding TimeInTx_Inr s_def [symmetric] Let_def by (simp add: Record_def)
  moreover have "at_trainee s = tc_trainee tc" "at_date s = today"
    by (simp_all add: s_def session_of_def)
  ultimately show ?thesis
    using assms(2,3)
    by (auto simp: TimeInTx_def insert_attendance_def insert_row_def taken_iff
        attendance_check_def session_of_def)
qed

text \<open>
  Of two requests of a trainee that both read the database before either has committed,
  for the same day, the one whose transaction runs second is refused: it answers that a session
  exists already and leaves the database as the first left it. The two may even carry the same
  client action; the second is then not answered as a replay.
\<close>

theorem TimeIn_concurrent:
  assumes "TimeIn sv ck ids ok u inp db0 db1 db2 b = ((db', b'), Inr (v, False))"
    and "traineeCtx u db0 = Inr tc"
    and "today = MustLocalDate (sv_tzdb sv) (ck_now ck) (tc_timezone tc)"
    and "MustLocalDate (sv_tzdb sv) (ck_now ck') (tc_timezone tc) = today"
    and "activeSite tc today db0 = Some site" and "in_client_action inp' = in_client_action inp"
    and "locationFor inp' site (tc_low_accuracy tc) = Inr loc'"
    and "StoreEvidence (sv_media sv) (sv_tzdb sv) (sv_store sv) (id_key1 ids') (id_key2 ids')
      (in_photo inp') (sv_max_bytes sv) (wmCtx tc site ActTimeIn (ck_now ck') loc') c = (c', Inr ev')"
    and "id_session ids' \<notin> at_id ` set (db_attendance db')"
  shows "TimeIn sv ck' ids' ok' u inp' db0 db' db3 c =
    ((db', Cleanup (sv_store sv) ev' c'), Inl (Conflict ''ATTENDANCE_ALREADY_EXISTS_TODAY''))"
proof (rule TimeIn_done [OF assms(1)])
  fix tc0 site0 loc ev
  assume d: "traineeCtx u db0 = Inr tc0" "findReplay (tc_trainee tc0) (in_client_action inp) db0 = None"
    "TimeInTx ids ck u tc0 site0 (MustLocalDate (sv_tzdb sv) (ck_now ck) (tc_timezone tc0))
      inp loc ev db1 = Inr (db', id_session ids)"
  then have tc0: "tc0 = tc" using assms(2) by simp
  have "TimeInTx ids' ck' u tc site today inp' loc' ev' db' =
      Inl (UniqueViolation ''attendance_sessions_trainee_date_key'')"
    using TimeInTx_second [OF _ refl assms(9)] d(3) unfolding tc0 assms(3) by blast
  then show ?thesis
    using d(2) assms(2,4-8)
    by (simp add: TimeIn_def Let_def tc0 in_tx_def TimeIn_failed_def IsUniqueViolation_def)
qed

theorem TimeIn_concurrent_witness:
  "\<exists>db' b' v. TimeIn demo_sv (demo_clock 0) (demo_ids 100) True 10 (demo_input 50) demo_db demo_db id
       (\<lambda>_. None) = ((db', b'), Inr (v, False)) \<and>
     snd (TimeIn demo_sv (demo_clock 1000000) (demo_ids 200) True 10 (demo_input 50) demo_db db' id
       (\<lambda>_. None)) = Inl (Conflict ''ATTENDANCE_ALREADY_EXISTS_TODAY'')"
proof -
  obtain db' b' v where run: "TimeIn demo_sv (demo_clock 0) (demo_ids 100) True 10 (demo_input 50)
      demo_db demo_db id (\<lambda>_. None) = ((db', b'), Inr (v, False))"
    using demo_time_in by blast
  obtain tc where tc: "traineeCtx 10 demo_db = Inr tc" "tc_timezone tc = ''UTC''"
    by (simp add: demo_defs time_in_eval)
  obtain site where site: "activeSite tc 0 demo_db = Some site"
    using tc by (auto simp: demo_defs time_in_eval)
  obtain loc where loc: "locationFor (demo_input 50) site (tc_low_accuracy tc) = Inr loc"
    by (simp add: demo_defs time_in_eval)
  obtain c ev where ev: "StoreEvidence (sv_media demo_sv) (sv_tzdb demo_sv) (sv_store demo_sv)
      (id_key1 (demo_ids 200)) (id_key2 (demo_ids 200)) (in_photo (demo_input 50))
      (sv_max_bytes demo_sv) (wmCtx tc site ActTimeIn (ck_now (demo_clock 1000000)) loc) (\<lambda>_. None) =
      (c, Inr ev)"
    by (simp add: demo_defs time_in_eval)
  have day: "MustLocalDate (sv_tzdb demo_sv) (ck_now (demo_clock t)) (tc_timezone tc) = 0"
    if "0 \<le> t" "t < us_per_day" for t
    using that by (simp add: demo_defs time_in_eval tc)
  have "id_session (demo_ids 200) \<notin> at_id ` set (db_attendance db')"
    by (rule TimeIn_done [OF run])
      (auto simp: TimeInTx_Inr Let_def Record_def session_of_def demo_defs)
  then show ?thesis
    using run TimeIn_concurrent [OF run tc(1) refl _ _ _ loc ev] day [of 0] day [of 1000000] site
    by (auto simp: us_per_day_def)
qed

section \<open>Flags\<close>

lemma merge_into_spec:
  "distinct out \<Longrightarrow> distinct (merge_into out fs) \<and> set (merge_into out fs) = set out \<union> set fs \<and>
     take (length out) (merge_into out fs) = out"
proof (induction fs arbitrary: out)
  case (Cons f fs)
  show ?case
  proof (cases "f \<in> set out")
    case True
    then show ?thesis using Cons by (auto simp: insert_absorb)
  next
    case False
    then have IH: "distinct (merge_into (out @ [f]) fs)"
        "set (merge_into (out @ [f]) fs) = set (out @ [f]) \<union> set fs"
        "take (length (out @ [f])) (merge_into (out @ [f]) fs) = out @ [f]"
      using Cons.IH [of "out @ [f]"] Cons.prems by auto
    have "take (length out) (merge_into (out @ [f]) fs) =
        take (length out) (take (length (out @ [f])) (merge_into (out @ [f]) fs))"
      by (simp add: min_def)
    also have "\<dots> = out" unfolding IH(3) by simp
    finally show ?thesis using IH(1,2) False by auto
  qed
qed auto

lemma merge_into_distinct: "distinct (out @ fs) \<Longrightarrow> merge_into out fs = out @ fs"
  by (induction fs arbitrary: out) auto

lemma merge_into_append: "merge_into out (xs @ ys) = merge_into (merge_into out xs) ys"
  by (induction xs arbitrary: out) auto

text \<open>
  Merging flags gives the union without duplicates and keeps the flags a session already
  has, in their order, in front.
\<close>

theorem mergeFlags_union:
  assumes "distinct old"
  shows "distinct (mergeFlags old new) \<and> set (mergeFlags old new) = set old \<union> set new \<and>
    take (length old) (mergeFlags old new) = old"
  using assms merge_into_spec [of old new] merge_into_distinct [of "[]" old]
  by (simp add: mergeFlags_def merge_into_append)

theorem mergeFlags_union_witness:
  "set (mergeFlags [''low_accuracy''] [''low_accuracy'', ''unusual_duration'']) =
     {''low_accuracy'', ''unusual_duration''}"
  using mergeFlags_union [of "[''low_accuracy'']" "[''low_accuracy'', ''unusual_duration'']"]
  by (simp add: insert_commute)

end
