(* ===== verification/TimeOutLaws.thy ===== *)
theory TimeOutLaws
  imports AttendanceLaws
begin

text \<open>
  What Time Out guarantees: the one session it closes and how, the journal and the progress
  that come with it, and that every other outcome changes nothing.
\<close>

section \<open>The transaction\<close>

interpretation close_id: key_update at_id "close_session now credited st flags"
  by unfold_locales (simp add: close_session_def)

interpretation close_day:
  key_update "\<lambda>s. (at_trainee s, at_date s)" "close_session now credited st flags"
  by unfold_locales (simp add: close_session_def)

definition closed_status :: "string list \<Rightarrow> attendance_status" where
  "closed_status flags = (if flags \<noteq> [] then AtFlagged else AtValid)"

lemma insert_journal_present:
  assumes "insert_journal j db = Inr (db', jid)"
  shows "journal_of (jo_attendance j) db' \<noteq> None \<and>
    (case jid of Some i \<Rightarrow> map_option jo_id (journal_of (jo_attendance j) db') = Some i | None \<Rightarrow> db' = db)"
  using assms
  by (auto simp: insert_journal_Inr journal_of_def by_key_append by_key_None image_iff
      split: if_splits option.splits dest!: by_key_mem)

lemma TimeOutTx_Inr:
  assumes "TimeOutTx ids ck u tc site i a inp loc ev db = Inr (db', v, j)"
  obtains cur elapsed deducted credited flags js ns where
    "find_attendance i db = Some cur" and "at_status cur = AtOpen"
    and "CreditedMinutes (at_effective_in cur) (ck_now ck) (sx_rule site) =
      (elapsed, deducted, credited)"
    and "flags = close_flags tc elapsed (at_flags cur) (lr_status loc)"
    and "insert_evidence (evidence_of ids i tc ActTimeOut (ck_now ck) inp loc ev) db =
      Inr (db\<lparr>db_evidence := db_evidence db @
        [evidence_of ids i tc ActTimeOut (ck_now ck) inp loc ev]\<rparr>)"
    and "\<forall>r\<in>set (db_attendance db). at_id r = i \<longrightarrow>
      attendance_check (close_session (ck_now ck) credited (closed_status flags) flags r)"
    and "db' = db\<lparr>db_evidence := db_evidence db @
        [evidence_of ids i tc ActTimeOut (ck_now ck) inp loc ev],
      db_attendance := set_by_key at_id i
        (close_session (ck_now ck) credited (closed_status flags) flags) (db_attendance db),
      db_journals := js, db_notifications := ns,
      db_audit := db_audit db @ [\<lparr>au_actor = Some u, au_type = ''attendance.time_out'',
        au_resource_type = ''attendance_session'', au_resource = Some i\<rparr>]\<rparr>"
    and "js = (if i \<in> jo_attendance ` set (db_journals db) then db_journals db
      else db_journals db @ [draft_journal (id_journal ids) ck i (tc_trainee tc)])"
    and "j = map_option jo_id (journal_of i db')" and "j \<noteq> None"
    and "v = \<lparr>av_id = i, av_date = at_date cur, av_status = closed_status flags,
      av_time_in = at_effective_in cur, av_time_out = Some (ck_now ck),
      av_credited = Some credited, av_location = lr_status loc, av_distance = lr_distance loc,
      av_accuracy = in_accuracy inp, av_flags = flags\<rparr>"
    and "i \<notin> jo_attendance ` set (db_journals db) \<Longrightarrow> id_journal ids \<notin> jo_id ` set (db_journals db)"
proof -
  obtain cur where cur: "find_attendance i db = Some cur" "at_status cur = AtOpen"
    using assms by (auto simp: TimeOutTx_def split: option.splits if_splits)
  obtain elapsed deducted credited where cm:
    "CreditedMinutes (at_effective_in cur) (ck_now ck) (sx_rule site) = (elapsed, deducted, credited)"
    by (cases "CreditedMinutes (at_effective_in cur) (ck_now ck) (sx_rule site)") auto
  define flags where "flags = close_flags tc elapsed (at_flags cur) (lr_status loc)"
  define e where "e = evidence_of ids i tc ActTimeOut (ck_now ck) inp loc ev"
  define f where "f = close_session (ck_now ck) credited (closed_status flags) flags"
  define dj where "dj = draft_journal (id_journal ids) ck i (tc_trainee tc)"
  obtain d1 d2 d3 d4 jid where
    s1: "insert_evidence e db = Inr d1" and s2: "update_attendance i f d1 = Inr d2"
    and s3: "insert_journal dj d2 = Inr (d3, jid)"
    and s4: "NotifyCompletionIfReachedTx (id_note ids) ck u (tc_trainee tc) a d3 = Inr d4"
    and d5: "db' = Record (Some u) ''attendance.time_out'' ''attendance_session'' (Some i) d4"
    and jj: "j = (case jid of Some j \<Rightarrow> Some j | None \<Rightarrow> map_option jo_id (journal_of i d3))"
    and v: "v = \<lparr>av_id = i, av_date = at_date cur, av_status = closed_status flags,
      av_time_in = at_effective_in cur, av_time_out = Some (ck_now ck),
      av_credited = Some credited, av_location = lr_status loc, av_distance = lr_distance loc,
      av_accuracy = in_accuracy inp, av_flags = flags\<rparr>"
    using assms cur cm
    unfolding TimeOutTx_def
    by (auto simp: result_bind_Inr_iff Let_def e_def f_def dj_def flags_def closed_status_def)
  have d1: "d1 = db\<lparr>db_evidence := db_evidence db @ [e]\<rparr>"
    using s1 by (simp add: insert_evidence_Inr)
  have d2: "d2 = d1\<lparr>db_attendance := set_by_key at_id i f (db_attendance db)\<rparr>"
      "\<forall>r\<in>set (db_attendance db). at_id r = i \<longrightarrow> attendance_check (f r)"
    using s2 by (simp_all add: update_attendance_Inr d1)
  have dja: "jo_attendance dj = i" by (simp add: dj_def draft_journal_def)
  have d3: "d3 = d2\<lparr>db_journals := if i \<in> jo_attendance ` set (db_journals db)
      then db_journals db else db_journals db @ [dj]\<rparr>"
    using s3 by (auto simp: insert_journal_Inr dja d2 d1 split: if_splits)
  have fresh: "i \<notin> jo_attendance ` set (db_journals db) \<Longrightarrow> id_journal ids \<notin> jo_id ` set (db_journals db)"
    using s3 by (simp add: insert_journal_Inr dja d2 d1) (simp add: dj_def draft_journal_def)
  obtain ns where d4: "d4 = d3\<lparr>db_notifications := ns\<rparr>"
    using NotifyCompletion_frame [OF s4] by blast
  have "journal_of i db' = journal_of i d3"
    by (simp add: journal_of_def d5 d4 Record_def)
  then have j: "j = map_option jo_id (journal_of i db')" "j \<noteq> None"
    using insert_journal_present [OF s3] by (auto simp: jj dja split: option.splits)
  have "db' = db\<lparr>db_evidence := db_evidence db @ [e],
      db_attendance := set_by_key at_id i f (db_attendance db),
      db_journals := if i \<in> jo_attendance ` set (db_journals db)
        then db_journals db else db_journals db @ [dj],
      db_notifications := ns,
      db_audit := db_audit db @ [\<lparr>au_actor = Some u, au_type = ''attendance.time_out'',
        au_resource_type = ''attendance_session'', au_resource = Some i\<rparr>]\<rparr>"
    by (rule database.equality) (simp_all add: d5 d4 d3 d2 d1 Record_def)
  then show ?thesis
    using s1 d2(2) unfolding d1 e_def f_def dj_def
    by (intro that [OF cur cm flags_def _ _ _ refl j v fresh])
qed

section \<open>Success\<close>

lemma TimeOut_failed_not_new: "TimeOut_failed tc i inp e db \<noteq> Inr (r, False)"
  by (auto simp: TimeOut_failed_def split: option.splits)

lemma TimeOut_done:
  assumes "TimeOut sv ck ids ok u i inp db0 db1 db2 b = ((db', b'), Inr (r, False))"
  obtains tc att site loc ev v j where "traineeCtx u db0 = Inr tc"
    and "find_attendance i db0 = Some att" and "at_trainee att = tc_trainee tc"
    and "siteForAssignment (at_assignment att) db0 = Inr site"
    and "locationFor inp site (tc_low_accuracy tc) = Inr loc"
    and "StoreEvidence (sv_media sv) (sv_tzdb sv) (sv_store sv) (id_key1 ids) (id_key2 ids)
      (in_photo inp) (sv_max_bytes sv) (wmCtx tc site ActTimeOut (ck_now ck) loc) b = (b', Inr ev)"
    and "TimeOutTx ids ck u tc site i (at_assignment att) inp loc ev db1 = Inr (db', v, j)"
    and "r = \<lparr>to_attendance = v,
      to_progress = progress (at_assignment att) (sx_required site) (db2 db'),
      to_journal = map_option (\<lambda>j. (j, JDraft)) j\<rparr>"
  using assms
  by (auto simp: TimeOut_def Let_def TimeOut_failed_not_new in_tx_ok
      split: sum.splits option.splits prod.splits if_splits)

lemma siteForAssignment_rule:
  assumes "siteForAssignment a db = Inr site"
  obtains asn where "find_assignment a db = Some asn" and "sx_rule site = break_rule_of asn"
    and "sx_required site = as_required asn" and "sx_assignment site = a"
  using assms
  by (auto simp: siteForAssignment_def site_ctx_of_def find_assignment_def
      split: option.splits dest: by_key_mem)

text \<open>The trainee of the example has been timed in since midnight.\<close>

definition demo_session :: attendance_row where
  "demo_session = \<lparr>at_id = 100, at_trainee = 2, at_assignment = 7, at_date = 0,
     at_original_in = 0, at_original_out = None, at_effective_in = 0, at_effective_out = None,
     at_credited = None, at_status = AtOpen, at_flags = [], at_version = 1, at_closed = None,
     at_created = 0\<rparr>"

definition demo_open_db :: database where
  "demo_open_db = demo_db\<lparr>db_attendance := [demo_session]\<rparr>"

lemmas time_out_eval = time_in_eval TimeOut_def TimeOutTx_def find_attendance_def
  replayTimeOut_def siteForAssignment_def find_assignment_def break_rule_of_def
  update_attendance_def insert_journal_def draft_journal_def close_session_def set_by_key_def
  update_where_def NotifyCompletionIfReachedTx_def completion_reached_def credited_sum_def
  CreateTx_def new_note_def note_key_def journal_of_def CreditedMinutes_def time_sub_def
  max_duration_us_def us_per_minute_def break_deduction_def close_flags_def mergeFlags_def
  demo_session_def demo_open_db_def

lemma demo_time_out:
  "\<exists>db' b' r. TimeOut demo_sv (demo_clock 7200000000) (demo_ids 200) True 10 100 (demo_input 51)
     demo_open_db demo_open_db id (\<lambda>_. None) = ((db', b'), Inr (r, False))"
  by (simp add: demo_defs time_out_eval)

lemma demo_open_lookup:
  "find_attendance 100 demo_open_db = Some demo_session" "unique_on at_id (db_attendance demo_open_db)"
  by (simp_all add: find_attendance_def by_key_def demo_open_db_def demo_session_def unique_on_def)

text \<open>The transaction of a Time Out closes the open session it finds and no other.\<close>

lemma TimeOutTx_closes:
  assumes tx: "TimeOutTx ids ck u tc site i a inp loc ev db1 = Inr (db', v, j)"
  shows "\<exists>cur s. find_attendance i db1 = Some cur \<and> at_status cur = AtOpen \<and>
    find_attendance i db' = Some s \<and>
    s = close_session (ck_now ck)
      (credited_of (CreditedMinutes (at_effective_in cur) (ck_now ck) (sx_rule site)))
      (closed_status (at_flags s)) (at_flags s) cur \<and>
    at_effective_in cur < ck_now ck \<and>
    (\<forall>k. k \<noteq> i \<longrightarrow> find_attendance k db' = find_attendance k db1) \<and>
    db_evidence db' = db_evidence db1 @ [evidence_of ids i tc ActTimeOut (ck_now ck) inp loc ev] \<and>
    j = map_option jo_id (journal_of i db') \<and> j \<noteq> None \<and>
    v = view_of s (evidence_of ids i tc ActTimeOut (ck_now ck) inp loc ev)"
proof -
  obtain cur elapsed deducted credited flags js ns where
    cur: "find_attendance i db1 = Some cur" "at_status cur = AtOpen"
    and cm: "CreditedMinutes (at_effective_in cur) (ck_now ck) (sx_rule site) =
      (elapsed, deducted, credited)"
    and chk: "\<forall>q\<in>set (db_attendance db1). at_id q = i \<longrightarrow>
      attendance_check (close_session (ck_now ck) credited (closed_status flags) flags q)"
    and db': "db_attendance db' = set_by_key at_id i
        (close_session (ck_now ck) credited (closed_status flags) flags) (db_attendance db1)"
      "db_evidence db' =
        db_evidence db1 @ [evidence_of ids i tc ActTimeOut (ck_now ck) inp loc ev]"
    and j: "j = map_option jo_id (journal_of i db')" "j \<noteq> None"
    and v: "v = \<lparr>av_id = i, av_date = at_date cur, av_status = closed_status flags,
      av_time_in = at_effective_in cur, av_time_out = Some (ck_now ck),
      av_credited = Some credited, av_location = lr_status loc, av_distance = lr_distance loc,
      av_accuracy = in_accuracy inp, av_flags = flags\<rparr>"
    by (rule TimeOutTx_Inr [OF tx]) simp
  define s where "s = close_session (ck_now ck) credited (closed_status flags) flags cur"
  have mem: "cur \<in> set (db_attendance db1)" "at_id cur = i"
    using cur(1) by (auto simp: find_attendance_def dest: by_key_mem)
  have s: "find_attendance i db' = Some s" "at_flags s = flags"
    using cur(1) by (simp_all add: find_attendance_def db' close_id.find_set_same s_def close_session_def)
  have "\<forall>k. k \<noteq> i \<longrightarrow> find_attendance k db' = find_attendance k db1"
    by (simp add: find_attendance_def db' close_id.find_set_other)
  moreover have "at_effective_in cur < ck_now ck"
    using chk mem by (auto simp: attendance_check_def close_session_def)
  moreover have "credited = credited_of (CreditedMinutes (at_effective_in cur) (ck_now ck) (sx_rule site))"
    using cm by (simp add: credited_of_def)
  moreover have "v = view_of s (evidence_of ids i tc ActTimeOut (ck_now ck) inp loc ev)"
    by (simp add: v s_def view_of_def close_session_def evidence_of_def mem)
  ultimately show ?thesis
    using cur s db'(2) j by (intro exI [of _ cur] exI [of _ s]) (simp add: s_def)
qed

text \<open>
  C9. A Time Out that succeeds closes exactly its own session, which was open and belongs to
  the caller: the session gets the server's time as original and effective Time Out, the minutes
  the break rule of its assignment credits, and the status flagged or valid as it has flags or
  not; its original Time In, trainee, assignment and date stay, every other session stays, the
  time_out evidence is recorded and the day has its journal.
\<close>

theorem TimeOut_success:
  assumes "TimeOut sv ck ids ok u i inp db0 db1 db2 b = ((db', b'), Inr (r, False))"
  shows "\<exists>tc att asn cur s e. traineeCtx u db0 = Inr tc \<and> find_attendance i db0 = Some att \<and>
    at_trainee att = tc_trainee tc \<and> find_assignment (at_assignment att) db0 = Some asn \<and>
    find_attendance i db1 = Some cur \<and> at_status cur = AtOpen \<and>
    find_attendance i db' = Some s \<and>
    s = close_session (ck_now ck)
      (credited_of (CreditedMinutes (at_effective_in cur) (ck_now ck) (break_rule_of asn)))
      (closed_status (at_flags s)) (at_flags s) cur \<and>
    at_effective_in cur < ck_now ck \<and>
    (\<forall>k. k \<noteq> i \<longrightarrow> find_attendance k db' = find_attendance k db1) \<and>
    db_evidence db' = db_evidence db1 @ [e] \<and> ev_attendance e = i \<and> ev_action e = ActTimeOut \<and>
    (\<exists>j. journal_of i db' = Some j \<and> to_journal r = Some (jo_id j, JDraft)) \<and>
    to_attendance r = view_of s e"
proof (rule TimeOut_done [OF assms])
  fix tc att site loc ev v j
  assume c: "traineeCtx u db0 = Inr tc" "find_attendance i db0 = Some att"
      "at_trainee att = tc_trainee tc"
    and site: "siteForAssignment (at_assignment att) db0 = Inr site"
    and tx: "TimeOutTx ids ck u tc site i (at_assignment att) inp loc ev db1 = Inr (db', v, j)"
    and r: "r = \<lparr>to_attendance = v,
      to_progress = progress (at_assignment att) (sx_required site) (db2 db'),
      to_journal = map_option (\<lambda>j. (j, JDraft)) j\<rparr>"
  obtain asn where "find_assignment (at_assignment att) db0 = Some asn"
    "sx_rule site = break_rule_of asn"
    using siteForAssignment_rule [OF site] by metis
  with c r TimeOutTx_closes [OF tx] show ?thesis
    by (fastforce simp: evidence_of_def)
qed

theorem TimeOut_success_witness:
  "\<exists>db' b' r s. TimeOut demo_sv (demo_clock 7200000000) (demo_ids 200) True 10 100 (demo_input 51)
     demo_open_db demo_open_db id (\<lambda>_. None) = ((db', b'), Inr (r, False)) \<and>
     find_attendance 100 db' = Some s \<and> at_original_in s = 0 \<and>
     at_original_out s = Some 7200000000"
proof -
  obtain db' b' r where run: "TimeOut demo_sv (demo_clock 7200000000) (demo_ids 200) True 10 100
      (demo_input 51) demo_open_db demo_open_db id (\<lambda>_. None) = ((db', b'), Inr (r, False))"
    using demo_time_out by blast
  from TimeOut_success [OF run] obtain s cur c st fl where
    s: "find_attendance 100 db' = Some s" "find_attendance 100 demo_open_db = Some cur"
      "s = close_session (ck_now (demo_clock 7200000000)) c st fl cur"
    by blast
  then have "at_original_in s = at_original_in cur" "at_original_out s = Some 7200000000"
    by (simp_all add: close_session_def demo_clock_def)
  then show ?thesis using run s by (auto simp: demo_open_lookup demo_session_def)
qed

text \<open>
  C10. A Time Out that closes nothing - an error or a replay - leaves the database as the
  transaction found it, and removes the objects it stored.
\<close>

theorem TimeOut_otherwise_unchanged:
  assumes "TimeOut sv ck ids ok u i inp db0 db1 db2 b = ((db', b'), r)"
    and "\<nexists>v. r = Inr (v, False)"
    and "fresh_keys (id_key1 ids) (id_key2 ids) b" and "deletes_work (sv_store sv)"
  shows "db' = db1 \<and> b' = b"
  using assms StoreEvidence_Inl [OF _ assms(3,4)] Cleanup_restores [OF _ assms(3,4)]
  by (auto simp: TimeOut_def Let_def dest!: in_tx_error
      split: sum.splits option.splits prod.splits if_splits)

theorem TimeOut_otherwise_unchanged_witness:
  "TimeOut full_sv (demo_clock 7200000000) (demo_ids 200) True 10 100 (demo_input 51)
     demo_open_db demo_open_db id (\<lambda>_. None) =
     ((demo_open_db, \<lambda>_. None), Inl storageUnavailable)"
proof -
  obtain db' b' r where run: "TimeOut full_sv (demo_clock 7200000000) (demo_ids 200) True 10 100
      (demo_input 51) demo_open_db demo_open_db id (\<lambda>_. None) = ((db', b'), r)"
    by (metis surj_pair)
  have "snd (TimeOut full_sv (demo_clock 7200000000) (demo_ids 200) True 10 100 (demo_input 51)
      demo_open_db demo_open_db id (\<lambda>_. None)) = Inl storageUnavailable"
    by (simp add: full_sv_def demo_defs time_out_eval evidenceKey_def store_delete_def)
  then have "r = Inl storageUnavailable" by (simp add: run)
  moreover have "deletes_work (sv_store full_sv)" "fresh_keys u1 u2 (\<lambda>_. None)" for u1 u2
    by (simp_all add: deletes_work_def full_sv_def fresh_keys_def)
  ultimately show ?thesis using TimeOut_otherwise_unchanged [OF run] by (simp add: run)
qed

section \<open>At most once\<close>

lemma TimeOut_not_open:
  assumes "TimeOut sv ck ids ok u i inp db0 db1 db2 b = ((db', b'), r)"
    and "find_attendance i db1 = Some s" and "at_status s \<noteq> AtOpen"
  shows "db' = db1 \<and> (\<nexists>v. r = Inr (v, False))"
proof -
  have tx: "TimeOutTx ids ck u tc site i a inp loc ev db1 = Inl NotOpen" for tc site a loc ev
    using assms(2,3) by (simp add: TimeOutTx_def)
  have not_new: "\<nexists>v. r = Inr (v, False)"
    using assms(1) TimeOut_done [of sv ck ids ok u i inp db0 db1 db2 b db' b'] tx by auto
  moreover have "db' = db1"
    using assms(1) not_new
    by (auto simp: TimeOut_def Let_def dest!: in_tx_error
        split: sum.splits option.splits prod.splits if_splits)
  ultimately show ?thesis by blast
qed

text \<open>
  A session that is closed is never closed again: a Time Out whose transaction finds it
  closed - whatever the request read before, so two concurrent requests included - records
  nothing; one that also read it closed, and is no retry, is told so.
\<close>

theorem TimeOut_closed_refused:
  assumes "TimeOut sv ck ids ok u i inp db0 db1 db2 b = ((db', b'), r)"
    and "find_attendance i db1 = Some s" and "at_status s \<noteq> AtOpen"
  shows "db' = db1 \<and> (\<nexists>v. r = Inr (v, False)) \<and>
    (\<forall>tc. db0 = db1 \<and> traineeCtx u db1 = Inr tc \<and> at_trainee s = tc_trainee tc \<and>
       replayTimeOut (tc_trainee tc) (in_client_action inp) i db1 = None \<longrightarrow>
       r = Inl (Conflict ''ATTENDANCE_NOT_OPEN''))"
proof -
  have "\<forall>tc. db0 = db1 \<and> traineeCtx u db1 = Inr tc \<and> at_trainee s = tc_trainee tc \<and>
      replayTimeOut (tc_trainee tc) (in_client_action inp) i db1 = None \<longrightarrow>
      r = Inl (Conflict ''ATTENDANCE_NOT_OPEN'')"
    using assms by (auto simp: TimeOut_def)
  then show ?thesis using TimeOut_not_open [OF assms] by blast
qed

definition demo_closed_db :: database where
  "demo_closed_db =
     demo_open_db\<lparr>db_attendance := [close_session 3600000000 60 AtValid [] demo_session]\<rparr>"

theorem TimeOut_closed_refused_witness:
  "fst (fst (TimeOut demo_sv (demo_clock 7200000000) (demo_ids 200) True 10 100 (demo_input 51)
     demo_open_db demo_closed_db id (\<lambda>_. None))) = demo_closed_db"
proof -
  obtain db' b' r where run: "TimeOut demo_sv (demo_clock 7200000000) (demo_ids 200) True 10 100
      (demo_input 51) demo_open_db demo_closed_db id (\<lambda>_. None) = ((db', b'), r)"
    by (metis surj_pair)
  have lk: "find_attendance 100 demo_closed_db =
      Some (close_session 3600000000 60 AtValid [] demo_session)"
    by (simp add: demo_closed_db_def find_attendance_def by_key_def close_session_def
        demo_session_def)
  have st: "at_status (close_session 3600000000 60 AtValid [] demo_session) \<noteq> AtOpen"
    by (simp add: close_session_def)
  show ?thesis using TimeOut_closed_refused [OF run lk st] by (simp add: run)
qed

section \<open>Progress\<close>

lemma credited_sum_set_by_key:
  assumes "unique_on at_id t" and "by_key at_id i t = Some cur" and "p cur \<Longrightarrow> at_credited cur = None"
    and "\<And>r. at_id (f r) = at_id r" and "p (f cur)" and "at_credited (f cur) = Some c"
  shows "credited_sum (filter p (set_by_key at_id i f t)) = credited_sum (filter p t) + c"
  using assms(1,2)
proof (induction t)
  case (Cons q t)
  show ?case
  proof (cases "at_id q = i")
    case True
    then have q: "q = cur" using Cons.prems(2) by (simp add: by_key_def)
    have "\<forall>r\<in>set t. at_id r \<noteq> i"
      using Cons.prems(1) True by (auto simp: unique_on_def image_iff)
    then have "set_by_key at_id i f t = t"
      by (auto simp: set_by_key_def update_where_def intro!: map_idI)
    then show ?thesis
      using assms(3,5,6) True q by (simp add: set_by_key_def update_where_def credited_sum_def)
  next
    case False
    have "unique_on at_id t" "by_key at_id i t = Some cur"
      using Cons.prems False by (simp_all add: unique_on_def by_key_def)
    with Cons.IH have IH: "credited_sum (filter p (set_by_key at_id i f t)) =
        credited_sum (filter p t) + c" by blast
    have "set_by_key at_id i f (q # t) = q # set_by_key at_id i f t"
      using False by (simp add: set_by_key_def update_where_def)
    with IH show ?thesis by (simp add: credited_sum_def)
  qed
qed (simp add: by_key_def)

text \<open>
  The progress a Time Out reports counts the minutes it has just credited: the completed
  minutes of the assignment grow by exactly the credited minutes, and the percentage stays
  between 0 and 100.
\<close>

theorem TimeOut_progress:
  assumes "TimeOut sv ck ids ok u i inp db0 db1 id b = ((db', b'), Inr (r, False))"
    and "unique_on at_id (db_attendance db1)"
    and "find_attendance i db0 = Some att" and "find_attendance i db1 = Some cur"
    and "at_assignment cur = at_assignment att"
    and "\<forall>s\<in>set (db_attendance db1). opt_all (\<lambda>c. 0 \<le> c) (at_credited s)"
  shows "\<exists>c. av_credited (to_attendance r) = Some c \<and> 0 \<le> c \<and>
    pv_completed (to_progress r) =
      pv_completed (progress (at_assignment att) (pv_required (to_progress r)) db1) + c \<and>
    0 \<le> pv_percent (to_progress r) \<and> pv_percent (to_progress r) \<le> 100"
proof (rule TimeOut_done [OF assms(1)])
  fix tc att' site loc ev v j
  assume att': "find_attendance i db0 = Some att'"
    and tx: "TimeOutTx ids ck u tc site i (at_assignment att') inp loc ev db1 = Inr (db', v, j)"
    and r: "r = \<lparr>to_attendance = v,
      to_progress = progress (at_assignment att') (sx_required site) (id db'),
      to_journal = map_option (\<lambda>j. (j, JDraft)) j\<rparr>"
  have att: "att' = att" using att' assms(3) by simp
  obtain c flags elapsed deducted where
    cur: "at_status cur = AtOpen"
    and cm: "CreditedMinutes (at_effective_in cur) (ck_now ck) (sx_rule site) = (elapsed, deducted, c)"
    and db': "db_attendance db' = set_by_key at_id i
        (close_session (ck_now ck) c (closed_status flags) flags) (db_attendance db1)"
    and v: "av_credited v = Some c"
    by (rule TimeOutTx_Inr [OF tx]) (use assms(4) in simp)
  define p where "p = (\<lambda>s::attendance_row. at_assignment s = at_assignment att \<and> counted_status (at_status s))"
  have c: "0 \<le> c" using hours.credited_nonneg [of "at_effective_in cur" "ck_now ck" "sx_rule site"]
    by (simp add: cm credited_of_def)
  have sum: "credited_sum (filter p (db_attendance db')) = credited_sum (filter p (db_attendance db1)) + c"
    unfolding db'
    by (rule credited_sum_set_by_key [OF assms(2) assms(4) [unfolded find_attendance_def]])
      (use cur assms(5) in \<open>auto simp: p_def counted_status_def close_session_def closed_status_def\<close>)
  have "0 \<le> credited_sum (filter p (db_attendance db1))"
    using assms(6) by (auto simp: credited_sum_def opt_all_def intro!: sum_list_nonneg split: option.splits)
  then have "0 \<le> credited_sum (filter p (db_attendance db'))" using sum c by simp
  then show ?thesis
    using sum c v ProgressPercent_range
    by (auto simp: r att progress_def Let_def p_def [symmetric])
qed

theorem TimeOut_progress_witness:
  "\<exists>db' b' r c. TimeOut demo_sv (demo_clock 7200000000) (demo_ids 200) True 10 100 (demo_input 51)
     demo_open_db demo_open_db id (\<lambda>_. None) = ((db', b'), Inr (r, False)) \<and>
     pv_completed (to_progress r) = c \<and> av_credited (to_attendance r) = Some c"
proof -
  obtain db' b' r where run: "TimeOut demo_sv (demo_clock 7200000000) (demo_ids 200) True 10 100
      (demo_input 51) demo_open_db demo_open_db id (\<lambda>_. None) = ((db', b'), Inr (r, False))"
    using demo_time_out by blast
  have "pv_completed (progress 7 n demo_open_db) = 0" for n
    by (simp add: progress_def demo_open_db_def demo_session_def counted_status_def credited_sum_def)
  then show ?thesis
    using run TimeOut_progress [OF run demo_open_lookup(2,1,1)]
    by (auto simp: demo_session_def demo_open_db_def)
qed

end
