(* ===== verification/AssignmentLaws.thy ===== *)
theory AssignmentLaws
  imports Assignments TimeOutLaws
begin

text \<open>
  What the assignment operations guarantee: requests that pass validation satisfy the CHECK
  constraints, a trainee has at most one active assignment, and Time In then works for it and
  no other; and two ways in which they fall short, under concurrency and with padded
  identifiers.
\<close>

section \<open>Validation and constraints\<close>

lemma validateBreakRule_ok:
  assumes "validateBreakRule br = ([], ty, th, de)"
  shows "0 \<le> de \<and> opt_all (\<lambda>t. 0 \<le> t) th \<and> (ty = BreakNone \<or> th \<noteq> None)"
proof (cases br)
  case None
  then show ?thesis using assms by (simp add: validateBreakRule_def)
next
  case (Some b)
  obtain ty0 t0 d0 where b: "b = \<lparr>bi_type = ty0, bi_threshold = t0, bi_deduction = d0\<rparr>"
    by (cases b) blast
  show ?thesis
    using assms
    by (cases t0; cases d0) (auto simp: Some b validateBreakRule_def Let_def split: if_splits)
qed

lemma validateWeekdays_ok:
  "validateWeekdays ds = [] \<longleftrightarrow> list_all (\<lambda>d. 1 \<le> d \<and> d \<le> 7) ds"
  by (induction ds) (auto simp: validateWeekdays_def)

lemma create_row_check:
  assumes "create_fields up inp = []" and "parseDate (ac_start inp) = Some start"
    and "ac_required inp = Some required"
  shows "assignment_check (create_row aid ck t s start required inp)"
proof -
  obtain ty th de where br: "validateBreakRule (ac_break inp) = ([], ty, th, de)"
    using assms(1) by (cases "validateBreakRule (ac_break inp)") (auto simp: create_fields_def)
  have req: "0 < required" using assms(1,3) by (auto simp: create_fields_def split: if_splits)
  have wd: "opt_all (list_all (\<lambda>d. 1 \<le> d \<and> d \<le> 7)) (ac_weekdays inp)"
    using assms(1) by (cases "ac_weekdays inp") (auto simp: create_fields_def validateWeekdays_ok)
  have ed: "opt_all (\<lambda>e. start \<le> e) (case end_date_of (ac_end inp) of None \<Rightarrow> None | Some e \<Rightarrow> e)"
    using assms(1,2)
    by (auto simp: create_fields_def end_before_start_def opt_all_def split: option.splits if_splits)
  show ?thesis
    using validateBreakRule_ok [OF br] req wd ed
    by (simp add: create_row_def br assignment_check_def)
qed

lemma patched_break_ok:
  assumes "patched_break cur inp = ([], ty, th, de)" and "assignment_check cur"
  shows "0 \<le> de \<and> opt_all (\<lambda>t. 0 \<le> t) th \<and> (ty = BreakNone \<or> th \<noteq> None)"
proof (cases "ap_break inp")
  case None
  then show ?thesis using assms by (auto simp: patched_break_def assignment_check_def)
next
  case (Some b)
  then show ?thesis using assms(1) validateBreakRule_ok by (simp add: patched_break_def)
qed

lemma patch_row_check:
  assumes "patch_row up cur inp = Inr new" and "assignment_check cur"
  shows "assignment_check new"
proof -
  obtain ty th de where br: "patched_break cur inp = ([], ty, th, de)"
    using assms(1) by (auto simp: patch_row_def split: option.splits if_splits prod.splits)
  have wd: "opt_all (\<lambda>ds. validateWeekdays ds = []) (ap_weekdays inp)"
    and rq: "opt_all (\<lambda>n. 0 < n) (ap_required inp)"
    using assms(1) by (auto simp: patch_row_def split: option.splits if_splits prod.splits)
  have wd': "opt_all (list_all (\<lambda>d. 1 \<le> d \<and> d \<le> 7))
      (case ap_weekdays inp of None \<Rightarrow> as_weekdays cur | Some ds \<Rightarrow> Some ds)"
    using wd assms(2) by (cases "ap_weekdays inp") (auto simp: assignment_check_def validateWeekdays_ok)
  have rq': "0 < (case ap_required inp of None \<Rightarrow> as_required cur | Some n \<Rightarrow> n)"
    using rq assms(2) by (cases "ap_required inp") (auto simp: assignment_check_def)
  show ?thesis
    using assms(1) patched_break_ok [OF br assms(2)] wd' rq'
    by (auto simp: patch_row_def br assignment_check_def split: option.splits if_splits)
qed

text \<open>
  The validation of the service is at least as strict as the CHECK constraints of the table:
  a create without reported fields, and a patch of a row that satisfies them, write a row that
  satisfies them.
\<close>

theorem validation_implies_checks:
  "(create_fields up inp = [] \<longrightarrow> parseDate (ac_start inp) = Some start \<longrightarrow>
      ac_required inp = Some required \<longrightarrow>
      assignment_check (create_row aid ck t s start required inp)) \<and>
   (patch_row up cur pin = Inr new \<longrightarrow> assignment_check cur \<longrightarrow> assignment_check new)"
  using create_row_check patch_row_check by blast

theorem validation_implies_checks_witness:
  "assignment_check (create_row 9 (demo_clock 0) 2 1 20454 600 \<lparr>ac_trainee_id = ''t'',
     ac_site_id = ''s'', ac_start = ''2026-01-01'', ac_end = None, ac_required = Some 600,
     ac_break = Some \<lparr>bi_type = ''fixed_after_threshold'', bi_threshold = Some 240,
       bi_deduction = Some 60\<rparr>, ac_weekdays = Some [1, 2], ac_as_status = ''active''\<rparr>)"
proof -
  have "parseDate ''2026-01-01'' = Some 20454" by code_simp
  moreover have "create_fields (\<lambda>_. Some 2) \<lparr>ac_trainee_id = ''t'',
     ac_site_id = ''s'', ac_start = ''2026-01-01'', ac_end = None, ac_required = Some 600,
     ac_break = Some \<lparr>bi_type = ''fixed_after_threshold'', bi_threshold = Some 240,
       bi_deduction = Some 60\<rparr>, ac_weekdays = Some [1, 2], ac_as_status = ''active''\<rparr> = []"
    using calculation
    by (simp add: create_fields_def end_date_of_def end_before_start_def assignment_status_of_def
        validateWeekdays_def validateBreakRule_def)
  ultimately show ?thesis
    using validation_implies_checks [THEN conjunct1] by simp
qed

section \<open>One active assignment\<close>

definition active_unique :: "database \<Rightarrow> bool" where
  "active_unique db \<longleftrightarrow> unique_on as_id (db_assignments db) \<and>
     unique_on as_trainee (filter (\<lambda>a. as_status a = AsActive) (db_assignments db))"

lemma insert_assignment_Inr:
  "insert_assignment r db = Inr db' \<longleftrightarrow>
     fits_int4 (as_required r) \<and> opt_all fits_int4 (as_break_threshold r) \<and>
     fits_int4 (as_break_deduction r) \<and> assignment_check r \<and>
     as_id r \<notin> as_id ` set (db_assignments db) \<and>
     \<not> (as_status r = AsActive \<and>
        (\<exists>q\<in>set (db_assignments db). as_status q = AsActive \<and> as_trainee q = as_trainee r)) \<and>
     find_trainee (as_trainee r) db \<noteq> None \<and> find_site (as_site r) db \<noteq> None \<and>
     db' = db\<lparr>db_assignments := db_assignments db @ [r]\<rparr>"
  by (auto simp: insert_assignment_def assignment_checks_def insert_row_Inr taken_iff image_iff)

lemma insert_active_unique:
  assumes "insert_assignment r db = Inr db'" and "active_unique db"
  shows "active_unique db'"
  using assms
  by (auto simp: insert_assignment_Inr active_unique_def unique_on_append image_iff)

interpretation patched_id: key_update as_id "set_assignment new"
  by unfold_locales (simp add: set_assignment_def)

interpretation patched_trainee: key_update as_trainee "set_assignment new"
  by unfold_locales (simp add: set_assignment_def)

lemma update_active_unique:
  assumes "update_assignment i (set_assignment new) db = Inr db'" and "active_unique db"
  shows "active_unique db'"
proof (cases "find_assignment i db")
  case None
  then show ?thesis using assms by (simp add: update_assignment_def)
next
  case (Some a)
  have u: "unique_on as_id (db_assignments db)" and
    act: "\<And>a b. \<lbrakk>a \<in> set (db_assignments db); b \<in> set (db_assignments db); as_status a = AsActive;
      as_status b = AsActive; as_trainee a = as_trainee b\<rbrakk> \<Longrightarrow> a = b"
    using assms(2) by (auto simp: active_unique_def partial_unique_iff)
  have a: "a \<in> set (db_assignments db)" "as_id a = i"
    using Some by (auto simp: find_assignment_def dest: by_key_mem)
  have only: "b = a" if "b \<in> set (db_assignments db)" "as_id b = i" for b
    using unique_on_inj [OF u that(1) a(1)] that(2) a(2) by simp
  have v: "list_all (\<lambda>c. \<not> fst c) (assignment_checks (set_assignment new a)
      (filter (\<lambda>q. as_id q \<noteq> i) (db_assignments db)) db)"
    using assms(1) by (simp add: update_assignment_def Some insert_row_Inr first_violation_None)
  have new: "as_trainee q \<noteq> as_trainee a"
    if "as_status new = AsActive" "q \<in> set (db_assignments db)" "as_id q \<noteq> i"
      "as_status q = AsActive" for q
    using v that by (auto simp: assignment_checks_def taken_iff set_assignment_def image_iff)
  have db': "db' = db\<lparr>db_assignments := set_by_key as_id i (set_assignment new) (db_assignments db)\<rparr>"
    using assms(1) by (simp add: update_assignment_def Some insert_row_Inr)
  have st: "as_status (set_assignment new q) = as_status new" for q
    by (simp add: set_assignment_def)
  have "unique_on as_trainee (filter (\<lambda>a. as_status a = AsActive)
      (update_where (\<lambda>r. as_id r = i) (set_assignment new) (db_assignments db)))"
  proof (rule unique_on_update_where [where idk = as_id])
    show "unique_on as_id (db_assignments db)" by (rule u)
    show "as_id (set_assignment new r) = as_id r" for r by (rule patched_id.key_kept)
    fix b c
    assume "b \<in> set (db_assignments db)" "c \<in> set (db_assignments db)"
      "as_status (if as_id b = i then set_assignment new b else b) = AsActive"
      "as_status (if as_id c = i then set_assignment new c else c) = AsActive"
      "as_trainee (if as_id b = i then set_assignment new b else b) =
        as_trainee (if as_id c = i then set_assignment new c else c)"
    then show "b = c"
      using only [of b] only [of c] new [of b] new [of c] act [of b c]
      by (auto simp: st patched_trainee.key_kept split: if_splits)
  qed
  then show ?thesis
    using u by (simp add: active_unique_def db' set_by_key_def patched_id.unique_update)
qed

lemma Create_assignment_cases:
  assumes "Create_assignment up aid ck inp db0 db1 = (db', r)"
  obtains (refused) e where "db' = db1" "r = Inl e"
  | (created) t s start required where "create_fields up inp = []"
      "up (trim_space (ac_trainee_id inp)) = Some t" "up (trim_space (ac_site_id inp)) = Some s"
      "parseDate (ac_start inp) = Some start" "ac_required inp = Some required"
      "insert_assignment (create_row aid ck t s start required inp) db1 = Inr db'"
      "r = Get_assignment aid db'"
  using assms
  by (auto simp: Create_assignment_def split: option.splits if_splits sum.splits)

lemma Update_assignment_cases:
  assumes "Update_assignment up i inp db0 db1 = (db', r)"
  obtains (refused) e where "db' = db1" "r = Inl e"
  | (updated) v new where "Get_assignment i db0 = Inr v" "patch_row up (asv_row v) inp = Inr new"
      "update_assignment i (set_assignment new) db1 = Inr db'" "r = Get_assignment i db'"
proof (cases "Get_assignment i db0")
  case (Inl e)
  then show ?thesis using assms by (intro refused [of e]) (simp_all add: Update_assignment_def)
next
  case (Inr v)
  then show ?thesis
    using assms refused updated [OF Inr]
    by (cases "patch_row up (asv_row v) inp")
      (auto simp: Update_assignment_def split: sum.splits)
qed

text \<open>
  C17. A trainee never has two active assignments: whatever a create or an update is asked for,
  and whatever it read before other requests committed, it keeps at most one active assignment
  for each trainee.
\<close>

theorem assignments_one_active:
  assumes "active_unique db1"
  shows "active_unique (fst (Create_assignment up aid ck inp db0 db1)) \<and>
    active_unique (fst (Update_assignment up i pin db0 db1))"
proof
  obtain db' r where c: "Create_assignment up aid ck inp db0 db1 = (db', r)" by fastforce
  then show "active_unique (fst (Create_assignment up aid ck inp db0 db1))"
    using assms by (cases rule: Create_assignment_cases) (auto simp: c intro: insert_active_unique)
  obtain db' r where u: "Update_assignment up i pin db0 db1 = (db', r)" by fastforce
  then show "active_unique (fst (Update_assignment up i pin db0 db1))"
    using assms by (cases rule: Update_assignment_cases) (auto simp: u intro: update_active_unique)
qed

theorem assignments_one_active_witness:
  "active_unique (fst (Update_assignment (\<lambda>_. None) 7 \<lparr>ap_site_id = None, ap_start = None,
     ap_end = None, ap_required = Some 90, ap_break = None, ap_weekdays = None,
     ap_status = Some ''active''\<rparr> demo_db demo_db))"
  by (rule assignments_one_active [THEN conjunct2])
    (simp add: active_unique_def unique_on_def demo_db_defs)

text \<open>
  Time In uses the one active assignment: the site it works with is that of an assignment of
  the trainee that is active and covers the day, and with at most one active assignment there is
  no other choice.
\<close>

theorem activeSite_unique:
  assumes "active_unique db" and "a \<in> set (db_assignments db)" and "as_trainee a = tc_trainee tc"
    and "as_status a = AsActive" and "find_site (as_site a) db = Some s"
  shows "activeSite tc today db =
    (if as_start a \<le> today \<and> opt_all (\<lambda>e. today \<le> e) (as_end a) then Some (site_ctx_of a s)
     else None)"
proof -
  let ?p = "\<lambda>a. in_effect (tc_trainee tc) today a \<and> find_site (as_site a) db \<noteq> None"
  have only: "b = a" if "b \<in> set (db_assignments db)" "?p b" for b
    using assms that by (auto simp: active_unique_def partial_unique_iff in_effect_def)
  have "distinct (db_assignments db)"
    using assms(1) by (auto simp: active_unique_def unique_on_def distinct_map)
  then have "filter ?p (db_assignments db) =
      (if a \<in> set (db_assignments db) \<and> ?p a then [a] else [])"
    by (rule filter_only) (rule only)
  then have rows: "filter ?p (db_assignments db) = (if ?p a then [a] else [])"
    using assms(2) by simp
  have eff: "?p a \<longleftrightarrow> as_start a \<le> today \<and> opt_all (\<lambda>e. today \<le> e) (as_end a)"
    using assms(3-5) by (cases "as_end a") (auto simp: in_effect_def)
  show ?thesis
    unfolding activeSite_def rows eff using assms(5) by (simp add: order_desc_def)
qed

theorem activeSite_unique_witness:
  "\<exists>s. activeSite \<lparr>tc_trainee = 2, tc_name = ''T'', tc_student = ''S1'', tc_timezone = ''UTC'',
     tc_low_accuracy = Fin 100, tc_unusual = 960\<rparr> 5 demo_db = Some (site_ctx_of demo_assignment s)"
proof -
  define tc where "tc = \<lparr>tc_trainee = 2, tc_name = ''T'', tc_student = ''S1'',
    tc_timezone = ''UTC'', tc_low_accuracy = Fin 100, tc_unusual = 960\<rparr>"
  obtain s where s: "find_site (as_site demo_assignment) demo_db = Some s"
    by (simp add: find_site_def by_key_def demo_db_defs)
  have "active_unique demo_db" "demo_assignment \<in> set (db_assignments demo_db)"
      "as_trainee demo_assignment = tc_trainee tc" "as_status demo_assignment = AsActive"
    by (simp_all add: active_unique_def unique_on_def demo_db_defs tc_def)
  from activeSite_unique [OF this s, of 5]
  have "activeSite tc 5 demo_db = Some (site_ctx_of demo_assignment s)"
    by (simp add: demo_assignment_def)
  then show ?thesis unfolding tc_def [symmetric] by blast
qed

section \<open>Where the operations fall short\<close>

text \<open>
  A coordinator can create an assignment for a trainee outside the own scope: when the
  trainee's identifier is sent with blanks around it, the handler does not check the scope, and
  the service trims and accepts it. Whatever the actor, the answer is that of the service.
\<close>

theorem Create_assignment_scope_bypass:
  assumes "uuid_parse (ac_trainee_id inp) = None"
  shows "snd (handle_Create_assignment uuid_parse aid ck actor (Some inp) db0 db1) =
    (case snd (Create_assignment uuid_parse aid ck inp db0 db1) of
       Inl e \<Rightarrow> Inl (Fail e) | Inr a \<Rightarrow> Inr a)"
  using assms
  by (auto simp: handle_Create_assignment_def split: prod.splits sum.splits)

text \<open>The identifier \<open>2\<close>, as a parser that takes no blanks reads it.\<close>

definition demo_parse :: "string \<Rightarrow> uuid option" where
  "demo_parse s = (if s = ''2'' then Some 2 else if s = ''1'' then Some 1 else None)"

definition demo_create :: assignment_create where
  "demo_create = \<lparr>ac_trainee_id = '' 2'', ac_site_id = ''1'', ac_start = ''2026-01-01'',
     ac_end = None, ac_required = Some 600, ac_break = None, ac_weekdays = None,
     ac_as_status = ''planned''\<rparr>"

definition demo_outsider :: auth_user where
  "demo_outsider = \<lparr>ac_id = 77, ac_email = ''o@x'', ac_role = RCoordinator, ac_status = AccActive,
     ac_name = ''O''\<rparr>"

lemma demo_create_eval:
  "\<exists>v. snd (Create_assignment demo_parse 9 (demo_clock 0) demo_create demo_db demo_db) = Inr v \<and>
     as_trainee (asv_row v) = 2"
proof -
  have t: "trim_space '' 2'' = ''2''" "trim_space ''1'' = ''1''"
      "parseDate ''2026-01-01'' = Some 20454"
    by code_simp+
  then show ?thesis
    by (simp add: Create_assignment_def create_fields_def demo_create_def demo_parse_def
        end_date_of_def end_before_start_def assignment_status_of_def validateWeekdays_def
        validateBreakRule_def insert_assignment_def assignment_checks_def insert_row_def
        create_row_def fits_int4_def assignment_check_def Get_assignment_def scanAssignment_def
        taken_def find_site_def find_trainee_def find_user_def find_assignment_def by_key_def
        demo_db_defs)
qed

theorem Create_assignment_scope_bypass_witness:
  "\<not> CanAccessTrainee demo_outsider 2 demo_db \<and>
   (\<exists>v. snd (handle_Create_assignment demo_parse 9 (demo_clock 0) demo_outsider (Some demo_create)
      demo_db demo_db) = Inr v \<and> as_trainee (asv_row v) = 2)"
proof
  show "\<not> CanAccessTrainee demo_outsider 2 demo_db"
    by (simp add: CanAccessTrainee_def demo_outsider_def demo_db_defs)
  have "demo_parse (ac_trainee_id demo_create) = None"
    by (simp add: demo_parse_def demo_create_def)
  from Create_assignment_scope_bypass [of demo_parse demo_create, OF this] demo_create_eval
  show "\<exists>v. snd (handle_Create_assignment demo_parse 9 (demo_clock 0) demo_outsider
      (Some demo_create) demo_db demo_db) = Inr v \<and> as_trainee (asv_row v) = 2"
    by fastforce
qed

text \<open>
  An update writes every column, those the patch does not mention as it read them before: an
  update of the same assignment that commits in between, a completion for example, is undone.
  Other assignments are not touched.
\<close>

theorem Update_assignment_overwrites:
  assumes "Update_assignment up i inp db0 db1 = (db', Inr v)"
    and "Get_assignment i db0 = Inr v0" and "find_assignment i db1 = Some a1"
  shows "\<exists>a'. find_assignment i db' = Some a' \<and> as_trainee a' = as_trainee a1 \<and>
    (ap_site_id inp = None \<longrightarrow> as_site a' = as_site (asv_row v0)) \<and>
    (ap_start inp = None \<longrightarrow> as_start a' = as_start (asv_row v0)) \<and>
    (ap_end inp = None \<longrightarrow> as_end a' = as_end (asv_row v0)) \<and>
    as_required a' = (case ap_required inp of None \<Rightarrow> as_required (asv_row v0) | Some n \<Rightarrow> n) \<and>
    (ap_status inp = None \<longrightarrow> as_status a' = as_status (asv_row v0)) \<and>
    (\<forall>k. k \<noteq> i \<longrightarrow> find_assignment k db' = find_assignment k db1)"
  using assms(1)
proof (cases rule: Update_assignment_cases)
  case (updated v0' new)
  have v0': "v0' = v0" using updated(1) assms(2) by simp
  have db': "db' = db1\<lparr>db_assignments := set_by_key as_id i (set_assignment new) (db_assignments db1)\<rparr>"
    using updated(3) by (simp add: update_assignment_def assms(3) insert_row_Inr)
  have found: "find_assignment i db' = Some (set_assignment new a1)"
    using assms(3) by (simp add: db' find_assignment_def patched_id.find_set_same)
  have other: "\<forall>k. k \<noteq> i \<longrightarrow> find_assignment k db' = find_assignment k db1"
    by (simp add: db' find_assignment_def patched_id.find_set_other)
  have new: "(ap_site_id inp = None \<longrightarrow> as_site new = as_site (asv_row v0)) \<and>
      (ap_start inp = None \<longrightarrow> as_start new = as_start (asv_row v0)) \<and>
      (ap_end inp = None \<longrightarrow> as_end new = as_end (asv_row v0)) \<and>
      as_required new = (case ap_required inp of None \<Rightarrow> as_required (asv_row v0) | Some n \<Rightarrow> n) \<and>
      (ap_status inp = None \<longrightarrow> as_status new = as_status (asv_row v0))"
    using updated(2) unfolding v0'
    by (auto simp: patch_row_def patched_site_def patched_start_def patched_end_def
        patched_status_def split: option.splits if_splits prod.splits)
  show ?thesis
    using found other new by (intro exI [of _ "set_assignment new a1"]) (simp add: set_assignment_def)
qed simp

text \<open>While a patch of the required minutes is on its way, the assignment is completed.\<close>

definition demo_completed_db :: database where
  "demo_completed_db = demo_db\<lparr>db_assignments := [demo_assignment\<lparr>as_status := AsCompleted\<rparr>]\<rparr>"

definition demo_patch :: assignment_patch where
  "demo_patch = \<lparr>ap_site_id = None, ap_start = None, ap_end = None, ap_required = Some 90,
     ap_break = None, ap_weekdays = None, ap_status = None\<rparr>"

lemmas patch_eval = Update_assignment_def patch_row_def patched_site_def patched_start_def
  patched_end_def patched_status_def patched_break_def update_assignment_def assignment_checks_def
  insert_row_def fits_int4_def assignment_check_def Get_assignment_def scanAssignment_def
  set_assignment_def set_by_key_def update_where_def taken_def find_site_def find_trainee_def
  find_user_def find_assignment_def by_key_def demo_patch_def demo_completed_db_def

lemma demo_patch_run:
  "\<exists>db' v. Update_assignment (\<lambda>_. None) 7 demo_patch demo_db demo_completed_db = (db', Inr v)"
  by (simp add: patch_eval demo_db_defs)

theorem Update_assignment_overwrites_witness:
  "\<exists>db' v a. Update_assignment (\<lambda>_. None) 7 demo_patch demo_db demo_completed_db = (db', Inr v) \<and>
     find_assignment 7 db' = Some a \<and> as_status a = AsActive \<and> as_required a = 90"
proof -
  obtain db' v where run:
    "Update_assignment (\<lambda>_. None) 7 demo_patch demo_db demo_completed_db = (db', Inr v)"
    using demo_patch_run by blast
  obtain v0 where v0: "Get_assignment 7 demo_db = Inr v0" "as_status (asv_row v0) = AsActive"
    by (simp add: patch_eval demo_db_defs)
  have a1: "find_assignment 7 demo_completed_db = Some (demo_assignment\<lparr>as_status := AsCompleted\<rparr>)"
    by (simp add: patch_eval demo_db_defs)
  have p: "ap_status demo_patch = None" "ap_required demo_patch = Some 90"
    by (simp_all add: demo_patch_def)
  obtain a where "find_assignment 7 db' = Some a" "as_status a = as_status (asv_row v0)"
      "as_required a = 90"
    using Update_assignment_overwrites [OF run v0(1) a1] p by auto
  then show ?thesis using run v0(2) by auto
qed

end
