(* ===== verification/AccessLaws.thy ===== *)
theory AccessLaws
  imports Access
begin

text \<open>
  What the sessions guarantee: a token resolves exactly while its session is live and its
  account active, and a login yields a token that resolves to the account.
\<close>

interpretation touch_session: key_update ss_id "\<lambda>s. s\<lparr>ss_last_seen := t\<rparr>"
  by unfold_locales simp

interpretation rotate: key_update ss_id "\<lambda>s. s\<lparr>ss_csrf_hash := h\<rparr>"
  by unfold_locales simp

interpretation revoke_id: key_update ss_id "revoke ck"
  by unfold_locales (simp add: revoke_def)

interpretation revoke_token: key_update ss_token_hash "revoke ck"
  by unfold_locales (simp add: revoke_def)

interpretation login_user: key_update us_id "\<lambda>u. u\<lparr>us_last_login := t\<rparr>"
  by unfold_locales simp

interpretation rehash_user: key_update us_id "\<lambda>u. u\<lparr>us_password_hash := h\<rparr>"
  by unfold_locales simp

definition sessions_ok :: "database \<Rightarrow> bool" where
  "sessions_ok db \<longleftrightarrow> unique_on ss_id (db_sessions db) \<and> unique_on ss_token_hash (db_sessions db)"

lemma Resolve_Some:
  assumes "Resolve sha ck token db = (db', Some (s, a))"
  shows "s \<in> set (db_sessions db)" and "ss_revoked s = None" and "ac_id a = ss_user s"
  using assms
  by (auto simp: Resolve_def live_def auth_user_of_def find_user_def
      split: option.splits if_splits dest!: find_Some_iff2 by_key_mem)

lemma Resolve_Some_iff:
  assumes "sessions_ok db"
  shows "(\<exists>db'. Resolve sha ck token db = (db', Some (s, a))) \<longleftrightarrow>
    s \<in> set (db_sessions db) \<and> ss_token_hash s = sha token \<and> ss_revoked s = None \<and>
    ck_dbnow ck < ss_expires s \<and>
    (\<exists>u. find_user (ss_user s) db = Some u \<and> us_status u = AccActive \<and> a = auth_user_of u)"
    (is "?l \<longleftrightarrow> ?r")
proof
  assume ?l
  then show ?r
    by (auto simp: Resolve_def live_def split: option.splits if_splits dest!: find_Some_iff2)
next
  assume r: ?r
  define p where "p = (\<lambda>s. ss_token_hash s = sha token \<and> live (ck_dbnow ck) s \<and>
    find_user (ss_user s) db \<noteq> None)"
  have "p s" "s \<in> set (db_sessions db)" using r by (auto simp: p_def live_def)
  then obtain q where q: "List.find p (db_sessions db) = Some q"
    by (cases "List.find p (db_sessions db)") (auto simp: find_None_all)
  then have "q \<in> set (db_sessions db)" "p q" by (auto dest: find_Some_iff2)
  then have "q = s"
    using assms r by (intro unique_on_inj [of ss_token_hash "db_sessions db"])
      (auto simp: sessions_ok_def p_def)
  with q have "List.find p (db_sessions db) = Some s" by simp
  with r show ?l by (auto simp: Resolve_def p_def)
qed

text \<open>
  A token resolves exactly when one of the stored sessions carries its hash, has not been
  revoked or expired, and belongs to an active account; it resolves to that account.
\<close>

theorem Resolve_iff:
  assumes "sessions_ok db"
  shows "(\<exists>db'. Resolve sha ck token db = (db', Some (s, a))) \<longleftrightarrow>
    s \<in> set (db_sessions db) \<and> ss_token_hash s = sha token \<and> ss_revoked s = None \<and>
    ck_dbnow ck < ss_expires s \<and>
    (\<exists>u. find_user (ss_user s) db = Some u \<and> us_status u = AccActive \<and> a = auth_user_of u)"
  using assms by (rule Resolve_Some_iff)

definition demo_db_session :: session_row where
  "demo_db_session = \<lparr>ss_id = 70, ss_user = 10, ss_token_hash = ''tok'',
     ss_csrf_hash = Some ''c'', ss_expires = 1000, ss_revoked = None, ss_last_seen = None\<rparr>"

theorem Resolve_iff_witness:
  "\<exists>db' a. Resolve (\<lambda>x. x) (demo_clock 5) ''tok'' (demo_db\<lparr>db_sessions := [demo_db_session]\<rparr>) =
     (db', Some (demo_db_session, a)) \<and> ac_id a = 10"
proof -
  define db where "db = demo_db\<lparr>db_sessions := [demo_db_session]\<rparr>"
  have ok: "sessions_ok db" by (simp add: sessions_ok_def unique_on_def db_def)
  obtain u where u: "find_user 10 db = Some u" "us_status u = AccActive" "us_id u = 10"
    by (simp add: find_user_def by_key_def db_def demo_db_defs)
  have s: "demo_db_session \<in> set (db_sessions db)" "ss_token_hash demo_db_session = ''tok''"
      "ss_revoked demo_db_session = None" "ck_dbnow (demo_clock 5) < ss_expires demo_db_session"
      "ss_user demo_db_session = 10"
    by (simp_all add: db_def demo_db_session_def demo_clock_def)
  have "\<exists>db'. Resolve (\<lambda>x. x) (demo_clock 5) ''tok'' db = (db', Some (demo_db_session, auth_user_of u))"
    unfolding Resolve_iff [OF ok] s(5) using s(1-4) u by blast
  then show ?thesis unfolding db_def [symmetric] using u(3) by (auto simp: auth_user_of_def)
qed

lemma RevokeAll_revoked:
  assumes "s \<in> set (db_sessions (RevokeAllForUser ck userID db))" and "ss_user s = userID"
  shows "ss_revoked s \<noteq> None"
proof -
  obtain q where "s = (if ss_user q = userID \<and> ss_revoked q = None then revoke ck q else q)"
    using assms(1) in_update_where [of s "\<lambda>s. ss_user s = userID \<and> ss_revoked s = None" "revoke ck" "db_sessions db"]
    by (simp add: RevokeAllForUser_def) blast
  with assms(2) show ?thesis
    by (cases "ss_user q = userID \<and> ss_revoked q = None") (auto simp: revoke_def)
qed

section \<open>Login\<close>

lemma Create_session_Inr:
  "Create_session sha ck ttl sid uid token csrf db = Inr db' \<longleftrightarrow>
     sid \<notin> ss_id ` set (db_sessions db) \<and> sha token \<notin> ss_token_hash ` set (db_sessions db) \<and>
     db' = db\<lparr>db_sessions := db_sessions db @
       [\<lparr>ss_id = sid, ss_user = uid, ss_token_hash = sha token, ss_csrf_hash = Some (sha csrf),
         ss_expires = ck_now ck + ttl, ss_revoked = None, ss_last_seen = None\<rparr>]\<rparr>"
  by (auto simp: Create_session_def insert_row_Inr taken_iff Let_def)

lemma Create_session_ok:
  "Create_session sha ck ttl sid uid token csrf db = Inr db' \<Longrightarrow> sessions_ok db \<Longrightarrow> sessions_ok db'"
  by (auto simp: Create_session_Inr sessions_ok_def unique_on_append)

lemma Revoke_ok: "sessions_ok db \<Longrightarrow> sessions_ok (Revoke sha ck token db)"
  by (simp add: Revoke_def sessions_ok_def revoke_id.unique_update revoke_token.unique_update)

lemma Login_Inr:
  assumes "Login sha pw ck ttl sid token csrf email password db = (db', Inr (a, ex))"
  obtains u r db1 db2 where "user_by_email email db = Some u" and "us_status u = AccActive"
    and "pw_verify pw password (us_password_hash u) = Some (True, r)"
    and "db1 = (if r then (case pw_hash pw password of
        Some h \<Rightarrow> set_user (us_id u) (\<lambda>u. u\<lparr>us_password_hash := h\<rparr>) db | None \<Rightarrow> db) else db)"
    and "Create_session sha ck ttl sid (us_id u) token csrf db1 = Inr db2"
    and "db' = set_user (us_id u) (\<lambda>u. u\<lparr>us_last_login := Some (ck_dbnow ck)\<rparr>) db2"
    and "a = auth_user_of u" and "ex = ck_now ck + ttl"
proof -
  obtain u where u: "user_by_email email db = Some u"
    using assms by (cases "user_by_email email db") (simp_all add: Login_def)
  obtain r where r: "pw_verify pw password (us_password_hash u) = Some (True, r)"
      "us_status u = AccActive"
    using assms u by (auto simp: Login_def split: option.splits if_splits prod.splits)
  define db1 where "db1 = (if r then (case pw_hash pw password of
      Some h \<Rightarrow> set_user (us_id u) (\<lambda>u. u\<lparr>us_password_hash := h\<rparr>) db | None \<Rightarrow> db) else db)"
  show ?thesis
    using assms u r
    by (intro that [OF u r(2,1) db1_def, of "projr (Create_session sha ck ttl sid (us_id u) token csrf db1)"])
      (simp_all add: Login_def db1_def [symmetric] Let_def split: sum.splits)
qed

text \<open>
  A login succeeds only with the password of an active account, and the token it issues
  resolves to that account, with its unchanged role, until it expires.
\<close>

theorem Login_then_Resolve:
  assumes "Login sha pw ck ttl sid token csrf email password db = (db', Inr (a, ex))"
    and "sessions_ok db" and "unique_on us_id (db_users db)" and "ck_dbnow ck' < ex"
  shows "ac_status a = AccActive \<and> to_lower (ac_email a) = to_lower email \<and>
    (\<exists>hash r. pw_verify pw password hash = Some (True, r)) \<and>
    (\<exists>db'' s. Resolve sha ck' token db' = (db'', Some (s, a)))"
proof (rule Login_Inr [OF assms(1)])
  fix u r db1 db2
  assume u: "user_by_email email db = Some u" "us_status u = AccActive"
    and pw: "pw_verify pw password (us_password_hash u) = Some (True, r)"
    and db1: "db1 = (if r then (case pw_hash pw password of
        Some h \<Rightarrow> set_user (us_id u) (\<lambda>u. u\<lparr>us_password_hash := h\<rparr>) db | None \<Rightarrow> db) else db)"
    and new: "Create_session sha ck ttl sid (us_id u) token csrf db1 = Inr db2"
    and db': "db' = set_user (us_id u) (\<lambda>u. u\<lparr>us_last_login := Some (ck_dbnow ck)\<rparr>) db2"
    and a: "a = auth_user_of u" and ex: "ex = ck_now ck + ttl"
  have mem: "u \<in> set (db_users db)" "to_lower (us_email u) = to_lower email"
    using u(1) by (auto simp: user_by_email_def dest: find_Some_iff2)
  have "by_key us_id (us_id u) (db_users db) = Some u" using assms(3) mem(1) by (rule by_key_unique)
  then obtain v where "find_user (us_id u) db1 = Some v" "us_status v = AccActive"
      "auth_user_of v = a"
    using u(2) unfolding db1 find_user_def set_user_def a
    by (cases r; cases "pw_hash pw password")
      (auto simp: rehash_user.find_set_same auth_user_of_def)
  then have v: "\<exists>v. find_user (us_id u) db' = Some v \<and> us_status v = AccActive \<and> a = auth_user_of v"
    using new unfolding db' Create_session_Inr
    by (auto simp: find_user_def set_user_def login_user.find_set_same auth_user_of_def)
  have "db_sessions db1 = db_sessions db" by (auto simp: db1 set_user_def split: option.splits)
  then have ok: "sessions_ok db'"
    using Create_session_ok [OF new] assms(2) by (simp add: db' set_user_def sessions_ok_def)
  define s where "s = \<lparr>ss_id = sid, ss_user = us_id u, ss_token_hash = sha token,
    ss_csrf_hash = Some (sha csrf), ss_expires = ck_now ck + ttl, ss_revoked = None,
    ss_last_seen = None\<rparr>"
  have "s \<in> set (db_sessions db')"
    using new by (simp add: Create_session_Inr db' set_user_def s_def)
  moreover have "ss_user s = us_id u" "ss_token_hash s = sha token" "ss_revoked s = None"
      "ck_dbnow ck' < ss_expires s"
    using assms(4) ex by (simp_all add: s_def)
  ultimately have "\<exists>db''. Resolve sha ck' token db' = (db'', Some (s, a))"
    unfolding Resolve_Some_iff [OF ok] using v by simp
  then show ?thesis using pw u(2) mem a by (auto simp: auth_user_of_def)
qed

definition demo_pw :: password_env where
  "demo_pw = \<lparr>pw_verify = (\<lambda>p h. Some (p = ''secret'' \<and> h = ''h'', False)), pw_hash = Some\<rparr>"

theorem Login_then_Resolve_witness:
  "\<exists>db' a db'' s. Login (\<lambda>x. x) demo_pw (demo_clock 0) 100 70 ''tok'' ''csrf'' ''T@X'' ''secret'' demo_db =
      (db', Inr (a, 100)) \<and> Resolve (\<lambda>x. x) (demo_clock 50) ''tok'' db' = (db'', Some (s, a))"
proof -
  have "to_lower ''T@X'' = ''t@x''" "to_lower ''t@x'' = ''t@x''" by code_simp+
  then obtain db' a where run: "Login (\<lambda>x. x) demo_pw (demo_clock 0) 100 70 ''tok'' ''csrf'' ''T@X''
      ''secret'' demo_db = (db', Inr (a, 100))"
    by (simp add: Login_def user_by_email_def demo_db_defs demo_pw_def Create_session_def
        insert_row_def taken_def)
  show ?thesis
    using run Login_then_Resolve [OF run, of "demo_clock 50"]
    by (auto simp: sessions_ok_def unique_on_def demo_db_defs)
qed

text \<open>
  C22. An unsafe request passes the CSRF check exactly when its Origin is absent or allowed and
  it presents a non-empty token whose hash is the one stored for its session; after a rotation
  that is the hash of the new token.
\<close>

theorem CSRFProtect_iff:
  assumes "meth \<noteq> GET" and "meth \<noteq> HEAD" and "meth \<noteq> OPTIONS"
  shows "(CSRFProtect sha allowed meth origin sess presented = None \<longleftrightarrow>
      (origin = [] \<or> origin \<in> set allowed) \<and> presented \<noteq> [] \<and> sha presented \<noteq> [] \<and>
      (\<exists>s. sess = Some s \<and> ss_csrf_hash s = Some (sha presented))) \<and>
    (\<forall>s i token. by_key ss_id i (db_sessions (RotateCSRF sha i token db)) = Some s \<longrightarrow>
      ss_csrf_hash s = Some (sha token))"
proof
  show "CSRFProtect sha allowed meth origin sess presented = None \<longleftrightarrow>
      (origin = [] \<or> origin \<in> set allowed) \<and> presented \<noteq> [] \<and> sha presented \<noteq> [] \<and>
      (\<exists>s. sess = Some s \<and> ss_csrf_hash s = Some (sha presented))"
    using assms by (cases sess; cases "ss_csrf_hash (the sess)")
      (auto simp: CSRFProtect_def ValidCSRF_def Let_def)
  show "\<forall>s i token. by_key ss_id i (db_sessions (RotateCSRF sha i token db)) = Some s \<longrightarrow>
      ss_csrf_hash s = Some (sha token)"
    by (auto simp: RotateCSRF_def rotate.find_set_same)
qed

theorem CSRFProtect_iff_witness:
  "CSRFProtect (\<lambda>x. x) [] POST [] (Some demo_db_session) ''c'' = None \<and>
   CSRFProtect (\<lambda>x. x) [] POST ''evil'' (Some demo_db_session) ''c'' \<noteq> None"
  using CSRFProtect_iff [of POST "\<lambda>x. x" "[]" "[]" "Some demo_db_session" "''c''"]
    CSRFProtect_iff [of POST "\<lambda>x. x" "[]" "''evil''" "Some demo_db_session" "''c''"]
  by (simp add: demo_db_session_def)

end
