(* ===== verification/Corrections.thy ===== *)
theory Corrections
  imports Attendance Access
begin

text \<open>
  \<open>internal/corrections\<close>: a trainee proposes a correction of a session, a member of staff
  approves or rejects it. A decision runs in one transaction under row locks, so it is a
  function of a single database; a request reads before its transaction, so it has the two
  databases \<open>db0\<close> and \<open>db1\<close>, as in \<open>Attendance\<close>.
\<close>

section \<open>Requests\<close>

definition correction_type_of :: "string \<Rightarrow> correction_type option" where
  "correction_type_of s =
     (if s = ''missed_time_out'' then Some MissedTimeOut
      else if s = ''incorrect_time'' then Some IncorrectTime
      else if s = ''field_assignment'' then Some FieldAssignment
      else if s = ''gps_issue'' then Some GpsIssue
      else if s = ''other'' then Some OtherCorrection else None)"

record proposal_rule =
  pr_need_in :: bool
  pr_need_out :: bool
  pr_any :: bool

definition allowedProposals :: "correction_type \<Rightarrow> proposal_rule" where
  "allowedProposals t =
     (case t of
        MissedTimeOut \<Rightarrow> \<lparr>pr_need_in = False, pr_need_out = True, pr_any = False\<rparr>
      | IncorrectTime \<Rightarrow> \<lparr>pr_need_in = False, pr_need_out = False, pr_any = True\<rparr>
      | FieldAssignment \<Rightarrow> \<lparr>pr_need_in = False, pr_need_out = False, pr_any = True\<rparr>
      | GpsIssue \<Rightarrow> \<lparr>pr_need_in = False, pr_need_out = False, pr_any = False\<rparr>
      | OtherCorrection \<Rightarrow> \<lparr>pr_need_in = False, pr_need_out = False, pr_any = False\<rparr>)"

record request_input =
  rq_attendance :: uuid
  rq_type :: string
  rq_reason :: string
  rq_in :: "instant option"
  rq_out :: "instant option"

definition validateProposal ::
  "request_input \<Rightarrow> instant \<Rightarrow> instant \<Rightarrow> api_error + correction_type" where
  "validateProposal inp effectiveIn now =
     (case correction_type_of (rq_type inp) of
        None \<Rightarrow> Inl (Validation [''type''])
      | Some t \<Rightarrow>
          let rule = allowedProposals t; bad = Unprocessable ''INVALID_PROPOSED_TIME'' in
          if trim_space (rq_reason inp) = [] then Inl (Validation [''reason''])
          else if pr_need_in rule \<and> rq_in inp = None \<or> pr_need_out rule \<and> rq_out inp = None \<or>
                  pr_any rule \<and> rq_in inp = None \<and> rq_out inp = None then Inl bad
          else if \<not> opt_all (\<lambda>t. t \<le> now) (rq_in inp) then Inl bad
          else if \<not> opt_all (\<lambda>t. t \<le> now) (rq_out inp) then Inl bad
          else
            let effIn = (case rq_in inp of None \<Rightarrow> effectiveIn | Some t \<Rightarrow> t)
            in if \<not> opt_all (\<lambda>t. effIn < t) (rq_out inp) then Inl bad else Inr t)"

definition pending_row ::
  "uuid \<Rightarrow> clock \<Rightarrow> uuid \<Rightarrow> correction_type \<Rightarrow> request_input \<Rightarrow> correction_row" where
  "pending_row cid ck traineeID t inp =
     \<lparr>cr_id = cid, cr_attendance = rq_attendance inp, cr_trainee = traineeID, cr_type = t,
      cr_reason = rq_reason inp, cr_proposed_in = rq_in inp, cr_proposed_out = rq_out inp,
      cr_status = CrPending, cr_requested = ck_dbnow ck, cr_decided_by = None, cr_comment = None,
      cr_decided = None\<rparr>"

definition RequestTx ::
  "uuid \<Rightarrow> clock \<Rightarrow> uuid \<Rightarrow> uuid \<Rightarrow> correction_type \<Rightarrow> request_input \<Rightarrow> database \<Rightarrow>
   go_error + database \<times> correction_row" where
  "RequestTx cid ck traineeID actor t inp db =
     (case insert_correction (pending_row cid ck traineeID t inp) db of
        Inl e \<Rightarrow> Inl (if e = UniqueViolation ''correction_requests_one_pending''
                 then Api (Conflict ''CORRECTION_ALREADY_PENDING'') else e)
      | Inr db' \<Rightarrow> Inr (Record (Some actor) ''correction.requested'' ''correction_request''
                  (Some cid) db', pending_row cid ck traineeID t inp))"

definition Request ::
  "uuid \<Rightarrow> clock \<Rightarrow> bool \<Rightarrow> uuid \<Rightarrow> uuid \<Rightarrow> request_input \<Rightarrow> database \<Rightarrow> database \<Rightarrow>
   database \<times> (go_error + correction_row)" where
  "Request cid ck commit_ok traineeID actor inp db0 db1 =
     (case find_attendance (rq_attendance inp) db0 of
        None \<Rightarrow> (db1, Inl (Api ErrNotFound))
      | Some s \<Rightarrow>
          if at_trainee s \<noteq> traineeID then (db1, Inl (Api ErrNotFound))
          else case validateProposal inp (at_effective_in s) (ck_now ck) of
              Inl e \<Rightarrow> (db1, Inl (Api e))
            | Inr t \<Rightarrow> in_tx commit_ok (RequestTx cid ck traineeID actor t inp) db1)"

section \<open>Decisions\<close>

record decide_ids =
  dc_adjustment :: uuid
  dc_journal :: uuid
  dc_note1 :: uuid
  dc_note2 :: uuid

definition decision_of :: "string \<Rightarrow> correction_status option" where
  "decision_of s =
     (if s = ''approved'' then Some CrApproved
      else if s = ''rejected'' then Some CrRejected else None)"

definition decide_row ::
  "clock \<Rightarrow> uuid \<Rightarrow> correction_status \<Rightarrow> string option \<Rightarrow> correction_row \<Rightarrow> correction_row" where
  "decide_row ck staffID st comment c =
     c\<lparr>cr_status := st, cr_decided_by := Some staffID, cr_comment := comment,
       cr_decided := Some (ck_dbnow ck)\<rparr>"

definition project_session ::
  "instant \<Rightarrow> instant option \<Rightarrow> int option \<Rightarrow> attendance_row \<Rightarrow> attendance_row" where
  "project_session newIn newOut credited s =
     s\<lparr>at_effective_in := newIn, at_effective_out := newOut,
       at_credited := (case credited of None \<Rightarrow> at_credited s | Some c \<Rightarrow> Some c),
       at_status := AtCorrected, at_version := at_version s + 1\<rparr>"

definition stamp_closed :: "clock \<Rightarrow> attendance_row \<Rightarrow> attendance_row" where
  "stamp_closed ck s =
     s\<lparr>at_closed := (case at_closed s of None \<Rightarrow> Some (ck_dbnow ck) | Some t \<Rightarrow> Some t)\<rparr>"

definition ensureJournal ::
  "uuid \<Rightarrow> clock \<Rightarrow> uuid \<Rightarrow> uuid \<Rightarrow> database \<Rightarrow> go_error + database \<times> uuid" where
  "ensureJournal jid ck attendanceID traineeID db =
     result_bind (insert_journal (draft_journal jid ck attendanceID traineeID) db)
       (\<lambda>(db, i). case i of
          Some i \<Rightarrow> Inr (db, i)
        | None \<Rightarrow> (case journal_of attendanceID db of
            None \<Rightarrow> Inl NoRows | Some j \<Rightarrow> Inr (db, jo_id j)))"

text \<open>The approval: adjustment, effective projection, decision, and the journal of a closed day.\<close>

definition approve_correction ::
  "decide_ids \<Rightarrow> clock \<Rightarrow> uuid \<Rightarrow> string option \<Rightarrow> correction_row \<Rightarrow> database \<Rightarrow>
   go_error + database \<times> uuid" where
  "approve_correction ids ck staffID comment c db =
     (case find_attendance (cr_attendance c) db of
        None \<Rightarrow> Inl NoRows
      | Some s \<Rightarrow>
          let newIn = (case cr_proposed_in c of None \<Rightarrow> at_effective_in s | Some t \<Rightarrow> t);
              newOut = (case cr_proposed_out c of None \<Rightarrow> at_effective_out s | Some t \<Rightarrow> Some t)
          in if \<not> opt_all (\<lambda>t. newIn < t) newOut
             then Inl (Api (Unprocessable ''INVALID_EFFECTIVE_DURATION''))
             else case find_assignment (at_assignment s) db of
                 None \<Rightarrow> Inl NoRows
               | Some a \<Rightarrow>
                   let credited = map_option (\<lambda>t. credited_of
                         (CreditedMinutes newIn t (break_rule_of a))) newOut
                   in result_bind (insert_adjustment
                        \<lparr>ad_id = dc_adjustment ids, ad_attendance = cr_attendance c,
                         ad_correction = cr_id c, ad_effective_in = newIn,
                         ad_effective_out = newOut, ad_credited = credited,
                         ad_approved_by = staffID\<rparr> db)
                      (\<lambda>db. result_bind
                        (update_attendance (cr_attendance c)
                           (project_session newIn newOut credited) db)
                      (\<lambda>db.
                        let db = update_correction (cr_id c)
                              (decide_row ck staffID CrApproved comment) db
                        in if newOut \<noteq> None \<and> at_effective_out s = None
                           then result_bind (update_attendance (cr_attendance c) (stamp_closed ck) db)
                              (\<lambda>db. result_bind
                                (ensureJournal (dc_journal ids) ck (cr_attendance c) (cr_trainee c) db)
                                (\<lambda>(db, _). Inr (db, at_assignment s)))
                           else Inr (db, at_assignment s))))"

definition DecideTx ::
  "decide_ids \<Rightarrow> clock \<Rightarrow> uuid \<Rightarrow> uuid \<Rightarrow> correction_status \<Rightarrow> string option \<Rightarrow> database \<Rightarrow>
   go_error + database \<times> unit" where
  "DecideTx ids ck correctionID staffID decision comment db =
     (case find_correction correctionID db of
        None \<Rightarrow> Inl (Api ErrNotFound)
      | Some c \<Rightarrow>
          if cr_status c \<noteq> CrPending then Inl (Api (Conflict ''CORRECTION_NOT_PENDING''))
          else result_bind
            (if decision = CrRejected
             then Inr (update_correction correctionID
                    (decide_row ck staffID CrRejected comment) db, None)
             else result_bind (approve_correction ids ck staffID comment c db)
                    (\<lambda>(db, a). Inr (db, Some a)))
            (\<lambda>(db, assignmentID).
              case find_trainee (cr_trainee c) db of
                None \<Rightarrow> Inl NoRows
              | Some tp \<Rightarrow>
                  result_bind
                    (case assignmentID of
                       None \<Rightarrow> Inr db
                     | Some a \<Rightarrow> NotifyCompletionIfReachedTx (dc_note1 ids) ck (tp_user tp)
                                 (cr_trainee c) a db)
                    (\<lambda>db. let db = fst (CreateTx (new_note (dc_note2 ids) ck (tp_user tp)
                                (CorrectionKey correctionID decision) ''correction_decided''
                                ''correction_request'' (Some correctionID)) db)
                          in Inr (Record (Some staffID)
                                (if decision = CrApproved then ''correction.approved''
                                 else ''correction.rejected'')
                                ''correction_request'' (Some correctionID) db, ()))))"

definition Decide ::
  "decide_ids \<Rightarrow> clock \<Rightarrow> bool \<Rightarrow> uuid \<Rightarrow> uuid \<Rightarrow> string \<Rightarrow> string option \<Rightarrow> database \<Rightarrow>
   database \<times> (go_error + unit)" where
  "Decide ids ck commit_ok correctionID staffID decision comment db =
     (case decision_of decision of
        None \<Rightarrow> (db, Inl (Api (Validation [''decision''])))
      | Some d \<Rightarrow> in_tx commit_ok (DecideTx ids ck correctionID staffID d comment) db)"

section \<open>Lists\<close>

definition ListMine ::
  "uuid \<Rightarrow> page \<Rightarrow> database \<Rightarrow> go_error + (correction_row \<times> date) list \<times> int" where
  "ListMine traineeID p db =
     (let mine = filter (\<lambda>c. cr_trainee c = traineeID) (db_corrections db);
          joined = List.map_filter (\<lambda>c. map_option (\<lambda>s. (c, at_date s))
            (find_attendance (cr_attendance c) db)) (order_desc cr_requested mine)
      in result_bind (page_rows p joined) (\<lambda>items. Inr (items, int (length mine))))"

definition TraineeIDOf :: "uuid \<Rightarrow> database \<Rightarrow> go_error + uuid" where
  "TraineeIDOf correctionID db =
     (case find_correction correctionID db of
        None \<Rightarrow> Inl (Api ErrNotFound) | Some c \<Rightarrow> Inr (cr_trainee c))"

section \<open>Handlers\<close>

text \<open>The path identifier and the body, \<open>None\<close> when they do not parse.\<close>

definition handle_Create_correction ::
  "uuid \<Rightarrow> clock \<Rightarrow> bool \<Rightarrow> auth_user \<Rightarrow> uuid option \<Rightarrow>
   (string \<times> string \<times> instant option \<times> instant option) option \<Rightarrow> database \<Rightarrow> database \<Rightarrow>
   database \<times> (api_error + correction_row)" where
  "handle_Create_correction cid ck commit_ok actor param body db0 db1 =
     (case param of
        None \<Rightarrow> (db1, Inl ErrNotFound)
      | Some attID \<Rightarrow>
          (case body of
             None \<Rightarrow> (db1, Inl ValidationMsg)
           | Some (ty, reason, pin, pout) \<Rightarrow>
               (case trainee_of_user (ac_id actor) db0 of
                  None \<Rightarrow> (db1, Inl ErrNotFound)
                | Some tp \<Rightarrow>
                    (case Request cid ck commit_ok (tp_id tp) (ac_id actor)
                            \<lparr>rq_attendance = attID, rq_type = ty, rq_reason = reason,
                             rq_in = pin, rq_out = pout\<rparr> db0 db1 of
                       (db', Inl e) \<Rightarrow> (db', Inl (Fail e))
                     | (db', Inr c) \<Rightarrow> (db', Inr c)))))"

definition handle_Decide ::
  "decide_ids \<Rightarrow> clock \<Rightarrow> bool \<Rightarrow> auth_user \<Rightarrow> uuid option \<Rightarrow> (string \<times> string option) option \<Rightarrow>
   database \<Rightarrow> database \<Rightarrow> database \<times> (api_error + string)" where
  "handle_Decide ids ck commit_ok actor param body db0 db1 =
     (case param of
        None \<Rightarrow> (db1, Inl ErrNotFound)
      | Some i \<Rightarrow>
          (case TraineeIDOf i db0 of
             Inl e \<Rightarrow> (db1, Inl (Fail e))
           | Inr traineeID \<Rightarrow>
               if \<not> CanAccessTrainee actor traineeID db0 then (db1, Inl ErrNotFound)
               else case body of
                   None \<Rightarrow> (db1, Inl ValidationMsg)
                 | Some (decision, comment) \<Rightarrow>
                     (case Decide ids ck commit_ok i (ac_id actor) decision comment db1 of
                        (db', Inl e) \<Rightarrow> (db', Inl (Fail e))
                      | (db', Inr _) \<Rightarrow> (db', Inr decision))))"

end
