(* ===== verification/CorrectionLaws.thy ===== *)
theory CorrectionLaws
  imports Corrections TimeOutLaws
begin

text \<open>
  What a correction guarantees: proposals are validated, one request is pending at a time, a
  decision is taken once, and an approval touches only the effective projection of its session.
\<close>

section \<open>Requests\<close>

text \<open>
  C11. A proposal is accepted exactly when its type is known, its reason is not blank, the
  times its type calls for are given, no proposed time lies in the future, and the proposed Time
  Out is after the Time In it would be paired with.
\<close>

theorem validateProposal_iff:
  "(\<exists>t. validateProposal inp effIn now = Inr t) \<longleftrightarrow>
     rq_type inp \<in> {''missed_time_out'', ''incorrect_time'', ''field_assignment'', ''gps_issue'',
       ''other''} \<and>
     trim_space (rq_reason inp) \<noteq> [] \<and>
     (rq_type inp = ''missed_time_out'' \<longrightarrow> rq_out inp \<noteq> None) \<and>
     (rq_type inp \<in> {''incorrect_time'', ''field_assignment''} \<longrightarrow>
        rq_in inp \<noteq> None \<or> rq_out inp \<noteq> None) \<and>
     (\<forall>t. rq_in inp = Some t \<longrightarrow> t \<le> now) \<and>
     (\<forall>t. rq_out inp = Some t \<longrightarrow> t \<le> now \<and>
        (case rq_in inp of None \<Rightarrow> effIn | Some i \<Rightarrow> i) < t)"
  by (cases "rq_in inp"; cases "rq_out inp")
    (auto simp: validateProposal_def correction_type_of_def allowedProposals_def Let_def)

theorem validateProposal_iff_witness:
  "\<exists>t. validateProposal \<lparr>rq_attendance = 1, rq_type = ''missed_time_out'', rq_reason = ''r'',
     rq_in = None, rq_out = Some 5\<rparr> 3 9 = Inr t"
proof -
  have "trim_space ''r'' = ''r''" by code_simp
  then show ?thesis by (subst validateProposal_iff) simp
qed

definition one_pending :: "database \<Rightarrow> bool" where
  "one_pending db \<longleftrightarrow>
     unique_on cr_attendance (filter (\<lambda>c. cr_status c = CrPending) (db_corrections db))"

lemma insert_correction_one_pending:
  assumes "insert_correction r db = Inr db'" and "one_pending db"
  shows "one_pending db'"
  using assms by (auto simp: insert_correction_Inr one_pending_def unique_on_append image_iff)

text \<open>
  A request keeps at most one pending correction per session; when it succeeds the session
  was the trainee's own and had none pending, and the new request is the only row added.
\<close>

theorem Request_one_pending:
  assumes "Request cid ck ok t actor inp db0 db1 = (db', r)" and "one_pending db1"
  shows "one_pending db' \<and>
    (\<forall>e. r = Inl e \<longrightarrow> db' = db1) \<and>
    (\<forall>c. r = Inr c \<longrightarrow> db_corrections db' = db_corrections db1 @ [c] \<and> cr_status c = CrPending \<and>
       cr_trainee c = t \<and>
       (\<exists>s. find_attendance (cr_attendance c) db0 = Some s \<and> at_trainee s = t) \<and>
       (\<forall>q\<in>set (db_corrections db1).
          \<not> (cr_status q = CrPending \<and> cr_attendance q = cr_attendance c)))"
proof (cases r)
  case (Inl e)
  then have "db' = db1"
    using assms(1) by (auto simp: Request_def dest!: in_tx_error split: option.splits if_splits sum.splits)
  then show ?thesis using Inl assms(2) by simp
next
  case (Inr c)
  then obtain s ty where s: "find_attendance (rq_attendance inp) db0 = Some s" "at_trainee s = t"
    and tx: "RequestTx cid ck t actor ty inp db1 = Inr (db', c)"
    using assms(1) by (auto simp: Request_def in_tx_ok split: option.splits if_splits sum.splits)
  then obtain d where d: "insert_correction (pending_row cid ck t ty inp) db1 = Inr d"
    "db' = Record (Some actor) ''correction.requested'' ''correction_request'' (Some cid) d"
    "c = pending_row cid ck t ty inp"
    by (auto simp: RequestTx_def split: sum.splits if_splits)
  have "one_pending db'"
    using insert_correction_one_pending [OF d(1) assms(2)]
    by (simp add: d(2) one_pending_def Record_def)
  then show ?thesis
    using Inr s d by (auto simp: insert_correction_Inr Record_def pending_row_def)
qed

section \<open>Decisions\<close>

interpretation decide_id: key_update cr_id "decide_row ck staff st comment"
  by unfold_locales (simp add: decide_row_def)

interpretation decide_attendance: key_update cr_attendance "decide_row ck staff st comment"
  by unfold_locales (simp add: decide_row_def)

interpretation project_id: key_update at_id "project_session i out cred"
  by unfold_locales (simp add: project_session_def)

interpretation stamp_id: key_update at_id "stamp_closed ck"
  by unfold_locales (simp add: stamp_closed_def)

lemma find_correction_decided:
  "find_correction i db = Some c \<Longrightarrow>
     find_correction i (update_correction i (decide_row ck staff st comment) db) =
       Some (decide_row ck staff st comment c)"
  by (simp add: find_correction_def update_correction_def decide_id.find_set_same)

lemma ensureJournal_Inr:
  assumes "ensureJournal jid ck a t db = Inr (db', i)"
  shows "journal_of a db' \<noteq> None \<and> (\<exists>js. db' = db\<lparr>db_journals := js\<rparr>) \<and>
    (if a \<in> jo_attendance ` set (db_journals db) then db_journals db' = db_journals db
     else jid \<notin> jo_id ` set (db_journals db) \<and>
       db_journals db' = db_journals db @ [draft_journal jid ck a t])"
proof -
  obtain d j where ins: "insert_journal (draft_journal jid ck a t) db = Inr (d, j)"
    and e: "db' = d"
    using assms by (auto simp: ensureJournal_def result_bind_Inr_iff split: option.splits)
  have "db' = db\<lparr>db_journals := db_journals db'\<rparr>"
    using ins by (auto simp: insert_journal_Inr e split: if_splits)
  moreover have row: "jo_attendance (draft_journal jid ck a t) = a" "jo_id (draft_journal jid ck a t) = jid"
    by (simp_all add: draft_journal_def)
  moreover have "if a \<in> jo_attendance ` set (db_journals db) then db_journals db' = db_journals db
     else jid \<notin> jo_id ` set (db_journals db) \<and>
       db_journals db' = db_journals db @ [draft_journal jid ck a t]"
    using ins by (simp add: insert_journal_Inr e row split: if_splits)
  ultimately show ?thesis using insert_journal_present [OF ins] e by auto
qed

text \<open>
  The effective times and minutes an approval computes from the request \<open>c\<close>, the session \<open>s\<close>
  and its assignment \<open>a\<close>.
\<close>

definition new_in :: "correction_row \<Rightarrow> attendance_row \<Rightarrow> instant" where
  "new_in c s = (case cr_proposed_in c of None \<Rightarrow> at_effective_in s | Some t \<Rightarrow> t)"

definition new_out :: "correction_row \<Rightarrow> attendance_row \<Rightarrow> instant option" where
  "new_out c s = (case cr_proposed_out c of None \<Rightarrow> at_effective_out s | Some t \<Rightarrow> Some t)"

definition new_credit :: "correction_row \<Rightarrow> attendance_row \<Rightarrow> assignment_row \<Rightarrow> int option" where
  "new_credit c s a = map_option
     (\<lambda>t. credited_of (CreditedMinutes (new_in c s) t (break_rule_of a))) (new_out c s)"

definition closes_day :: "correction_row \<Rightarrow> attendance_row \<Rightarrow> bool" where
  "closes_day c s = (new_out c s \<noteq> None \<and> at_effective_out s = None)"

definition approved_session ::
  "clock \<Rightarrow> correction_row \<Rightarrow> attendance_row \<Rightarrow> assignment_row \<Rightarrow> attendance_row \<Rightarrow> attendance_row"
where
  "approved_session ck c s a x =
     (let x' = project_session (new_in c s) (new_out c s) (new_credit c s a) x
      in if closes_day c s then stamp_closed ck x' else x')"

interpretation approved_id: key_update at_id "approved_session ck c s a"
  by unfold_locales (simp add: approved_session_def Let_def stamp_closed_def project_session_def)

lemma approve_correction_Inr:
  assumes "approve_correction ids ck staff comment c db = Inr (db', asn)"
  obtains s a d js where "find_attendance (cr_attendance c) db = Some s"
    and "find_assignment (at_assignment s) db = Some a" and "asn = at_assignment s"
    and "opt_all (\<lambda>t. new_in c s < t) (new_out c s)"
    and "d = \<lparr>ad_id = dc_adjustment ids, ad_attendance = cr_attendance c,
      ad_correction = cr_id c, ad_effective_in = new_in c s, ad_effective_out = new_out c s,
      ad_credited = new_credit c s a, ad_approved_by = staff\<rparr>"
    and "d \<notin> set (db_adjustments db)"
    and "db' = db\<lparr>db_adjustments := db_adjustments db @ [d],
      db_attendance := set_by_key at_id (cr_attendance c) (approved_session ck c s a) (db_attendance db),
      db_corrections := set_by_key cr_id (cr_id c) (decide_row ck staff CrApproved comment)
        (db_corrections db), db_journals := js\<rparr>"
    and "closes_day c s \<Longrightarrow> journal_of (cr_attendance c) db' \<noteq> None"
    and "\<not> closes_day c s \<Longrightarrow> js = db_journals db"
    and "closes_day c s \<Longrightarrow> if cr_attendance c \<in> jo_attendance ` set (db_journals db)
      then js = db_journals db
      else dc_journal ids \<notin> jo_id ` set (db_journals db) \<and> js = db_journals db @
        [draft_journal (dc_journal ids) ck (cr_attendance c) (cr_trainee c)]"
    and "ad_correction d \<notin> ad_correction ` set (db_adjustments db)"
proof -
  obtain s a where s: "find_attendance (cr_attendance c) db = Some s"
    and a: "find_assignment (at_assignment s) db = Some a"
    and lt: "opt_all (\<lambda>t. new_in c s < t) (new_out c s)"
    using assms
    by (auto simp: approve_correction_def Let_def new_in_def new_out_def
        split: option.splits if_splits)
  define d where "d = \<lparr>ad_id = dc_adjustment ids, ad_attendance = cr_attendance c,
    ad_correction = cr_id c, ad_effective_in = new_in c s, ad_effective_out = new_out c s,
    ad_credited = new_credit c s a, ad_approved_by = staff\<rparr>"
  define f where "f = project_session (new_in c s) (new_out c s) (new_credit c s a)"
  define i where "i = cr_attendance c"
  obtain d1 d2 where s1: "insert_adjustment d db = Inr d1"
    and s2: "update_attendance i f d1 = Inr d2"
    and s3: "(if closes_day c s
      then result_bind (update_attendance i (stamp_closed ck)
          (update_correction (cr_id c) (decide_row ck staff CrApproved comment) d2))
        (\<lambda>db. result_bind (ensureJournal (dc_journal ids) ck i (cr_trainee c) db)
          (\<lambda>(db, _). Inr (db, at_assignment s)))
      else Inr (update_correction (cr_id c) (decide_row ck staff CrApproved comment) d2,
        at_assignment s)) = Inr (db', asn)"
    using assms s a lt
    unfolding approve_correction_def new_in_def [symmetric] new_out_def [symmetric] Let_def
      d_def f_def i_def new_credit_def closes_day_def
    by (auto simp: result_bind_Inr_iff)
  have d1: "d1 = db\<lparr>db_adjustments := db_adjustments db @ [d]\<rparr>" "d \<notin> set (db_adjustments db)"
      "ad_correction d \<notin> ad_correction ` set (db_adjustments db)"
    using s1 by (auto simp: insert_adjustment_Inr)
  have d2: "d2 = d1\<lparr>db_attendance := set_by_key at_id i f (db_attendance db)\<rparr>"
    using s2 by (simp add: update_attendance_Inr d1)
  show ?thesis
  proof (cases "closes_day c s")
    case False
    have "approved_session ck c s a = f" using False by (auto simp: approved_session_def f_def)
    then show ?thesis
      using s3 False
      by (intro that [OF s a _ lt d_def d1(2), of "db_journals db"])
        (use d1(3) in \<open>auto simp: d2 d1 update_correction_def i_def\<close>)
  next
    case True
    have ap: "approved_session ck c s a = (\<lambda>x. stamp_closed ck (f x))"
      using True by (auto simp: approved_session_def f_def)
    obtain d3 d4 k where s4: "update_attendance i (stamp_closed ck)
        (update_correction (cr_id c) (decide_row ck staff CrApproved comment) d2) = Inr d3"
      and s5: "ensureJournal (dc_journal ids) ck i (cr_trainee c) d3 = Inr (d4, k)"
      and e: "db' = d4" "asn = at_assignment s"
      using s3 True by (auto simp: result_bind_Inr_iff)
    obtain js where js: "d4 = d3\<lparr>db_journals := js\<rparr>" "journal_of i d4 \<noteq> None"
      using ensureJournal_Inr [OF s5] by blast
    have row: "if i \<in> jo_attendance ` set (db_journals d3) then db_journals d4 = db_journals d3
        else dc_journal ids \<notin> jo_id ` set (db_journals d3) \<and>
          db_journals d4 = db_journals d3 @ [draft_journal (dc_journal ids) ck i (cr_trainee c)]"
      using ensureJournal_Inr [OF s5] by blast
    have d3: "d3 = d2\<lparr>db_corrections := set_by_key cr_id (cr_id c)
          (decide_row ck staff CrApproved comment) (db_corrections db),
        db_attendance := set_by_key at_id i (\<lambda>x. stamp_closed ck (f x)) (db_attendance db)\<rparr>"
      using s4 by (simp add: update_attendance_Inr update_correction_def d2 d1 f_def
          project_id.set_set)
    have "db_journals d3 = db_journals db" "db_journals d4 = js" by (simp_all add: d3 d2 d1(1) js(1))
    with row have row': "if cr_attendance c \<in> jo_attendance ` set (db_journals db)
        then js = db_journals db
        else dc_journal ids \<notin> jo_id ` set (db_journals db) \<and> js = db_journals db @
          [draft_journal (dc_journal ids) ck (cr_attendance c) (cr_trainee c)]"
      by (simp add: i_def split: if_splits)
    have "db' = db\<lparr>db_adjustments := db_adjustments db @ [d],
      db_attendance := set_by_key at_id i (\<lambda>x. stamp_closed ck (f x)) (db_attendance db),
      db_corrections := set_by_key cr_id (cr_id c) (decide_row ck staff CrApproved comment)
        (db_corrections db), db_journals := js\<rparr>"
      by (rule database.equality) (simp_all add: e js(1) d3 d2 d1)
    then show ?thesis
      using js(2) True e d1(3) row'
      by (intro that [OF s a e(2) lt d_def d1(2)]) (simp_all add: ap i_def)
  qed
qed

lemma DecideTx_Inr:
  assumes "DecideTx ids ck i staff d comment db = Inr (db', x)"
  obtains c d1 ns au where "find_correction i db = Some c" and "cr_status c = CrPending"
    and "(if d = CrRejected
      then d1 = update_correction i (decide_row ck staff CrRejected comment) db
      else \<exists>asn. approve_correction ids ck staff comment c db = Inr (d1, asn))"
    and "db' = d1\<lparr>db_notifications := ns, db_audit := au\<rparr>"
proof -
  obtain c where c: "find_correction i db = Some c" "cr_status c = CrPending"
    using assms by (auto simp: DecideTx_def split: option.splits if_splits)
  obtain d1 asn where d1: "(if d = CrRejected
      then Inr (update_correction i (decide_row ck staff CrRejected comment) db, None)
      else result_bind (approve_correction ids ck staff comment c db)
        (\<lambda>(db, a). Inr (db, Some a))) = Inr (d1, asn)"
    using assms c unfolding DecideTx_def by (auto simp: result_bind_Inr_iff)
  obtain tp where tp: "find_trainee (cr_trainee c) d1 = Some tp"
    using assms c d1 unfolding DecideTx_def by (auto split: option.splits)
  obtain d2 where d2: "(case asn of None \<Rightarrow> Inr d1
      | Some a \<Rightarrow> NotifyCompletionIfReachedTx (dc_note1 ids) ck (tp_user tp) (cr_trainee c) a d1) =
      Inr d2"
    and db': "db' = Record (Some staff)
      (if d = CrApproved then ''correction.approved'' else ''correction.rejected'')
      ''correction_request'' (Some i)
      (fst (CreateTx (new_note (dc_note2 ids) ck (tp_user tp) (CorrectionKey i d)
        ''correction_decided'' ''correction_request'' (Some i)) d2))"
    using assms c d1 tp unfolding DecideTx_def by (auto simp: result_bind_Inr_iff Let_def)
  have "\<exists>ns. d2 = d1\<lparr>db_notifications := ns\<rparr>"
  proof (cases asn)
    case None
    then show ?thesis using d2 same_notifications [of d1] by simp
  next
    case (Some a)
    then show ?thesis using d2 NotifyCompletion_frame by fastforce
  qed
  then obtain ns where ns: "d2 = d1\<lparr>db_notifications := ns\<rparr>" ..
  obtain ns' where ns': "fst (CreateTx (new_note (dc_note2 ids) ck (tp_user tp)
      (CorrectionKey i d) ''correction_decided'' ''correction_request'' (Some i)) d2) =
      d2\<lparr>db_notifications := ns'\<rparr>"
    using CreateTx_frame by blast
  have "db' = d1\<lparr>db_notifications := ns', db_audit := db_audit db'\<rparr>"
    unfolding db' unfolding ns' unfolding ns by (simp add: Record_def)
  moreover have "(if d = CrRejected
      then d1 = update_correction i (decide_row ck staff CrRejected comment) db
      else \<exists>asn. approve_correction ids ck staff comment c db = Inr (d1, asn))"
    using d1 by (auto simp: result_bind_Inr_iff split: if_splits)
  ultimately show ?thesis by (intro that [OF c])
qed

lemma Decide_Inr:
  "Decide ids ck ok i staff s comment db = (db', Inr u) \<longleftrightarrow>
     ok \<and> (\<exists>d. decision_of s = Some d \<and> DecideTx ids ck i staff d comment db = Inr (db', u))"
  by (auto simp: Decide_def in_tx_ok split: option.splits)

text \<open>
  C12. An approved correction was pending and is now decided by the member of staff; it appends
  one adjustment with the new effective times and minutes and projects them on its session,
  whose original times stay as they were; no other session and no evidence row changes; and if
  it closes an open day, the day has its journal.
\<close>

theorem Decide_approved:
  assumes "Decide ids ck ok i staff ''approved'' comment db = (db', Inr ())"
  shows "\<exists>c s a s' d. find_correction i db = Some c \<and> cr_status c = CrPending \<and>
    find_attendance (cr_attendance c) db = Some s \<and>
    find_assignment (at_assignment s) db = Some a \<and>
    find_correction i db' = Some (decide_row ck staff CrApproved comment c) \<and>
    db_adjustments db' = db_adjustments db @ [d] \<and> ad_correction d = i \<and>
    ad_effective_in d = new_in c s \<and> ad_effective_out d = new_out c s \<and>
    ad_credited d = new_credit c s a \<and>
    find_attendance (cr_attendance c) db' = Some s' \<and>
    at_original_in s' = at_original_in s \<and> at_original_out s' = at_original_out s \<and>
    at_effective_in s' = new_in c s \<and> at_effective_out s' = new_out c s \<and>
    at_credited s' = (if new_out c s = None then at_credited s else new_credit c s a) \<and>
    at_status s' = AtCorrected \<and>
    (\<forall>k. k \<noteq> cr_attendance c \<longrightarrow> find_attendance k db' = find_attendance k db) \<and>
    db_evidence db' = db_evidence db \<and>
    (closes_day c s \<longrightarrow> journal_of (cr_attendance c) db' \<noteq> None)"
proof -
  have "DecideTx ids ck i staff CrApproved comment db = Inr (db', ())"
    using assms by (simp add: Decide_Inr decision_of_def)
  then obtain c d1 ns au asn where c: "find_correction i db = Some c" "cr_status c = CrPending"
    and ap: "approve_correction ids ck staff comment c db = Inr (d1, asn)"
    and db': "db' = d1\<lparr>db_notifications := ns, db_audit := au\<rparr>"
    by (rule DecideTx_Inr) auto
  obtain s a d js where s: "find_attendance (cr_attendance c) db = Some s"
    and a: "find_assignment (at_assignment s) db = Some a"
    and d: "d = \<lparr>ad_id = dc_adjustment ids, ad_attendance = cr_attendance c,
      ad_correction = cr_id c, ad_effective_in = new_in c s, ad_effective_out = new_out c s,
      ad_credited = new_credit c s a, ad_approved_by = staff\<rparr>"
    and d1: "d1 = db\<lparr>db_adjustments := db_adjustments db @ [d],
      db_attendance := set_by_key at_id (cr_attendance c) (approved_session ck c s a) (db_attendance db),
      db_corrections := set_by_key cr_id (cr_id c) (decide_row ck staff CrApproved comment)
        (db_corrections db), db_journals := js\<rparr>"
    and j: "closes_day c s \<Longrightarrow> journal_of (cr_attendance c) d1 \<noteq> None"
    by (rule approve_correction_Inr [OF ap]) blast
  have i: "cr_id c = i" using c(1) by (auto simp: find_correction_def dest: by_key_mem)
  define s' where "s' = approved_session ck c s a s"
  have att: "find_attendance (cr_attendance c) db' = Some s'"
    using s by (simp add: find_attendance_def db' d1 approved_id.find_set_same s'_def)
  have oth: "\<forall>k. k \<noteq> cr_attendance c \<longrightarrow> find_attendance k db' = find_attendance k db"
    by (simp add: find_attendance_def db' d1 approved_id.find_set_other)
  have cor: "find_correction i db' = Some (decide_row ck staff CrApproved comment c)"
    using c(1) by (simp add: find_correction_def db' d1 i decide_id.find_set_same)
  have jo: "closes_day c s \<longrightarrow> journal_of (cr_attendance c) db' \<noteq> None"
    using j by (auto simp: journal_of_def db')
  show ?thesis
    using c s a cor att oth jo
    by (intro exI [of _ c] exI [of _ s] exI [of _ a] exI [of _ s'] exI [of _ d])
      (auto simp: db' d1 d i s'_def approved_session_def project_session_def stamp_closed_def
        new_credit_def Let_def split: option.split)
qed

text \<open>
  C13. A correction is decided at most once: a decision on one that is not pending is refused;
  and a decision that fails for any reason changes nothing.
\<close>

theorem Decide_once:
  assumes "decision_of decision \<noteq> None" and "find_correction i db = Some c"
  shows "(cr_status c \<noteq> CrPending \<longrightarrow> Decide ids ck ok i staff decision comment db =
      (db, Inl (Api (Conflict ''CORRECTION_NOT_PENDING'')))) \<and>
    (\<forall>db' e. Decide ids ck ok i staff decision comment db = (db', Inl e) \<longrightarrow> db' = db) \<and>
    (\<forall>db' u. Decide ids ck ok i staff decision comment db = (db', Inr u) \<longrightarrow>
       (\<exists>c'. find_correction i db' = Some c' \<and> cr_status c' \<noteq> CrPending))"
proof (intro conjI allI impI)
  assume "cr_status c \<noteq> CrPending"
  then show "Decide ids ck ok i staff decision comment db =
      (db, Inl (Api (Conflict ''CORRECTION_NOT_PENDING'')))"
    using assms by (auto simp: Decide_def DecideTx_def in_tx_def)
next
  fix db' e
  assume "Decide ids ck ok i staff decision comment db = (db', Inl e)"
  then show "db' = db" by (auto simp: Decide_def dest: in_tx_error split: option.splits)
next
  fix db' u
  assume "Decide ids ck ok i staff decision comment db = (db', Inr u)"
  then obtain d where "DecideTx ids ck i staff d comment db = Inr (db', u)"
    by (auto simp: Decide_Inr)
  then show "\<exists>c'. find_correction i db' = Some c' \<and> cr_status c' \<noteq> CrPending"
  proof (rule DecideTx_Inr)
    fix c d1 ns au
    assume c: "find_correction i db = Some c"
      and d1: "if d = CrRejected
        then d1 = update_correction i (decide_row ck staff CrRejected comment) db
        else \<exists>asn. approve_correction ids ck staff comment c db = Inr (d1, asn)"
      and db': "db' = d1\<lparr>db_notifications := ns, db_audit := au\<rparr>"
    have i: "cr_id c = i" using c by (auto simp: find_correction_def dest: by_key_mem)
    have "\<exists>st. db_corrections d1 = set_by_key cr_id i (decide_row ck staff st comment)
        (db_corrections db) \<and> st \<noteq> CrPending"
    proof (cases "d = CrRejected")
      case True
      then show ?thesis using d1 by (auto simp: update_correction_def)
    next
      case False
      then show ?thesis using d1 i by (auto elim!: approve_correction_Inr)
    qed
    then show ?thesis
      using c by (auto simp: find_correction_def db' decide_id.find_set_same decide_row_def)
  qed
qed

lemma approved_without_out:
  assumes "Decide ids ck ok i staff ''approved'' comment db = (db', Inr ())"
    and "find_correction i db = Some c" and "cr_proposed_out c = None"
    and "find_attendance (cr_attendance c) db = Some s" and "at_effective_out s = None"
  shows "(\<exists>s'. find_attendance (cr_attendance c) db' = Some s' \<and> at_status s' = AtCorrected \<and>
      at_effective_out s' = None) \<and> db_journals db' = db_journals db"
proof -
  have "DecideTx ids ck i staff CrApproved comment db = Inr (db', ())"
    using assms by (simp add: Decide_Inr decision_of_def)
  then obtain d1 ns au asn where
    ap: "approve_correction ids ck staff comment c db = Inr (d1, asn)"
    and db': "db' = d1\<lparr>db_notifications := ns, db_audit := au\<rparr>"
    by (rule DecideTx_Inr) (use assms(2) in auto)
  show ?thesis
  proof (rule approve_correction_Inr [OF ap])
    fix s0 a d js
    assume "find_attendance (cr_attendance c) db = Some s0"
    then have s0: "s0 = s" using assms(4) by simp
    assume d1: "d1 = db\<lparr>db_adjustments := db_adjustments db @ [d],
      db_attendance := set_by_key at_id (cr_attendance c) (approved_session ck c s0 a) (db_attendance db),
      db_corrections := set_by_key cr_id (cr_id c) (decide_row ck staff CrApproved comment)
        (db_corrections db), db_journals := js\<rparr>"
      and js: "\<not> closes_day c s0 \<Longrightarrow> js = db_journals db"
    have no: "new_out c s = None" "\<not> closes_day c s"
      using assms(3,5) by (simp_all add: new_out_def closes_day_def)
    have "find_attendance (cr_attendance c) db' = Some (approved_session ck c s a s)"
      using assms(4) by (simp add: find_attendance_def db' d1 s0 approved_id.find_set_same)
    then show ?thesis
      using no js s0 by (simp add: db' d1 approved_session_def project_session_def)
  qed
qed

text \<open>
  Approving a correction that proposes no Time Out, on a session that has none, leaves the
  day without a Time Out and without a new journal; the session is no longer open, so every Time
  Out that meets it in this state is refused and changes nothing.
\<close>

theorem Decide_without_out_blocks_TimeOut:
  assumes "Decide ids ck ok i staff ''approved'' comment db = (db', Inr ())"
    and "find_correction i db = Some c" and "cr_proposed_out c = None"
    and "find_attendance (cr_attendance c) db = Some s" and "at_effective_out s = None"
  shows "(\<exists>s'. find_attendance (cr_attendance c) db' = Some s' \<and> at_effective_out s' = None) \<and>
    db_journals db' = db_journals db \<and>
    (\<forall>db'' b' r. TimeOut sv ck' nids ok' u (cr_attendance c) inp db0 db' db2 b = ((db'', b'), r) \<longrightarrow>
       db'' = db' \<and> (\<nexists>v. r = Inr (v, False)))"
proof -
  obtain s' where s': "find_attendance (cr_attendance c) db' = Some s'"
      "at_status s' \<noteq> AtOpen" "at_effective_out s' = None" "db_journals db' = db_journals db"
    using approved_without_out [OF assms] by auto
  show ?thesis using s' TimeOut_not_open [OF _ s'(1,2)] by blast
qed

section \<open>A run\<close>

definition demo_correction :: "correction_type \<Rightarrow> instant option \<Rightarrow> correction_row" where
  "demo_correction ty out = \<lparr>cr_id = 300, cr_attendance = 100, cr_trainee = 2, cr_type = ty,
     cr_reason = ''r'', cr_proposed_in = None, cr_proposed_out = out, cr_status = CrPending,
     cr_requested = 5, cr_decided_by = None, cr_comment = None, cr_decided = None\<rparr>"

definition demo_decide_ids :: decide_ids where
  "demo_decide_ids = \<lparr>dc_adjustment = 400, dc_journal = 401, dc_note1 = 402, dc_note2 = 403\<rparr>"

definition demo_pending_db :: "correction_type \<Rightarrow> instant option \<Rightarrow> database" where
  "demo_pending_db ty out = demo_open_db\<lparr>db_corrections := [demo_correction ty out]\<rparr>"

lemmas decide_eval = time_out_eval demo_defs demo_pending_db_def demo_correction_def
  demo_decide_ids_def Decide_def decision_of_def DecideTx_def find_correction_def
  approve_correction_def insert_adjustment_def adjustment_check_def update_correction_def
  decide_row_def project_session_def stamp_closed_def ensureJournal_def find_trainee_def
  credited_of_def

lemma demo_decide_out:
  "\<exists>db'. Decide demo_decide_ids (demo_clock 7200000000) True 300 11 ''approved'' None
     (demo_pending_db MissedTimeOut (Some 3600000000)) = (db', Inr ())"
  by (simp add: decide_eval)

lemma demo_decide_gps:
  "\<exists>db'. Decide demo_decide_ids (demo_clock 7200000000) True 300 11 ''approved'' None
     (demo_pending_db GpsIssue None) = (db', Inr ())"
  by (simp add: decide_eval)

lemma demo_pending_lookup:
  "find_correction 300 (demo_pending_db ty out) = Some (demo_correction ty out)"
  "find_attendance 100 (demo_pending_db ty out) = Some demo_session"
  by (simp_all add: decide_eval)

theorem Decide_approved_witness:
  "\<exists>db' s'. Decide demo_decide_ids (demo_clock 7200000000) True 300 11 ''approved'' None
     (demo_pending_db MissedTimeOut (Some 3600000000)) = (db', Inr ()) \<and>
     find_attendance 100 db' = Some s' \<and> at_original_out s' = None \<and>
     at_effective_out s' = Some 3600000000"
proof -
  obtain db' where run: "Decide demo_decide_ids (demo_clock 7200000000) True 300 11 ''approved''
      None (demo_pending_db MissedTimeOut (Some 3600000000)) = (db', Inr ())"
    using demo_decide_out by blast
  obtain c s s' where "find_correction 300 (demo_pending_db MissedTimeOut (Some 3600000000)) = Some c"
    "find_attendance (cr_attendance c) (demo_pending_db MissedTimeOut (Some 3600000000)) = Some s"
    "find_attendance (cr_attendance c) db' = Some s'" "at_original_out s' = at_original_out s"
    "at_effective_out s' = new_out c s"
    using Decide_approved [OF run] by blast
  then show ?thesis
    using run by (auto simp: demo_pending_lookup demo_correction_def demo_session_def new_out_def)
qed

theorem Decide_once_witness:
  "Decide demo_decide_ids (demo_clock 9) True 300 11 ''rejected'' None
     (demo_open_db\<lparr>db_corrections := [(demo_correction GpsIssue None)\<lparr>cr_status := CrApproved\<rparr>]\<rparr>) =
   (demo_open_db\<lparr>db_corrections := [(demo_correction GpsIssue None)\<lparr>cr_status := CrApproved\<rparr>]\<rparr>,
    Inl (Api (Conflict ''CORRECTION_NOT_PENDING'')))"
proof -
  define c where "c = (demo_correction GpsIssue None)\<lparr>cr_status := CrApproved\<rparr>"
  define db where "db = demo_open_db\<lparr>db_corrections := [c]\<rparr>"
  have lk: "find_correction 300 db = Some c" "decision_of ''rejected'' \<noteq> None"
      "cr_status c \<noteq> CrPending"
    by (simp_all add: db_def c_def find_correction_def by_key_def demo_correction_def
        decision_of_def)
  show ?thesis
    unfolding c_def [symmetric] db_def [symmetric]
    using Decide_once [OF lk(2,1)] lk(3) by blast
qed

theorem Decide_without_out_blocks_TimeOut_witness:
  "\<exists>db' s'. Decide demo_decide_ids (demo_clock 7200000000) True 300 11 ''approved'' None
     (demo_pending_db GpsIssue None) = (db', Inr ()) \<and>
     find_attendance 100 db' = Some s' \<and> at_effective_out s' = None"
proof -
  obtain db' where run: "Decide demo_decide_ids (demo_clock 7200000000) True 300 11 ''approved''
      None (demo_pending_db GpsIssue None) = (db', Inr ())"
    using demo_decide_gps by blast
  have c: "cr_proposed_out (demo_correction GpsIssue None) = None"
      "cr_attendance (demo_correction GpsIssue None) = 100"
    "at_effective_out demo_session = None"
    by (simp_all add: demo_correction_def demo_session_def)
  show ?thesis
    using run Decide_without_out_blocks_TimeOut [OF run demo_pending_lookup(1) c(1)
        demo_pending_lookup(2) [folded c(2)] c(3), THEN conjunct1]
    unfolding c(2) by blast
qed

theorem Request_one_pending_witness:
  "\<exists>db' c. Request 300 (demo_clock 9) True 2 10 \<lparr>rq_attendance = 100, rq_type = ''gps_issue'',
       rq_reason = ''r'', rq_in = None, rq_out = None\<rparr> demo_open_db demo_open_db = (db', Inr c) \<and>
     db_corrections db' = [c] \<and> one_pending db'"
proof -
  have "trim_space ''r'' = ''r''" by code_simp
  then obtain db' c where run: "Request 300 (demo_clock 9) True 2 10 \<lparr>rq_attendance = 100,
      rq_type = ''gps_issue'', rq_reason = ''r'', rq_in = None, rq_out = None\<rparr> demo_open_db
      demo_open_db = (db', Inr c)"
    by (simp add: Request_def validateProposal_def correction_type_of_def allowedProposals_def
        RequestTx_def pending_row_def insert_correction_def decide_eval)
  have "one_pending demo_open_db" "db_corrections demo_open_db = []"
    by (simp_all add: one_pending_def unique_on_def decide_eval)
  then show ?thesis using run Request_one_pending [OF run] by simp
qed

end
