(* ===== verification/Journals.thy ===== *)
theory Journals
  imports Attendance Access Search
begin

text \<open>
  \<open>internal/journals\<close>: the daily journal of a closed session, from draft over submission to
  review and, on request, revision; its supporting images; and the handlers with their ownership
  and scope checks.
\<close>

section \<open>Loading\<close>

definition narrativeMinLen :: nat where "narrativeMinLen = 20"
definition maxEvidencePerJournal :: nat where "maxEvidencePerJournal = 5"

record attendance_summary =
  sm_date :: date
  sm_site :: string
  sm_in :: instant
  sm_out :: "instant option"
  sm_credited :: "int option"

record journal_view =
  jv_id :: uuid
  jv_status :: journal_status
  jv_attendance :: attendance_summary
  jv_attendance_id :: uuid
  jv_narrative :: "string option"
  jv_evidence :: "journal_evidence_row list"
  jv_latest :: "(review_row \<times> string) option"
  jv_history :: "(review_row \<times> string) list"
  jv_submitted :: "instant option"
  jv_reviewed :: "instant option"
  jv_revisions :: int
  jv_trainee_name :: string

text \<open>The inner joins of the query: a journal without its trainee, session or site is not found.\<close>

definition journal_joined ::
  "journal_row \<Rightarrow> database \<Rightarrow> (trainee_row \<times> user_row \<times> attendance_row \<times> site_row) option" where
  "journal_joined j db =
     Option.bind (find_trainee (jo_trainee j) db) (\<lambda>tp.
     Option.bind (find_user (tp_user tp) db) (\<lambda>u.
     Option.bind (find_attendance (jo_attendance j) db) (\<lambda>s.
     Option.bind (find_assignment (at_assignment s) db) (\<lambda>a.
     map_option (\<lambda>si. (tp, u, s, si)) (find_site (as_site a) db)))))"

definition review_history :: "uuid \<Rightarrow> database \<Rightarrow> (review_row \<times> string) list" where
  "review_history i db =
     List.map_filter (\<lambda>r. map_option (\<lambda>u. (r, us_display_name u)) (find_user (rv_reviewer r) db))
       (order_desc rv_created (filter (\<lambda>r. rv_journal r = i) (db_reviews db)))"

definition Load :: "uuid \<Rightarrow> database \<Rightarrow> go_error + journal_view \<times> uuid" where
  "Load journalID db =
     (case find_journal journalID db of
        None \<Rightarrow> Inl (Api ErrNotFound)
      | Some j \<Rightarrow>
          (case journal_joined j db of
             None \<Rightarrow> Inl (Api ErrNotFound)
           | Some (tp, u, s, si) \<Rightarrow>
               let evs = sort_key je_created
                     (filter (\<lambda>e. je_journal e = journalID) (db_journal_evidence db));
                   hist = review_history journalID db
               in Inr (\<lparr>jv_id = jo_id j, jv_status = jo_status j,
                    jv_attendance = \<lparr>sm_date = at_date s, sm_site = si_name si,
                      sm_in = at_effective_in s, sm_out = at_effective_out s,
                      sm_credited = at_credited s\<rparr>,
                    jv_attendance_id = jo_attendance j, jv_narrative = jo_narrative j,
                    jv_evidence = evs,
                    jv_latest = (case hist of [] \<Rightarrow> None | r # _ \<Rightarrow> Some r),
                    jv_history = hist, jv_submitted = jo_submitted j,
                    jv_reviewed = jo_reviewed j, jv_revisions = jo_revisions j,
                    jv_trainee_name = us_display_name u\<rparr>, jo_trainee j)))"

section \<open>The workflow\<close>

definition errNotEditable :: api_error where
  "errNotEditable = Conflict ''JOURNAL_NOT_EDITABLE''"

definition editable :: "journal_status \<Rightarrow> bool" where
  "editable st = (st = JDraft \<or> st = JNeedsRevision)"

definition set_narrative :: "clock \<Rightarrow> string \<Rightarrow> journal_row \<Rightarrow> journal_row" where
  "set_narrative ck narrative j =
     j\<lparr>jo_narrative := Some narrative, jo_updated := ck_dbnow ck\<rparr>"

definition SaveDraft :: "clock \<Rightarrow> uuid \<Rightarrow> string \<Rightarrow> database \<Rightarrow> database \<times> (go_error + unit)" where
  "SaveDraft ck journalID narrative db =
     (let p = (\<lambda>j. jo_id j = journalID \<and> editable (jo_status j))
      in if rows_affected p (db_journals db) = 0 then (db, Inl (Api errNotEditable))
         else (db\<lparr>db_journals := update_where p (set_narrative ck narrative) (db_journals db)\<rparr>,
               Inr ()))"

definition submit_row :: "clock \<Rightarrow> string \<Rightarrow> journal_row \<Rightarrow> journal_row" where
  "submit_row ck narrative j =
     j\<lparr>jo_narrative := Some narrative, jo_status := JSubmitted,
       jo_submitted := Some (ck_dbnow ck), jo_updated := ck_dbnow ck\<rparr>"

definition SubmitTx ::
  "clock \<Rightarrow> uuid \<Rightarrow> uuid \<Rightarrow> string \<Rightarrow> database \<Rightarrow> go_error + database \<times> unit" where
  "SubmitTx ck journalID actorID narrative db =
     (case find_journal journalID db of
        None \<Rightarrow> Inl (Api ErrNotFound)
      | Some j \<Rightarrow>
          if \<not> editable (jo_status j) then Inl (Api errNotEditable)
          else Inr (Record (Some actorID) ''journal.submitted'' ''daily_journal'' (Some journalID)
                 (update_journal journalID (submit_row ck narrative) db), ()))"

definition Submit ::
  "clock \<Rightarrow> bool \<Rightarrow> uuid \<Rightarrow> uuid \<Rightarrow> string \<Rightarrow> database \<Rightarrow> database \<times> (go_error + unit)" where
  "Submit ck commit_ok journalID actorID narrative db =
     (let narrative = trim_space narrative
      in if length narrative < narrativeMinLen
         then (db, Inl (Api (Unprocessable ''NARRATIVE_REQUIRED'')))
         else in_tx commit_ok (SubmitTx ck journalID actorID narrative) db)"

definition review_decision_of :: "string \<Rightarrow> review_decision option" where
  "review_decision_of s =
     (if s = ''reviewed'' then Some RvReviewed
      else if s = ''needs_revision'' then Some RvNeedsRevision else None)"

definition status_of_decision :: "review_decision \<Rightarrow> journal_status" where
  "status_of_decision d = (case d of RvReviewed \<Rightarrow> JReviewed | RvNeedsRevision \<Rightarrow> JNeedsRevision)"

definition review_journal_row :: "clock \<Rightarrow> review_decision \<Rightarrow> journal_row \<Rightarrow> journal_row" where
  "review_journal_row ck d j =
     j\<lparr>jo_status := status_of_decision d, jo_reviewed := Some (ck_dbnow ck),
       jo_updated := ck_dbnow ck,
       jo_revisions := jo_revisions j + (if d = RvNeedsRevision then 1 else 0)\<rparr>"

text \<open>\<open>rid\<close> and \<open>nid\<close> are the identifiers of the new review and notification.\<close>

definition ReviewTx ::
  "uuid \<Rightarrow> uuid \<Rightarrow> clock \<Rightarrow> uuid \<Rightarrow> uuid \<Rightarrow> review_decision \<Rightarrow> string option \<Rightarrow> database \<Rightarrow>
   go_error + database \<times> unit" where
  "ReviewTx rid nid ck journalID reviewerID d comment db =
     (case find_journal journalID db of
        None \<Rightarrow> Inl (Api ErrNotFound)
      | Some j \<Rightarrow>
          if jo_status j \<noteq> JSubmitted then Inl (Api (Conflict ''JOURNAL_NOT_SUBMITTED''))
          else result_bind (insert_review
                 \<lparr>rv_id = rid, rv_journal = journalID, rv_reviewer = reviewerID, rv_decision = d,
                  rv_comment = comment, rv_created = ck_dbnow ck\<rparr> db)
            (\<lambda>db. let db = update_journal journalID (review_journal_row ck d) db in
              case find_trainee (jo_trainee j) db of
                None \<Rightarrow> Inl NoRows
              | Some tp \<Rightarrow>
                  let revCount = length (filter (\<lambda>r. rv_journal r = journalID) (db_reviews db));
                      db = fst (CreateTx (new_note nid ck (tp_user tp)
                             (JournalReviewKey journalID revCount) ''journal_reviewed''
                             ''daily_journal'' (Some journalID)) db)
                  in Inr (Record (Some reviewerID)
                       (if d = RvReviewed then ''journal.reviewed'' else ''journal.needs_revision'')
                       ''daily_journal'' (Some journalID) db, ())))"

definition Review ::
  "uuid \<Rightarrow> uuid \<Rightarrow> clock \<Rightarrow> bool \<Rightarrow> uuid \<Rightarrow> uuid \<Rightarrow> string \<Rightarrow> string option \<Rightarrow> database \<Rightarrow>
   database \<times> (go_error + unit)" where
  "Review rid nid ck commit_ok journalID reviewerID decision comment db =
     (case review_decision_of decision of
        None \<Rightarrow> (db, Inl (Api (Validation [''decision''])))
      | Some d \<Rightarrow>
          if d = RvNeedsRevision \<and>
             (case comment of None \<Rightarrow> True | Some c \<Rightarrow> trim_space c = [])
          then (db, Inl (Api (Unprocessable ''REVIEW_COMMENT_REQUIRED'')))
          else in_tx commit_ok (ReviewTx rid nid ck journalID reviewerID d comment) db)"

section \<open>Supporting images\<close>

definition lockEditable :: "uuid \<Rightarrow> database \<Rightarrow> go_error + unit" where
  "lockEditable journalID db =
     (case find_journal journalID db of
        None \<Rightarrow> Inl (Api ErrNotFound)
      | Some j \<Rightarrow> if \<not> editable (jo_status j) then Inl (Api errNotEditable) else Inr ())"

definition evidence_count :: "uuid \<Rightarrow> database \<Rightarrow> nat" where
  "evidence_count journalID db =
     length (filter (\<lambda>e. je_journal e = journalID) (db_journal_evidence db))"

text \<open>The count is read from \<open>db0\<close>, before the object is stored; the transaction runs on \<open>db1\<close>.\<close>

definition AddEvidence ::
  "'img service \<Rightarrow> uuid \<Rightarrow> string \<Rightarrow> clock \<Rightarrow> bool \<Rightarrow> uuid \<Rightarrow> bytes \<Rightarrow> database \<Rightarrow> database \<Rightarrow>
   bucket \<Rightarrow> (database \<times> bucket) \<times> (go_error + journal_evidence_row)" where
  "AddEvidence sv eid uid ck commit_ok journalID raw db0 db1 b =
     (case ValidateEvidenceImage (sv_media sv) raw (sv_max_bytes sv) of
        Inl e \<Rightarrow> ((db1, b), Inl (Api e))
      | Inr img \<Rightarrow>
          if maxEvidencePerJournal \<le> evidence_count journalID db0
          then ((db1, b), Inl (Api (Unprocessable ''EVIDENCE_LIMIT'')))
          else
            let key = ''journals/'' @ uid @ ''.'' @ ext_of (vi_mime img) in
            case store_put (sv_store sv) key raw b of
              (b1, Inl e) \<Rightarrow> ((db1, b1), Inl (Api storageUnavailable))
            | (b1, Inr _) \<Rightarrow>
                let item = \<lparr>je_id = eid, je_journal = journalID, je_key = key,
                      je_sha = md_sha (sv_media sv) raw, je_mime = vi_mime img,
                      je_size = vi_size img, je_width = vi_width img, je_height = vi_height img,
                      je_created = ck_dbnow ck\<rparr>
                in case in_tx commit_ok (\<lambda>db. result_bind (lockEditable journalID db)
                       (\<lambda>_. result_bind (insert_journal_evidence item db)
                         (\<lambda>db. Inr (db, ())))) db1 of
                     (db', Inl e) \<Rightarrow> ((db', fst (store_delete (sv_store sv) key b1)), Inl e)
                   | (db', Inr _) \<Rightarrow> ((db', b1), Inr item))"

definition DeleteEvidenceTx ::
  "uuid \<Rightarrow> uuid \<Rightarrow> database \<Rightarrow> go_error + database \<times> string" where
  "DeleteEvidenceTx journalID evidenceID db =
     result_bind (lockEditable journalID db)
       (\<lambda>_. let p = (\<lambda>e. je_id e = evidenceID \<and> je_journal e = journalID) in
         case List.find p (db_journal_evidence db) of
           None \<Rightarrow> Inl NoRows
         | Some e \<Rightarrow> Inr (db\<lparr>db_journal_evidence :=
             filter (\<lambda>e. \<not> p e) (db_journal_evidence db)\<rparr>, je_key e))"

definition DeleteEvidence ::
  "'img service \<Rightarrow> bool \<Rightarrow> uuid \<Rightarrow> uuid \<Rightarrow> database \<Rightarrow> bucket \<Rightarrow>
   (database \<times> bucket) \<times> (go_error + unit)" where
  "DeleteEvidence sv commit_ok journalID evidenceID db b =
     (case in_tx commit_ok (DeleteEvidenceTx journalID evidenceID) db of
        (db', Inl e) \<Rightarrow> ((db', b), Inl (if e = NoRows then Api ErrNotFound else e))
      | (db', Inr key) \<Rightarrow>
          (case store_delete (sv_store sv) key b of
             (b', Inl e) \<Rightarrow> ((db', b'), Inl (Api Internal))
           | (b', Inr _) \<Rightarrow> ((db', b'), Inr ())))"

definition EvidenceImageKey :: "uuid \<Rightarrow> uuid \<Rightarrow> database \<Rightarrow> go_error + string" where
  "EvidenceImageKey journalID evidenceID db =
     (case List.find (\<lambda>e. je_id e = evidenceID \<and> je_journal e = journalID)
             (db_journal_evidence db) of
        None \<Rightarrow> Inl NoRows | Some e \<Rightarrow> Inr (je_key e))"

section \<open>Handlers\<close>

definition authorize :: "auth_user \<Rightarrow> uuid \<Rightarrow> database \<Rightarrow> go_error + journal_view" where
  "authorize actor journalID db =
     result_bind (Load journalID db) (\<lambda>(j, traineeID).
       if ac_role actor = RTrainee then
         (case find_trainee traineeID db of
            None \<Rightarrow> Inl NoRows
          | Some tp \<Rightarrow> if tp_user tp \<noteq> ac_id actor then Inl (Api ErrNotFound) else Inr j)
       else if \<not> CanAccessTrainee actor traineeID db then Inl (Api ErrNotFound)
       else Inr j)"

definition authorizeOwner :: "auth_user \<Rightarrow> uuid \<Rightarrow> database \<Rightarrow> go_error + journal_view" where
  "authorizeOwner actor journalID db =
     (if ac_role actor \<noteq> RTrainee then Inl (Api ErrForbidden) else authorize actor journalID db)"

text \<open>The answer of a mutation is the journal read again after it.\<close>

definition reload :: "uuid \<Rightarrow> database \<Rightarrow> api_error + journal_view" where
  "reload journalID db =
     (case Load journalID db of Inl e \<Rightarrow> Inl Internal | Inr (j, _) \<Rightarrow> Inr j)"

definition handle_Get_journal ::
  "auth_user \<Rightarrow> uuid option \<Rightarrow> database \<Rightarrow> api_error + journal_view" where
  "handle_Get_journal actor param db =
     (case param of
        None \<Rightarrow> Inl ErrNotFound
      | Some i \<Rightarrow> (case authorize actor i db of Inl e \<Rightarrow> Inl (Fail e) | Inr j \<Rightarrow> Inr j))"

definition handle_SaveDraft ::
  "clock \<Rightarrow> auth_user \<Rightarrow> uuid option \<Rightarrow> string option \<Rightarrow> database \<Rightarrow> database \<Rightarrow>
   database \<times> (api_error + journal_view)" where
  "handle_SaveDraft ck actor param body db0 db1 =
     (case param of
        None \<Rightarrow> (db1, Inl ErrNotFound)
      | Some i \<Rightarrow>
          (case authorizeOwner actor i db0 of
             Inl e \<Rightarrow> (db1, Inl (Fail e))
           | Inr _ \<Rightarrow>
               (case body of
                  None \<Rightarrow> (db1, Inl ValidationMsg)
                | Some narrative \<Rightarrow>
                    (case SaveDraft ck i narrative db1 of
                       (db', Inl e) \<Rightarrow> (db', Inl (Fail e))
                     | (db', Inr _) \<Rightarrow> (db', reload i db')))))"

definition handle_Submit ::
  "clock \<Rightarrow> bool \<Rightarrow> auth_user \<Rightarrow> uuid option \<Rightarrow> string option \<Rightarrow> database \<Rightarrow> database \<Rightarrow>
   database \<times> (api_error + journal_view)" where
  "handle_Submit ck commit_ok actor param body db0 db1 =
     (case param of
        None \<Rightarrow> (db1, Inl ErrNotFound)
      | Some i \<Rightarrow>
          (case authorizeOwner actor i db0 of
             Inl e \<Rightarrow> (db1, Inl (Fail e))
           | Inr _ \<Rightarrow>
               (case body of
                  None \<Rightarrow> (db1, Inl ValidationMsg)
                | Some narrative \<Rightarrow>
                    (case Submit ck commit_ok i (ac_id actor) narrative db1 of
                       (db', Inl e) \<Rightarrow> (db', Inl (Fail e))
                     | (db', Inr _) \<Rightarrow> (db', reload i db')))))"

definition handle_Review ::
  "uuid \<Rightarrow> uuid \<Rightarrow> clock \<Rightarrow> bool \<Rightarrow> auth_user \<Rightarrow> uuid option \<Rightarrow>
   (string \<times> string option) option \<Rightarrow> database \<Rightarrow> database \<Rightarrow>
   database \<times> (api_error + journal_view)" where
  "handle_Review rid nid ck commit_ok actor param body db0 db1 =
     (case param of
        None \<Rightarrow> (db1, Inl ErrNotFound)
      | Some i \<Rightarrow>
          (case authorize actor i db0 of
             Inl e \<Rightarrow> (db1, Inl (Fail e))
           | Inr _ \<Rightarrow>
               (case body of
                  None \<Rightarrow> (db1, Inl ValidationMsg)
                | Some (decision, comment) \<Rightarrow>
                    (case Review rid nid ck commit_ok i (ac_id actor) (to_lower decision) comment
                            db1 of
                       (db', Inl e) \<Rightarrow> (db', Inl (Fail e))
                     | (db', Inr _) \<Rightarrow> (db', reload i db')))))"

text \<open>
  The uploaded photo: absent, present but unreadable, or its bytes, cut at 64 MB. The
  authorization reads \<open>db0\<close>, the count of images \<open>dbc\<close>; the transaction runs on \<open>db1\<close>.
\<close>

definition handle_AddEvidence ::
  "'img service \<Rightarrow> uuid \<Rightarrow> string \<Rightarrow> clock \<Rightarrow> bool \<Rightarrow> auth_user \<Rightarrow> uuid option \<Rightarrow>
   bytes option option \<Rightarrow> database \<Rightarrow> database \<Rightarrow> database \<Rightarrow> bucket \<Rightarrow>
   (database \<times> bucket) \<times> (api_error + journal_evidence_row)" where
  "handle_AddEvidence sv eid uid ck commit_ok actor param photo db0 dbc db1 b =
     (case param of
        None \<Rightarrow> ((db1, b), Inl ErrNotFound)
      | Some i \<Rightarrow>
          (case authorizeOwner actor i db0 of
             Inl e \<Rightarrow> ((db1, b), Inl (Fail e))
           | Inr _ \<Rightarrow>
               (case photo of
                  None \<Rightarrow> ((db1, b), Inl (Validation [''photo'']))
                | Some None \<Rightarrow> ((db1, b), Inl (httpx_new 415 ''INVALID_IMAGE''))
                | Some (Some raw) \<Rightarrow>
                    (case AddEvidence sv eid uid ck commit_ok i (take 67108864 raw) dbc db1 b of
                       (st, Inl e) \<Rightarrow> (st, Inl (Fail e))
                     | (st, Inr item) \<Rightarrow> (st, Inr item)))))"

definition handle_DeleteEvidence ::
  "'img service \<Rightarrow> bool \<Rightarrow> auth_user \<Rightarrow> uuid option \<Rightarrow> uuid option \<Rightarrow> database \<Rightarrow> database \<Rightarrow>
   bucket \<Rightarrow> (database \<times> bucket) \<times> (api_error + unit)" where
  "handle_DeleteEvidence sv commit_ok actor param eparam db0 db1 b =
     (case param of
        None \<Rightarrow> ((db1, b), Inl ErrNotFound)
      | Some i \<Rightarrow>
          (case eparam of
             None \<Rightarrow> ((db1, b), Inl ErrNotFound)
           | Some ei \<Rightarrow>
               (case authorizeOwner actor i db0 of
                  Inl e \<Rightarrow> ((db1, b), Inl (Fail e))
                | Inr _ \<Rightarrow>
                    (case DeleteEvidence sv commit_ok i ei db1 b of
                       (st, Inl e) \<Rightarrow> (st, Inl (Fail e))
                     | (st, Inr _) \<Rightarrow> (st, Inr ())))))"

text \<open>The redirect target is the presigned URL of the object, a parameter.\<close>

definition handle_EvidenceImage ::
  "(string \<Rightarrow> string option) \<Rightarrow> auth_user \<Rightarrow> uuid option \<Rightarrow> uuid option \<Rightarrow> database \<Rightarrow>
   api_error + string" where
  "handle_EvidenceImage presign actor param eparam db =
     (case param of
        None \<Rightarrow> Inl ErrNotFound
      | Some i \<Rightarrow>
          (case eparam of
             None \<Rightarrow> Inl ErrNotFound
           | Some ei \<Rightarrow>
               (case authorize actor i db of
                  Inl e \<Rightarrow> Inl (Fail e)
                | Inr _ \<Rightarrow>
                    (case EvidenceImageKey i ei db of
                       Inl e \<Rightarrow> Inl (if e = NoRows then ErrNotFound else Internal)
                     | Inr key \<Rightarrow>
                         (case presign key of
                            None \<Rightarrow> Inl (httpx_new 503 ''STORAGE_UNAVAILABLE'')
                          | Some url \<Rightarrow> Inr url)))))"

section \<open>The staff queue\<close>

definition journal_status_text :: "journal_status \<Rightarrow> string" where
  "journal_status_text st = (case st of JDraft \<Rightarrow> ''draft'' | JSubmitted \<Rightarrow> ''submitted''
     | JReviewed \<Rightarrow> ''reviewed'' | JNeedsRevision \<Rightarrow> ''needs_revision'')"

record queue_item =
  qi_id :: uuid
  qi_status :: journal_status
  qi_trainee_name :: string
  qi_trainee :: uuid
  qi_student_number :: string
  qi_site :: string
  qi_date :: date
  qi_submitted :: "instant option"
  qi_updated :: instant

definition queue_item_of :: "database \<Rightarrow> journal_row \<Rightarrow> queue_item option" where
  "queue_item_of db j =
     map_option (\<lambda>(tp, u, s, si).
       \<lparr>qi_id = jo_id j, qi_status = jo_status j, qi_trainee_name = us_display_name u,
        qi_trainee = jo_trainee j, qi_student_number = tp_student_number tp, qi_site = si_name si,
        qi_date = at_date s, qi_submitted = jo_submitted j, qi_updated = jo_updated j\<rparr>)
       (journal_joined j db)"

definition queue_matches :: "string \<Rightarrow> string \<Rightarrow> queue_item \<Rightarrow> bool" where
  "queue_matches status q it =
     ((status = [] \<or> journal_status_text (qi_status it) = status) \<and>
      search_any q [qi_trainee_name it, qi_student_number it, qi_site it,
        journal_status_text (qi_status it)])"

definition queue_rank :: "journal_status \<Rightarrow> int" where
  "queue_rank st = (case st of JSubmitted \<Rightarrow> 0 | JNeedsRevision \<Rightarrow> 1 | _ \<Rightarrow> 2)"

definition ListQueue ::
  "uuid list option \<Rightarrow> string \<Rightarrow> string \<Rightarrow> page \<Rightarrow> database \<Rightarrow> go_error + queue_item list \<times> int" where
  "ListQueue scope status q p db =
     (let rows = filter (\<lambda>it. in_scope scope (qi_trainee it) \<and> queue_matches status q it)
            (List.map_filter (queue_item_of db) (db_journals db))
      in result_bind
           (page_rows p (sort_key (\<lambda>it. queue_rank (qi_status it)) (order_desc qi_updated rows)))
           (\<lambda>items. Inr (items, int (length rows))))"

definition handle_Queue ::
  "auth_user \<Rightarrow> string \<Rightarrow> string \<Rightarrow> int option \<Rightarrow> int option \<Rightarrow> database \<Rightarrow>
   api_error + queue_item list \<times> page_meta" where
  "handle_Queue actor status q page_q size_q db =
     (let page = ParsePage page_q size_q
      in case ListQueue (ScopedTraineeIDs actor db) status q page db of
           Inl e \<Rightarrow> Inl Internal
         | Inr (items, tot) \<Rightarrow> Inr (items, NewPageMeta page tot))"

end
