(* ===== verification/JournalLaws.thy ===== *)
theory JournalLaws
  imports Journals TimeOutLaws
begin

text \<open>
  The journal workflow as a state machine, the operations as its refinement, and the invariant
  that ties a journal to its review history.
\<close>

section \<open>The state machine\<close>

datatype journal_event = EvSave | EvSubmit | EvAccept | EvSendBack

inductive journal_step :: "journal_event \<Rightarrow> journal_status \<Rightarrow> journal_status \<Rightarrow> bool" where
  save_draft: "journal_step EvSave JDraft JDraft"
| save_sent_back: "journal_step EvSave JNeedsRevision JNeedsRevision"
| submit_draft: "journal_step EvSubmit JDraft JSubmitted"
| resubmit: "journal_step EvSubmit JNeedsRevision JSubmitted"
| accept: "journal_step EvAccept JSubmitted JReviewed"
| send_back: "journal_step EvSendBack JSubmitted JNeedsRevision"

inductive_cases reviewed_stepE: "journal_step e JReviewed st"

inductive_simps journal_step_simps:
  "journal_step EvSave a b" "journal_step EvSubmit a b" "journal_step EvAccept a b"
  "journal_step EvSendBack a b"

inductive journal_path :: "journal_event list \<Rightarrow> journal_status \<Rightarrow> journal_status \<Rightarrow> bool" where
  stay: "journal_path [] a a"
| move: "journal_step e a b \<Longrightarrow> journal_path es b c \<Longrightarrow> journal_path (e # es) a c"

inductive_simps journal_path_simps [simp]: "journal_path [] a c" "journal_path (e # es) a c"

text \<open>An event has one outcome, so the events of a journal determine its status.\<close>

lemma journal_step_det: "journal_step e a b \<Longrightarrow> journal_step e a c \<Longrightarrow> b = c"
  by (cases e) (auto simp: journal_step_simps)

lemma journal_path_det: "journal_path es a b \<Longrightarrow> journal_path es a c \<Longrightarrow> b = c"
  by (induction es arbitrary: a) (auto dest: journal_step_det)

text \<open>
  The operations of the trainee and of the staff on journals, and the event each of them is when
  it succeeds. A run of operations yields the events of those that did.
\<close>

datatype journal_op =
    OpSaveDraft clock uuid string
  | OpSubmit clock bool uuid uuid string
  | OpReview uuid uuid clock bool uuid uuid string "string option"

fun run_journal_op :: "journal_op \<Rightarrow> database \<Rightarrow> database \<times> (go_error + unit)" where
  "run_journal_op (OpSaveDraft ck i narrative) db = SaveDraft ck i narrative db"
| "run_journal_op (OpSubmit ck ok i actor narrative) db = Submit ck ok i actor narrative db"
| "run_journal_op (OpReview rid nid ck ok i reviewer decision comment) db =
     Review rid nid ck ok i reviewer decision comment db"

fun event_of :: "journal_op \<Rightarrow> uuid \<times> journal_event" where
  "event_of (OpSaveDraft ck i narrative) = (i, EvSave)"
| "event_of (OpSubmit ck ok i actor narrative) = (i, EvSubmit)"
| "event_of (OpReview rid nid ck ok i reviewer decision comment) =
     (i, if decision = ''reviewed'' then EvAccept else EvSendBack)"

fun run_journal_ops ::
  "journal_op list \<Rightarrow> database \<Rightarrow> database \<times> (uuid \<times> journal_event) list" where
  "run_journal_ops [] db = (db, [])"
| "run_journal_ops (op # ops) db =
     (let (db1, r) = run_journal_op op db;
          (db2, evs) = run_journal_ops ops db1
      in (db2, if r = Inr () then event_of op # evs else evs))"

section \<open>What each operation does\<close>

interpretation narrative_id: key_update jo_id "set_narrative ck narrative"
  by unfold_locales (simp add: set_narrative_def)

interpretation submit_id: key_update jo_id "submit_row ck narrative"
  by unfold_locales (simp add: submit_row_def)

interpretation review_id: key_update jo_id "review_journal_row ck d"
  by unfold_locales (simp add: review_journal_row_def)

lemma SaveDraft_cases:
  assumes "SaveDraft ck i narrative db = (db', r)"
  obtains (refused) "db' = db" "r = Inl (Api errNotEditable)"
  | (saved) "r = Inr ()" "db' = db\<lparr>db_journals := update_where
        (\<lambda>j. jo_id j = i \<and> editable (jo_status j)) (set_narrative ck narrative) (db_journals db)\<rparr>"
  using assms by (auto simp: SaveDraft_def Let_def split: if_splits)

lemma Submit_cases:
  assumes "Submit ck ok i actor narrative db = (db', r)"
  obtains (refused) e where "db' = db" "r = Inl e"
  | (submitted) j where "r = Inr ()" "find_journal i db = Some j" "editable (jo_status j)"
      "narrativeMinLen \<le> length (trim_space narrative)"
      "db' = Record (Some actor) ''journal.submitted'' ''daily_journal'' (Some i)
        (update_journal i (submit_row ck (trim_space narrative)) db)"
proof (cases "length (trim_space narrative) < narrativeMinLen")
  case True
  then have "db' = db" "r = Inl (Api (Unprocessable ''NARRATIVE_REQUIRED''))"
    using assms by (simp_all add: Submit_def)
  then show ?thesis by (rule refused)
next
  case False
  then have tx: "in_tx ok (SubmitTx ck i actor (trim_space narrative)) db = (db', r)"
    using assms by (simp add: Submit_def)
  then show ?thesis
  proof (cases rule: in_tx_cases)
    case (error e)
    then show ?thesis using refused by blast
  next
    case (ok u)
    then show ?thesis using submitted False
      by (auto simp: SubmitTx_def split: option.splits if_splits)
  qed
qed

text \<open>A review as the transaction writes it.\<close>

definition review_of ::
  "uuid \<Rightarrow> clock \<Rightarrow> uuid \<Rightarrow> uuid \<Rightarrow> review_decision \<Rightarrow> string option \<Rightarrow> review_row" where
  "review_of rid ck i reviewer d comment =
     \<lparr>rv_id = rid, rv_journal = i, rv_reviewer = reviewer, rv_decision = d,
      rv_comment = comment, rv_created = ck_dbnow ck\<rparr>"

definition review_count :: "uuid \<Rightarrow> database \<Rightarrow> nat" where
  "review_count i db = length (filter (\<lambda>r. rv_journal r = i) (db_reviews db))"

lemma Review_cases:
  assumes "Review rid nid ck ok i reviewer decision comment db = (db', r)"
  obtains (refused) e where "db' = db" "r = Inl e"
  | (reviewed) j d ns au where "r = Inr ()" "find_journal i db = Some j" "jo_status j = JSubmitted"
      "review_decision_of decision = Some d"
      "d = RvNeedsRevision \<Longrightarrow> \<exists>c. comment = Some c \<and> trim_space c \<noteq> []"
      "rid \<notin> rv_id ` set (db_reviews db)"
      "db' = db\<lparr>db_reviews := db_reviews db @ [review_of rid ck i reviewer d comment],
        db_journals := set_by_key jo_id i (review_journal_row ck d) (db_journals db),
        db_notifications := ns, db_audit := au\<rparr>"
      "nid \<notin> nt_id ` set (db_notifications db) \<Longrightarrow>
        \<exists>tp. find_trainee (jo_trainee j) db = Some tp \<and>
          (tp_user tp, JournalReviewKey i (Suc (review_count i db))) \<in> note_key ` set ns"
proof (cases "r")
  case (Inl e)
  then have "db' = db"
    using assms by (auto simp: Review_def dest: in_tx_error split: option.splits if_splits)
  then show ?thesis using refused Inl by blast
next
  case (Inr u)
  then obtain d where d: "review_decision_of decision = Some d"
      "d = RvNeedsRevision \<Longrightarrow> \<exists>c. comment = Some c \<and> trim_space c \<noteq> []"
    and tx: "ReviewTx rid nid ck i reviewer d comment db = Inr (db', u)"
    using assms by (auto simp: Review_def in_tx_ok split: option.splits if_splits)
  obtain j where j: "find_journal i db = Some j" "jo_status j = JSubmitted"
    using tx by (auto simp: ReviewTx_def split: option.splits if_splits)
  define d1 where "d1 = db\<lparr>db_reviews := db_reviews db @ [review_of rid ck i reviewer d comment],
    db_journals := set_by_key jo_id i (review_journal_row ck d) (db_journals db)\<rparr>"
  obtain tp ty where tp: "find_trainee (jo_trainee j) db = Some tp"
    and db': "db' = Record (Some reviewer) ty ''daily_journal'' (Some i)
      (fst (CreateTx (new_note nid ck (tp_user tp) (JournalReviewKey i (Suc (review_count i db)))
        ''journal_reviewed'' ''daily_journal'' (Some i)) d1))"
    and fresh: "rid \<notin> rv_id ` set (db_reviews db)"
    using tx j
    by (auto simp: ReviewTx_def result_bind_Inr_iff insert_review_Inr Let_def update_journal_def
        review_of_def d1_def review_count_def find_trainee_def split: option.splits)
  define n where "n = new_note nid ck (tp_user tp) (JournalReviewKey i (Suc (review_count i db)))
    ''journal_reviewed'' ''daily_journal'' (Some i)"
  obtain ns where ns: "fst (CreateTx n d1) = d1\<lparr>db_notifications := ns\<rparr>"
    using CreateTx_frame by blast
  have eq: "db' = db\<lparr>db_reviews := db_reviews db @ [review_of rid ck i reviewer d comment],
      db_journals := set_by_key jo_id i (review_journal_row ck d) (db_journals db),
      db_notifications := ns, db_audit := db_audit db'\<rparr>"
    using ns by (simp add: db' n_def Record_def d1_def)
  have sel: "nt_id n = nid"
      "note_key n = (tp_user tp, JournalReviewKey i (Suc (review_count i db)))"
    by (simp_all add: n_def)
  have told: "(tp_user tp, JournalReviewKey i (Suc (review_count i db))) \<in> note_key ` set ns"
    if "nid \<notin> nt_id ` set (db_notifications db)"
    using sink.fresh_recorded [of n d1, unfolded ns note_keys_def note_ids_def] that
    by (simp add: sel d1_def)
  show ?thesis by (intro reviewed [OF _ j d fresh eq]) (use Inr tp told in auto)
qed

text \<open>The status of a journal, when there is one.\<close>

definition status_of :: "uuid \<Rightarrow> database \<Rightarrow> journal_status option" where
  "status_of k db = map_option jo_status (find_journal k db)"

lemma status_SaveDraft:
  "status_of k (db\<lparr>db_journals := update_where (\<lambda>j. jo_id j = i \<and> p j) (set_narrative ck narrative) js\<rparr>) =
     status_of k (db\<lparr>db_journals := js\<rparr>)"
  by (simp add: status_of_def find_journal_def narrative_id.find_update
      set_narrative_def option.map_comp comp_def if_distrib [of jo_status] cong: if_cong)

lemma status_set:
  assumes "find_journal i db = Some j"
    and "\<And>x. jo_id (f x) = jo_id x"
    and "db_journals db' = set_by_key jo_id i f (db_journals db)"
  shows "status_of k db' = (if k = i then Some (jo_status (f j)) else status_of k db)"
proof -
  have u: "key_update jo_id f" by unfold_locales (rule assms(2))
  show ?thesis
    using assms(1,3)
    by (auto simp: status_of_def find_journal_def key_update.find_set_same [OF u]
        key_update.find_set_other [OF u])
qed

lemma SaveDraft_editable:
  assumes "SaveDraft ck i narrative db = (db', Inr ())" and "unique_on jo_id (db_journals db)"
  shows "\<exists>a. status_of i db = Some a \<and> editable a"
proof -
  have "filter (\<lambda>j. jo_id j = i \<and> editable (jo_status j)) (db_journals db) \<noteq> []"
    using assms(1) by (auto simp: SaveDraft_def Let_def rows_affected_def split: if_splits)
  then obtain j where j: "j \<in> set (db_journals db)" "jo_id j = i" "editable (jo_status j)"
    by (auto simp: filter_empty_conv)
  then have "find_journal i db = Some j"
    using by_key_unique [OF assms(2) j(1)] by (simp add: find_journal_def)
  then show ?thesis using j(3) by (simp add: status_of_def)
qed

text \<open>
  One operation: refused, it changes nothing; otherwise it is one step of the workflow on the
  journal it names, and on no other.
\<close>

lemma status_op:
  assumes "run_journal_op op db = (db', r)" and "unique_on jo_id (db_journals db)"
  shows "if r = Inr ()
    then \<exists>a b. status_of (fst (event_of op)) db = Some a \<and> journal_step (snd (event_of op)) a b \<and>
      status_of k db' = (if k = fst (event_of op) then Some b else status_of k db)
    else db' = db"
proof (cases op)
  case (OpSaveDraft ck i narrative)
  then have s: "SaveDraft ck i narrative db = (db', r)" using assms(1) by simp
  then show ?thesis
  proof (cases rule: SaveDraft_cases)
    case saved
    obtain a where a: "status_of i db = Some a" "editable a"
      using SaveDraft_editable s saved(1) assms(2) by blast
    have "status_of k db' = status_of k db"
      unfolding saved(2) using status_SaveDraft by simp
    then show ?thesis
      using a OpSaveDraft saved(1) by (auto simp: editable_def journal_step_simps)
  qed (simp add: OpSaveDraft)
next
  case (OpSubmit ck ok i actor narrative)
  then have "Submit ck ok i actor narrative db = (db', r)" using assms(1) by simp
  then show ?thesis
  proof (cases rule: Submit_cases)
    case (submitted j)
    have "status_of k db' = (if k = i then Some JSubmitted else status_of k db)"
      using status_set [OF submitted(2), of "submit_row ck (trim_space narrative)" db']
      by (simp add: submitted(5) Record_def update_journal_def submit_row_def)
    then show ?thesis
      using submitted(1-3) OpSubmit
      by (auto simp: status_of_def editable_def journal_step_simps)
  qed auto
next
  case (OpReview rid nid ck ok i reviewer decision comment)
  then have "Review rid nid ck ok i reviewer decision comment db = (db', r)" using assms(1) by simp
  then show ?thesis
  proof (cases rule: Review_cases)
    case (reviewed j d ns au)
    have "status_of k db' = (if k = i then Some (status_of_decision d) else status_of k db)"
      using status_set [OF reviewed(2), of "review_journal_row ck d" db']
      by (simp add: reviewed(7) review_journal_row_def)
    then show ?thesis
      using reviewed(1-4) OpReview
      by (auto simp: status_of_def status_of_decision_def review_decision_of_def journal_step_simps
          split: if_splits)
  qed auto
qed

lemma unique_op:
  assumes "run_journal_op op db = (db', r)" and "unique_on jo_id (db_journals db)"
  shows "unique_on jo_id (db_journals db')"
proof (cases op)
  case (OpSaveDraft ck i narrative)
  then show ?thesis
    using assms by (auto simp: SaveDraft_def Let_def narrative_id.unique_update split: if_splits)
next
  case (OpSubmit ck ok i actor narrative)
  then have "Submit ck ok i actor narrative db = (db', r)" using assms(1) by simp
  then show ?thesis
    by (cases rule: Submit_cases)
      (simp_all add: assms(2) Record_def update_journal_def set_by_key_def submit_id.unique_update)
next
  case (OpReview rid nid ck ok i reviewer decision comment)
  then have "Review rid nid ck ok i reviewer decision comment db = (db', r)" using assms(1) by simp
  then show ?thesis
    by (cases rule: Review_cases)
      (simp_all add: assms(2) set_by_key_def review_id.unique_update)
qed

text \<open>
  C14. The operations refine the workflow, one step each. Whatever the trainee and the staff do,
  the operations that succeed are, for each journal and in their order, a path of the workflow
  from the status it had to the one it has: saving keeps a draft or sent-back journal what it is,
  submitting makes either submitted, a review makes a submitted one reviewed or sends it back, as
  decided, and nothing else is possible; a refused operation is no step, and no operation creates
  or deletes a journal.
\<close>

theorem journal_workflow:
  assumes "run_journal_ops ops db = (db', evs)" and "unique_on jo_id (db_journals db)"
  shows "case status_of k db of
     None \<Rightarrow> status_of k db' = None \<and> k \<notin> fst ` set evs
   | Some a \<Rightarrow> \<exists>b. status_of k db' = Some b \<and>
       journal_path (map snd (filter (\<lambda>(i, e). i = k) evs)) a b"
  using assms
proof (induction ops arbitrary: db evs)
  case Nil
  then show ?case by (simp split: option.split)
next
  case (Cons op ops)
  obtain db1 r where one: "run_journal_op op db = (db1, r)" by (metis surj_pair)
  obtain evs1 where rest: "run_journal_ops ops db1 = (db', evs1)"
    and evs: "evs = (if r = Inr () then event_of op # evs1 else evs1)"
    using Cons.prems(1) one by (auto split: prod.splits)
  note IH = Cons.IH [OF rest unique_op [OF one Cons.prems(2)]]
  note step = status_op [OF one Cons.prems(2), of k]
  show ?case
  proof (cases "r = Inr ()")
    case True
    then show ?thesis
      using IH step evs
      by (cases "fst (event_of op) = k") (auto split: option.splits simp: case_prod_beta)
  qed (use IH step evs in \<open>simp split: option.splits\<close>)
qed

text \<open>Images do not change journals; a reviewed journal is not touched at all.\<close>

lemma reviewed_op:
  assumes "status_of k db = Some JReviewed"
  shows "find_journal k (fst (run_journal_op op db)) = find_journal k db"
proof (cases op)
  case (OpSaveDraft ck i narrative)
  then show ?thesis
    using assms
    by (auto simp: SaveDraft_def Let_def status_of_def find_journal_def narrative_id.find_update
        editable_def)
next
  case (OpSubmit ck ok i actor narrative)
  obtain db' r where s: "Submit ck ok i actor narrative db = (db', r)"
    by (cases "Submit ck ok i actor narrative db")
  then show ?thesis
  proof (cases rule: Submit_cases)
    case (submitted j)
    have "k \<noteq> i" using assms submitted(2,3) by (auto simp: status_of_def editable_def)
    then show ?thesis
      using s OpSubmit
      by (simp add: submitted(5) find_journal_def Record_def update_journal_def
          submit_id.find_set_other)
  qed (use s OpSubmit in simp)
next
  case (OpReview rid nid ck ok i reviewer decision comment)
  obtain db' r where s: "Review rid nid ck ok i reviewer decision comment db = (db', r)"
    by (cases "Review rid nid ck ok i reviewer decision comment db")
  then show ?thesis
  proof (cases rule: Review_cases)
    case (reviewed j d ns au)
    have "k \<noteq> i" using assms reviewed(2,3) by (auto simp: status_of_def)
    then show ?thesis
      using s OpReview by (simp add: reviewed(7) find_journal_def review_id.find_set_other)
  qed (use s OpReview in simp)
qed

text \<open>
  A reviewed journal is final: no sequence of drafts, submissions and reviews changes it.
\<close>

theorem reviewed_final:
  assumes "status_of k db = Some JReviewed"
  shows "find_journal k (fst (run_journal_ops ops db)) = find_journal k db"
  using assms
proof (induction ops arbitrary: db)
  case (Cons op ops)
  have "status_of k (fst (run_journal_op op db)) = Some JReviewed"
    using Cons.prems reviewed_op [OF Cons.prems, of op] by (simp add: status_of_def)
  then show ?case
    using Cons.IH reviewed_op [OF Cons.prems, of op] by (simp add: case_prod_beta Let_def)
qed simp

text \<open>An institution with a closed day and its journal, in the given state.\<close>

definition demo_journal :: "journal_status \<Rightarrow> journal_row" where
  "demo_journal st = \<lparr>jo_id = 500, jo_attendance = 100, jo_trainee = 2,
     jo_narrative = Some ''worked all day on filing'', jo_status = st, jo_submitted = None,
     jo_reviewed = None, jo_revisions = 0, jo_updated = 0\<rparr>"

definition demo_journal_db :: "journal_status \<Rightarrow> database" where
  "demo_journal_db st = demo_closed_db\<lparr>db_journals := [demo_journal st]\<rparr>"

lemma demo_journal_lookup:
  "find_journal 500 (demo_journal_db st) = Some (demo_journal st)"
  "status_of 500 (demo_journal_db st) = Some st"
  by (simp_all add: demo_journal_db_def demo_journal_def find_journal_def by_key_def status_of_def)

theorem reviewed_final_witness:
  "find_journal 500 (fst (run_journal_ops [OpSaveDraft (demo_clock 1) 500 ''x'',
     OpReview 600 601 (demo_clock 2) True 500 11 ''needs_revision'' (Some ''again'')]
     (demo_journal_db JReviewed))) = Some (demo_journal JReviewed)"
  by (subst reviewed_final) (simp_all add: demo_journal_lookup)

section \<open>Submission and review\<close>

text \<open>
  C15. A submission succeeds exactly for a journal that is a draft or sent back, with a trimmed
  narrative of at least 20 bytes, when the transaction commits. The journal then holds the
  trimmed narrative and is submitted, with the time of it; what it is about, its earlier review
  time and its count of revisions stay, every other journal is as it was, and nothing else but
  the audit log changes. A refused one changes nothing and says why.
\<close>

theorem Submit_effect:
  assumes "Submit ck ok i actor narrative db = (db', r)"
  shows "(r = Inr () \<longleftrightarrow> ok \<and> 20 \<le> length (trim_space narrative) \<and>
      (\<exists>j. find_journal i db = Some j \<and> (jo_status j = JDraft \<or> jo_status j = JNeedsRevision))) \<and>
    (r = Inr () \<longrightarrow>
      (\<exists>j. find_journal i db = Some j \<and>
         find_journal i db' = Some (j\<lparr>jo_narrative := Some (trim_space narrative),
           jo_status := JSubmitted, jo_submitted := Some (ck_dbnow ck), jo_updated := ck_dbnow ck\<rparr>)) \<and>
      (\<forall>k. k \<noteq> i \<longrightarrow> find_journal k db' = find_journal k db) \<and>
      (\<exists>js au. db' = db\<lparr>db_journals := js, db_audit := au\<rparr>)) \<and>
    (r \<noteq> Inr () \<longrightarrow> db' = db \<and>
      (length (trim_space narrative) < 20 \<longrightarrow> r = Inl (Api (Unprocessable ''NARRATIVE_REQUIRED''))) \<and>
      (20 \<le> length (trim_space narrative) \<and> find_journal i db = None \<longrightarrow> r = Inl (Api ErrNotFound)))"
  using assms
proof (cases rule: Submit_cases)
  case (refused e)
  have "\<not> (ok \<and> 20 \<le> length (trim_space narrative) \<and>
      (\<exists>j. find_journal i db = Some j \<and> (jo_status j = JDraft \<or> jo_status j = JNeedsRevision)))"
    using assms refused
    by (auto simp: Submit_def narrativeMinLen_def in_tx_def SubmitTx_def editable_def)
  moreover have "length (trim_space narrative) < 20 \<longrightarrow> r = Inl (Api (Unprocessable ''NARRATIVE_REQUIRED''))"
    "20 \<le> length (trim_space narrative) \<and> find_journal i db = None \<longrightarrow> r = Inl (Api ErrNotFound)"
    using assms by (auto simp: Submit_def narrativeMinLen_def in_tx_def SubmitTx_def)
  ultimately show ?thesis using refused by simp
next
  case (submitted j)
  have ok
    using assms submitted(1,4)
    by (auto simp: Submit_def narrativeMinLen_def in_tx_ok Let_def split: if_splits)
  moreover have "find_journal i db' = Some (submit_row ck (trim_space narrative) j)"
    "\<forall>k. k \<noteq> i \<longrightarrow> find_journal k db' = find_journal k db"
    using submitted(2) by (simp_all add: submitted(5) find_journal_def Record_def update_journal_def
        submit_id.find_set_same submit_id.find_set_other)
  moreover have "\<exists>js au. db' = db\<lparr>db_journals := js, db_audit := au\<rparr>"
    unfolding submitted(5) Record_def update_journal_def by fastforce
  moreover have "20 \<le> length (trim_space narrative)" "jo_status j = JDraft \<or> jo_status j = JNeedsRevision"
    using submitted(3,4) by (simp_all add: narrativeMinLen_def editable_def)
  ultimately show ?thesis
    using submitted(1,2) by (simp add: submit_row_def)
qed

theorem Submit_effect_witness:
  "\<exists>db' j. Submit (demo_clock 9) True 500 10 ''filed the records and met the supervisor''
     (demo_journal_db JDraft) = (db', Inr ()) \<and> find_journal 500 db' = Some j \<and>
     jo_status j = JSubmitted \<and> jo_narrative j = Some ''filed the records and met the supervisor''"
proof -
  define n where "n = ''filed the records and met the supervisor''"
  have t: "trim_space n = n" "20 \<le> length n" unfolding n_def by code_simp+
  obtain db' r where s: "Submit (demo_clock 9) True 500 10 n (demo_journal_db JDraft) = (db', r)"
    by (metis surj_pair)
  note effect = Submit_effect [OF s, unfolded t(1)]
  have r: "r = Inr ()"
    using effect [THEN conjunct1] demo_journal_lookup(1) [of JDraft] t(2) by (simp add: demo_journal_def)
  from effect [THEN conjunct2, THEN conjunct1, rule_format, OF r] obtain j where
    "find_journal 500 db' = Some j" "jo_status j = JSubmitted" "jo_narrative j = Some n"
    by auto
  then show ?thesis
    using s unfolding n_def [symmetric] r by blast
qed

text \<open>
  C16. A review that succeeds was of a submitted journal, with one of the two decisions. An
  accepted journal becomes reviewed; one sent back needs revision, counts one revision more, and
  the review carries a comment that is not blank. Either way the time of the review is set, the
  narrative stays, the review is appended to the history, every other journal is as it was, and
  the trainee is notified, once for each review. A refused review changes nothing.
\<close>

theorem Review_effect:
  assumes "Review rid nid ck ok i reviewer decision comment db = (db', r)"
    and "nid \<notin> nt_id ` set (db_notifications db)"
  shows "(r \<noteq> Inr () \<longrightarrow> db' = db) \<and> (r = Inr () \<longrightarrow>
    (\<exists>j rv tp. find_journal i db = Some j \<and> jo_status j = JSubmitted \<and>
      (decision = ''reviewed'' \<and> rv_decision rv = RvReviewed \<and>
         find_journal i db' = Some (j\<lparr>jo_status := JReviewed, jo_reviewed := Some (ck_dbnow ck),
           jo_updated := ck_dbnow ck\<rparr>) \<or>
       decision = ''needs_revision'' \<and> rv_decision rv = RvNeedsRevision \<and>
         (\<exists>c. rv_comment rv = Some c \<and> trim_space c \<noteq> []) \<and>
         find_journal i db' = Some (j\<lparr>jo_status := JNeedsRevision, jo_reviewed := Some (ck_dbnow ck),
           jo_updated := ck_dbnow ck, jo_revisions := jo_revisions j + 1\<rparr>)) \<and>
      (\<forall>k. k \<noteq> i \<longrightarrow> find_journal k db' = find_journal k db) \<and>
      db_reviews db' = db_reviews db @ [rv] \<and> rv_journal rv = i \<and> rv_reviewer rv = reviewer \<and>
      rv_comment rv = comment \<and> rv_created rv = ck_dbnow ck \<and>
      find_trainee (jo_trainee j) db = Some tp \<and>
      (tp_user tp, JournalReviewKey i (length (filter (\<lambda>r. rv_journal r = i) (db_reviews db'))))
        \<in> note_key ` set (db_notifications db')))"
  using assms(1)
proof (cases rule: Review_cases)
  case (reviewed j d ns au)
  obtain tp where tp: "find_trainee (jo_trainee j) db = Some tp"
      "(tp_user tp, JournalReviewKey i (Suc (review_count i db))) \<in> note_key ` set ns"
    using reviewed(8) assms(2) by blast
  have j': "find_journal i db' = Some (review_journal_row ck d j)"
    using reviewed(2) by (simp add: reviewed(7) find_journal_def review_id.find_set_same)
  have other: "\<forall>k. k \<noteq> i \<longrightarrow> find_journal k db' = find_journal k db"
    by (simp add: reviewed(7) find_journal_def review_id.find_set_other)
  have d: "decision = ''reviewed'' \<and> d = RvReviewed \<or> decision = ''needs_revision'' \<and> d = RvNeedsRevision"
    using reviewed(4) by (auto simp: review_decision_of_def split: if_splits)
  define rv where "rv = review_of rid ck i reviewer d comment"
  have rv: "rv_journal rv = i" "rv_reviewer rv = reviewer" "rv_comment rv = comment"
      "rv_created rv = ck_dbnow ck" "rv_decision rv = d" "db_reviews db' = db_reviews db @ [rv]"
    by (simp_all add: rv_def review_of_def reviewed(7))
  have told: "(tp_user tp, JournalReviewKey i (length (filter (\<lambda>r. rv_journal r = i) (db_reviews db'))))
      \<in> note_key ` set (db_notifications db')"
    using tp(2) by (simp add: reviewed(7) review_of_def review_count_def)
  from d have row: "decision = ''reviewed'' \<and> d = RvReviewed \<and>
        find_journal i db' = Some (j\<lparr>jo_status := JReviewed, jo_reviewed := Some (ck_dbnow ck),
          jo_updated := ck_dbnow ck\<rparr>) \<or>
      decision = ''needs_revision'' \<and> d = RvNeedsRevision \<and> (\<exists>c. comment = Some c \<and> trim_space c \<noteq> []) \<and>
        find_journal i db' = Some (j\<lparr>jo_status := JNeedsRevision, jo_reviewed := Some (ck_dbnow ck),
          jo_updated := ck_dbnow ck, jo_revisions := jo_revisions j + 1\<rparr>)"
    using j' reviewed(5) by (elim disjE) (simp_all add: review_journal_row_def status_of_decision_def)
  show ?thesis
    using row
    by (intro conjI impI exI [of _ j] exI [of _ rv] exI [of _ tp])
      (simp_all only: reviewed(1-3) rv tp(1) told [unfolded rv] not_True_eq_False simp_thms, rule other)
qed simp

lemmas review_eval = Review_def review_decision_of_def in_tx_def ReviewTx_def insert_review_def
  insert_row_def taken_def review_check_def update_journal_def find_trainee_def by_key_def
  CreateTx_def note_key_def new_note_def

lemma demo_review:
  "\<exists>db'. Review 600 601 (demo_clock 9) True 500 11 ''needs_revision'' (Some ''say more'')
     (demo_journal_db JSubmitted) = (db', Inr ())"
proof -
  have "trim_space ''say more'' = ''say more''" by code_simp
  then show ?thesis
    using demo_journal_lookup(1) [of JSubmitted]
    by (simp add: review_eval demo_journal_def)
      (simp add: demo_journal_db_def demo_closed_db_def demo_open_db_def demo_defs)
qed

theorem Review_effect_witness:
  "\<exists>db' j. Review 600 601 (demo_clock 9) True 500 11 ''needs_revision'' (Some ''say more'')
     (demo_journal_db JSubmitted) = (db', Inr ()) \<and> find_journal 500 db' = Some j \<and>
     jo_status j = JNeedsRevision \<and> jo_revisions j = 1"
proof -
  obtain db' where run: "Review 600 601 (demo_clock 9) True 500 11 ''needs_revision''
      (Some ''say more'') (demo_journal_db JSubmitted) = (db', Inr ())"
    using demo_review by blast
  have "601 \<notin> nt_id ` set (db_notifications (demo_journal_db JSubmitted))"
    by (simp add: demo_journal_db_def demo_closed_db_def demo_open_db_def demo_defs)
  from Review_effect [OF run this, THEN conjunct2] obtain j where
    "find_journal 500 (demo_journal_db JSubmitted) = Some j"
    "find_journal 500 db' = Some (j\<lparr>jo_status := JNeedsRevision, jo_reviewed := Some (ck_dbnow (demo_clock 9)),
       jo_updated := ck_dbnow (demo_clock 9), jo_revisions := jo_revisions j + 1\<rparr>)"
    by auto
  moreover from this have "j = demo_journal JSubmitted" using demo_journal_lookup(1) by simp
  ultimately show ?thesis using run by (simp add: demo_journal_def)
qed

text \<open>A draft saved too late is refused, the review then sends the journal back.\<close>

theorem journal_workflow_witness:
  "\<exists>db'. run_journal_ops [OpSaveDraft (demo_clock 8) 500 ''late'',
       OpReview 600 601 (demo_clock 9) True 500 11 ''needs_revision'' (Some ''say more'')]
       (demo_journal_db JSubmitted) = (db', [(500, EvSendBack)]) \<and>
     status_of 500 db' = Some JNeedsRevision"
proof -
  have "SaveDraft (demo_clock 8) 500 ''late'' (demo_journal_db JSubmitted) =
      (demo_journal_db JSubmitted, Inl (Api errNotEditable))"
    by (simp add: SaveDraft_def rows_affected_def demo_journal_db_def demo_journal_def editable_def)
  moreover obtain db' where "Review 600 601 (demo_clock 9) True 500 11 ''needs_revision''
      (Some ''say more'') (demo_journal_db JSubmitted) = (db', Inr ())"
    using demo_review by blast
  ultimately have run: "run_journal_ops [OpSaveDraft (demo_clock 8) 500 ''late'',
       OpReview 600 601 (demo_clock 9) True 500 11 ''needs_revision'' (Some ''say more'')]
       (demo_journal_db JSubmitted) = (db', [(500, EvSendBack)])"
    by simp
  moreover have "unique_on jo_id (db_journals (demo_journal_db JSubmitted))"
    by (simp add: demo_journal_db_def unique_on_def)
  ultimately show ?thesis
    using journal_workflow [OF run, of 500] demo_journal_lookup(2) [of JSubmitted]
    by (auto simp: journal_step_simps)
qed

end
