(* ===== verification/Reminders.thy ===== *)
theory Reminders
  imports TimeOutLaws
begin

text \<open>
  \<open>internal/reminders\<close>: the scheduled job that raises a notification for each session left open,
  each journal left unfinished and each expected day without a session. The identifiers of the
  notifications are drawn from \<open>ids\<close>, in the order in which the job tries to insert them. The
  settings are read from \<open>db0\<close>, the transaction runs on \<open>db1\<close>.
\<close>

section \<open>Candidates\<close>

text \<open>
  \<open>now.Add(d)\<close> for a duration in nanoseconds. A duration is 64 bits wide: \<open>time.Duration(n) *
  time.Minute\<close> wraps around.
\<close>

definition add_duration :: "instant \<Rightarrow> int \<Rightarrow> instant" where
  "add_duration now d = now + wrap64 d div 1000"

text \<open>The user a trainee's notifications go to; without a profile the inner join drops the row.\<close>

definition with_user :: "database \<Rightarrow> ('r \<Rightarrow> uuid) \<Rightarrow> ('r \<Rightarrow> uuid) \<Rightarrow> 'r list \<Rightarrow> (uuid \<times> uuid) list" where
  "with_user db i trainee rows =
     List.map_filter (\<lambda>r. map_option (\<lambda>tp. (i r, tp_user tp)) (find_trainee (trainee r) db)) rows"

definition open_candidates :: "instant \<Rightarrow> int \<Rightarrow> database \<Rightarrow> (uuid \<times> uuid) list" where
  "open_candidates now unusualMin db =
     with_user db at_id at_trainee
       (filter (\<lambda>s. at_status s = AtOpen \<and>
           at_effective_in s < add_duration now (- unusualMin * 60000000000))
         (db_attendance db))"

definition journal_due :: "instant \<Rightarrow> int \<Rightarrow> database \<Rightarrow> journal_row \<Rightarrow> bool" where
  "journal_due now cutoffHours db j =
     ((jo_status j = JDraft \<or> jo_status j = JNeedsRevision) \<and>
      (case find_attendance (jo_attendance j) db of
         None \<Rightarrow> False
       | Some s \<Rightarrow>
           (case (if at_closed s = None then at_effective_out s else at_closed s) of
              None \<Rightarrow> False
            | Some t \<Rightarrow> t < add_duration now (- cutoffHours * 3600000000000))))"

definition journal_candidates :: "instant \<Rightarrow> int \<Rightarrow> database \<Rightarrow> (uuid \<times> uuid) list" where
  "journal_candidates now cutoffHours db =
     with_user db jo_id jo_trainee (filter (journal_due now cutoffHours db) (db_journals db))"

definition expected_today :: "date \<Rightarrow> int \<Rightarrow> database \<Rightarrow> assignment_row \<Rightarrow> bool" where
  "expected_today today weekday db a =
     (as_status a = AsActive \<and>
      (case as_weekdays a of None \<Rightarrow> False | Some ds \<Rightarrow> ds \<noteq> [] \<and> weekday \<in> set ds) \<and>
      as_start a \<le> today \<and> opt_all (\<lambda>e. today \<le> e) (as_end a) \<and>
      \<not> list_ex (\<lambda>s. at_trainee s = as_trainee a \<and> at_date s = today) (db_attendance db))"

definition attendance_candidates :: "date \<Rightarrow> int \<Rightarrow> database \<Rightarrow> (uuid \<times> uuid) list" where
  "attendance_candidates today weekday db =
     with_user db as_id as_trainee (filter (expected_today today weekday db) (db_assignments db))"

section \<open>The job\<close>

definition reminder_notes ::
  "(nat \<Rightarrow> uuid) \<Rightarrow> nat \<Rightarrow> clock \<Rightarrow> (uuid \<Rightarrow> event_key) \<Rightarrow> string \<Rightarrow> string \<Rightarrow>
   (uuid \<times> uuid) list \<Rightarrow> notification_row list" where
  "reminder_notes ids start ck key ntype rtype pairs =
     map (\<lambda>(k, (i, user)). new_note (ids k) ck user (key i) ntype rtype (Some i))
       (enumerate start pairs)"

definition openTimeIn ::
  "(nat \<Rightarrow> uuid) \<Rightarrow> clock \<Rightarrow> int \<Rightarrow> database \<Rightarrow> database \<times> int" where
  "openTimeIn ids ck unusualMin db =
     emit_all CreateTx (reminder_notes ids 0 ck OpenReminderKey ''open_time_in''
       ''attendance_session'' (open_candidates (ck_now ck) unusualMin db)) db"

definition missingJournals ::
  "(nat \<Rightarrow> uuid) \<Rightarrow> nat \<Rightarrow> clock \<Rightarrow> int \<Rightarrow> database \<Rightarrow> database \<times> int" where
  "missingJournals ids start ck cutoffHours db =
     emit_all CreateTx (reminder_notes ids start ck JournalReminderKey ''missing_journal''
       ''daily_journal'' (journal_candidates (ck_now ck) cutoffHours db)) db"

definition missingAttendanceReminders ::
  "(nat \<Rightarrow> uuid) \<Rightarrow> nat \<Rightarrow> clock \<Rightarrow> date \<Rightarrow> zone \<Rightarrow> int \<Rightarrow> database \<Rightarrow> database \<times> int" where
  "missingAttendanceReminders ids start ck today z afterHour db =
     (if local_hour z (ck_now ck) < afterHour then (db, 0)
      else emit_all CreateTx (reminder_notes ids start ck (\<lambda>a. AttendanceReminderKey a today)
        ''missing_attendance'' ''ojt_assignment''
        (attendance_candidates today (iso_weekday z (ck_now ck)) db)) db)"

datatype reminder_error = BadTimezone string | ReminderTx go_error

definition RemindersTx ::
  "(nat \<Rightarrow> uuid) \<Rightarrow> clock \<Rightarrow> settings_row \<Rightarrow> date \<Rightarrow> zone \<Rightarrow> int \<Rightarrow> database \<Rightarrow>
   go_error + database \<times> int \<times> int \<times> int" where
  "RemindersTx ids ck st today z afterHour db =
     (let n1 = length (open_candidates (ck_now ck) (st_unusual_minutes st) db);
          (db1, openIn) = openTimeIn ids ck (st_unusual_minutes st) db;
          n2 = length (journal_candidates (ck_now ck) (st_journal_cutoff st) db1);
          (db2, missingJournal) = missingJournals ids n1 ck (st_journal_cutoff st) db1;
          (db3, missingAttendance) =
            missingAttendanceReminders ids (n1 + n2) ck today z afterHour db2
      in Inr (db3, openIn, missingJournal, missingAttendance))"

definition RunReminders ::
  "tzdb \<Rightarrow> (nat \<Rightarrow> uuid) \<Rightarrow> clock \<Rightarrow> bool \<Rightarrow> int \<Rightarrow> database \<Rightarrow> database \<Rightarrow>
   database \<times> (reminder_error + int \<times> int \<times> int)" where
  "RunReminders tzdb ids ck commit_ok afterHour db0 db1 =
     (let st = db_settings db0
      in case tzdb (st_timezone st) of
           None \<Rightarrow> (db1, Inl (BadTimezone (st_timezone st)))
         | Some z \<Rightarrow>
             (case LocalDate tzdb (ck_now ck) (st_timezone st) of
                None \<Rightarrow> (db1, Inl (BadTimezone (st_timezone st)))
              | Some today \<Rightarrow>
                  (case in_tx commit_ok (RemindersTx ids ck st today z afterHour) db1 of
                     (db', Inl e) \<Rightarrow> (db', Inl (ReminderTx e))
                   | (db', Inr counts) \<Rightarrow> (db', Inr counts))))"

section \<open>Exactness and idempotence\<close>

lemma emit_notes_frame: "\<exists>ns. fst (emit_all CreateTx es db) = db\<lparr>db_notifications := ns\<rparr>"
proof (induction es arbitrary: db)
  case Nil
  show ?case using same_notifications [of db] by simp
next
  case (Cons e es)
  obtain ns where ns: "fst (CreateTx e db) = db\<lparr>db_notifications := ns\<rparr>"
    using CreateTx_frame by blast
  obtain ms where ms: "fst (emit_all CreateTx es (fst (CreateTx e db))) =
      (fst (CreateTx e db))\<lparr>db_notifications := ms\<rparr>"
    using Cons.IH by blast
  have "fst (emit_all CreateTx (e # es) db) = db\<lparr>db_notifications := ms\<rparr>"
    using ms by (simp add: case_prod_beta ns)
  then show ?case by blast
qed

lemma candidates_frame [simp]:
  "open_candidates now m (db\<lparr>db_notifications := ns\<rparr>) = open_candidates now m db"
  "journal_candidates now m (db\<lparr>db_notifications := ns\<rparr>) = journal_candidates now m db"
  "attendance_candidates d w (db\<lparr>db_notifications := ns\<rparr>) = attendance_candidates d w db"
proof -
  have j: "journal_due now m (db\<lparr>db_notifications := ns\<rparr>) = journal_due now m db"
    by (simp add: fun_eq_iff journal_due_def find_attendance_def)
  have e: "expected_today d w (db\<lparr>db_notifications := ns\<rparr>) = expected_today d w db"
    by (simp add: fun_eq_iff expected_today_def)
  have uj: "with_user (db\<lparr>db_notifications := ns\<rparr>) jo_id jo_trainee rows =
      with_user db jo_id jo_trainee rows" for rows
    by (simp add: with_user_def find_trainee_def)
  have ua: "with_user (db\<lparr>db_notifications := ns\<rparr>) as_id as_trainee rows =
      with_user db as_id as_trainee rows" for rows
    by (simp add: with_user_def find_trainee_def)
  have us: "with_user (db\<lparr>db_notifications := ns\<rparr>) at_id at_trainee rows =
      with_user db at_id at_trainee rows" for rows
    by (simp add: with_user_def find_trainee_def)
  show "open_candidates now m (db\<lparr>db_notifications := ns\<rparr>) = open_candidates now m db"
    by (simp add: open_candidates_def us)
  show "journal_candidates now m (db\<lparr>db_notifications := ns\<rparr>) = journal_candidates now m db"
    by (simp add: journal_candidates_def uj j)
  show "attendance_candidates d w (db\<lparr>db_notifications := ns\<rparr>) = attendance_candidates d w db"
    by (simp add: attendance_candidates_def ua e)
qed

lemma reminder_notes_ids [simp]:
  "map nt_id (reminder_notes ids k ck key ty rty ps) = map ids [k..<k + length ps]"
proof -
  have "map nt_id (reminder_notes ids k ck key ty rty ps) = map (ids \<circ> fst) (enumerate k ps)"
    by (simp add: reminder_notes_def case_prod_beta comp_def)
  also have "\<dots> = map ids (map fst (enumerate k ps))" by (simp only: map_map)
  finally show ?thesis by (simp only: map_fst_enumerate)
qed

lemma reminder_notes_keys [simp]:
  "note_key ` set (reminder_notes ids k ck key ty rty ps) = (\<lambda>(i, u). (u, key i)) ` set ps"
proof -
  have "note_key ` set (reminder_notes ids k ck key ty rty ps) =
      ((\<lambda>(i, u). (u, key i)) \<circ> snd) ` set (enumerate k ps)"
    by (simp add: reminder_notes_def image_image case_prod_beta comp_def)
  also have "\<dots> = (\<lambda>(i, u). (u, key i)) ` set (map snd (enumerate k ps))"
    by (simp only: image_comp [symmetric] set_map)
  finally show ?thesis by (simp only: map_snd_enumerate)
qed

text \<open>The notifications one run tries to raise, and their keys as conditions on the tables.\<close>

definition due_attendance ::
  "clock \<Rightarrow> date \<Rightarrow> zone \<Rightarrow> int \<Rightarrow> database \<Rightarrow> (uuid \<times> uuid) list" where
  "due_attendance ck today z afterHour db =
     (if local_hour z (ck_now ck) < afterHour then []
      else attendance_candidates today (iso_weekday z (ck_now ck)) db)"

definition due_notes ::
  "(nat \<Rightarrow> uuid) \<Rightarrow> clock \<Rightarrow> settings_row \<Rightarrow> date \<Rightarrow> zone \<Rightarrow> int \<Rightarrow> database \<Rightarrow>
   notification_row list" where
  "due_notes ids ck st today z afterHour db =
     (let os = open_candidates (ck_now ck) (st_unusual_minutes st) db;
          js = journal_candidates (ck_now ck) (st_journal_cutoff st) db
      in reminder_notes ids 0 ck OpenReminderKey ''open_time_in'' ''attendance_session'' os @
         reminder_notes ids (length os) ck JournalReminderKey ''missing_journal'' ''daily_journal'' js @
         reminder_notes ids (length os + length js) ck (\<lambda>a. AttendanceReminderKey a today)
           ''missing_attendance'' ''ojt_assignment'' (due_attendance ck today z afterHour db))"

text \<open>
  The specification: whom the job reminds of what, read off the tables. An open session that began
  before the unusual number of minutes; a draft or sent-back journal whose session was closed, or
  ended, before the cut-off; and, from the hour of the day on, an active assignment that expects
  its trainee on this weekday, has begun and not ended, while the trainee has no session today.
\<close>

definition due_keys ::
  "clock \<Rightarrow> settings_row \<Rightarrow> date \<Rightarrow> zone \<Rightarrow> int \<Rightarrow> database \<Rightarrow> (uuid \<times> event_key) set" where
  "due_keys ck st today z afterHour db =
     {(tp_user tp, OpenReminderKey (at_id s)) | s tp. s \<in> set (db_attendance db) \<and>
        at_status s = AtOpen \<and>
        at_effective_in s < add_duration (ck_now ck) (- st_unusual_minutes st * 60000000000) \<and>
        find_trainee (at_trainee s) db = Some tp} \<union>
     {(tp_user tp, JournalReminderKey (jo_id j)) | j tp. j \<in> set (db_journals db) \<and>
        (jo_status j = JDraft \<or> jo_status j = JNeedsRevision) \<and>
        (\<exists>s t. find_attendance (jo_attendance j) db = Some s \<and>
           (at_closed s = Some t \<or> at_closed s = None \<and> at_effective_out s = Some t) \<and>
           t < add_duration (ck_now ck) (- st_journal_cutoff st * 3600000000000)) \<and>
        find_trainee (jo_trainee j) db = Some tp} \<union>
     {(tp_user tp, AttendanceReminderKey (as_id a) today) | a tp. a \<in> set (db_assignments db) \<and>
        afterHour \<le> local_hour z (ck_now ck) \<and> as_status a = AsActive \<and>
        (\<exists>ds. as_weekdays a = Some ds \<and> iso_weekday z (ck_now ck) \<in> set ds) \<and>
        as_start a \<le> today \<and> (\<forall>e. as_end a = Some e \<longrightarrow> today \<le> e) \<and>
        (\<forall>s\<in>set (db_attendance db). at_trainee s = as_trainee a \<longrightarrow> at_date s \<noteq> today) \<and>
        find_trainee (as_trainee a) db = Some tp}"

lemma journal_due_iff:
  "journal_due now h db j \<longleftrightarrow> (jo_status j = JDraft \<or> jo_status j = JNeedsRevision) \<and>
     (\<exists>s t. find_attendance (jo_attendance j) db = Some s \<and>
        (at_closed s = Some t \<or> at_closed s = None \<and> at_effective_out s = Some t) \<and>
        t < add_duration now (- h * 3600000000000))"
  by (auto simp: journal_due_def split: option.splits if_splits)

lemma expected_today_iff:
  "expected_today today weekday db a \<longleftrightarrow> as_status a = AsActive \<and>
     (\<exists>ds. as_weekdays a = Some ds \<and> weekday \<in> set ds) \<and>
     as_start a \<le> today \<and> (\<forall>e. as_end a = Some e \<longrightarrow> today \<le> e) \<and>
     (\<forall>s\<in>set (db_attendance db). at_trainee s = as_trainee a \<longrightarrow> at_date s \<noteq> today)"
  by (auto simp: expected_today_def list_ex_iff opt_all_def split: option.splits)

lemma due_keys_alt:
  "due_keys ck st today z afterHour db =
     {(tp_user tp, OpenReminderKey (at_id s)) | s tp. s \<in> set (db_attendance db) \<and>
        at_status s = AtOpen \<and>
        at_effective_in s < add_duration (ck_now ck) (- st_unusual_minutes st * 60000000000) \<and>
        find_trainee (at_trainee s) db = Some tp} \<union>
     {(tp_user tp, JournalReminderKey (jo_id j)) | j tp. j \<in> set (db_journals db) \<and>
        journal_due (ck_now ck) (st_journal_cutoff st) db j \<and>
        find_trainee (jo_trainee j) db = Some tp} \<union>
     {(tp_user tp, AttendanceReminderKey (as_id a) today) | a tp. a \<in> set (db_assignments db) \<and>
        afterHour \<le> local_hour z (ck_now ck) \<and>
        expected_today today (iso_weekday z (ck_now ck)) db a \<and>
        find_trainee (as_trainee a) db = Some tp}"
  unfolding due_keys_def journal_due_iff expected_today_iff by blast

lemma RemindersTx_emit:
  assumes "RemindersTx ids ck st today z afterHour db = Inr (db', a, b, c)"
  shows "emit_all CreateTx (due_notes ids ck st today z afterHour db) db = (db', a + (b + c))"
proof -
  define os where "os = open_candidates (ck_now ck) (st_unusual_minutes st) db"
  define js where "js = journal_candidates (ck_now ck) (st_journal_cutoff st) db"
  define e1 where "e1 = reminder_notes ids 0 ck OpenReminderKey ''open_time_in''
    ''attendance_session'' os"
  define e2 where "e2 = reminder_notes ids (length os) ck JournalReminderKey ''missing_journal''
    ''daily_journal'' js"
  define e3 where "e3 = reminder_notes ids (length os + length js) ck
    (\<lambda>a. AttendanceReminderKey a today) ''missing_attendance'' ''ojt_assignment''
    (due_attendance ck today z afterHour db)"
  obtain n1 where n1: "fst (emit_all CreateTx e1 db) = db\<lparr>db_notifications := n1\<rparr>"
    using emit_notes_frame by blast
  obtain n2 where n2: "fst (emit_all CreateTx e2 (db\<lparr>db_notifications := n1\<rparr>)) =
      db\<lparr>db_notifications := n2\<rparr>"
    using emit_notes_frame [of e2 "db\<lparr>db_notifications := n1\<rparr>"] by auto
  have s1: "openTimeIn ids ck (st_unusual_minutes st) db = emit_all CreateTx e1 db"
    by (simp add: openTimeIn_def e1_def os_def)
  have s2: "missingJournals ids (length os) ck (st_journal_cutoff st) (db\<lparr>db_notifications := n1\<rparr>) =
      emit_all CreateTx e2 (db\<lparr>db_notifications := n1\<rparr>)"
    by (simp add: missingJournals_def e2_def js_def)
  have s3: "missingAttendanceReminders ids (length os + length js) ck today z afterHour
      (db\<lparr>db_notifications := n2\<rparr>) = emit_all CreateTx e3 (db\<lparr>db_notifications := n2\<rparr>)"
    by (simp add: missingAttendanceReminders_def e3_def due_attendance_def reminder_notes_def)
  have "due_notes ids ck st today z afterHour db = e1 @ e2 @ e3"
    by (simp add: due_notes_def Let_def e1_def e2_def e3_def os_def js_def)
  then show ?thesis
    using assms
    unfolding RemindersTx_def os_def [symmetric] Let_def case_prod_beta
    by (simp add: emit_all_append case_prod_beta Let_def s1 n1 s2 n2 s3 js_def [symmetric])
qed

lemma with_user_keys:
  "(\<lambda>(i, u). (u, key i)) ` set (with_user db i t rows) =
     {(tp_user tp, key (i r)) | r tp. r \<in> set rows \<and> find_trainee (t r) db = Some tp}"
proof -
  have m: "x \<in> set (with_user db i t rows) \<longleftrightarrow>
      (\<exists>r tp. r \<in> set rows \<and> find_trainee (t r) db = Some tp \<and> x = (i r, tp_user tp))" for x
    by (auto simp: with_user_def in_map_filter)
  show ?thesis unfolding set_eq_iff image_iff Bex_def m by auto
qed

lemma due_notes_keys:
  "note_key ` set (due_notes ids ck st today z afterHour db) = due_keys ck st today z afterHour db"
  by (auto simp: due_notes_def Let_def image_Un with_user_keys due_keys_alt open_candidates_def
      journal_candidates_def due_attendance_def attendance_candidates_def)

lemma due_notes_ids:
  "\<exists>n. map nt_id (due_notes ids ck st today z afterHour db) = map ids [0..<n]"
proof -
  define a where "a = length (open_candidates (ck_now ck) (st_unusual_minutes st) db)"
  define b where "b = length (journal_candidates (ck_now ck) (st_journal_cutoff st) db)"
  define c where "c = length (due_attendance ck today z afterHour db)"
  have "map nt_id (due_notes ids ck st today z afterHour db) =
      map ids ([0..<a] @ [a..<a + b] @ [a + b..<a + b + c])"
    by (simp add: due_notes_def Let_def a_def b_def c_def)
  also have "[0..<a] @ [a..<a + b] @ [a + b..<a + b + c] = [0..<a + b + c]"
    by (metis add.assoc add_0 append.assoc upt_add_eq_append le0)
  finally show ?thesis by blast
qed

lemma RunReminders_cases:
  assumes "RunReminders tzdb ids ck ok afterHour db0 db1 = (db', r)"
  obtains (failed) e where "r = Inl e" "db' = db1"
  | (ran) z a b c where "r = Inr (a, b, c)" "tzdb (st_timezone (db_settings db0)) = Some z"
      "RemindersTx ids ck (db_settings db0) (date_in z (ck_now ck)) z afterHour db1 =
        Inr (db', a, b, c)"
proof (cases "tzdb (st_timezone (db_settings db0))")
  case None
  then show ?thesis
    using assms failed [of "BadTimezone (st_timezone (db_settings db0))"]
    by (simp add: RunReminders_def Let_def)
next
  case (Some z)
  obtain d x where tx: "in_tx ok (RemindersTx ids ck (db_settings db0) (date_in z (ck_now ck)) z
      afterHour) db1 = (d, x)" by fastforce
  then show ?thesis
  proof (cases rule: in_tx_cases)
    case (error e)
    then show ?thesis
      using assms tx failed [of "ReminderTx e"]
      by (simp add: RunReminders_def Let_def Some LocalDate_def)
  next
    case (ok y)
    then show ?thesis
      using assms tx ran [OF _ Some] by (cases y)
        (simp add: RunReminders_def Let_def Some LocalDate_def)
  qed
qed

text \<open>
  C30. A run raises exactly the reminders that are due and not yet raised: with fresh identifiers
  the event keys afterwards are the ones before and those of the sessions open past the
  threshold, of the journals unfinished past the cutoff and, from the configured local hour on, of
  the active assignments whose weekdays include today and whose trainee has no session. A run
  that fails changes nothing, and no run changes anything but notifications.
\<close>

theorem RunReminders_exact:
  assumes "RunReminders tzdb ids ck ok afterHour db0 db1 = (db', r)"
    and "inj ids" and "range ids \<inter> note_ids db1 = {}"
  shows "(\<forall>e. r = Inl e \<longrightarrow> db' = db1) \<and>
    (\<forall>a b c. r = Inr (a, b, c) \<longrightarrow>
      (\<exists>z. tzdb (st_timezone (db_settings db0)) = Some z \<and>
         note_keys db' = note_keys db1 \<union> due_keys ck (db_settings db0) (date_in z (ck_now ck)) z
           afterHour db1)) \<and>
    (\<exists>ns. db' = db1\<lparr>db_notifications := ns\<rparr>)"
  using assms(1)
proof (cases rule: RunReminders_cases)
  case (failed e)
  then show ?thesis using same_notifications [of db1] by simp
next
  case (ran z a b c)
  let ?es = "due_notes ids ck (db_settings db0) (date_in z (ck_now ck)) z afterHour db1"
  have em: "fst (emit_all CreateTx ?es db1) = db'"
    using RemindersTx_emit [OF ran(3)] by simp
  obtain n where n: "map nt_id ?es = map ids [0..<n]" using due_notes_ids by blast
  have "distinct (map nt_id ?es)" unfolding n using assms(2) by (simp add: distinct_map inj_on_def)
  moreover have "nt_id ` set ?es \<subseteq> range ids"
    using arg_cong [OF n, of set] by auto
  ultimately have "note_keys db' = note_keys db1 \<union> note_key ` set ?es"
    using sink.emit_keys_exact [of ?es db1] assms(3) em by blast
  then show ?thesis
    using ran(1,2) emit_notes_frame [of ?es db1] em by (simp add: due_notes_keys)
qed

text \<open>Sixteen hours and ten minutes after a Time In at midnight, the threshold being 960 minutes.\<close>

lemmas reminder_eval = RunReminders_def LocalDate_def date_in_def us_per_day_def in_tx_def
  RemindersTx_def openTimeIn_def open_candidates_def with_user_def List.map_filter_simps
  add_duration_def wrap64_def find_trainee_def by_key_def reminder_notes_def
  missingJournals_def journal_candidates_def missingAttendanceReminders_def
  attendance_candidates_def expected_today_def local_hour_def us_per_hour_def
  CreateTx_def taken_def new_note_def note_key_def Let_def

definition demo_late :: clock where "demo_late = demo_clock 58200000000"

lemma demo_reminders:
  "\<exists>db'. RunReminders (\<lambda>_. Some (\<lambda>_. 0)) (\<lambda>k. 700 + k) demo_late True 12 demo_open_db demo_open_db =
     (db', Inr (1, 0, 0))"
  by (simp add: reminder_eval demo_late_def demo_open_db_def demo_session_def demo_defs)

lemma demo_reminder_ids: "inj (\<lambda>k :: nat. 700 + k)" "range (\<lambda>k. 700 + k) \<inter> note_ids demo_open_db = {}"
  by (simp_all add: inj_def note_ids_def demo_open_db_def demo_defs)

theorem RunReminders_exact_witness:
  "\<exists>db'. RunReminders (\<lambda>_. Some (\<lambda>_. 0)) (\<lambda>k. 700 + k) demo_late True 12 demo_open_db demo_open_db =
     (db', Inr (1, 0, 0)) \<and> (10, OpenReminderKey 100) \<in> note_keys db'"
proof -
  obtain db' where run: "RunReminders (\<lambda>_. Some (\<lambda>_. 0)) (\<lambda>k. 700 + k) demo_late True 12
      demo_open_db demo_open_db = (db', Inr (1, 0, 0))"
    using demo_reminders by blast
  have "(10, OpenReminderKey 100) \<in> due_keys demo_late (db_settings demo_open_db) 0 (\<lambda>_. 0) 12
      demo_open_db"
    by (simp add: due_keys_alt add_duration_def wrap64_def find_trainee_def by_key_def
        demo_late_def demo_open_db_def demo_session_def demo_defs)
  moreover have "date_in (\<lambda>_. 0) (ck_now demo_late) = 0"
    by (simp add: date_in_def us_per_day_def demo_late_def demo_clock_def)
  ultimately show ?thesis
    using RunReminders_exact [OF run demo_reminder_ids] run by auto
qed

lemma RemindersTx_total: "\<exists>db' a b c. RemindersTx ids ck st today z h db = Inr (db', a, b, c)"
  by (simp add: RemindersTx_def Let_def case_prod_beta)

lemma RemindersTx_counts:
  assumes "RemindersTx ids ck st today z h db = Inr (db', a, b, c)"
  shows "0 \<le> a \<and> 0 \<le> b \<and> 0 \<le> c"
  using assms
  by (auto simp: RemindersTx_def Let_def case_prod_beta openTimeIn_def missingJournals_def
      missingAttendanceReminders_def emit_all_nonneg)

lemma due_keys_frame:
  "due_keys ck st d z h (db\<lparr>db_notifications := ns\<rparr>) = due_keys ck st d z h db"
  by (simp add: due_keys_alt find_trainee_def journal_due_def find_attendance_def
      expected_today_def)

text \<open>
  C31. The job is idempotent: a second run at the same time, or at any time at which nothing
  more is due than in the first, raises nothing, whatever identifiers it draws.
\<close>

theorem RunReminders_idempotent:
  assumes "RunReminders tzdb ids ck ok h db db = (db', Inr counts)"
    and "inj ids" and "range ids \<inter> note_ids db = {}"
    and "tzdb (st_timezone (db_settings db)) = Some z"
    and "due_keys ck' (db_settings db) (date_in z (ck_now ck')) z h db \<subseteq>
      due_keys ck (db_settings db) (date_in z (ck_now ck)) z h db"
  shows "RunReminders tzdb ids' ck' True h db' db' = (db', Inr (0, 0, 0))"
proof -
  let ?st = "db_settings db"
  let ?d = "date_in z (ck_now ck')"
  from assms(1) obtain db2 a b c where
    tx: "RemindersTx ids ck ?st (date_in z (ck_now ck)) z h db = Inr (db', a, b, c)"
    using assms(4) by (cases rule: RunReminders_cases) auto
  let ?es = "due_notes ids ck ?st (date_in z (ck_now ck)) z h db"
  have em: "fst (emit_all CreateTx ?es db) = db'" using RemindersTx_emit [OF tx] by simp
  obtain ns where ns: "db' = db\<lparr>db_notifications := ns\<rparr>" using emit_notes_frame [of ?es db] em by auto
  obtain n where n: "map nt_id ?es = map ids [0..<n]" using due_notes_ids by blast
  have "distinct (map nt_id ?es)" unfolding n using assms(2) by (simp add: distinct_map inj_on_def)
  moreover have "nt_id ` set ?es \<subseteq> range ids" using arg_cong [OF n, of set] by auto
  ultimately have "note_key ` set ?es \<subseteq> note_keys db'"
    using sink.emit_all_recorded [of ?es db] assms(3) em by blast
  then have "due_keys ck' ?st ?d z h db' \<subseteq> note_keys db'"
    using assms(5) by (simp add: due_notes_keys ns due_keys_frame)
  then have skip: "emit_all CreateTx (due_notes ids' ck' ?st ?d z h db') db' = (db', 0)"
    using sink.all_known_skipped due_notes_keys by metis
  obtain db2 a b c where tx2: "RemindersTx ids' ck' ?st ?d z h db' = Inr (db2, a, b, c)"
    using RemindersTx_total by blast
  have "db2 = db' \<and> a + (b + c) = 0"
    using RemindersTx_emit [OF tx2] skip by simp
  then have "db2 = db' \<and> a = 0 \<and> b = 0 \<and> c = 0"
    using RemindersTx_counts [OF tx2] by linarith
  then show ?thesis
    using tx2 assms(4) by (simp add: RunReminders_def Let_def ns LocalDate_def in_tx_def)
qed

theorem RunReminders_idempotent_witness:
  "\<exists>db'. RunReminders (\<lambda>_. Some (\<lambda>_. 0)) (\<lambda>k. 700 + k) demo_late True 12 demo_open_db demo_open_db =
     (db', Inr (1, 0, 0)) \<and>
     RunReminders (\<lambda>_. Some (\<lambda>_. 0)) (\<lambda>k. 900 + k) demo_late True 12 db' db' = (db', Inr (0, 0, 0))"
proof -
  obtain db' where run: "RunReminders (\<lambda>_. Some (\<lambda>_. 0)) (\<lambda>k. 700 + k) demo_late True 12
      demo_open_db demo_open_db = (db', Inr (1, 0, 0))"
    using demo_reminders by blast
  show ?thesis
    using run RunReminders_idempotent [OF run demo_reminder_ids refl order_refl] by blast
qed

end
