(* ===== verification/Sites.thy ===== *)
theory Sites
  imports Assignments
begin

text \<open>
  \<open>internal/sites\<close>: the sites trainees are assigned to. The coordinates of a request come from
  JSON and so are finite numbers, kept as reals; the radius is checked against 32 bits when it
  reaches its \<open>integer\<close> column. \<open>coll\<close> stands for the collation of the database: the sort key of
  a text, by which \<open>ORDER BY name\<close> sorts. An update reads on \<open>db0\<close> and writes on \<open>db1\<close>.
\<close>

record site_input =
  sn_name :: "string option"
  sn_address :: "string option"
  sn_latitude :: "real option"
  sn_longitude :: "real option"
  sn_radius :: "int option"
  sn_active :: "bool option"

definition validate_site :: "string \<Rightarrow> string \<Rightarrow> real \<Rightarrow> real \<Rightarrow> int \<Rightarrow> string list" where
  "validate_site name address lat lng radius =
     (if trim_space name = [] then [''name''] else []) @
     (if trim_space address = [] then [''address''] else []) @
     (if lat < -90 \<or> 90 < lat then [''latitude''] else []) @
     (if lng < -180 \<or> 180 < lng then [''longitude''] else []) @
     (if radius \<le> 0 then [''allowed_radius_m''] else [])"

text \<open>The CHECK constraints of \<open>ojt_sites\<close>; a radius beyond 32 bits does not reach them.\<close>

definition site_check :: "site_row \<Rightarrow> bool" where
  "site_check s =
     (-90 \<le> si_latitude s \<and> si_latitude s \<le> 90 \<and> -180 \<le> si_longitude s \<and> si_longitude s \<le> 180 \<and>
      0 < si_radius s)"

definition site_checks :: "site_row \<Rightarrow> site_row list \<Rightarrow> (bool \<times> go_error) list" where
  "site_checks s others =
     [(\<not> fits_int4 (si_radius s), QueryFailed),
      (\<not> site_check s, CheckViolation ''ojt_sites_check''),
      (taken si_id s others, UniqueViolation ''ojt_sites_pkey'')]"

definition insert_site :: "site_row \<Rightarrow> database \<Rightarrow> go_error + database" where
  "insert_site s db =
     insert_row (site_checks s (db_sites db)) (db\<lparr>db_sites := db_sites db @ [s]\<rparr>)"

text \<open>\<open>UPDATE ... WHERE id = $1 RETURNING\<close>: every column is replaced, and no row is an error.\<close>

definition update_site :: "uuid \<Rightarrow> site_row \<Rightarrow> database \<Rightarrow> go_error + database" where
  "update_site i new db =
     (if find_site i db = None then Inl NoRows
      else insert_row (site_checks new (filter (\<lambda>q. si_id q \<noteq> i) (db_sites db)))
             (db\<lparr>db_sites := set_by_key si_id i (\<lambda>_. new) (db_sites db)\<rparr>))"

definition site_matches :: "string \<Rightarrow> bool option \<Rightarrow> site_row \<Rightarrow> bool" where
  "site_matches q active s =
     (search_any q [si_name s, si_address s] \<and> opt_all (\<lambda>b. si_active s = b) active)"

definition List_sites ::
  "(string \<Rightarrow> 'k::linorder) \<Rightarrow> page \<Rightarrow> string \<Rightarrow> bool option \<Rightarrow> database \<Rightarrow>
   go_error + site_row list \<times> int" where
  "List_sites coll p q active db =
     (let rows = filter (site_matches q active) (db_sites db)
      in result_bind (page_rows p (sort_key (\<lambda>s. coll (si_name s)) rows))
           (\<lambda>items. Inr (items, int (length rows))))"

definition Get_site :: "uuid \<Rightarrow> database \<Rightarrow> go_error + site_row" where
  "Get_site i db = (case find_site i db of None \<Rightarrow> Inl (Api ErrNotFound) | Some s \<Rightarrow> Inr s)"

definition Create_site ::
  "uuid \<Rightarrow> site_input \<Rightarrow> database \<Rightarrow> database \<times> (go_error + site_row)" where
  "Create_site sid inp db =
     (case (sn_name inp, sn_address inp, sn_latitude inp, sn_longitude inp, sn_radius inp) of
        (Some name, Some address, Some lat, Some lng, Some radius) \<Rightarrow>
          if validate_site name address lat lng radius \<noteq> []
          then (db, Inl (Api (Validation (validate_site name address lat lng radius))))
          else
            let s = \<lparr>si_id = sid, si_name = trim_space name, si_address = trim_space address,
                  si_latitude = lat, si_longitude = lng, si_radius = radius,
                  si_active = (case sn_active inp of None \<Rightarrow> True | Some b \<Rightarrow> b)\<rparr>
            in (case insert_site s db of
                  Inl e \<Rightarrow> (db, Inl (Api Internal))
                | Inr db' \<Rightarrow> (db', Inr s))
      | _ \<Rightarrow> (db, Inl (Api ValidationMsg)))"

text \<open>The patched columns, over the row that was read, before they are validated.\<close>

definition patched_columns :: "site_input \<Rightarrow> site_row \<Rightarrow> site_row" where
  "patched_columns inp cur =
     cur\<lparr>si_name := (case sn_name inp of None \<Rightarrow> si_name cur | Some v \<Rightarrow> v),
         si_address := (case sn_address inp of None \<Rightarrow> si_address cur | Some v \<Rightarrow> v),
         si_latitude := (case sn_latitude inp of None \<Rightarrow> si_latitude cur | Some v \<Rightarrow> v),
         si_longitude := (case sn_longitude inp of None \<Rightarrow> si_longitude cur | Some v \<Rightarrow> v),
         si_radius := (case sn_radius inp of None \<Rightarrow> si_radius cur | Some v \<Rightarrow> v),
         si_active := (case sn_active inp of None \<Rightarrow> si_active cur | Some v \<Rightarrow> v)\<rparr>"

definition Update_site ::
  "uuid \<Rightarrow> site_input \<Rightarrow> database \<Rightarrow> database \<Rightarrow> database \<times> (go_error + site_row)" where
  "Update_site i inp db0 db1 =
     (case Get_site i db0 of
        Inl e \<Rightarrow> (db1, Inl e)
      | Inr cur \<Rightarrow>
          let p = patched_columns inp cur;
              bad = validate_site (si_name p) (si_address p) (si_latitude p) (si_longitude p)
                (si_radius p);
              new = p\<lparr>si_name := trim_space (si_name p), si_address := trim_space (si_address p)\<rparr>
          in if bad \<noteq> [] then (db1, Inl (Api (Validation bad)))
             else
               case update_site i new db1 of
                 Inl e \<Rightarrow> (db1, Inl (Api Internal))
               | Inr db' \<Rightarrow> (db', Inr new))"

section \<open>Handlers\<close>

definition active_query :: "string \<Rightarrow> bool option" where
  "active_query v = (if v = [] then None else Some (v = ''true'' \<or> v = ''1''))"

definition handle_List_sites ::
  "(string \<Rightarrow> 'k::linorder) \<Rightarrow> int option \<Rightarrow> int option \<Rightarrow> string \<Rightarrow> string \<Rightarrow> database \<Rightarrow>
   api_error + site_row list \<times> page_meta" where
  "handle_List_sites coll page_q size_q active q db =
     (let page = ParsePage page_q size_q
      in case List_sites coll page q (active_query active) db of
           Inl e \<Rightarrow> Inl Internal
         | Inr (items, tot) \<Rightarrow> Inr (items, NewPageMeta page tot))"

definition handle_Create_site ::
  "uuid \<Rightarrow> auth_user \<Rightarrow> site_input option \<Rightarrow> database \<Rightarrow> database \<times> (api_error + site_row)" where
  "handle_Create_site sid actor body db =
     (case body of
        None \<Rightarrow> (db, Inl ValidationMsg)
      | Some inp \<Rightarrow>
          (case Create_site sid inp db of
             (db', Inl e) \<Rightarrow> (db', Inl (Fail e))
           | (db', Inr s) \<Rightarrow>
               (Record (Some (ac_id actor)) ''site.created'' ''ojt_site'' (Some (si_id s)) db', Inr s)))"

definition handle_Get_site :: "uuid option \<Rightarrow> database \<Rightarrow> api_error + site_row" where
  "handle_Get_site param db =
     (case param of
        None \<Rightarrow> Inl ErrNotFound
      | Some i \<Rightarrow> (case Get_site i db of Inl e \<Rightarrow> Inl (Fail e) | Inr s \<Rightarrow> Inr s))"

definition handle_Update_site ::
  "auth_user \<Rightarrow> uuid option \<Rightarrow> site_input option \<Rightarrow> database \<Rightarrow> database \<Rightarrow>
   database \<times> (api_error + site_row)" where
  "handle_Update_site actor param body db0 db1 =
     (case param of
        None \<Rightarrow> (db1, Inl ErrNotFound)
      | Some i \<Rightarrow>
          (case body of
             None \<Rightarrow> (db1, Inl ValidationMsg)
           | Some inp \<Rightarrow>
               (case Update_site i inp db0 db1 of
                  (db', Inl e) \<Rightarrow> (db', Inl (Fail e))
                | (db', Inr s) \<Rightarrow>
                    (Record (Some (ac_id actor)) ''site.updated'' ''ojt_site'' (Some (si_id s)) db',
                     Inr s))))"

section \<open>Well-formed sites\<close>

definition sites_ok :: "database \<Rightarrow> bool" where
  "sites_ok db \<longleftrightarrow> unique_on si_id (db_sites db) \<and>
     (\<forall>s\<in>set (db_sites db). site_check s \<and> fits_int4 (si_radius s))"

lemma validate_site_check:
  "validate_site name address lat lng radius = [] \<longleftrightarrow>
     trim_space name \<noteq> [] \<and> trim_space address \<noteq> [] \<and> -90 \<le> lat \<and> lat \<le> 90 \<and>
     -180 \<le> lng \<and> lng \<le> 180 \<and> 0 < radius"
  by (auto simp: validate_site_def)

lemma insert_site_Inr:
  "insert_site s db = Inr db' \<longleftrightarrow> site_check s \<and> fits_int4 (si_radius s) \<and>
     si_id s \<notin> si_id ` set (db_sites db) \<and> db' = db\<lparr>db_sites := db_sites db @ [s]\<rparr>"
  by (auto simp: insert_site_def insert_row_Inr site_checks_def taken_iff)

lemma update_site_Inr:
  assumes "update_site i new db = Inr db'"
  shows "site_check new \<and> fits_int4 (si_radius new) \<and> find_site i db \<noteq> None \<and>
     db' = db\<lparr>db_sites := set_by_key si_id i (\<lambda>_. new) (db_sites db)\<rparr>"
  using assms by (auto simp: update_site_def insert_row_Inr site_checks_def split: if_splits)

lemma Create_site_cases:
  assumes "Create_site sid inp db = (db', r)"
  obtains e where "r = Inl e" "db' = db"
  | s where "r = Inr s" "si_id s = sid" "insert_site s db = Inr db'"
  using assms
  by (auto simp: Create_site_def Let_def split: option.splits if_splits sum.splits)

lemma Update_site_cases:
  assumes "Update_site i inp db0 db1 = (db', r)"
  obtains e where "r = Inl e" "db' = db1"
  | s where "r = Inr s" "si_id s = i" "update_site i s db1 = Inr db'"
proof (cases "Get_site i db0")
  case (Inl e)
  then show thesis using assms that(1) [of e] by (simp add: Update_site_def)
next
  case (Inr cur)
  then have "si_id cur = i"
    by (auto simp: Get_site_def find_site_def split: option.splits dest: by_key_mem)
  then have "si_id (patched_columns inp cur) = i" by (simp add: patched_columns_def)
  then show thesis
    using assms that Inr by (auto simp: Update_site_def Let_def split: if_splits sum.splits)
qed

text \<open>The columns of a site but its identifier are replaced as a whole.\<close>

lemma unique_set_row:
  assumes "unique_on key t" and "key new = i"
  shows "unique_on key (set_by_key key i (\<lambda>_. new) t)"
proof -
  have "map key (set_by_key key i (\<lambda>_. new) t) = map key t"
    using assms(2) by (simp add: set_by_key_def update_where_def)
  with assms(1) show ?thesis by (simp add: unique_on_def)
qed

lemma find_set_row:
  assumes "key new = i" and "by_key key i t \<noteq> None"
  shows "by_key key i (set_by_key key i (\<lambda>_. new) t) = Some new"
  using assms(2) by (induction t) (auto simp: by_key_def set_by_key_def update_where_def assms(1))

text \<open>
  Sites stay well formed: a create or an update, whatever the request and whatever the
  update has read, keeps the identifiers unique and every site within the coordinates and the
  positive 32-bit radius the geofence rests on; and a site it reports is the one the table now
  holds under its identifier.
\<close>

theorem sites_well_formed:
  assumes "sites_ok db1"
    and "(db', r) = Create_site i inp db1 \<or> (db', r) = Update_site i inp db0 db1"
  shows "sites_ok db' \<and> (\<forall>s. r = Inr s \<longrightarrow> find_site i db' = Some s \<and> si_id s = i)"
proof -
  consider e where "r = Inl e" "db' = db1"
    | s where "r = Inr s" "si_id s = i" "insert_site s db1 = Inr db'"
    | s where "r = Inr s" "si_id s = i" "update_site i s db1 = Inr db'"
    using assms(2) by (metis Create_site_cases Update_site_cases)
  then show ?thesis
  proof cases
    case 1
    with assms(1) show ?thesis by simp
  next
    case 2
    then have "by_key si_id i (db_sites db1) = None"
      by (simp add: by_key_None insert_site_Inr)
    with 2 have "find_site i db' = Some s"
      by (simp add: find_site_def by_key_append insert_site_Inr)
    with 2 assms(1) show ?thesis by (auto simp: sites_ok_def unique_on_append insert_site_Inr)
  next
    case 3
    note u = update_site_Inr [OF 3(3)]
    with 3 have "find_site i db' = Some s" by (simp add: find_site_def find_set_row)
    moreover have "unique_on si_id (db_sites db')"
      using u assms(1) 3(2) unique_set_row [of si_id "db_sites db1" s i] by (simp add: sites_ok_def)
    then have "sites_ok db'"
      using u assms(1) by (auto simp: sites_ok_def set_by_key_def in_update_where)
    ultimately show ?thesis using 3 by simp
  qed
qed

definition demo_site_input :: site_input where
  "demo_site_input = \<lparr>sn_name = Some '' Annex '', sn_address = Some ''Dock 2'',
     sn_latitude = Some 10, sn_longitude = Some 120, sn_radius = Some 75, sn_active = None\<rparr>"

theorem sites_well_formed_witness:
  "\<exists>db'. sites_ok db' \<and> find_site 32 db' \<noteq> None"
proof -
  let ?run = "Create_site 32 demo_site_input demo_db"
  have ok: "sites_ok demo_db"
    by (simp add: sites_ok_def demo_db_def unique_on_def site_check_def fits_int4_def)
  obtain db' r where run: "?run = (db', r)" by (cases ?run)
  have "\<exists>s. r = Inr s"
    using run by (auto simp: Create_site_def insert_site_def demo_site_input_def validate_site_def insert_row_def Let_def
        site_checks_def site_check_def fits_int4_def taken_def demo_db_def
        trim_space_def trim_front.simps space_encodings_def)
  with sites_well_formed [OF ok, of db' r 32 demo_site_input] run show ?thesis by auto
qed

end
