(* ===== verification/Settings.thy ===== *)
theory Settings
  imports Assignments
begin

text \<open>
  \<open>internal/settings\<close>: the single row of \<open>institution_settings\<close>. The completion percentage is a
  float64 in the code and \<open>numeric(5,2)\<close> in the table: here the request carries the decimal value
  pgx sends, a rational, and the row keeps hundredths of a percent, rounded half up. An update
  reads the row on \<open>db0\<close> and writes it back on \<open>db1\<close>.
\<close>

record settings_view =
  sv_timezone :: string
  sv_low_accuracy :: int
  sv_near_completion :: rat
  sv_journal_cutoff :: int
  sv_unusual_minutes :: int
  sv_retention :: "int option"

definition Get_settings :: "database \<Rightarrow> settings_view" where
  "Get_settings db =
     (let s = db_settings db
      in \<lparr>sv_timezone = st_timezone s, sv_low_accuracy = st_low_accuracy s,
          sv_near_completion = rat_of_int (st_near_completion s) / 100,
          sv_journal_cutoff = st_journal_cutoff s, sv_unusual_minutes = st_unusual_minutes s,
          sv_retention = st_retention s\<rparr>)"

text \<open>\<open>Location\<close> and its total variant; \<open>utc\<close> is \<open>time.UTC\<close>.\<close>

definition Location :: "tzdb \<Rightarrow> settings_view \<Rightarrow> zone option" where
  "Location tzdb s = tzdb (sv_timezone s)"

definition MustLocation :: "tzdb \<Rightarrow> zone \<Rightarrow> settings_view \<Rightarrow> zone" where
  "MustLocation tzdb utc s = (case Location tzdb s of None \<Rightarrow> utc | Some z \<Rightarrow> z)"

record settings_patch =
  sp_timezone :: "string option"
  sp_low_accuracy :: "int option"
  sp_near_completion :: "rat option"
  sp_journal_cutoff :: "int option"
  sp_unusual_minutes :: "int option"
  sp_retention :: "int option"

definition bad_fields :: "tzdb \<Rightarrow> settings_patch \<Rightarrow> string list" where
  "bad_fields tzdb p =
     (if opt_all (\<lambda>z. tzdb z \<noteq> None) (sp_timezone p) then [] else [''timezone'']) @
     (if opt_all (\<lambda>n. 0 < n) (sp_low_accuracy p) then [] else [''low_accuracy_threshold_m'']) @
     (if opt_all (\<lambda>x. 0 < x \<and> x \<le> 100) (sp_near_completion p) then []
      else [''near_completion_percent'']) @
     (if opt_all (\<lambda>n. 0 \<le> n) (sp_journal_cutoff p) then []
      else [''missing_journal_cutoff_hours'']) @
     (if opt_all (\<lambda>n. 0 < n) (sp_unusual_minutes p) then []
      else [''unusual_session_minutes'']) @
     (if opt_all (\<lambda>n. 0 < n) (sp_retention p) then [] else [''retention_days''])"

text \<open>A patched column; an absent retention leaves the stored one.\<close>

definition patch_settings :: "settings_patch \<Rightarrow> settings_view \<Rightarrow> settings_view" where
  "patch_settings p cur =
     \<lparr>sv_timezone = (case sp_timezone p of None \<Rightarrow> sv_timezone cur | Some v \<Rightarrow> v),
      sv_low_accuracy = (case sp_low_accuracy p of None \<Rightarrow> sv_low_accuracy cur | Some v \<Rightarrow> v),
      sv_near_completion =
        (case sp_near_completion p of None \<Rightarrow> sv_near_completion cur | Some v \<Rightarrow> v),
      sv_journal_cutoff = (case sp_journal_cutoff p of None \<Rightarrow> sv_journal_cutoff cur | Some v \<Rightarrow> v),
      sv_unusual_minutes =
        (case sp_unusual_minutes p of None \<Rightarrow> sv_unusual_minutes cur | Some v \<Rightarrow> v),
      sv_retention = (case sp_retention p of None \<Rightarrow> sv_retention cur | Some v \<Rightarrow> Some v)\<rparr>"

definition hundredths :: "rat \<Rightarrow> int" where
  "hundredths x = \<lfloor>x * 100 + 1 / 2\<rfloor>"

definition settings_row_of :: "settings_view \<Rightarrow> settings_row" where
  "settings_row_of s =
     \<lparr>st_timezone = sv_timezone s, st_low_accuracy = sv_low_accuracy s,
      st_near_completion = hundredths (sv_near_completion s),
      st_journal_cutoff = sv_journal_cutoff s, st_unusual_minutes = sv_unusual_minutes s,
      st_retention = sv_retention s\<rparr>"

text \<open>The columns are 32-bit integers.\<close>

definition settings_fit :: "settings_row \<Rightarrow> bool" where
  "settings_fit s =
     (fits_int4 (st_low_accuracy s) \<and> fits_int4 (st_journal_cutoff s) \<and>
      fits_int4 (st_unusual_minutes s) \<and> opt_all fits_int4 (st_retention s))"

definition settings_check :: "settings_row \<Rightarrow> bool" where
  "settings_check s =
     (0 < st_low_accuracy s \<and> 0 \<le> st_near_completion s \<and> st_near_completion s \<le> 10000 \<and>
      0 \<le> st_journal_cutoff s \<and> 0 < st_unusual_minutes s \<and> opt_all (\<lambda>n. 0 < n) (st_retention s))"

definition Update_settings ::
  "tzdb \<Rightarrow> settings_patch \<Rightarrow> database \<Rightarrow> database \<Rightarrow> database \<times> (go_error + settings_view)" where
  "Update_settings tzdb p db0 db1 =
     (if bad_fields tzdb p \<noteq> [] then (db1, Inl (Api (Validation (bad_fields tzdb p))))
      else
        let cur = patch_settings p (Get_settings db0); row = settings_row_of cur
        in if settings_fit row \<and> settings_check row
           then (db1\<lparr>db_settings := row\<rparr>, Inr cur)
           else (db1, Inl (Api Internal)))"

section \<open>Handlers\<close>

definition fieldNames :: "settings_patch \<Rightarrow> string list" where
  "fieldNames p =
     (if sp_timezone p \<noteq> None then [''timezone''] else []) @
     (if sp_low_accuracy p \<noteq> None then [''low_accuracy_threshold_m''] else []) @
     (if sp_near_completion p \<noteq> None then [''near_completion_percent''] else []) @
     (if sp_journal_cutoff p \<noteq> None then [''missing_journal_cutoff_hours''] else []) @
     (if sp_unusual_minutes p \<noteq> None then [''unusual_session_minutes''] else []) @
     (if sp_retention p \<noteq> None then [''retention_days''] else [])"

definition handle_Patch_settings ::
  "tzdb \<Rightarrow> uuid \<Rightarrow> auth_user \<Rightarrow> settings_patch option \<Rightarrow> database \<Rightarrow> database \<Rightarrow>
   database \<times> (api_error + settings_view)" where
  "handle_Patch_settings tzdb sid actor body db0 db1 =
     (case body of
        None \<Rightarrow> (db1, Inl ValidationMsg)
      | Some p \<Rightarrow>
          (case Update_settings tzdb p db0 db1 of
             (db', Inl e) \<Rightarrow> (db', Inl (Fail e))
           | (db', Inr s) \<Rightarrow>
               (Record (Some (ac_id actor)) ''settings.updated'' ''institution_settings'' (Some sid) db',
                Inr s)))"

section \<open>Well-formed settings\<close>

definition settings_ok :: "tzdb \<Rightarrow> database \<Rightarrow> bool" where
  "settings_ok tzdb db \<longleftrightarrow>
     tzdb (st_timezone (db_settings db)) \<noteq> None \<and> settings_check (db_settings db) \<and>
     settings_fit (db_settings db)"

lemma Update_settings_cases:
  assumes "Update_settings tzdb p db0 db1 = (db', r)"
  obtains e where "r = Inl e" "db' = db1"
  | "bad_fields tzdb p = []" "r = Inr (patch_settings p (Get_settings db0))"
      "settings_fit (db_settings db')" "settings_check (db_settings db')"
      "db' = db1\<lparr>db_settings := settings_row_of (patch_settings p (Get_settings db0))\<rparr>"
  using assms by (auto simp: Update_settings_def Let_def split: if_splits)

lemma patched_timezone:
  assumes "bad_fields tzdb p = []" and "tzdb (sv_timezone cur) \<noteq> None"
  shows "tzdb (sv_timezone (patch_settings p cur)) \<noteq> None"
  using assms by (auto simp: bad_fields_def patch_settings_def split: option.splits if_splits)

text \<open>The stored value is within half a hundredth of the one asked for.\<close>

lemma hundredths_close: "\<bar>rat_of_int (hundredths x) / 100 - x\<bar> \<le> 1 / 200"
proof -
  have "rat_of_int (hundredths x) \<le> x * 100 + 1 / 2" "x * 100 + 1 / 2 < rat_of_int (hundredths x) + 1"
    unfolding hundredths_def by linarith+
  then show ?thesis by linarith
qed

lemma hundredths_of_int: "hundredths (rat_of_int n / 100) = n"
  unfolding hundredths_def by (simp add: floor_eq_iff)

text \<open>
  C35. The settings stay well formed, whatever is patched and whatever the update has read of
  them before: the timezone loads, so \<open>MustLocation\<close> answers with the configured zone and
  never falls back to UTC, and every threshold keeps its range. What an update reports is what
  a later read gives back, but for the percentage, which is stored to the nearest hundredth.
\<close>

theorem settings_well_formed:
  assumes "settings_ok tzdb db0" and "settings_ok tzdb db1"
    and "Update_settings tzdb p db0 db1 = (db', r)"
  shows "settings_ok tzdb db' \<and>
    Location tzdb (Get_settings db') = Some (MustLocation tzdb utc (Get_settings db')) \<and>
    (\<forall>s. r = Inr s \<longrightarrow>
       Get_settings db' =
         s\<lparr>sv_near_completion := rat_of_int (hundredths (sv_near_completion s)) / 100\<rparr> \<and>
       \<bar>sv_near_completion (Get_settings db') - sv_near_completion s\<bar> \<le> 1 / 200)"
proof -
  have tz: "tzdb (sv_timezone (Get_settings db0)) \<noteq> None"
    using assms(1) by (simp add: settings_ok_def Get_settings_def Let_def)
  from assms(3) show ?thesis
  proof (cases rule: Update_settings_cases)
    case (1 e)
    with assms(2) show ?thesis
      by (auto simp: settings_ok_def MustLocation_def Location_def Get_settings_def Let_def)
  next
    case 2
    have "tzdb (st_timezone (db_settings db')) \<noteq> None"
      using patched_timezone [OF 2(1) tz] 2(5) by (simp add: settings_row_of_def)
    with 2 have "settings_ok tzdb db'" by (simp add: settings_ok_def)
    moreover from this have
      "Location tzdb (Get_settings db') = Some (MustLocation tzdb utc (Get_settings db'))"
      by (auto simp: settings_ok_def MustLocation_def Location_def Get_settings_def Let_def)
    ultimately show ?thesis
      using 2 hundredths_close by (simp add: Get_settings_def settings_row_of_def Let_def)
  qed
qed

definition demo_settings_patch :: settings_patch where
  "demo_settings_patch = \<lparr>sp_timezone = None, sp_low_accuracy = Some 50,
     sp_near_completion = Some (1 / 1000), sp_journal_cutoff = None, sp_unusual_minutes = None,
     sp_retention = Some 365\<rparr>"

text \<open>A percentage of a thousandth is accepted, reported, and stored as zero.\<close>

theorem settings_well_formed_witness:
  "\<exists>db' s. Update_settings (\<lambda>z. if z = ''UTC'' then Some (\<lambda>_. 0) else None) demo_settings_patch
       demo_db demo_db = (db', Inr s) \<and>
     settings_ok (\<lambda>z. if z = ''UTC'' then Some (\<lambda>_. 0) else None) db' \<and>
     sv_near_completion s = 1 / 1000 \<and> sv_near_completion (Get_settings db') = 0"
proof -
  let ?tz = "\<lambda>z :: string. if z = ''UTC'' then Some (\<lambda>_ :: int. 0 :: int) else None"
  obtain db' r where run: "Update_settings ?tz demo_settings_patch demo_db demo_db = (db', r)"
    by (cases "Update_settings ?tz demo_settings_patch demo_db demo_db")
  have ok: "settings_ok ?tz demo_db"
    by (simp add: settings_ok_def demo_db_def demo_settings_def settings_check_def settings_fit_def
        fits_int4_def)
  have h: "hundredths (1 / 1000) = 0" by (simp add: hundredths_def floor_eq_iff)
  have bad: "bad_fields ?tz demo_settings_patch = []"
    by (simp add: bad_fields_def demo_settings_patch_def)
  have "r = Inr (patch_settings demo_settings_patch (Get_settings demo_db))"
    using run by (auto simp: Update_settings_def bad [unfolded demo_settings_patch_def] Let_def
        demo_settings_patch_def settings_row_of_def
        patch_settings_def Get_settings_def settings_check_def settings_fit_def fits_int4_def
        demo_db_def demo_settings_def h split: if_splits)
  then show ?thesis
    using settings_well_formed [OF ok ok run] run
    by (auto simp: patch_settings_def demo_settings_patch_def h)
qed

end
