(* ===== verification/Users.thy ===== *)
theory Users
  imports AccessLaws Assignments
begin

text \<open>
  \<open>internal/users\<close>: the administrator's management of coordinator accounts and their trainee
  scope. The temporary password and the hash function are parameters (random bytes and Argon2).
  What an operation reads before its transaction is on \<open>db0\<close>, the transaction on \<open>db1\<close>.
\<close>

section \<open>Listing\<close>

record coordinator =
  co_id :: uuid
  co_email :: string
  co_display_name :: string
  co_status :: account_status
  co_trainees :: int

definition coordinator_of :: "database \<Rightarrow> user_row \<Rightarrow> coordinator" where
  "coordinator_of db u =
     \<lparr>co_id = us_id u, co_email = us_email u, co_display_name = us_display_name u,
      co_status = us_status u,
      co_trainees = int (length (filter (\<lambda>s. sc_coordinator s = us_id u) (db_scopes db)))\<rparr>"

definition ListCoordinators ::
  "(string \<Rightarrow> 'k::linorder) \<Rightarrow> page \<Rightarrow> string \<Rightarrow> database \<Rightarrow> go_error + coordinator list \<times> int" where
  "ListCoordinators coll p q db =
     (let rows = filter (\<lambda>u. us_role u = RCoordinator \<and>
              search_any q [us_display_name u, us_email u]) (db_users db)
      in result_bind (page_rows p (sort_key (\<lambda>u. coll (us_display_name u)) rows))
           (\<lambda>items. Inr (map (coordinator_of db) items, int (length rows))))"

section \<open>Accounts\<close>

definition insert_user :: "user_row \<Rightarrow> database \<Rightarrow> go_error + database" where
  "insert_user u db =
     insert_row
       [(taken us_id u (db_users db), UniqueViolation ''users_pkey''),
        (taken (\<lambda>u. to_lower (us_email u)) u (db_users db), UniqueViolation ''users_email_lower_key'')]
       (db\<lparr>db_users := db_users db @ [u]\<rparr>)"

definition account_fields :: "string \<Rightarrow> string \<Rightarrow> string list" where
  "account_fields email name =
     (if trim_space email = [] \<or> CHR ''@'' \<notin> set email then [''email''] else []) @
     (if trim_space name = [] then [''display_name''] else [])"

definition CreateCoordinator ::
  "password_env \<Rightarrow> uuid \<Rightarrow> string option \<Rightarrow> string \<Rightarrow> string \<Rightarrow> database \<Rightarrow>
   database \<times> (go_error + coordinator \<times> string)" where
  "CreateCoordinator pw uid temp email name db =
     (if account_fields email name \<noteq> []
      then (db, Inl (Api (Validation (account_fields email name))))
      else
        case temp of
          None \<Rightarrow> (db, Inl (Api Internal))
        | Some tempPassword \<Rightarrow>
            (case pw_hash pw tempPassword of
               None \<Rightarrow> (db, Inl (Api Internal))
             | Some h \<Rightarrow>
                 let u = \<lparr>us_id = uid, us_email = to_lower (trim_space email),
                       us_password_hash = h, us_role = RCoordinator, us_status = AccActive,
                       us_display_name = trim_space name, us_last_login = None\<rparr>
                 in case insert_user u db of
                      Inl e \<Rightarrow>
                        (db, Inl (Api (if IsUniqueViolation e ''users_email_lower_key''
                                       then Validation [''email''] else Internal)))
                    | Inr db' \<Rightarrow>
                        (db', Inr (\<lparr>co_id = us_id u, co_email = us_email u,
                           co_display_name = us_display_name u, co_status = us_status u,
                           co_trainees = 0\<rparr>, tempPassword))))"

definition account_status_of :: "string \<Rightarrow> account_status option" where
  "account_status_of s =
     (if s = ''active'' then Some AccActive else if s = ''inactive'' then Some AccInactive
      else if s = ''locked'' then Some AccLocked else None)"

definition find_coordinator :: "uuid \<Rightarrow> database \<Rightarrow> user_row option" where
  "find_coordinator i db = List.find (\<lambda>u. us_id u = i \<and> us_role u = RCoordinator) (db_users db)"

text \<open>The transaction: the sessions end only when the status read before it was another one.\<close>

definition PatchCoordinatorTx ::
  "clock \<Rightarrow> uuid \<Rightarrow> string \<Rightarrow> account_status \<Rightarrow> account_status \<Rightarrow> database \<Rightarrow>
   go_error + database \<times> unit" where
  "PatchCoordinatorTx ck i name status readStatus db =
     (let db1 = set_user i (\<lambda>u. u\<lparr>us_display_name := name, us_status := status\<rparr>) db
      in Inr (if status \<noteq> AccActive \<and> status \<noteq> readStatus then RevokeAllForUser ck i db1 else db1, ()))"

definition PatchCoordinator ::
  "clock \<Rightarrow> bool \<Rightarrow> uuid \<Rightarrow> string option \<Rightarrow> string option \<Rightarrow> database \<Rightarrow> database \<Rightarrow>
   database \<times> (go_error + coordinator)" where
  "PatchCoordinator ck commit_ok i displayName accountStatus db0 db1 =
     (case find_coordinator i db0 of
        None \<Rightarrow> (db1, Inl (Api ErrNotFound))
      | Some u \<Rightarrow>
          let name = (case displayName of None \<Rightarrow> us_display_name u | Some n \<Rightarrow> trim_space n) in
          if name = [] then (db1, Inl (Api (Validation [''display_name''])))
          else
            (case (case accountStatus of None \<Rightarrow> Some (us_status u) | Some s \<Rightarrow> account_status_of s) of
               None \<Rightarrow> (db1, Inl (Api (Validation [''account_status''])))
             | Some status \<Rightarrow>
                 (case in_tx commit_ok (PatchCoordinatorTx ck i name status (us_status u)) db1 of
                    (db', Inl e) \<Rightarrow> (db', Inl (Api Internal))
                  | (db', Inr _) \<Rightarrow>
                      (db', Inr \<lparr>co_id = us_id u, co_email = us_email u, co_display_name = name,
                         co_status = status, co_trainees = 0\<rparr>))))"

section \<open>Scope and password\<close>

text \<open>\<open>INSERT ... ON CONFLICT DO NOTHING\<close>, with the two foreign keys of the table.\<close>

definition insert_scope :: "uuid \<Rightarrow> uuid \<Rightarrow> database \<Rightarrow> go_error + database" where
  "insert_scope c t db =
     (if \<lparr>sc_coordinator = c, sc_trainee = t\<rparr> \<in> set (db_scopes db) then Inr db
      else if find_user c db = None \<or> find_trainee t db = None
      then Inl (ForeignKeyViolation ''coordinator_scopes'')
      else Inr (db\<lparr>db_scopes := db_scopes db @ [\<lparr>sc_coordinator = c, sc_trainee = t\<rparr>]\<rparr>))"

fun insert_scopes :: "uuid \<Rightarrow> uuid list \<Rightarrow> database \<Rightarrow> go_error + database" where
  "insert_scopes c [] db = Inr db"
| "insert_scopes c (t # ts) db = result_bind (insert_scope c t db) (insert_scopes c ts)"

definition SetTraineeScopeTx :: "uuid \<Rightarrow> uuid list \<Rightarrow> database \<Rightarrow> go_error + database \<times> unit" where
  "SetTraineeScopeTx c ids db =
     result_bind
       (insert_scopes c ids
          (db\<lparr>db_scopes := filter (\<lambda>s. sc_coordinator s \<noteq> c) (db_scopes db)\<rparr>))
       (\<lambda>db. Inr (db, ()))"

definition SetTraineeScope ::
  "bool \<Rightarrow> uuid \<Rightarrow> uuid list \<Rightarrow> database \<Rightarrow> database \<Rightarrow> database \<times> (go_error + unit)" where
  "SetTraineeScope commit_ok c ids db0 db1 =
     (if find_coordinator c db0 = None then (db1, Inl (Api ErrNotFound))
      else if list_ex (\<lambda>t. find_trainee t db0 = None) ids
      then (db1, Inl (Api (Validation [''trainee_ids''])))
      else in_tx commit_ok (SetTraineeScopeTx c ids) db1)"

definition SetPasswordTx ::
  "clock \<Rightarrow> uuid \<Rightarrow> string \<Rightarrow> database \<Rightarrow> go_error + database \<times> unit" where
  "SetPasswordTx ck i h db =
     Inr (RevokeAllForUser ck i (set_user i (\<lambda>u. u\<lparr>us_password_hash := h\<rparr>) db), ())"

definition SetCoordinatorPassword ::
  "password_env \<Rightarrow> clock \<Rightarrow> bool \<Rightarrow> uuid \<Rightarrow> string \<Rightarrow> database \<Rightarrow> database \<Rightarrow>
   database \<times> (go_error + unit)" where
  "SetCoordinatorPassword pw ck commit_ok i new db0 db1 =
     (if length new < 8 then (db1, Inl (Api (Validation [''new_password''])))
      else if find_coordinator i db0 = None then (db1, Inl (Api ErrNotFound))
      else
        case pw_hash pw new of
          None \<Rightarrow> (db1, Inl (Api Internal))
        | Some h \<Rightarrow>
            (case in_tx commit_ok (SetPasswordTx ck i h) db1 of
               (db', Inl e) \<Rightarrow> (db', Inl (Api Internal))
             | (db', Inr _) \<Rightarrow> (db', Inr ())))"

section \<open>Handlers\<close>

definition handle_List_coordinators ::
  "(string \<Rightarrow> 'k::linorder) \<Rightarrow> int option \<Rightarrow> int option \<Rightarrow> string \<Rightarrow> database \<Rightarrow>
   api_error + coordinator list \<times> page_meta" where
  "handle_List_coordinators coll page_q size_q q db =
     (let page = ParsePage page_q size_q
      in case ListCoordinators coll page q db of
           Inl e \<Rightarrow> Inl Internal
         | Inr (items, tot) \<Rightarrow> Inr (items, NewPageMeta page tot))"

definition handle_Create_coordinator ::
  "password_env \<Rightarrow> uuid \<Rightarrow> string option \<Rightarrow> auth_user \<Rightarrow> (string \<times> string) option \<Rightarrow> database \<Rightarrow>
   database \<times> (api_error + coordinator \<times> string)" where
  "handle_Create_coordinator pw uid temp actor body db =
     (case body of
        None \<Rightarrow> (db, Inl ValidationMsg)
      | Some (email, name) \<Rightarrow>
          (case CreateCoordinator pw uid temp email name db of
             (db', Inl e) \<Rightarrow> (db', Inl (Fail e))
           | (db', Inr (c, t)) \<Rightarrow>
               (Record (Some (ac_id actor)) ''coordinator.created'' ''user'' (Some (co_id c)) db',
                Inr (c, t))))"

definition handle_Patch_coordinator ::
  "clock \<Rightarrow> bool \<Rightarrow> auth_user \<Rightarrow> uuid option \<Rightarrow> (string option \<times> string option) option \<Rightarrow>
   database \<Rightarrow> database \<Rightarrow> database \<times> (api_error + coordinator)" where
  "handle_Patch_coordinator ck commit_ok actor param body db0 db1 =
     (case param of
        None \<Rightarrow> (db1, Inl ErrNotFound)
      | Some i \<Rightarrow>
          (case body of
             None \<Rightarrow> (db1, Inl ValidationMsg)
           | Some (name, status) \<Rightarrow>
               (case PatchCoordinator ck commit_ok i name status db0 db1 of
                  (db', Inl e) \<Rightarrow> (db', Inl (Fail e))
                | (db', Inr c) \<Rightarrow>
                    (Record (Some (ac_id actor)) ''coordinator.updated'' ''user'' (Some (co_id c)) db',
                     Inr c))))"

definition handle_SetScope ::
  "bool \<Rightarrow> auth_user \<Rightarrow> uuid option \<Rightarrow> uuid list option \<Rightarrow> database \<Rightarrow> database \<Rightarrow>
   database \<times> (api_error + unit)" where
  "handle_SetScope commit_ok actor param body db0 db1 =
     (case param of
        None \<Rightarrow> (db1, Inl ErrNotFound)
      | Some i \<Rightarrow>
          (case body of
             None \<Rightarrow> (db1, Inl ValidationMsg)
           | Some ids \<Rightarrow>
               (case SetTraineeScope commit_ok i ids db0 db1 of
                  (db', Inl e) \<Rightarrow> (db', Inl (Fail e))
                | (db', Inr _) \<Rightarrow>
                    (Record (Some (ac_id actor)) ''coordinator.scope_updated'' ''user'' (Some i) db',
                     Inr ()))))"

definition handle_SetPassword ::
  "password_env \<Rightarrow> clock \<Rightarrow> bool \<Rightarrow> auth_user \<Rightarrow> uuid option \<Rightarrow> string option \<Rightarrow>
   database \<Rightarrow> database \<Rightarrow> database \<times> (api_error + unit)" where
  "handle_SetPassword pw ck commit_ok actor param body db0 db1 =
     (case param of
        None \<Rightarrow> (db1, Inl ErrNotFound)
      | Some i \<Rightarrow>
          (case body of
             None \<Rightarrow> (db1, Inl ValidationMsg)
           | Some new \<Rightarrow>
               (case SetCoordinatorPassword pw ck commit_ok i new db0 db1 of
                  (db', Inl e) \<Rightarrow> (db', Inl (Fail e))
                | (db', Inr _) \<Rightarrow>
                    (Record (Some (ac_id actor)) ''coordinator.password_assigned'' ''user'' (Some i) db',
                     Inr ()))))"

end
