(* ===== verification/UserLaws.thy ===== *)
theory UserLaws
  imports Users
begin

text \<open>
  What the administrator's operations on coordinators guarantee: the scope list replaces the
  access of one coordinator and touches no other, and an account that is deactivated or given a
  new password is signed out.
\<close>

section \<open>Scope\<close>

definition scoped :: "database \<Rightarrow> uuid \<Rightarrow> uuid \<Rightarrow> bool" where
  "scoped db c t \<longleftrightarrow> \<lparr>sc_coordinator = c, sc_trainee = t\<rparr> \<in> set (db_scopes db)"

lemma CanAccess_scoped:
  "ac_role u = RCoordinator \<Longrightarrow> CanAccessTrainee u t db \<longleftrightarrow> scoped db (ac_id u) t"
proof -
  assume "ac_role u = RCoordinator"
  moreover have "(\<exists>s\<in>set (db_scopes db). sc_coordinator s = ac_id u \<and> sc_trainee s = t) \<longleftrightarrow>
      scoped db (ac_id u) t"
    unfolding scoped_def by (metis (full_types) scope_row.surjective old.unit.exhaust scope_row.select_convs)
  ultimately show ?thesis by (simp add: CanAccessTrainee_def list_ex_iff)
qed

lemma insert_scope_Inr:
  assumes "insert_scope c t db = Inr db'"
  shows "scoped db' c' t' \<longleftrightarrow> scoped db c' t' \<or> (c' = c \<and> t' = t)"
    and "\<exists>ss. db' = db\<lparr>db_scopes := ss\<rparr>"
proof -
  show "scoped db' c' t' \<longleftrightarrow> scoped db c' t' \<or> (c' = c \<and> t' = t)"
    using assms by (auto simp: insert_scope_def scoped_def split: if_splits)
  have "db = db\<lparr>db_scopes := db_scopes db\<rparr>" by simp
  with assms show "\<exists>ss. db' = db\<lparr>db_scopes := ss\<rparr>"
    unfolding insert_scope_def by (metis sum.distinct(1) sum.inject(2))
qed

lemma insert_scopes_Inr:
  "insert_scopes c ts db = Inr db' \<Longrightarrow>
     (scoped db' c' t' \<longleftrightarrow> scoped db c' t' \<or> (c' = c \<and> t' \<in> set ts)) \<and>
     (\<exists>ss. db' = db\<lparr>db_scopes := ss\<rparr>)"
proof (induction ts arbitrary: db)
  case Nil
  then have "db' = db\<lparr>db_scopes := db_scopes db\<rparr>" by simp
  with Nil show ?case by (metis empty_iff insert_scopes.simps(1) list.set(1) sum.inject(2))
next
  case (Cons t ts)
  then obtain db1 where i: "insert_scope c t db = Inr db1" and r: "insert_scopes c ts db1 = Inr db'"
    by (auto simp: result_bind_Inr_iff)
  from insert_scope_Inr(2) [OF i] obtain ss where ss: "db1 = db\<lparr>db_scopes := ss\<rparr>" ..
  from Cons.IH [OF r] obtain ss' where
    "(scoped db' c' t' \<longleftrightarrow> scoped db1 c' t' \<or> (c' = c \<and> t' \<in> set ts))" "db' = db1\<lparr>db_scopes := ss'\<rparr>"
    by blast
  with ss insert_scope_Inr(1) [OF i, of c' t'] show ?case by auto
qed

text \<open>
  C33. A scope update that succeeds gives the coordinator access to exactly the trainees of the
  list, whatever the scope was before and whatever the order and repetitions of the list, and
  changes the access of no one else and no other table; one that fails changes nothing.
\<close>

theorem SetTraineeScope_effect:
  assumes "SetTraineeScope commit_ok c ids db0 db1 = (db', r)"
    and "ac_role u = RCoordinator"
  shows "(r = Inr () \<longrightarrow>
      CanAccessTrainee u t db' = (if ac_id u = c then t \<in> set ids else CanAccessTrainee u t db1) \<and>
      db' = db1\<lparr>db_scopes := db_scopes db'\<rparr>) \<and>
    (\<forall>e. r = Inl e \<longrightarrow> db' = db1)"
proof (cases r)
  case (Inl e)
  with assms(1) show ?thesis
    by (auto simp: SetTraineeScope_def dest: in_tx_error split: if_splits)
next
  case (Inr x)
  define db2 where "db2 = db1\<lparr>db_scopes := filter (\<lambda>s. sc_coordinator s \<noteq> c) (db_scopes db1)\<rparr>"
  have "in_tx commit_ok (SetTraineeScopeTx c ids) db1 = (db', Inr ())"
    using assms(1) Inr by (auto simp: SetTraineeScope_def split: if_splits)
  then have run: "insert_scopes c ids db2 = Inr db'"
    by (auto simp: in_tx_ok SetTraineeScopeTx_def result_bind_Inr_iff db2_def)
  have before: "scoped db2 c' t' \<longleftrightarrow> scoped db1 c' t' \<and> c' \<noteq> c" for c' t'
    by (auto simp: scoped_def db2_def)
  note eff = insert_scopes_Inr [OF run]
  have "CanAccessTrainee u t db' = (if ac_id u = c then t \<in> set ids else CanAccessTrainee u t db1)"
    using eff [of "ac_id u" t] by (simp add: CanAccess_scoped [OF assms(2)] before)
  moreover have "db' = db1\<lparr>db_scopes := db_scopes db'\<rparr>" using conjunct2 [OF eff] by (auto simp: db2_def)
  ultimately show ?thesis using Inr by simp
qed

theorem SetTraineeScope_effect_witness:
  "\<exists>db'. SetTraineeScope True 11 [] demo_db demo_db = (db', Inr ()) \<and>
     CanAccessTrainee \<lparr>ac_id = 11, ac_email = ''c@x'', ac_role = RCoordinator, ac_status = AccActive,
       ac_name = ''C''\<rparr> 2 demo_db \<and>
     \<not> CanAccessTrainee \<lparr>ac_id = 11, ac_email = ''c@x'', ac_role = RCoordinator, ac_status = AccActive,
       ac_name = ''C''\<rparr> 2 db'"
proof -
  let ?u = "\<lparr>ac_id = 11, ac_email = ''c@x'', ac_role = RCoordinator, ac_status = AccActive,
    ac_name = ''C''\<rparr>"
  obtain db' where run: "SetTraineeScope True 11 [] demo_db demo_db = (db', Inr ())"
    by (simp add: SetTraineeScope_def find_coordinator_def demo_db_def in_tx_def SetTraineeScopeTx_def)
  moreover have "\<not> CanAccessTrainee ?u 2 db'"
    using SetTraineeScope_effect [OF run, of ?u 2] by simp
  moreover have "CanAccessTrainee ?u 2 demo_db" by (simp add: CanAccessTrainee_def demo_db_def)
  ultimately show ?thesis by blast
qed

section \<open>Sign-out\<close>

interpretation patch_user: key_update us_id "\<lambda>u. u\<lparr>us_display_name := n, us_status := st\<rparr>"
  by unfold_locales simp

definition signed_out :: "uuid \<Rightarrow> database \<Rightarrow> bool" where
  "signed_out i db \<longleftrightarrow> (\<forall>s\<in>set (db_sessions db). ss_user s = i \<longrightarrow> ss_revoked s \<noteq> None)"

lemma RevokeAll_signed_out: "signed_out i (RevokeAllForUser ck i db)"
  unfolding signed_out_def by (intro ballI impI) (rule RevokeAll_revoked)

lemma set_user_sessions [simp]: "db_sessions (set_user i f db) = db_sessions db"
  by (simp add: set_user_def)

lemma RevokeAll_users [simp]: "find_user j (RevokeAllForUser ck i db) = find_user j db"
  by (simp add: find_user_def RevokeAllForUser_def)

lemma Resolve_account:
  assumes "Resolve sha ck token db = (db', Some (s, a))"
  shows "\<exists>u. find_user (ac_id a) db = Some u \<and> us_status u = AccActive"
proof -
  from assms obtain u where u: "find_user (ss_user s) db = Some u" "us_status u = AccActive"
      "a = auth_user_of u"
    by (auto simp: Resolve_def split: option.splits if_splits)
  then have "us_id u = ss_user s" by (auto simp: find_user_def dest: by_key_mem)
  with u show ?thesis by (simp add: auth_user_of_def)
qed

text \<open>
  An administrator who sets a coordinator to another status than active locks the account:
  no token resolves to it any more, whatever its sessions. When the status read before was a
  different one, every session is revoked as well and stays dead if the account is later made
  active again.
\<close>

theorem deactivation_signs_out:
  assumes "PatchCoordinator ck commit_ok i name status db0 db1 = (db', Inr c)"
    and "co_status c \<noteq> AccActive"
  shows "(\<forall>sha ck' token db'' s a.
      Resolve sha ck' token db' = (db'', Some (s, a)) \<longrightarrow> ac_id a \<noteq> i) \<and>
    (map_option us_status (find_coordinator i db0) \<noteq> Some (co_status c) \<longrightarrow> signed_out i db')"
proof -
  from assms(1) obtain u n where u: "find_coordinator i db0 = Some u"
    and tx: "in_tx commit_ok (PatchCoordinatorTx ck i n (co_status c) (us_status u)) db1 = (db', Inr ())"
    by (auto simp: PatchCoordinator_def Let_def split: option.splits if_splits prod.splits sum.splits)
  let ?db = "set_user i (\<lambda>u. u\<lparr>us_display_name := n, us_status := co_status c\<rparr>) db1"
  have db': "db' = (if co_status c \<noteq> us_status u then RevokeAllForUser ck i ?db else ?db)"
    using tx assms(2) by (auto simp: in_tx_ok PatchCoordinatorTx_def Let_def split: if_splits)
  have "find_user i db' = map_option (\<lambda>u. u\<lparr>us_display_name := n, us_status := co_status c\<rparr>)
      (find_user i db1)"
    unfolding db' by (simp add: find_user_def set_user_def RevokeAllForUser_def patch_user.find_set_same)
  then have st: "\<forall>v. find_user i db' = Some v \<longrightarrow> us_status v \<noteq> AccActive" using assms(2) by auto
  have "ac_id a \<noteq> i" if "Resolve sha ck' token db' = (db'', Some (s, a))" for sha ck' token db'' s a
    using Resolve_account [OF that] st by auto
  moreover have "signed_out i db'" if "map_option us_status (find_coordinator i db0) \<noteq> Some (co_status c)"
    using that u db' RevokeAll_signed_out by simp
  ultimately show ?thesis by blast
qed

theorem deactivation_signs_out_witness:
  "\<exists>db' c. PatchCoordinator (demo_clock 5) True 11 None (Some ''locked'') demo_db
       (demo_db\<lparr>db_sessions := [demo_db_session\<lparr>ss_user := 11\<rparr>]\<rparr>) = (db', Inr c) \<and> signed_out 11 db'"
proof -
  define db1 where "db1 = demo_db\<lparr>db_sessions := [demo_db_session\<lparr>ss_user := 11\<rparr>]\<rparr>"
  obtain db' c where run: "PatchCoordinator (demo_clock 5) True 11 None (Some ''locked'') demo_db db1 =
      (db', Inr c)" and c: "co_status c = AccLocked"
    by (simp add: PatchCoordinator_def find_coordinator_def demo_db_def account_status_of_def
        in_tx_def PatchCoordinatorTx_def Let_def)
  have "signed_out 11 db'"
    using deactivation_signs_out [OF run] c
    by (simp add: find_coordinator_def demo_db_def)
  with run show ?thesis unfolding db1_def by blast
qed

lemma SetPassword_signs_out:
  assumes "SetCoordinatorPassword pw ck commit_ok i new db0 db1 = (db', Inr ())"
  shows "signed_out i db' \<and> 8 \<le> length new"
  using assms
  by (auto simp: SetCoordinatorPassword_def in_tx_ok SetPasswordTx_def RevokeAll_signed_out
      split: option.splits if_splits prod.splits sum.splits)

text \<open>
  The revocation goes by the status read before the transaction. If the account was made
  active again in between, with a new login, then locking it a second time leaves that session
  unrevoked: the next reactivation revives it.
\<close>

lemma deactivation_race:
  assumes "find_coordinator i db0 = Some u" and "us_status u = AccLocked"
    and "us_display_name u \<noteq> []" and "s \<in> set (db_sessions db1)" and "ss_revoked s = None"
  shows "\<exists>db' c. PatchCoordinator ck True i None (Some ''locked'') db0 db1 = (db', Inr c) \<and>
    co_status c = AccLocked \<and> s \<in> set (db_sessions db') \<and> ss_revoked s = None"
proof -
  obtain db' c where run: "PatchCoordinator ck True i None (Some ''locked'') db0 db1 = (db', Inr c)"
      and "co_status c = AccLocked"
      and "db' = set_user i (\<lambda>v. v\<lparr>us_display_name := us_display_name u, us_status := AccLocked\<rparr>) db1"
    using assms by (simp add: PatchCoordinator_def account_status_of_def in_tx_def
        PatchCoordinatorTx_def Let_def)
  with assms show ?thesis by simp
qed

end
