(* ===== verification/Csv.thy ===== *)
theory Csv
  imports Prelude
begin

text \<open>
  Go's \<open>encoding/csv.Reader\<close> as the import configures it: comma-separated, strict quotes,
  leading white space of a field trimmed, and every record as long as the first. A record that
  does not parse is \<open>None\<close>; the reader goes on with the line after the one it stopped in.
\<close>

section \<open>Lines\<close>

definition NL :: char where "NL = CHR 0x0A"

definition CR :: char where "CR = CHR 0x0D"

definition QUOTE :: char where "QUOTE = CHR 0x22"

definition COMMA :: char where "COMMA = CHR '',''"

text \<open>Each line keeps its line feed; the last one may have none.\<close>

fun split_lines :: "string \<Rightarrow> string list" where
  "split_lines [] = []"
| "split_lines (c # s) =
     (if c = NL then [c] # split_lines s
      else case split_lines s of [] \<Rightarrow> [[c]] | l # ls \<Rightarrow> (c # l) # ls)"

text \<open>A carriage return before the line feed goes, and one at the end of the input.\<close>

definition norm_line :: "string \<Rightarrow> string" where
  "norm_line l =
     (if l = [] then l
      else if last l = NL
      then (if butlast l \<noteq> [] \<and> last (butlast l) = CR then butlast (butlast l) @ [NL] else l)
      else if last l = CR then butlast l else l)"

definition drop_nl :: "string \<Rightarrow> string" where
  "drop_nl l = (if l \<noteq> [] \<and> last l = NL then butlast l else l)"

section \<open>Records\<close>

definition lines_size :: "string list \<Rightarrow> nat" where
  "lines_size ls = sum_list (map (\<lambda>l. Suc (length l)) ls)"

lemma lines_size_simps [simp]:
  "lines_size [] = 0" "lines_size (l # ls) = Suc (length l) + lines_size ls"
  by (simp_all add: lines_size_def)

text \<open>
  \<open>csv_quoted\<close> reads on after an opening quote, across lines if it must. It gives the lines left
  and, unless the quotes are wrong, the field with the rest of its line: \<open>None\<close> when the record
  ends with it.
\<close>

function csv_quoted ::
  "string \<Rightarrow> string \<Rightarrow> string list \<Rightarrow> string list \<times> (string \<times> string option) option" where
  "csv_quoted buf [] ls =
     (case ls of
        [] \<Rightarrow> ([], None)
      | l # ls' \<Rightarrow> if l = [] then (ls', None) else csv_quoted buf l ls')"
| "csv_quoted buf (c # cs) ls =
     (if c \<noteq> QUOTE then csv_quoted (buf @ [c]) cs ls
      else case cs of
          [] \<Rightarrow> (ls, Some (buf, None))
        | d # ds \<Rightarrow>
            if d = QUOTE then csv_quoted (buf @ [QUOTE]) ds ls
            else if d = COMMA then (ls, Some (buf, Some ds))
            else if cs = [NL] then (ls, Some (buf, None))
            else (ls, None))"
  by pat_completeness auto
termination
  by (relation "measure (\<lambda>(buf, l, ls). length l + lines_size ls)") auto

lemma csv_quoted_lines: "lines_size (fst (csv_quoted buf l ls)) \<le> lines_size ls"
  by (induction buf l ls rule: csv_quoted.induct) (auto split: list.splits)

lemma csv_quoted_size:
  "csv_quoted buf l ls = (ls', Some (f, Some l')) \<Longrightarrow>
     length l' + lines_size ls' < length l + lines_size ls"
proof (induction buf l ls rule: csv_quoted.induct)
  case (1 buf ls)
  then show ?case by (cases ls) (auto split: if_splits)
next
  case (2 buf c cs ls)
  then show ?case by (cases cs) (auto split: if_splits)
qed

lemma csv_field_size:
  assumes "COMMA \<in> set (trim_front space_encodings line)"
  shows "length (tl (dropWhile (\<lambda>c. c \<noteq> COMMA) (trim_front space_encodings line))) < length line"
proof -
  let ?l = "trim_front space_encodings line"
  have "dropWhile (\<lambda>c. c \<noteq> COMMA) ?l \<noteq> []" using assms by (auto simp: dropWhile_eq_Nil_conv)
  then have "length (tl (dropWhile (\<lambda>c. c \<noteq> COMMA) ?l)) < length ?l"
    using length_dropWhile_le [of "\<lambda>c. c \<noteq> COMMA" ?l]
    by (cases "dropWhile (\<lambda>c. c \<noteq> COMMA) ?l") (auto simp del: dropWhile_eq_Nil_conv)
  with trim_front_length [of space_encodings line] show ?thesis by linarith
qed

lemma csv_quoted_shrinks:
  assumes "(ls', Some (f, Some l')) = csv_quoted [] (tl (trim_front space_encodings line)) ls"
  shows "length l' + lines_size ls' < length line + lines_size ls"
  using csv_quoted_size [OF assms [symmetric]] trim_front_length [of space_encodings line] by simp

function csv_record ::
  "string list \<Rightarrow> string \<Rightarrow> string list \<Rightarrow> string list \<times> string list option" where
  "csv_record acc line ls =
     (let l = trim_front space_encodings line in
      if l = [] \<or> hd l \<noteq> QUOTE then
        let field = takeWhile (\<lambda>c. c \<noteq> COMMA) l in
        if COMMA \<in> set l then
          (if QUOTE \<in> set field then (ls, None)
           else csv_record (acc @ [field]) (tl (dropWhile (\<lambda>c. c \<noteq> COMMA) l)) ls)
        else if QUOTE \<in> set (drop_nl field) then (ls, None)
        else (ls, Some (acc @ [drop_nl field]))
      else
        (case csv_quoted [] (tl l) ls of
           (ls', None) \<Rightarrow> (ls', None)
         | (ls', Some (field, None)) \<Rightarrow> (ls', Some (acc @ [field]))
         | (ls', Some (field, Some l')) \<Rightarrow> csv_record (acc @ [field]) l' ls'))"
  by pat_completeness auto
termination
  by (relation "measure (\<lambda>(acc, l, ls). length l + lines_size ls)")
    (auto dest: csv_quoted_shrinks simp: csv_field_size [unfolded length_tl, simplified])

declare csv_record.simps [simp del]

lemma csv_record_lines: "lines_size (fst (csv_record acc l ls)) \<le> lines_size ls"
proof (induction acc l ls rule: csv_record.induct)
  case (1 acc line ls)
  show ?case
  proof (cases "csv_quoted [] (tl (trim_front space_encodings line)) ls")
    case (Pair ls' r)
    have "lines_size ls' \<le> lines_size ls"
      using csv_quoted_lines [of "[]" "tl (trim_front space_encodings line)" ls] Pair by simp
    then show ?thesis
      using 1 Pair by (subst csv_record.simps)
        (force simp: Let_def split: option.splits prod.splits)
  qed
qed

lemma csv_record_size:
  "(ls', r) = csv_record acc l ls \<Longrightarrow> lines_size ls' < Suc (n + lines_size ls)"
  using csv_record_lines [of acc l ls] by (metis fst_conv less_Suc_eq_le trans_le_add2)

section \<open>The reader\<close>

text \<open>
  \<open>n\<close> is the number of fields of the first record, \<open>None\<close> before it has been read; empty lines
  are skipped.
\<close>

function csv_read :: "nat option \<Rightarrow> string list \<Rightarrow> string list option list" where
  "csv_read n [] = []"
| "csv_read n (l # ls) =
     (if drop_nl l = [] then csv_read n ls
      else
        (case csv_record [] l ls of
           (ls', None) \<Rightarrow> None # csv_read n ls'
         | (ls', Some fs) \<Rightarrow>
             (case n of
                None \<Rightarrow> Some fs # csv_read (Some (length fs)) ls'
              | Some k \<Rightarrow> (if length fs = k then Some fs else None) # csv_read n ls')))"
  by pat_completeness auto
termination
  by (relation "measure (\<lambda>(n, ls). lines_size ls)") (auto dest: csv_record_size)

definition csv_records :: "string \<Rightarrow> string list option list" where
  "csv_records s = csv_read None (map norm_line (split_lines s))"

end
