(* ===== verification/Trainees.thy ===== *)
theory Trainees
  imports Users Csv Notifications
begin

text \<open>
  \<open>internal/trainees\<close>: the staff's management of trainee accounts, the two-step CSV import with
  its in-memory store of validated batches, and the trainee's dashboard. What an operation reads
  before its transaction is on \<open>db0\<close>, the transaction on \<open>db1\<close>.
\<close>

section \<open>Reading\<close>

text \<open>
  A trainee with the account and, if there is one, the active assignment. The progress is the
  exact quotient, where the query computes in \<open>float8\<close>.
\<close>

record trainee_view =
  tv_id :: uuid
  tv_user :: uuid
  tv_email :: string
  tv_name :: string
  tv_student :: string
  tv_program :: string
  tv_year :: string
  tv_contact :: string
  tv_status :: account_status
  tv_assignment :: "uuid option"
  tv_site :: "uuid option"
  tv_site_name :: "string option"
  tv_progress :: "rat option"

definition coalesce :: "string option \<Rightarrow> string" where
  "coalesce s = (case s of None \<Rightarrow> [] | Some v \<Rightarrow> v)"

definition active_progress :: "database \<Rightarrow> assignment_row \<Rightarrow> rat option" where
  "active_progress db a =
     (if as_required a \<le> 0 then None
      else Some (min (rat_of_int (completed_minutes (as_id a) db) * 100 / rat_of_int (as_required a)) 100))"

definition trainee_view_of ::
  "database \<Rightarrow> trainee_row \<Rightarrow> user_row \<Rightarrow> assignment_row option \<Rightarrow> trainee_view" where
  "trainee_view_of db tp u a =
     \<lparr>tv_id = tp_id tp, tv_user = tp_user tp, tv_email = us_email u, tv_name = us_display_name u,
      tv_student = tp_student_number tp, tv_program = coalesce (tp_program tp),
      tv_year = coalesce (tp_year_level tp), tv_contact = coalesce (tp_contact tp),
      tv_status = us_status u, tv_assignment = map_option as_id a, tv_site = map_option as_site a,
      tv_site_name = Option.bind a (\<lambda>a. map_option si_name (find_site (as_site a) db)),
      tv_progress = Option.bind a (active_progress db)\<rparr>"

text \<open>\<open>traineeSelect\<close>: one row for each active assignment of the trainee, or one without.\<close>

definition trainee_join :: "database \<Rightarrow> trainee_row \<Rightarrow> trainee_view list" where
  "trainee_join db tp =
     (case find_user (tp_user tp) db of
        None \<Rightarrow> []
      | Some u \<Rightarrow>
          (case filter (\<lambda>a. as_trainee a = tp_id tp \<and> as_status a = AsActive) (db_assignments db) of
             [] \<Rightarrow> [trainee_view_of db tp u None]
           | as \<Rightarrow> map (\<lambda>a. trainee_view_of db tp u (Some a)) as))"

definition trainee_rows :: "database \<Rightarrow> trainee_view list" where
  "trainee_rows db = concat (map (trainee_join db) (db_trainees db))"

definition Get_trainee :: "uuid \<Rightarrow> database \<Rightarrow> go_error + trainee_view" where
  "Get_trainee i db =
     (case List.find (\<lambda>v. tv_id v = i) (trainee_rows db) of
        None \<Rightarrow> Inl (Api ErrNotFound) | Some v \<Rightarrow> Inr v)"

definition GetByUserID :: "uuid \<Rightarrow> database \<Rightarrow> trainee_view option" where
  "GetByUserID u db = List.find (\<lambda>v. tv_user v = u) (trainee_rows db)"

definition trainee_matches ::
  "uuid list option \<Rightarrow> string \<Rightarrow> account_status option \<Rightarrow> uuid option \<Rightarrow> trainee_view \<Rightarrow> bool" where
  "trainee_matches scope q status site v =
     (in_scope scope (tv_id v) \<and> search_any q [tv_name v, tv_email v, tv_student v] \<and>
      opt_all (\<lambda>s. tv_status v = s) status \<and> opt_all (\<lambda>s. tv_site v = Some s) site)"

definition List_trainees ::
  "(string \<Rightarrow> 'k::linorder) \<Rightarrow> (string \<Rightarrow> uuid option) \<Rightarrow> page \<Rightarrow> uuid list option \<Rightarrow> string \<Rightarrow>
   string \<Rightarrow> string \<Rightarrow> database \<Rightarrow> go_error + trainee_view list \<times> int" where
  "List_trainees coll uuid_parse p scope q status siteID db =
     (let rows = filter (trainee_matches scope q (account_status_of status) (uuid_parse siteID))
            (trainee_rows db)
      in result_bind (page_rows p (sort_key (\<lambda>v. coll (tv_name v)) rows))
           (\<lambda>items. Inr (items, int (length rows))))"

section \<open>Creating\<close>

record trainee_create =
  tn_email :: string
  tn_name :: string
  tn_student :: string
  tn_program :: string
  tn_year :: string
  tn_contact :: string

definition validateCreate :: "trainee_create \<Rightarrow> string list" where
  "validateCreate inp =
     account_fields (tn_email inp) (tn_name inp) @
     (if trim_space (tn_student inp) = [] then [''student_number''] else [])"

definition nullIfEmpty :: "string \<Rightarrow> string option" where
  "nullIfEmpty s = (let s = trim_space s in if s \<noteq> [] then Some s else None)"

definition insert_trainee :: "trainee_row \<Rightarrow> database \<Rightarrow> go_error + database" where
  "insert_trainee r db =
     insert_row
       [(taken tp_id r (db_trainees db), UniqueViolation ''trainee_profiles_pkey''),
        (taken tp_user r (db_trainees db), UniqueViolation ''trainee_profiles_user_id_key''),
        (taken tp_student_number r (db_trainees db),
         UniqueViolation ''trainee_profiles_student_number_key''),
        (find_user (tp_user r) db = None, ForeignKeyViolation ''trainee_profiles_user_id_fkey'')]
       (db\<lparr>db_trainees := db_trainees db @ [r]\<rparr>)"

text \<open>The two new identifiers, the user's and the profile's.\<close>

definition new_account :: "uuid \<Rightarrow> string \<Rightarrow> string \<Rightarrow> string \<Rightarrow> user_row" where
  "new_account uid email h name =
     \<lparr>us_id = uid, us_email = email, us_password_hash = h, us_role = RTrainee,
      us_status = AccActive, us_display_name = name, us_last_login = None\<rparr>"

definition new_profile ::
  "uuid \<Rightarrow> uuid \<Rightarrow> string \<Rightarrow> string \<Rightarrow> string \<Rightarrow> string \<Rightarrow> trainee_row" where
  "new_profile tid uid student program year contact =
     \<lparr>tp_id = tid, tp_user = uid, tp_student_number = student, tp_program = nullIfEmpty program,
      tp_year_level = nullIfEmpty year, tp_contact = nullIfEmpty contact\<rparr>"

definition own_scope :: "bool \<Rightarrow> uuid \<Rightarrow> uuid \<Rightarrow> database \<Rightarrow> go_error + database" where
  "own_scope is_coordinator creator tid db =
     (if is_coordinator then insert_scope creator tid db else Inr db)"

definition field_conflict :: "go_error \<Rightarrow> go_error" where
  "field_conflict e =
     (if IsUniqueViolation e ''users_email_lower_key'' then Api (Validation [''email''])
      else if IsUniqueViolation e ''trainee_profiles_student_number_key''
      then Api (Validation [''student_number'']) else e)"

definition CreateTraineeTx ::
  "uuid \<Rightarrow> uuid \<Rightarrow> string \<Rightarrow> auth_user \<Rightarrow> trainee_create \<Rightarrow> database \<Rightarrow> go_error + database \<times> unit"
where
  "CreateTraineeTx uid tid h creator inp db =
     (case insert_user (new_account uid (to_lower (trim_space (tn_email inp))) h
             (trim_space (tn_name inp))) db of
        Inl e \<Rightarrow> Inl (field_conflict e)
      | Inr db \<Rightarrow>
          (case insert_trainee (new_profile tid uid (trim_space (tn_student inp)) (tn_program inp)
                  (tn_year inp) (tn_contact inp)) db of
             Inl e \<Rightarrow> Inl (field_conflict e)
           | Inr db \<Rightarrow>
               result_bind (own_scope (ac_role creator = RCoordinator) (ac_id creator) tid db)
                 (\<lambda>db. Inr (db, ()))))"

definition Create_trainee ::
  "password_env \<Rightarrow> bool \<Rightarrow> uuid \<Rightarrow> uuid \<Rightarrow> string option \<Rightarrow> auth_user \<Rightarrow> trainee_create \<Rightarrow>
   database \<Rightarrow> database \<times> (go_error + trainee_view \<times> string)" where
  "Create_trainee pw commit_ok uid tid temp creator inp db =
     (if validateCreate inp \<noteq> [] then (db, Inl (Api (Validation (validateCreate inp))))
      else
        case temp of
          None \<Rightarrow> (db, Inl (Api Internal))
        | Some tempPassword \<Rightarrow>
            (case pw_hash pw tempPassword of
               None \<Rightarrow> (db, Inl (Api Internal))
             | Some h \<Rightarrow>
                 (case in_tx commit_ok (CreateTraineeTx uid tid h creator inp) db of
                    (db', Inl e) \<Rightarrow> (db', Inl (Api (Fail e)))
                  | (db', Inr _) \<Rightarrow>
                      (db', result_bind (Get_trainee tid db') (\<lambda>t. Inr (t, tempPassword))))))"

section \<open>Updating\<close>

record trainee_patch =
  tpp_email :: "string option"
  tpp_name :: "string option"
  tpp_student :: "string option"
  tpp_program :: "string option"
  tpp_year :: "string option"
  tpp_contact :: "string option"
  tpp_status :: "string option"

text \<open>A column after the patch, trimmed when the patch gives it.\<close>

definition patched :: "string option \<Rightarrow> string \<Rightarrow> string" where
  "patched p cur = (case p of None \<Rightarrow> cur | Some v \<Rightarrow> trim_space v)"

definition update_user ::
  "uuid \<Rightarrow> string \<Rightarrow> string \<Rightarrow> account_status \<Rightarrow> database \<Rightarrow> go_error + database" where
  "update_user i email name status db =
     (if find_user i db \<noteq> None \<and>
         list_ex (\<lambda>q. us_id q \<noteq> i \<and> to_lower (us_email q) = to_lower email) (db_users db)
      then Inl (UniqueViolation ''users_email_lower_key'')
      else Inr (set_user i (\<lambda>u. u\<lparr>us_email := email, us_display_name := name, us_status := status\<rparr>) db))"

definition update_profile ::
  "uuid \<Rightarrow> string \<Rightarrow> string option \<Rightarrow> string option \<Rightarrow> string option \<Rightarrow> database \<Rightarrow>
   go_error + database" where
  "update_profile i student program year contact db =
     (if find_trainee i db \<noteq> None \<and>
         list_ex (\<lambda>q. tp_id q \<noteq> i \<and> tp_student_number q = student) (db_trainees db)
      then Inl (UniqueViolation ''trainee_profiles_student_number_key'')
      else Inr (db\<lparr>db_trainees := set_by_key tp_id i
             (\<lambda>r. r\<lparr>tp_student_number := student, tp_program := program, tp_year_level := year,
                tp_contact := contact\<rparr>) (db_trainees db)\<rparr>))"

definition UpdateTraineeTx ::
  "clock \<Rightarrow> uuid \<Rightarrow> trainee_view \<Rightarrow> string \<Rightarrow> string \<Rightarrow> string \<Rightarrow> account_status \<Rightarrow>
   string option \<Rightarrow> string option \<Rightarrow> string option \<Rightarrow> database \<Rightarrow> go_error + database \<times> unit" where
  "UpdateTraineeTx ck i cur email name student status program year contact db =
     result_bind (update_user (tv_user cur) email name status db)
       (\<lambda>db. result_bind (update_profile i student program year contact db)
         (\<lambda>db. Inr (if status \<noteq> AccActive \<and> status \<noteq> tv_status cur
                     then RevokeAllForUser ck (tv_user cur) db else db, ())))"

definition Update_trainee ::
  "clock \<Rightarrow> bool \<Rightarrow> uuid \<Rightarrow> trainee_patch \<Rightarrow> database \<Rightarrow> database \<Rightarrow>
   database \<times> (go_error + trainee_view)" where
  "Update_trainee ck commit_ok i inp db0 db1 =
     (case Get_trainee i db0 of
        Inl e \<Rightarrow> (db1, Inl e)
      | Inr cur \<Rightarrow>
          let email = (case tpp_email inp of None \<Rightarrow> tv_email cur | Some v \<Rightarrow> to_lower (trim_space v));
              name = patched (tpp_name inp) (tv_name cur);
              student = patched (tpp_student inp) (tv_student cur);
              status = (case tpp_status inp of None \<Rightarrow> Some (tv_status cur)
                | Some s \<Rightarrow> account_status_of s);
              program = (case tpp_program inp of None \<Rightarrow> tv_program cur | Some v \<Rightarrow> v);
              year = (case tpp_year inp of None \<Rightarrow> tv_year cur | Some v \<Rightarrow> v);
              contact = (case tpp_contact inp of None \<Rightarrow> tv_contact cur | Some v \<Rightarrow> v)
          in if email = [] \<or> CHR ''@'' \<notin> set email then (db1, Inl (Api (Validation [''email''])))
             else if name = [] then (db1, Inl (Api (Validation [''display_name''])))
             else if student = [] then (db1, Inl (Api (Validation [''student_number''])))
             else
               case status of
                 None \<Rightarrow> (db1, Inl (Api (Validation [''account_status''])))
               | Some status \<Rightarrow>
                   (case in_tx commit_ok (UpdateTraineeTx ck i cur email name student status
                           (nullIfEmpty program) (nullIfEmpty year) (nullIfEmpty contact)) db1 of
                      (db', Inl e) \<Rightarrow> (db', Inl (Api (Fail (field_conflict e))))
                    | (db', Inr _) \<Rightarrow> (db', Get_trainee i db')))"

definition SetTraineePassword ::
  "password_env \<Rightarrow> clock \<Rightarrow> bool \<Rightarrow> uuid \<Rightarrow> string \<Rightarrow> database \<Rightarrow> database \<Rightarrow>
   database \<times> (go_error + unit)" where
  "SetTraineePassword pw ck commit_ok i new db0 db1 =
     (if length new < 8 then (db1, Inl (Api (Validation [''new_password''])))
      else
        case Get_trainee i db0 of
          Inl e \<Rightarrow> (db1, Inl e)
        | Inr t \<Rightarrow>
            (case pw_hash pw new of
               None \<Rightarrow> (db1, Inl (Api Internal))
             | Some h \<Rightarrow>
                 (case in_tx commit_ok (SetPasswordTx ck (tv_user t) h) db1 of
                    (db', Inl e) \<Rightarrow> (db', Inl (Api Internal))
                  | (db', Inr _) \<Rightarrow> (db', Inr ()))))"

section \<open>Handlers\<close>

definition handle_List_trainees ::
  "(string \<Rightarrow> 'k::linorder) \<Rightarrow> (string \<Rightarrow> uuid option) \<Rightarrow> auth_user \<Rightarrow> int option \<Rightarrow>
   int option \<Rightarrow> string \<Rightarrow> string \<Rightarrow> string \<Rightarrow> database \<Rightarrow>
   api_error + trainee_view list \<times> page_meta" where
  "handle_List_trainees coll uuid_parse actor page_q size_q q status siteID db =
     (let page = ParsePage page_q size_q
      in case List_trainees coll uuid_parse page (ScopedTraineeIDs actor db) q status siteID db of
           Inl e \<Rightarrow> Inl Internal
         | Inr (items, tot) \<Rightarrow> Inr (items, NewPageMeta page tot))"

definition handle_Create_trainee ::
  "password_env \<Rightarrow> bool \<Rightarrow> uuid \<Rightarrow> uuid \<Rightarrow> string option \<Rightarrow> auth_user \<Rightarrow>
   trainee_create option \<Rightarrow> database \<Rightarrow> database \<times> (api_error + trainee_view \<times> string)" where
  "handle_Create_trainee pw commit_ok uid tid temp actor body db =
     (case body of
        None \<Rightarrow> (db, Inl ValidationMsg)
      | Some inp \<Rightarrow>
          (case Create_trainee pw commit_ok uid tid temp actor inp db of
             (db', Inl e) \<Rightarrow> (db', Inl (Fail e))
           | (db', Inr (t, p)) \<Rightarrow>
               (Record (Some (ac_id actor)) ''trainee.created'' ''trainee_profile'' (Some (tv_id t)) db',
                Inr (t, p))))"

text \<open>\<open>checkScope\<close> of this package hides what is out of scope.\<close>

definition trainee_scope :: "auth_user \<Rightarrow> uuid option \<Rightarrow> database \<Rightarrow> api_error + uuid" where
  "trainee_scope actor param db =
     (case param of
        None \<Rightarrow> Inl ErrNotFound
      | Some i \<Rightarrow> if CanAccessTrainee actor i db then Inr i else Inl ErrNotFound)"

definition handle_Get_trainee :: "auth_user \<Rightarrow> uuid option \<Rightarrow> database \<Rightarrow> api_error + trainee_view" where
  "handle_Get_trainee actor param db =
     (case trainee_scope actor param db of
        Inl e \<Rightarrow> Inl e
      | Inr i \<Rightarrow> (case Get_trainee i db of Inl e \<Rightarrow> Inl (Fail e) | Inr t \<Rightarrow> Inr t))"

definition handle_Update_trainee ::
  "clock \<Rightarrow> bool \<Rightarrow> auth_user \<Rightarrow> uuid option \<Rightarrow> trainee_patch option \<Rightarrow> database \<Rightarrow> database \<Rightarrow>
   database \<times> (api_error + trainee_view)" where
  "handle_Update_trainee ck commit_ok actor param body db0 db1 =
     (case trainee_scope actor param db0 of
        Inl e \<Rightarrow> (db1, Inl e)
      | Inr i \<Rightarrow>
          (case body of
             None \<Rightarrow> (db1, Inl ValidationMsg)
           | Some inp \<Rightarrow>
               (case Update_trainee ck commit_ok i inp db0 db1 of
                  (db', Inl e) \<Rightarrow> (db', Inl (Fail e))
                | (db', Inr t) \<Rightarrow>
                    (Record (Some (ac_id actor)) ''trainee.updated'' ''trainee_profile''
                       (Some (tv_id t)) db', Inr t))))"

definition handle_SetTraineePassword ::
  "password_env \<Rightarrow> clock \<Rightarrow> bool \<Rightarrow> auth_user \<Rightarrow> uuid option \<Rightarrow> string option \<Rightarrow> database \<Rightarrow>
   database \<Rightarrow> database \<times> (api_error + unit)" where
  "handle_SetTraineePassword pw ck commit_ok actor param body db0 db1 =
     (case trainee_scope actor param db0 of
        Inl e \<Rightarrow> (db1, Inl e)
      | Inr i \<Rightarrow>
          (case body of
             None \<Rightarrow> (db1, Inl ValidationMsg)
           | Some new \<Rightarrow>
               (case SetTraineePassword pw ck commit_ok i new db0 db1 of
                  (db', Inl e) \<Rightarrow> (db', Inl (Fail e))
                | (db', Inr _) \<Rightarrow>
                    (Record (Some (ac_id actor)) ''trainee.password_assigned'' ''trainee_profile''
                       (Some i) db', Inr ()))))"

end
