(* ===== verification/Imports.thy ===== *)
theory Imports
  imports Trainees
begin

text \<open>
  \<open>internal/trainees/import.go\<close>: the CSV import. Validation reads the file and the database and
  stages the good rows under a token; the commit consumes the token and inserts the staged rows
  in one transaction. The store is the map of the tokens, as a list of pairs with distinct keys.
  The two queries that ask whether an address or a student number is taken are taken to answer;
  the code treats one that fails as not taken, and the commit then meets the unique index.
  The identifiers a commit generates are given by functions of the row number, and so are the
  generated passwords.
\<close>

section \<open>The store\<close>

record import_row =
  im_email :: string
  im_student :: string
  im_name :: string
  im_program :: string
  im_year :: string
  im_contact :: string
  im_password :: string

record import_batch =
  ib_rows :: "import_row list"
  ib_creator :: uuid
  ib_is_coordinator :: bool
  ib_expires :: instant

type_synonym import_store = "(uuid \<times> import_batch) list"

definition importTokenTTL :: int where "importTokenTTL = 15 * us_per_minute"

definition put_batch ::
  "instant \<Rightarrow> uuid option \<Rightarrow> import_batch \<Rightarrow> import_store \<Rightarrow> import_store \<times> uuid option" where
  "put_batch now fresh b store =
     (let store = (if 1000 < length store then filter (\<lambda>(k, v). \<not> ib_expires v < now) store
          else store)
      in case fresh of
           None \<Rightarrow> (store, None)
         | Some token \<Rightarrow> ((token, b) # filter (\<lambda>(k, v). k \<noteq> token) store, Some token))"

text \<open>\<open>take\<close>: the batch leaves the store whatever the answer.\<close>

definition take_batch :: "instant \<Rightarrow> uuid \<Rightarrow> import_store \<Rightarrow> import_store \<times> import_batch option" where
  "take_batch now token store =
     (filter (\<lambda>(k, v). k \<noteq> token) store,
      (case map_of store token of
         None \<Rightarrow> None
       | Some b \<Rightarrow> if ib_expires b < now then None else Some b))"

section \<open>Validation\<close>

definition requiredHeaders :: "string list" where
  "requiredHeaders = [''email'', ''student_number'', ''display_name'']"

definition allHeaders :: "string list" where
  "allHeaders = requiredHeaders @ [''program'', ''year_level'', ''contact_number'', ''password'']"

text \<open>The column of each known header; of a header that occurs twice, the last.\<close>

definition header_columns :: "string list \<Rightarrow> (string \<times> nat) list" where
  "header_columns header =
     filter (\<lambda>(h, i). h \<in> set allHeaders)
       (rev (zip (map (\<lambda>h. to_lower (trim_space h)) header) [0..<length header]))"

definition get_column :: "(string \<times> nat) list \<Rightarrow> string list \<Rightarrow> string \<Rightarrow> string" where
  "get_column cols rec name =
     (case map_of cols name of
        Some i \<Rightarrow> if i < length rec then trim_space (rec ! i) else []
      | None \<Rightarrow> [])"

definition import_row_of :: "(string \<times> nat) list \<Rightarrow> string list \<Rightarrow> import_row" where
  "import_row_of cols rec =
     \<lparr>im_email = to_lower (get_column cols rec ''email''),
      im_student = get_column cols rec ''student_number'',
      im_name = get_column cols rec ''display_name'', im_program = get_column cols rec ''program'',
      im_year = get_column cols rec ''year_level'',
      im_contact = get_column cols rec ''contact_number'',
      im_password = get_column cols rec ''password''\<rparr>"

definition email_taken :: "string \<Rightarrow> database \<Rightarrow> bool" where
  "email_taken email db = list_ex (\<lambda>u. to_lower (us_email u) = to_lower email) (db_users db)"

definition student_taken :: "string \<Rightarrow> database \<Rightarrow> bool" where
  "student_taken s db = list_ex (\<lambda>t. tp_student_number t = s) (db_trainees db)"

text \<open>
  The fields a row reports, given the addresses and student numbers of the rows before it. Both
  are noted as seen when they are well formed, whatever becomes of the row.
\<close>

definition row_fields :: "database \<Rightarrow> string list \<Rightarrow> string list \<Rightarrow> import_row \<Rightarrow> string list" where
  "row_fields db seenEmail seenStudent row =
     (if im_email row = [] \<or> CHR ''@'' \<notin> set (im_email row) \<or> im_email row \<in> set seenEmail \<or>
         email_taken (im_email row) db then [''email''] else []) @
     (if im_student row = [] \<or> im_student row \<in> set seenStudent \<or> student_taken (im_student row) db
      then [''student_number''] else []) @
     (if im_name row = [] then [''display_name''] else []) @
     (if im_password row \<noteq> [] \<and> length (im_password row) < 8 then [''password''] else [])"

record import_result =
  ir_row :: nat
  ir_normalized :: "import_row option"
  ir_errors :: "string list"

fun validate_rows ::
  "database \<Rightarrow> (string \<times> nat) list \<Rightarrow> nat \<Rightarrow> string list \<Rightarrow> string list \<Rightarrow> string list option list \<Rightarrow>
   import_row list \<times> import_result list" where
  "validate_rows db cols line seenEmail seenStudent [] = ([], [])"
| "validate_rows db cols line seenEmail seenStudent (None # recs) =
     (let (rows, results) = validate_rows db cols (Suc line) seenEmail seenStudent recs
      in (rows, \<lparr>ir_row = Suc line, ir_normalized = None, ir_errors = [''row'']\<rparr> # results))"
| "validate_rows db cols line seenEmail seenStudent (Some rec # recs) =
     (let row = import_row_of cols rec;
          fs = row_fields db seenEmail seenStudent row;
          e = im_email row;
          seenEmail' = (if e = [] \<or> CHR ''@'' \<notin> set e then seenEmail else e # seenEmail);
          seenStudent' = (if im_student row = [] then seenStudent else im_student row # seenStudent);
          (rows, results) = validate_rows db cols (Suc line) seenEmail' seenStudent' recs
      in if fs \<noteq> []
         then (rows, \<lparr>ir_row = Suc line, ir_normalized = None, ir_errors = fs\<rparr> # results)
         else (row # rows, \<lparr>ir_row = Suc line, ir_normalized = Some row, ir_errors = []\<rparr> # results))"

definition ParseAndValidate ::
  "string \<Rightarrow> database \<Rightarrow> go_error + import_row list \<times> import_result list" where
  "ParseAndValidate input db =
     (case csv_records input of
        Some header # recs \<Rightarrow>
          let cols = header_columns header in
          if list_ex (\<lambda>h. map_of cols h = None) requiredHeaders then Inl (Api ValidationMsg)
          else Inr (validate_rows db cols 1 [] [] recs)
      | _ \<Rightarrow> Inl (Api ValidationMsg))"

definition Stage ::
  "instant \<Rightarrow> uuid option \<Rightarrow> import_row list \<Rightarrow> auth_user \<Rightarrow> import_store \<Rightarrow>
   import_store \<times> uuid option" where
  "Stage now fresh rows creator store =
     put_batch now fresh \<lparr>ib_rows = rows, ib_creator = ac_id creator,
       ib_is_coordinator = (ac_role creator = RCoordinator), ib_expires = now + importTokenTTL\<rparr> store"

section \<open>Commit\<close>

record import_env =
  ie_user :: "nat \<Rightarrow> uuid"
  ie_profile :: "nat \<Rightarrow> uuid"
  ie_temp :: "nat \<Rightarrow> string option"
  ie_hash :: "string \<Rightarrow> string option"

definition import_password :: "import_env \<Rightarrow> nat \<Rightarrow> import_row \<Rightarrow> string option" where
  "import_password env n row = (if im_password row = [] then ie_temp env n else Some (im_password row))"

definition import_one ::
  "import_env \<Rightarrow> import_batch \<Rightarrow> nat \<Rightarrow> import_row \<Rightarrow> database \<Rightarrow>
   go_error + database \<times> (string \<times> string) option" where
  "import_one env b n row db =
     (case import_password env n row of
        None \<Rightarrow> Inl QueryFailed
      | Some p \<Rightarrow>
          (case ie_hash env p of
             None \<Rightarrow> Inl QueryFailed
           | Some h \<Rightarrow>
               result_bind (insert_user (new_account (ie_user env n) (im_email row) h (im_name row)) db)
               (\<lambda>db. result_bind (insert_trainee
                  (new_profile (ie_profile env n) (ie_user env n) (im_student row) (im_program row)
                     (im_year row) (im_contact row)) db)
               (\<lambda>db. result_bind
                  (own_scope (ib_is_coordinator b) (ib_creator b) (ie_profile env n) db)
               (\<lambda>db. Inr (db, if im_password row = [] then Some (im_email row, p) else None))))))"

fun import_all ::
  "import_env \<Rightarrow> import_batch \<Rightarrow> nat \<Rightarrow> import_row list \<Rightarrow> database \<Rightarrow>
   go_error + database \<times> (nat \<times> (string \<times> string) list)" where
  "import_all env b n [] db = Inr (db, 0, [])"
| "import_all env b n (row # rows) db =
     result_bind (import_one env b n row db)
       (\<lambda>(db, cred). result_bind (import_all env b (Suc n) rows db)
         (\<lambda>(db, created, creds). Inr (db, Suc created,
            (case cred of None \<Rightarrow> creds | Some c \<Rightarrow> c # creds))))"

definition Commit_import ::
  "import_env \<Rightarrow> bool \<Rightarrow> instant \<Rightarrow> uuid \<Rightarrow> import_store \<Rightarrow> database \<Rightarrow>
   import_store \<times> database \<times> (go_error + nat \<times> (string \<times> string) list)" where
  "Commit_import env commit_ok now token store db =
     (case take_batch now token store of
        (store', None) \<Rightarrow> (store', db, Inl (Api (Validation [''import_token''])))
      | (store', Some b) \<Rightarrow>
          if ib_rows b = [] then (store', db, Inl (Api ValidationMsg))
          else
            (case in_tx commit_ok (import_all env b 0 (ib_rows b)) db of
               (db', Inl e) \<Rightarrow> (store', db', Inl (Api (Conflict ''IMPORT_FAILED'')))
             | (db', Inr res) \<Rightarrow> (store', db', Inr res)))"

section \<open>Handlers\<close>

definition has_suffix :: "string \<Rightarrow> string \<Rightarrow> bool" where
  "has_suffix suffix s = (length suffix \<le> length s \<and> drop (length s - length suffix) s = suffix)"

text \<open>
  An upload is the file's name and, when it can be opened, its bytes, of which the first
  mebibyte is read. The result has the numbers of valid and invalid rows.
\<close>

definition handle_ImportValidate ::
  "instant \<Rightarrow> uuid option \<Rightarrow> auth_user \<Rightarrow> (string \<times> string option) option \<Rightarrow> import_store \<Rightarrow>
   database \<Rightarrow> import_store \<times> (api_error + nat \<times> nat \<times> import_result list \<times> uuid)" where
  "handle_ImportValidate now fresh actor upload store db =
     (case upload of
        None \<Rightarrow> (store, Inl (Validation [''file'']))
      | Some (name, content) \<Rightarrow>
          if \<not> has_suffix ''.csv'' (to_lower name) then (store, Inl (Validation [''file'']))
          else
            (case content of
               None \<Rightarrow> (store, Inl ValidationMsg)
             | Some input \<Rightarrow>
                 (case ParseAndValidate (take (2 ^ 20) input) db of
                    Inl e \<Rightarrow> (store, Inl (Fail e))
                  | Inr (rows, results) \<Rightarrow>
                      (case Stage now fresh rows actor store of
                         (store', None) \<Rightarrow> (store', Inl Internal)
                       | (store', Some token) \<Rightarrow>
                           (store', Inr
                             (length (filter (\<lambda>r. ir_normalized r \<noteq> None) results),
                              length (filter (\<lambda>r. ir_normalized r = None) results),
                              results, token))))))"

definition handle_ImportCommit ::
  "import_env \<Rightarrow> bool \<Rightarrow> instant \<Rightarrow> auth_user \<Rightarrow> uuid option option \<Rightarrow> import_store \<Rightarrow> database \<Rightarrow>
   import_store \<times> database \<times> (api_error + nat \<times> (string \<times> string) list)" where
  "handle_ImportCommit env commit_ok now actor body store db =
     (case body of
        None \<Rightarrow> (store, db, Inl ValidationMsg)
      | Some None \<Rightarrow> (store, db, Inl (Validation [''import_token'']))
      | Some (Some token) \<Rightarrow>
          (case Commit_import env commit_ok now token store db of
             (store', db', Inl e) \<Rightarrow> (store', db', Inl (Fail e))
           | (store', db', Inr res) \<Rightarrow>
               (store', Record (Some (ac_id actor)) ''trainee.imported'' ''trainee_profile'' None db',
                Inr res)))"

end
