(* ===== verification/ImportLaws.thy ===== *)
theory ImportLaws
  imports Imports
begin

text \<open>
  What the two steps of the import guarantee together: the rows a validation stages go through
  the commit as they are, all of them, and a token is good for one commit.
\<close>

section \<open>Validated rows\<close>

definition row_ok :: "database \<Rightarrow> string list \<Rightarrow> string list \<Rightarrow> import_row \<Rightarrow> bool" where
  "row_ok db se ss r \<longleftrightarrow>
     to_lower (im_email r) = im_email r \<and> im_email r \<notin> set se \<and> \<not> email_taken (im_email r) db \<and>
     im_student r \<notin> set ss \<and> \<not> student_taken (im_student r) db \<and>
     (im_password r = [] \<or> 8 \<le> length (im_password r))"

lemma row_fields_ok:
  assumes "row_fields db se ss (import_row_of cols rec) = []"
  shows "row_ok db se ss (import_row_of cols rec)"
  using assms by (auto simp: row_fields_def row_ok_def import_row_of_def split: if_splits)

lemma validate_rows_ok:
  "validate_rows db cols line se ss recs = (rows, results) \<Longrightarrow>
     (\<forall>r\<in>set rows. row_ok db se ss r) \<and> distinct (map im_email rows) \<and> distinct (map im_student rows)"
proof (induction db cols line se ss recs arbitrary: rows results rule: validate_rows.induct)
  case (3 db cols line se ss rec recs)
  define row where "row = import_row_of cols rec"
  define se' where "se' = (if im_email row = [] \<or> CHR ''@'' \<notin> set (im_email row) then se else im_email row # se)"
  define ss' where "ss' = (if im_student row = [] then ss else im_student row # ss)"
  obtain rows' results' where r: "validate_rows db cols (Suc line) se' ss' recs = (rows', results')"
    by (cases "validate_rows db cols (Suc line) se' ss' recs")
  have IH: "(\<forall>r\<in>set rows'. row_ok db se' ss' r) \<and> distinct (map im_email rows') \<and>
      distinct (map im_student rows')"
    using "3.IH" [OF row_def refl refl se'_def ss'_def r] .
  have weaken: "row_ok db se ss q" if "row_ok db se' ss' q" for q
    using that by (auto simp: row_ok_def se'_def ss'_def split: if_splits)
  show ?case
  proof (cases "row_fields db se ss row = []")
    case True
    then have rows: "rows = row # rows'" using 3(2) by (simp add: Let_def r flip: row_def se'_def ss'_def)
    have "im_email row \<in> set se'" "im_student row \<in> set ss'"
      using True by (auto simp: row_fields_def se'_def ss'_def split: if_splits)
    then have "im_email row \<notin> im_email ` set rows'" "im_student row \<notin> im_student ` set rows'"
      using IH by (auto simp: row_ok_def)
    with IH weaken row_fields_ok [OF True [unfolded row_def]] rows show ?thesis
      by (auto simp: row_def)
  next
    case False
    then have "rows = rows'" using 3(2) by (simp add: Let_def r flip: row_def se'_def ss'_def)
    with IH weaken show ?thesis by simp
  qed
qed (auto split: prod.splits)

section \<open>One row and all rows\<close>

definition accounts_ok :: "database \<Rightarrow> bool" where
  "accounts_ok db \<longleftrightarrow> tp_user ` set (db_trainees db) \<subseteq> us_id ` set (db_users db)"

definition emails :: "database \<Rightarrow> string set" where
  "emails db = (\<lambda>u. to_lower (us_email u)) ` set (db_users db)"

definition students :: "database \<Rightarrow> string set" where
  "students db = tp_student_number ` set (db_trainees db)"

definition env_ok :: "import_env \<Rightarrow> database \<Rightarrow> bool" where
  "env_ok env db \<longleftrightarrow> inj (ie_user env) \<and> inj (ie_profile env) \<and>
     (\<forall>k. ie_user env k \<notin> us_id ` set (db_users db) \<and> ie_profile env k \<notin> tp_id ` set (db_trainees db)) \<and>
     (\<forall>k. ie_temp env k \<noteq> None) \<and> (\<forall>p. ie_hash env p \<noteq> None)"

lemma insert_user_Inr:
  "insert_user u db = Inr db' \<longleftrightarrow> us_id u \<notin> us_id ` set (db_users db) \<and>
     to_lower (us_email u) \<notin> emails db \<and> db' = db\<lparr>db_users := db_users db @ [u]\<rparr>"
  by (auto simp: insert_user_def insert_row_Inr taken_iff emails_def)

lemma insert_trainee_Inr:
  "insert_trainee r db = Inr db' \<longleftrightarrow> tp_id r \<notin> tp_id ` set (db_trainees db) \<and>
     tp_user r \<notin> tp_user ` set (db_trainees db) \<and> tp_student_number r \<notin> students db \<and>
     find_user (tp_user r) db \<noteq> None \<and> db' = db\<lparr>db_trainees := db_trainees db @ [r]\<rparr>"
  by (auto simp: insert_trainee_def insert_row_Inr taken_iff students_def)

lemma find_user_iff: "find_user i db \<noteq> None \<longleftrightarrow> i \<in> us_id ` set (db_users db)"
  by (simp add: find_user_def by_key_None)

text \<open>
  The account and the profile a previewed row stands for, column by column, and the password its
  owner signs in with first.
\<close>

definition first_password :: "import_env \<Rightarrow> nat \<Rightarrow> import_row \<Rightarrow> string" where
  "first_password env n r = (if im_password r = [] then the (ie_temp env n) else im_password r)"

definition account_for :: "import_env \<Rightarrow> nat \<Rightarrow> import_row \<Rightarrow> user_row" where
  "account_for env n r =
     \<lparr>us_id = ie_user env n, us_email = im_email r,
      us_password_hash = the (ie_hash env (first_password env n r)), us_role = RTrainee,
      us_status = AccActive, us_display_name = im_name r, us_last_login = None\<rparr>"

definition text_or_null :: "string \<Rightarrow> string option" where
  "text_or_null s = (if trim_space s = [] then None else Some (trim_space s))"

definition profile_for :: "import_env \<Rightarrow> nat \<Rightarrow> import_row \<Rightarrow> trainee_row" where
  "profile_for env n r =
     \<lparr>tp_id = ie_profile env n, tp_user = ie_user env n, tp_student_number = im_student r,
      tp_program = text_or_null (im_program r), tp_year_level = text_or_null (im_year r),
      tp_contact = text_or_null (im_contact r)\<rparr>"

definition scope_for :: "import_env \<Rightarrow> import_batch \<Rightarrow> nat \<Rightarrow> scope_row" where
  "scope_for env b n = \<lparr>sc_coordinator = ib_creator b, sc_trainee = ie_profile env n\<rparr>"

text \<open>Accounts, profiles and scopes are the only tables that change.\<close>

definition accounts_only :: "database \<Rightarrow> database \<Rightarrow> bool" where
  "accounts_only db db' \<longleftrightarrow> db' = db\<lparr>db_users := db_users db', db_trainees := db_trainees db',
     db_scopes := db_scopes db'\<rparr>"

lemma accounts_only_trans: "accounts_only a b \<Longrightarrow> accounts_only b c \<Longrightarrow> accounts_only a c"
  unfolding accounts_only_def by (cases a; cases b; cases c) simp

lemma own_scope_total:
  assumes "is_c \<Longrightarrow> find_user c db \<noteq> None" and "find_trainee t db \<noteq> None"
  shows "\<exists>sc. own_scope is_c c t db = Inr (db\<lparr>db_scopes := sc\<rparr>) \<and> set (db_scopes db) \<subseteq> set sc \<and>
    (is_c \<longrightarrow> \<lparr>sc_coordinator = c, sc_trainee = t\<rparr> \<in> set sc) \<and> (\<not> is_c \<longrightarrow> sc = db_scopes db)"
proof (cases "is_c \<and> \<lparr>sc_coordinator = c, sc_trainee = t\<rparr> \<notin> set (db_scopes db)")
  case True
  then show ?thesis
    using assms by (intro exI [of _ "db_scopes db @ [\<lparr>sc_coordinator = c, sc_trainee = t\<rparr>]"])
      (auto simp: own_scope_def insert_scope_def)
next
  case False
  then show ?thesis
    by (intro exI [of _ "db_scopes db"]) (auto simp: own_scope_def insert_scope_def)
qed

lemma import_one_ok:
  assumes env: "ie_temp env n \<noteq> None" "ie_hash env (first_password env n row) \<noteq> None"
    and uid: "ie_user env n \<notin> us_id ` set (db_users db)" and acc: "accounts_ok db"
    and pid: "ie_profile env n \<notin> tp_id ` set (db_trainees db)"
    and email: "to_lower (im_email row) \<notin> emails db" and student: "im_student row \<notin> students db"
    and creator: "ib_is_coordinator b \<longrightarrow> ib_creator b \<in> us_id ` set (db_users db)"
  shows "\<exists>db'. import_one env b n row db =
      Inr (db', if im_password row = [] then Some (im_email row, the (ie_temp env n)) else None) \<and>
    db_users db' = db_users db @ [account_for env n row] \<and>
    db_trainees db' = db_trainees db @ [profile_for env n row] \<and>
    set (db_scopes db) \<subseteq> set (db_scopes db') \<and>
    (ib_is_coordinator b \<longrightarrow> scope_for env b n \<in> set (db_scopes db')) \<and>
    (\<not> ib_is_coordinator b \<longrightarrow> db_scopes db' = db_scopes db) \<and> accounts_only db db'"
proof -
  let ?u = "account_for env n row" and ?t = "profile_for env n row"
  obtain h where h: "ie_hash env (first_password env n row) = Some h" using env(2) by auto
  have pw: "import_password env n row = Some (first_password env n row)"
    using env(1) by (auto simp: import_password_def first_password_def)
  have rows: "new_account (ie_user env n) (im_email row) h (im_name row) = ?u"
      "new_profile (ie_profile env n) (ie_user env n) (im_student row) (im_program row)
        (im_year row) (im_contact row) = ?t"
    by (simp_all add: new_account_def account_for_def h new_profile_def profile_for_def nullIfEmpty_def
        text_or_null_def Let_def)
  define db1 where "db1 = db\<lparr>db_users := db_users db @ [?u]\<rparr>"
  define db2 where "db2 = db1\<lparr>db_trainees := db_trainees db1 @ [?t]\<rparr>"
  have fields: "us_id ?u = ie_user env n" "us_email ?u = im_email row" "tp_id ?t = ie_profile env n"
      "tp_user ?t = ie_user env n" "tp_student_number ?t = im_student row"
    by (simp_all add: account_for_def profile_for_def)
  have 1: "insert_user ?u db = Inr db1"
    using uid email by (simp add: insert_user_Inr db1_def fields)
  have "ie_user env n \<notin> tp_user ` set (db_trainees db)" using uid acc by (auto simp: accounts_ok_def)
  moreover have "find_user (ie_user env n) db1 \<noteq> None"
    unfolding find_user_iff by (simp add: db1_def fields)
  ultimately have 2: "insert_trainee ?t db1 = Inr db2"
    using pid student by (simp add: insert_trainee_Inr db1_def db2_def students_def fields)
  have "ib_is_coordinator b \<Longrightarrow> find_user (ib_creator b) db2 \<noteq> None"
    unfolding find_user_iff using creator by (simp add: db1_def db2_def)
  moreover have "find_trainee (ie_profile env n) db2 \<noteq> None"
    by (simp add: find_trainee_def by_key_None db1_def db2_def fields)
  ultimately obtain sc where 3:
      "own_scope (ib_is_coordinator b) (ib_creator b) (ie_profile env n) db2 = Inr (db2\<lparr>db_scopes := sc\<rparr>)"
      "set (db_scopes db2) \<subseteq> set sc" "ib_is_coordinator b \<longrightarrow> scope_for env b n \<in> set sc"
      "\<not> ib_is_coordinator b \<longrightarrow> sc = db_scopes db2"
    unfolding scope_for_def using own_scope_total by blast
  have "import_one env b n row db = Inr (db2\<lparr>db_scopes := sc\<rparr>,
      if im_password row = [] then Some (im_email row, the (ie_temp env n)) else None)"
    using 1 2 3(1) by (simp add: import_one_def pw h rows) (simp add: first_password_def)
  then show ?thesis
    using 3 by (intro exI [of _ "db2\<lparr>db_scopes := sc\<rparr>"]) (simp add: db2_def db1_def accounts_only_def)
qed

text \<open>What the rows of a batch need of the database, given the rows before them.\<close>

definition rows_fit :: "import_row list \<Rightarrow> database \<Rightarrow> bool" where
  "rows_fit rows db \<longleftrightarrow> distinct (map im_email rows) \<and> distinct (map im_student rows) \<and>
     (\<forall>r\<in>set rows. to_lower (im_email r) = im_email r \<and> im_email r \<notin> emails db \<and>
        im_student r \<notin> students db)"

definition ids_from :: "import_env \<Rightarrow> nat \<Rightarrow> database \<Rightarrow> bool" where
  "ids_from env n db \<longleftrightarrow> inj (ie_user env) \<and> inj (ie_profile env) \<and>
     (\<forall>k\<ge>n. ie_user env k \<notin> us_id ` set (db_users db) \<and> ie_profile env k \<notin> tp_id ` set (db_trainees db))"

text \<open>The accounts of a batch, numbered from \<open>n\<close>, and the passwords to hand out.\<close>

definition accounts_for :: "import_env \<Rightarrow> nat \<Rightarrow> import_row list \<Rightarrow> user_row list" where
  "accounts_for env n rows = map (\<lambda>(k, r). account_for env k r) (List.enumerate n rows)"

definition profiles_for :: "import_env \<Rightarrow> nat \<Rightarrow> import_row list \<Rightarrow> trainee_row list" where
  "profiles_for env n rows = map (\<lambda>(k, r). profile_for env k r) (List.enumerate n rows)"

definition handouts :: "import_env \<Rightarrow> nat \<Rightarrow> import_row list \<Rightarrow> (string \<times> string) list" where
  "handouts env n rows = map (\<lambda>(k, r). (im_email r, the (ie_temp env k)))
     (filter (\<lambda>(k, r). im_password r = []) (List.enumerate n rows))"

lemma batch_simps [simp]:
  "accounts_for env n [] = []" "profiles_for env n [] = []" "handouts env n [] = []"
  "accounts_for env n (r # rs) = account_for env n r # accounts_for env (Suc n) rs"
  "profiles_for env n (r # rs) = profile_for env n r # profiles_for env (Suc n) rs"
  "handouts env n (r # rs) = (if im_password r = []
     then (im_email r, the (ie_temp env n)) # handouts env (Suc n) rs else handouts env (Suc n) rs)"
  by (simp_all add: accounts_for_def profiles_for_def handouts_def)

lemma import_all_ok:
  assumes "\<forall>k. ie_temp env k \<noteq> None" and "\<forall>p. ie_hash env p \<noteq> None"
  shows "rows_fit rows db \<Longrightarrow> ids_from env n db \<Longrightarrow> accounts_ok db \<Longrightarrow>
    (ib_is_coordinator b \<longrightarrow> ib_creator b \<in> us_id ` set (db_users db)) \<Longrightarrow>
    \<exists>db'. import_all env b n rows db = Inr (db', length rows, handouts env n rows) \<and>
      db_users db' = db_users db @ accounts_for env n rows \<and>
      db_trainees db' = db_trainees db @ profiles_for env n rows \<and>
      set (db_scopes db) \<subseteq> set (db_scopes db') \<and>
      (ib_is_coordinator b \<longrightarrow> (\<forall>k<length rows. scope_for env b (n + k) \<in> set (db_scopes db'))) \<and>
      (\<not> ib_is_coordinator b \<longrightarrow> db_scopes db' = db_scopes db) \<and> accounts_only db db'"
proof (induction rows arbitrary: n db)
  case Nil
  then show ?case by (simp add: accounts_only_def)
next
  case (Cons row rows)
  have free: "ie_user env n \<notin> us_id ` set (db_users db)" "ie_profile env n \<notin> tp_id ` set (db_trainees db)"
      "to_lower (im_email row) \<notin> emails db" "im_student row \<notin> students db"
    using Cons.prems(1,2) by (auto simp: rows_fit_def ids_from_def)
  obtain db1 where one: "import_one env b n row db =
      Inr (db1, if im_password row = [] then Some (im_email row, the (ie_temp env n)) else None)"
    and u: "db_users db1 = db_users db @ [account_for env n row]"
    and t: "db_trainees db1 = db_trainees db @ [profile_for env n row]"
    and sc: "set (db_scopes db) \<subseteq> set (db_scopes db1)"
      "ib_is_coordinator b \<longrightarrow> scope_for env b n \<in> set (db_scopes db1)"
      "\<not> ib_is_coordinator b \<longrightarrow> db_scopes db1 = db_scopes db" "accounts_only db db1"
    using import_one_ok [OF assms(1) [rule_format, of n] assms(2) [rule_format, of "first_password env n row"]
        free(1) Cons.prems(3) free(2-4) Cons.prems(4)]
    by blast
  have "rows_fit rows db1"
    using Cons.prems(1)
    by (force simp: rows_fit_def emails_def students_def u t account_for_def profile_for_def image_iff)
  moreover have "ids_from env (Suc n) db1"
    using Cons.prems(2) by (auto simp: ids_from_def u t account_for_def profile_for_def dest: injD)
  moreover have "accounts_ok db1"
    using Cons.prems(3) by (auto simp: accounts_ok_def u t account_for_def profile_for_def)
  moreover have "ib_is_coordinator b \<longrightarrow> ib_creator b \<in> us_id ` set (db_users db1)"
    using Cons.prems(4) by (auto simp: u)
  ultimately obtain db' where rest:
      "import_all env b (Suc n) rows db1 = Inr (db', length rows, handouts env (Suc n) rows)"
      "db_users db' = db_users db1 @ accounts_for env (Suc n) rows"
      "db_trainees db' = db_trainees db1 @ profiles_for env (Suc n) rows"
      "set (db_scopes db1) \<subseteq> set (db_scopes db')"
      "ib_is_coordinator b \<longrightarrow> (\<forall>k<length rows. scope_for env b (Suc n + k) \<in> set (db_scopes db'))"
      "\<not> ib_is_coordinator b \<longrightarrow> db_scopes db' = db_scopes db1" "accounts_only db1 db'"
    using Cons.IH by blast
  have "scope_for env b (n + k) \<in> set (db_scopes db')" if "ib_is_coordinator b" "k < Suc (length rows)" for k
    using that sc(2) rest(4,5) by (cases k) auto
  then show ?case
    using one u t sc rest(1-4,6) accounts_only_trans [OF sc(4) rest(7)] by (intro exI [of _ db']) auto
qed

section \<open>The two steps together\<close>

lemma row_ok_fits:
  "row_ok db se ss r \<Longrightarrow>
     to_lower (im_email r) = im_email r \<and> im_email r \<notin> emails db \<and> im_student r \<notin> students db"
  by (auto simp: row_ok_def emails_def students_def email_taken_def student_taken_def list_ex_iff)

lemma ParseAndValidate_rows:
  assumes "ParseAndValidate input db = Inr (rows, results)"
  shows "rows_fit rows db"
proof -
  obtain cols recs where "validate_rows db cols 1 [] [] recs = (rows, results)"
    using assms by (auto simp: ParseAndValidate_def Let_def split: list.splits option.splits if_splits)
  from validate_rows_ok [OF this] row_ok_fits show ?thesis unfolding rows_fit_def by blast
qed

text \<open>The rows that are staged are those the preview shows as good.\<close>

lemma validate_rows_preview:
  "validate_rows db cols line se ss recs = (rows, results) \<Longrightarrow>
     rows = List.map_filter ir_normalized results \<and>
     (\<forall>q\<in>set results. ir_normalized q = None \<longleftrightarrow> ir_errors q \<noteq> [])"
proof (induction db cols line se ss recs arbitrary: rows results rule: validate_rows.induct)
  case (2 db cols line se ss recs)
  then show ?case by (auto simp: List.map_filter_simps split: prod.splits)
next
  case (3 db cols line se ss rec recs)
  define row where "row = import_row_of cols rec"
  define se' where "se' = (if im_email row = [] \<or> CHR ''@'' \<notin> set (im_email row) then se else im_email row # se)"
  define ss' where "ss' = (if im_student row = [] then ss else im_student row # ss)"
  obtain rows' results' where r: "validate_rows db cols (Suc line) se' ss' recs = (rows', results')"
    by (cases "validate_rows db cols (Suc line) se' ss' recs")
  have IH: "rows' = List.map_filter ir_normalized results' \<and>
      (\<forall>q\<in>set results'. ir_normalized q = None \<longleftrightarrow> ir_errors q \<noteq> [])"
    using "3.IH" [OF row_def refl refl se'_def ss'_def r] .
  show ?case
    using 3(2) IH
    by (auto simp: Let_def r List.map_filter_simps split: if_splits simp flip: row_def se'_def ss'_def)
qed (simp add: List.map_filter_simps)

lemma ParseAndValidate_preview:
  assumes "ParseAndValidate input db = Inr (rows, results)"
  shows "rows = List.map_filter ir_normalized results \<and>
    (\<forall>q\<in>set results. ir_normalized q = None \<longleftrightarrow> ir_errors q \<noteq> [])"
proof -
  obtain cols recs where "validate_rows db cols 1 [] [] recs = (rows, results)"
    using assms by (auto simp: ParseAndValidate_def Let_def split: list.splits option.splits if_splits)
  then show ?thesis by (rule validate_rows_preview)
qed

text \<open>
  C29. What the preview shows as good is what the commit creates: while neither an account nor a
  profile has been added since, the batch of a validated file commits before its token expires.
  Then, for each row the preview shows without an error and in the order of the file, there is
  one new active trainee account with the row's address and name and the hash of its first
  password - the one in the file, or a generated one - and one profile linked to it with the
  row's student number and details. The creator is given exactly the generated passwords, a
  coordinator has all the new trainees in scope, no other table changes, and a second commit of
  the token is refused and changes nothing.
\<close>

theorem import_validated_commits:
  assumes "ParseAndValidate input db = Inr (rows, results)" and "rows \<noteq> []"
    and "Stage now (Some token) rows creator store = (store1, Some token)"
    and "later \<le> now + importTokenTTL" and "env_ok env db" and "accounts_ok db"
    and "ac_id creator \<in> us_id ` set (db_users db)"
  shows "\<exists>store2 db'.
    Commit_import env True later token store1 db =
      (store2, db', Inr (length rows, handouts env 0 rows)) \<and>
    rows = List.map_filter ir_normalized results \<and>
    (\<forall>q\<in>set results. ir_normalized q = None \<longleftrightarrow> ir_errors q \<noteq> []) \<and>
    db_users db' = db_users db @ accounts_for env 0 rows \<and>
    db_trainees db' = db_trainees db @ profiles_for env 0 rows \<and>
    (ac_role creator = RCoordinator \<longrightarrow>
      (\<forall>k<length rows. CanAccessTrainee creator (ie_profile env k) db')) \<and>
    (ac_role creator \<noteq> RCoordinator \<longrightarrow> db_scopes db' = db_scopes db) \<and> accounts_only db db' \<and>
    (\<forall>env' ok t. Commit_import env' ok t token store2 db' =
       (store2, db', Inl (Api (Validation [''import_token'']))))"
proof -
  define b where "b = \<lparr>ib_rows = rows, ib_creator = ac_id creator,
    ib_is_coordinator = (ac_role creator = RCoordinator), ib_expires = now + importTokenTTL\<rparr>"
  have "map_of store1 token = Some b"
    using assms(3) by (auto simp: Stage_def put_batch_def Let_def b_def)
  then obtain store2 where take: "take_batch later token store1 = (store2, Some b)"
    and store2: "store2 = filter (\<lambda>(k, v). k \<noteq> token) store1"
    using assms(4) by (simp add: take_batch_def b_def)
  have temps: "\<forall>k. ie_temp env k \<noteq> None" and hashes: "\<forall>p. ie_hash env p \<noteq> None"
    and "ids_from env 0 db"
    using assms(5) unfolding env_ok_def ids_from_def by blast+
  then obtain db' where run: "import_all env b 0 rows db = Inr (db', length rows, handouts env 0 rows)"
      "db_users db' = db_users db @ accounts_for env 0 rows"
      "db_trainees db' = db_trainees db @ profiles_for env 0 rows"
      "ib_is_coordinator b \<longrightarrow> (\<forall>k<length rows. scope_for env b k \<in> set (db_scopes db'))"
      "\<not> ib_is_coordinator b \<longrightarrow> db_scopes db' = db_scopes db" "accounts_only db db'"
    using import_all_ok [OF temps hashes ParseAndValidate_rows [OF assms(1)] _ assms(6), of 0 b] assms(7)
    unfolding b_def by auto
  have "Commit_import env True later token store1 db =
      (store2, db', Inr (length rows, handouts env 0 rows))"
    using run(1) assms(2) by (simp add: Commit_import_def take in_tx_def) (simp add: b_def)
  moreover have "map_of store2 token = None"
    unfolding store2 map_of_eq_None_iff by auto
  then have "Commit_import env' ok t token store2 db' =
      (store2, db', Inl (Api (Validation [''import_token''])))" for env' ok t
    by (auto simp: Commit_import_def take_batch_def store2 filter_filter)
  moreover have "\<forall>k<length rows. CanAccessTrainee creator (ie_profile env k) db'"
    if "ac_role creator = RCoordinator"
    using run(4) that by (auto simp: b_def scope_for_def CanAccessTrainee_def list_ex_iff intro!: bexI)
  moreover have "ac_role creator \<noteq> RCoordinator \<longrightarrow> db_scopes db' = db_scopes db"
    using run(5) by (simp add: b_def)
  ultimately show ?thesis
    using run(2,3,6) ParseAndValidate_preview [OF assms(1)] by blast
qed

definition demo_csv :: string where
  "demo_csv = ''Email,student_number,display_name,password'' @ [NL] @ '' Ann@x,S7,Ann,'' @ [NL] @
     ''ann@x,S8,Bob,'' @ [NL] @ ''b@x,S8,Bob,long enough'' @ [NL]"

definition demo_import_env :: import_env where
  "demo_import_env = \<lparr>ie_user = (\<lambda>k. 100 + k), ie_profile = (\<lambda>k. 200 + k),
     ie_temp = (\<lambda>_. Some ''temp''), ie_hash = (\<lambda>p. Some p)\<rparr>"

definition demo_staff :: auth_user where
  "demo_staff = \<lparr>ac_id = 11, ac_email = ''c@x'', ac_role = RCoordinator, ac_status = AccActive,
     ac_name = ''C''\<rparr>"

text \<open>The second row repeats an address, the third then repeats its student number.\<close>

lemma demo_csv_rows:
  "\<exists>results. ParseAndValidate demo_csv demo_db =
     Inr ([\<lparr>im_email = ''ann@x'', im_student = ''S7'', im_name = ''Ann'', im_program = [],
        im_year = [], im_contact = [], im_password = []\<rparr>], results)"
proof -
  have "map_prod id (\<lambda>_. ()) (projr (ParseAndValidate demo_csv demo_db)) =
      ([\<lparr>im_email = ''ann@x'', im_student = ''S7'', im_name = ''Ann'', im_program = [],
        im_year = [], im_contact = [], im_password = []\<rparr>], ()) \<and> isl (ParseAndValidate demo_csv demo_db) = False"
    by code_simp
  then show ?thesis by (cases "ParseAndValidate demo_csv demo_db") auto
qed

theorem import_validated_commits_witness:
  "\<exists>store2 db' u. Commit_import demo_import_env True 6 500
     (fst (Stage 5 (Some 500) (fst (projr (ParseAndValidate demo_csv demo_db))) demo_staff [])) demo_db =
     (store2, db', Inr (1, [(''ann@x'', ''temp'')])) \<and> db_users db' = db_users demo_db @ [u] \<and>
     us_email u = ''ann@x'' \<and> us_role u = RTrainee \<and> us_password_hash u = ''temp'' \<and>
     CanAccessTrainee demo_staff 200 db'"
proof -
  obtain results where p: "ParseAndValidate demo_csv demo_db =
     Inr ([\<lparr>im_email = ''ann@x'', im_student = ''S7'', im_name = ''Ann'', im_program = [],
        im_year = [], im_contact = [], im_password = []\<rparr>], results)" using demo_csv_rows ..
  define rows where "rows = fst (projr (ParseAndValidate demo_csv demo_db))"
  have "ParseAndValidate demo_csv demo_db = Inr (rows, results)" "rows \<noteq> []"
    by (simp_all add: rows_def p)
  moreover obtain store1 where st: "Stage 5 (Some 500) rows demo_staff [] = (store1, Some 500)"
    by (simp add: Stage_def put_batch_def)
  moreover have "(6 :: int) \<le> 5 + importTokenTTL" by (simp add: importTokenTTL_def us_per_minute_def)
  moreover have "env_ok demo_import_env demo_db"
    by (auto simp: env_ok_def demo_import_env_def demo_db_def inj_def)
  moreover have "accounts_ok demo_db" "ac_id demo_staff \<in> us_id ` set (db_users demo_db)"
    by (auto simp: accounts_ok_def demo_db_def demo_staff_def)
  ultimately obtain store2 db' where c:
    "Commit_import demo_import_env True 6 500 store1 demo_db =
       (store2, db', Inr (length rows, handouts demo_import_env 0 rows))"
    "db_users db' = db_users demo_db @ accounts_for demo_import_env 0 rows"
    "ac_role demo_staff = RCoordinator \<longrightarrow>
       (\<forall>k<length rows. CanAccessTrainee demo_staff (ie_profile demo_import_env k) db')"
    using import_validated_commits [of demo_csv demo_db rows results 5 500 demo_staff "[]" store1 6
        demo_import_env] by blast
  have rows: "rows = [\<lparr>im_email = ''ann@x'', im_student = ''S7'', im_name = ''Ann'', im_program = [],
        im_year = [], im_contact = [], im_password = []\<rparr>]" by (simp add: rows_def p)
  have "CanAccessTrainee demo_staff 200 db'"
    using c(3) by (simp add: rows demo_staff_def demo_import_env_def)
  then show ?thesis
    using c(1,2) unfolding rows_def [symmetric] st
    by (simp add: rows account_for_def first_password_def demo_import_env_def)
qed

end
