(* ===== verification/AttendanceRead.thy ===== *)
theory AttendanceRead
  imports TimeOutLaws AccessLaws Search
begin

text \<open>
  \<open>internal/attendance/read.go\<close>: the reads of attendance - today's session, the history, one
  session with its evidence and corrections, and the evidence images. The cast of a query
  parameter to a date is PostgreSQL's (\<open>pg_date\<close>), the presigned URL the object store's
  (\<open>presign\<close>); both are parameters, and \<open>None\<close> is a failure.
\<close>

section \<open>Today and the history\<close>

text \<open>The rows the queries join a session with; \<open>None\<close> when an inner join drops it.\<close>

definition session_owner :: "database \<Rightarrow> attendance_row \<Rightarrow> uuid option" where
  "session_owner db s = map_option tp_user (find_trainee (at_trainee s) db)"

definition session_site :: "database \<Rightarrow> attendance_row \<Rightarrow> site_row option" where
  "session_site db s =
     Option.bind (find_assignment (at_assignment s) db) (\<lambda>a. find_site (as_site a) db)"

record session_view =
  sw_id :: uuid
  sw_date :: date
  sw_status :: attendance_status
  sw_time_in :: instant
  sw_time_out :: "instant option"
  sw_credited :: "int option"
  sw_flags :: "string list"

definition session_view_of :: "attendance_row \<Rightarrow> session_view" where
  "session_view_of s =
     \<lparr>sw_id = at_id s, sw_date = at_date s, sw_status = at_status s,
      sw_time_in = at_effective_in s, sw_time_out = at_effective_out s,
      sw_credited = at_credited s, sw_flags = at_flags s\<rparr>"

definition handle_Today :: "tzdb \<Rightarrow> clock \<Rightarrow> auth_user \<Rightarrow> database \<Rightarrow> session_view option" where
  "handle_Today tzdb ck actor db =
     (let today = MustLocalDate tzdb (ck_now ck) (st_timezone (db_settings db))
      in map_option session_view_of
           (List.find (\<lambda>s. session_owner db s = Some (ac_id actor) \<and> at_date s = today)
              (db_attendance db)))"

record history_item =
  hi_session :: session_view
  hi_site_name :: string
  hi_journal :: "journal_status option"

definition attendance_status_text :: "attendance_status \<Rightarrow> string" where
  "attendance_status_text st = (case st of AtOpen \<Rightarrow> ''open'' | AtValid \<Rightarrow> ''valid''
     | AtFlagged \<Rightarrow> ''flagged'' | AtCorrected \<Rightarrow> ''corrected'')"

definition history_matches ::
  "uuid \<Rightarrow> date option \<Rightarrow> date option \<Rightarrow> string \<Rightarrow> database \<Rightarrow> attendance_row \<Rightarrow> bool" where
  "history_matches userID from till status db s =
     (session_owner db s = Some userID \<and> opt_all (\<lambda>d. d \<le> at_date s) from \<and>
      opt_all (\<lambda>d. at_date s \<le> d) till \<and>
      (status = [] \<or> attendance_status_text (at_status s) = status))"

definition history_item_of :: "database \<Rightarrow> attendance_row \<Rightarrow> history_item option" where
  "history_item_of db s =
     map_option (\<lambda>si. \<lparr>hi_session = session_view_of s, hi_site_name = si_name si,
         hi_journal = map_option jo_status (journal_of (at_id s) db)\<rparr>) (session_site db s)"

definition newest_first :: "attendance_row list \<Rightarrow> attendance_row list" where
  "newest_first rows = order_desc at_date (order_desc at_created rows)"

text \<open>A bound that is no date fails the query, and an empty one is no bound.\<close>

definition date_bound :: "(string \<Rightarrow> date option) \<Rightarrow> string \<Rightarrow> date option option" where
  "date_bound pg_date v = (if v = [] then Some None else map_option Some (pg_date v))"

definition handle_History ::
  "(string \<Rightarrow> date option) \<Rightarrow> auth_user \<Rightarrow> int option \<Rightarrow> int option \<Rightarrow> string \<Rightarrow> string \<Rightarrow> string \<Rightarrow>
   database \<Rightarrow> api_error + history_item list \<times> page_meta" where
  "handle_History pg_date actor page_q size_q from till status db =
     (case (date_bound pg_date from, date_bound pg_date till) of
        (Some f, Some t) \<Rightarrow>
          let page = ParsePage page_q size_q;
              rows = filter (history_matches (ac_id actor) f t status db) (db_attendance db);
              joined = List.map_filter (history_item_of db) (newest_first rows)
          in (case page_rows page joined of
                Inl e \<Rightarrow> Inl Internal
              | Inr items \<Rightarrow> Inr (items, NewPageMeta page (int (length rows))))
      | _ \<Rightarrow> Inl Internal)"

section \<open>One session\<close>

record evidence_ref =
  er_action :: evidence_action
  er_location_status :: location_status
  er_distance :: "f64 option"
  er_accuracy :: "f64 option"
  er_server_at :: instant
  er_device_at :: "instant option"
  er_exception_reason :: "string option"
  er_width :: int
  er_height :: int

definition evidence_ref_of :: "evidence_row \<Rightarrow> evidence_ref" where
  "evidence_ref_of e =
     \<lparr>er_action = ev_action e, er_location_status = ev_location_status e,
      er_distance = ev_distance e, er_accuracy = ev_accuracy e, er_server_at = ev_server_at e,
      er_device_at = ev_device_at e, er_exception_reason = ev_exception_reason e,
      er_width = ev_width e, er_height = ev_height e\<rparr>"

record correction_ref =
  rr_id :: uuid
  rr_type :: correction_type
  rr_status :: correction_status
  rr_reason :: string
  rr_proposed_in :: "instant option"
  rr_proposed_out :: "instant option"
  rr_comment :: "string option"
  rr_requested :: instant
  rr_decided :: "instant option"

definition correction_ref_of :: "correction_row \<Rightarrow> correction_ref" where
  "correction_ref_of c =
     \<lparr>rr_id = cr_id c, rr_type = cr_type c, rr_status = cr_status c, rr_reason = cr_reason c,
      rr_proposed_in = cr_proposed_in c, rr_proposed_out = cr_proposed_out c,
      rr_comment = cr_comment c, rr_requested = cr_requested c, rr_decided = cr_decided c\<rparr>"

record session_detail =
  sd_session :: session_view
  sd_original_in :: instant
  sd_original_out :: "instant option"
  sd_trainee_name :: string
  sd_site_name :: string
  sd_evidence :: "evidence_ref list"
  sd_corrections :: "correction_ref list"
  sd_journal :: "uuid option"

definition ErrAttendanceNotFound :: api_error where
  "ErrAttendanceNotFound = httpx_new 404 ''ATTENDANCE_NOT_FOUND''"

text \<open>The owner of a session, or staff in scope.\<close>

definition may_read :: "auth_user \<Rightarrow> uuid \<Rightarrow> uuid \<Rightarrow> database \<Rightarrow> bool" where
  "may_read actor ownerUser traineeID db =
     (ac_id actor = ownerUser \<or> CanAccessTrainee actor traineeID db)"

definition session_joined ::
  "database \<Rightarrow> attendance_row \<Rightarrow> (trainee_row \<times> user_row \<times> site_row) option" where
  "session_joined db s =
     Option.bind (find_trainee (at_trainee s) db) (\<lambda>tp.
     Option.bind (find_user (tp_user tp) db) (\<lambda>u.
     map_option (\<lambda>si. (tp, u, si)) (session_site db s)))"

definition handle_Detail ::
  "auth_user \<Rightarrow> uuid option \<Rightarrow> database \<Rightarrow> api_error + session_detail" where
  "handle_Detail actor param db =
     (case param of
        None \<Rightarrow> Inl ErrAttendanceNotFound
      | Some i \<Rightarrow>
          (case find_attendance i db of
             None \<Rightarrow> Inl ErrAttendanceNotFound
           | Some s \<Rightarrow>
               (case session_joined db s of
                  None \<Rightarrow> Inl ErrAttendanceNotFound
                | Some (tp, u, si) \<Rightarrow>
                    if \<not> may_read actor (tp_user tp) (at_trainee s) db
                    then Inl ErrAttendanceNotFound
                    else Inr
                      \<lparr>sd_session = session_view_of s, sd_original_in = at_original_in s,
                       sd_original_out = at_original_out s, sd_trainee_name = us_display_name u,
                       sd_site_name = si_name si,
                       sd_evidence = map evidence_ref_of (sort_key ev_server_at
                         (filter (\<lambda>e. ev_attendance e = i) (db_evidence db))),
                       sd_corrections = map correction_ref_of (sort_key cr_requested
                         (filter (\<lambda>c. cr_attendance c = i) (db_corrections db))),
                       sd_journal = map_option jo_id (journal_of i db)\<rparr>)))"

section \<open>Evidence images\<close>

definition evidence_action_of :: "string \<Rightarrow> evidence_action option" where
  "evidence_action_of s =
     (if s = ''time_in'' then Some ActTimeIn
      else if s = ''time_out'' then Some ActTimeOut else None)"

definition handle_AttendanceImage ::
  "(string \<Rightarrow> string option) \<Rightarrow> auth_user \<Rightarrow> uuid option \<Rightarrow> string \<Rightarrow> string \<Rightarrow> database \<Rightarrow>
   api_error + string" where
  "handle_AttendanceImage presign actor param action variant db =
     (case param of
        None \<Rightarrow> Inl ErrNotFound
      | Some i \<Rightarrow>
          (case evidence_action_of action of
             None \<Rightarrow> Inl ErrNotFound
           | Some act \<Rightarrow>
               if variant \<noteq> ''watermarked'' \<and> variant \<noteq> ''original'' then Inl ValidationMsg
               else
                 (case List.find (\<lambda>e. ev_attendance e = i \<and> ev_action e = act) (db_evidence db) of
                    None \<Rightarrow> Inl ErrNotFound
                  | Some e \<Rightarrow>
                      (case find_attendance i db of
                         None \<Rightarrow> Inl ErrNotFound
                       | Some s \<Rightarrow>
                           (case find_trainee (at_trainee s) db of
                              None \<Rightarrow> Inl ErrNotFound
                            | Some tp \<Rightarrow>
                                if \<not> may_read actor (tp_user tp) (at_trainee s) db then Inl ErrNotFound
                                else
                                  (case presign (if variant = ''original'' then ev_original_key e
                                       else ev_watermarked_key e) of
                                     None \<Rightarrow> Inl (httpx_new 503 ''STORAGE_UNAVAILABLE'')
                                   | Some url \<Rightarrow> Inr url))))))"

section \<open>What the reads reveal\<close>

text \<open>The database without one session and what belongs to it.\<close>

definition without_session :: "uuid \<Rightarrow> database \<Rightarrow> database" where
  "without_session i db =
     db\<lparr>db_attendance := filter (\<lambda>s. at_id s \<noteq> i) (db_attendance db),
        db_evidence := filter (\<lambda>e. ev_attendance e \<noteq> i) (db_evidence db)\<rparr>"

lemma find_filtered: "by_key key i (filter (\<lambda>r. key r \<noteq> i) t) = None"
  by (auto simp: by_key_None)

text \<open>
  C27. A session is invisible to everyone but its trainee, the staff in scope and the
  administrators. To anyone else both single-session reads answer, for every identifier, action
  and variant, exactly as they would if the session and its evidence were not in the database
  at all: neither its contents nor its existence shows.
\<close>

theorem session_reads_hidden:
  assumes "find_attendance i db = Some s" and "find_trainee (at_trainee s) db = Some tp"
    and "ac_id actor \<noteq> tp_user tp" and "\<not> CanAccessTrainee actor (at_trainee s) db"
  shows "handle_Detail actor (Some i) db = handle_Detail actor (Some i) (without_session i db) \<and>
    handle_AttendanceImage presign actor (Some i) action variant db =
      handle_AttendanceImage presign actor (Some i) action variant (without_session i db)"
proof -
  have gone: "find_attendance i (without_session i db) = None"
      "List.find (\<lambda>e. ev_attendance e = i \<and> ev_action e = act) (db_evidence (without_session i db)) = None"
    for act
    by (auto simp: find_attendance_def without_session_def find_filtered find_None_all)
  have deny: "\<not> may_read actor (tp_user tp) (at_trainee s) db"
    using assms(3,4) by (simp add: may_read_def)
  have "handle_Detail actor (Some i) db = Inl ErrAttendanceNotFound"
    using assms(1,2) deny
    by (auto simp: handle_Detail_def session_joined_def split: option.splits bind_splits)
  moreover have "handle_Detail actor (Some i) (without_session i db) = Inl ErrAttendanceNotFound"
    by (simp add: handle_Detail_def gone)
  moreover have "handle_AttendanceImage presign actor (Some i) action variant db =
      handle_AttendanceImage presign actor (Some i) action variant (without_session i db)"
    using assms(1,2) deny
    by (simp add: handle_AttendanceImage_def gone split: option.split)
  ultimately show ?thesis by simp
qed

text \<open>Those who may read the session get it.\<close>

lemma handle_Detail_granted:
  assumes "find_attendance i db = Some s" and "session_joined db s = Some (tp, u, si)"
    and "may_read actor (tp_user tp) (at_trainee s) db"
  shows "\<exists>d. handle_Detail actor (Some i) db = Inr d \<and> sd_session d = session_view_of s"
  using assms by (simp add: handle_Detail_def)

theorem session_reads_hidden_witness:
  "handle_Detail \<lparr>ac_id = 12, ac_email = ''d@x'', ac_role = RCoordinator, ac_status = AccActive,
     ac_name = ''D''\<rparr> (Some 100) demo_open_db =
   handle_Detail \<lparr>ac_id = 12, ac_email = ''d@x'', ac_role = RCoordinator, ac_status = AccActive,
     ac_name = ''D''\<rparr> (Some 100) (without_session 100 demo_open_db)"
proof -
  let ?actor = "\<lparr>ac_id = 12, ac_email = ''d@x'', ac_role = RCoordinator, ac_status = AccActive,
    ac_name = ''D''\<rparr>"
  obtain s where s: "find_attendance 100 demo_open_db = Some s" "at_trainee s = 2"
    by (simp add: find_attendance_def by_key_def demo_open_db_def demo_session_def)
  obtain tp where tp: "find_trainee 2 demo_open_db = Some tp" "tp_user tp = 10"
    by (simp add: find_trainee_def by_key_def demo_open_db_def demo_db_def)
  have "\<not> CanAccessTrainee ?actor 2 demo_open_db"
    by (simp add: CanAccessTrainee_def demo_open_db_def demo_db_def)
  with session_reads_hidden [of 100 demo_open_db s tp ?actor] s tp show ?thesis by simp
qed

end
