(* ===== verification/Dashboard.thy ===== *)
theory Dashboard
  imports Assignments AttendanceRead
begin

text \<open>
  \<open>internal/trainees/dashboard.go\<close>: the trainee's start screen, with the progress of the active
  assignment, today's session and journal, and the action the client offers next.
\<close>

record dashboard_assignment =
  da_id :: uuid
  da_site :: uuid
  da_site_name :: string
  da_required :: int
  da_completed :: int
  da_remaining :: int
  da_percent :: int

text \<open>The sum is cast to a 32-bit integer.\<close>

definition activeAssignment ::
  "uuid \<Rightarrow> date \<Rightarrow> database \<Rightarrow> go_error + dashboard_assignment option" where
  "activeAssignment userID today db =
     (case order_desc as_start
            (filter (\<lambda>a. map_option tp_user (find_trainee (as_trainee a) db) = Some userID \<and>
                in_effect (as_trainee a) today a \<and> find_site (as_site a) db \<noteq> None)
              (db_assignments db)) of
        [] \<Rightarrow> Inr None
      | a # _ \<Rightarrow>
          (case find_site (as_site a) db of
             None \<Rightarrow> Inr None
           | Some si \<Rightarrow>
               let completed = credited_sum (filter (\<lambda>s. at_assignment s = as_id a \<and>
                     at_credited s \<noteq> None) (db_attendance db))
               in if \<not> fits_int4 completed then Inl QueryFailed
                  else Inr (Some \<lparr>da_id = as_id a, da_site = si_id si, da_site_name = si_name si,
                    da_required = as_required a, da_completed = completed,
                    da_remaining = max (as_required a - completed) 0,
                    da_percent = (if 0 < as_required a
                      then min (quot (completed * 100) (as_required a)) 100 else 0)\<rparr>)))"

record today_session =
  td_id :: uuid
  td_status :: attendance_status
  td_time_in :: instant
  td_time_out :: "instant option"

definition today_session_of :: "attendance_row \<Rightarrow> today_session" where
  "today_session_of s = \<lparr>td_id = at_id s, td_status = at_status s,
     td_time_in = at_effective_in s, td_time_out = at_effective_out s\<rparr>"

definition todayAttendance :: "uuid \<Rightarrow> date \<Rightarrow> database \<Rightarrow> today_session option" where
  "todayAttendance userID today db =
     map_option today_session_of
       (List.find (\<lambda>s. session_owner db s = Some userID \<and> at_date s = today) (db_attendance db))"

definition journalFor :: "uuid \<Rightarrow> database \<Rightarrow> (uuid \<times> journal_status) option" where
  "journalFor attendanceID db = map_option (\<lambda>j. (jo_id j, jo_status j)) (journal_of attendanceID db)"

datatype next_action = ContactCoordinator | OfferTimeIn | OfferTimeOut | ReviseJournal
  | CompleteJournal | ViewSummary

definition nextAction ::
  "dashboard_assignment option \<Rightarrow> attendance_status option \<Rightarrow> journal_status option \<Rightarrow> next_action"
where
  "nextAction asn attendance journal =
     (if asn = None then ContactCoordinator
      else if attendance = None then OfferTimeIn
      else if attendance = Some AtOpen then OfferTimeOut
      else if journal = None then ViewSummary
      else if journal = Some JNeedsRevision then ReviseJournal
      else if journal = Some JDraft then CompleteJournal
      else ViewSummary)"

record dashboard =
  ds_assignment :: "dashboard_assignment option"
  ds_today :: "today_session option"
  ds_journal :: "(uuid \<times> journal_status) option"
  ds_unread :: int
  ds_next :: next_action

definition handle_Dashboard :: "tzdb \<Rightarrow> clock \<Rightarrow> auth_user \<Rightarrow> database \<Rightarrow> api_error + dashboard" where
  "handle_Dashboard tzdb ck actor db =
     (let today = MustLocalDate tzdb (ck_now ck) (st_timezone (db_settings db))
      in case activeAssignment (ac_id actor) today db of
           Inl e \<Rightarrow> Inl Internal
         | Inr asn \<Rightarrow>
             let att = todayAttendance (ac_id actor) today db;
                 journal = Option.bind att (\<lambda>s. journalFor (td_id s) db)
             in Inr \<lparr>ds_assignment = asn, ds_today = att, ds_journal = journal,
                  ds_unread = int (length (filter (\<lambda>n. nt_recipient n = ac_id actor \<and> nt_read n = None)
                    (db_notifications db))),
                  ds_next = nextAction asn (map_option td_status att) (map_option snd journal)\<rparr>)"

section \<open>The dashboard and the services agree\<close>

lemma credited_sum_filter:
  "(\<And>s. s \<in> set rows \<Longrightarrow> at_credited s \<noteq> None \<Longrightarrow> p s = q s) \<Longrightarrow>
     credited_sum (filter p rows) = credited_sum (filter q rows)"
proof (induction rows)
  case (Cons s rows)
  then have "credited_sum (filter p rows) = credited_sum (filter q rows)" by simp
  with Cons.prems [of s] show ?case by (cases "at_credited s") (auto simp: credited_sum_def)
qed (simp add: credited_sum_def)

text \<open>Only sessions with a counted status carry credit, and a session is its assignment's trainee's.\<close>

definition credit_ok :: "database \<Rightarrow> bool" where
  "credit_ok db \<longleftrightarrow>
     (\<forall>s\<in>set (db_attendance db). at_credited s \<noteq> None \<longrightarrow> counted_status (at_status s))"

definition trainees_ok :: "database \<Rightarrow> bool" where
  "trainees_ok db \<longleftrightarrow> unique_on tp_id (db_trainees db) \<and> unique_on tp_user (db_trainees db)"

lemma owner_iff:
  assumes "trainees_ok db" and "trainee_of_user userID db = Some tp"
  shows "map_option tp_user (find_trainee t db) = Some userID \<longleftrightarrow> t = tp_id tp"
proof
  have tp: "tp \<in> set (db_trainees db)" "tp_user tp = userID"
    using assms(2) by (auto simp: trainee_of_user_def dest: by_key_mem)
  show "t = tp_id tp \<Longrightarrow> map_option tp_user (find_trainee t db) = Some userID"
    using by_key_unique [of tp_id "db_trainees db" tp] assms(1) tp
    by (simp add: trainees_ok_def find_trainee_def)
  assume "map_option tp_user (find_trainee t db) = Some userID"
  then obtain r where "r \<in> set (db_trainees db)" "tp_id r = t" "tp_user r = userID"
    by (auto simp: find_trainee_def dest: by_key_mem)
  with tp assms(1) unique_on_inj [of tp_user "db_trainees db" r tp] show "t = tp_id tp"
    by (simp add: trainees_ok_def)
qed

lemma completed_agree:
  assumes "credit_ok db"
  shows "credited_sum (filter (\<lambda>s. at_assignment s = a \<and> at_credited s \<noteq> None) (db_attendance db)) =
      completed_minutes a db"
    and "pv_completed (progress a required db) = completed_minutes a db"
  using assms
  by (auto simp: completed_minutes_def progress_def Let_def credit_ok_def intro!: credited_sum_filter)

text \<open>
  The dashboard tells the trainee what the attendance service will do. It shows an
  assignment exactly when a Time In would find one, the same one; it offers Time In exactly when
  there is an assignment and no session today, and Time Out exactly when there is an assignment
  and today's session is open; and its completed minutes, remaining minutes and percentage are
  those a Time Out reports, although the three queries select the sessions in different ways.
\<close>

theorem dashboard_agrees:
  assumes "trainees_ok db" and "credit_ok db" and "trainee_of_user (ac_id actor) db = Some tp"
    and "today = MustLocalDate tzdb (ck_now ck) (st_timezone (db_settings db))"
    and "tc_trainee tc = tp_id tp" and "handle_Dashboard tzdb ck actor db = Inr d"
  shows "map_option da_id (ds_assignment d) = map_option sx_assignment (activeSite tc today db) \<and>
    (ds_next d = OfferTimeIn \<longleftrightarrow> activeSite tc today db \<noteq> None \<and>
       (\<forall>s\<in>set (db_attendance db). \<not> (at_trainee s = tp_id tp \<and> at_date s = today))) \<and>
    (ds_next d = OfferTimeOut \<longleftrightarrow> activeSite tc today db \<noteq> None \<and>
       map_option td_status (ds_today d) = Some AtOpen) \<and>
    (\<forall>a. ds_assignment d = Some a \<longrightarrow>
       (let p = progress (da_id a) (da_required a) db
        in da_completed a = pv_completed p \<and> da_remaining a = pv_remaining p \<and>
           da_percent a = pv_percent p))"
proof -
  let ?uid = "ac_id actor"
  obtain asn where asn: "activeAssignment ?uid today db = Inr asn"
    and d: "ds_assignment d = asn" "ds_today d = todayAttendance ?uid today db"
      "ds_next d = nextAction asn (map_option td_status (ds_today d)) (map_option snd (ds_journal d))"
    using assms(4,6) by (auto simp: handle_Dashboard_def Let_def split: sum.splits)
  have eff: "in_effect (as_trainee a) today a \<and> as_trainee a = tp_id tp \<longleftrightarrow> in_effect (tp_id tp) today a" for a
    by (auto simp: in_effect_def)
  have rows: "filter (\<lambda>a. map_option tp_user (find_trainee (as_trainee a) db) = Some ?uid \<and>
        in_effect (as_trainee a) today a \<and> find_site (as_site a) db \<noteq> None) (db_assignments db) =
      filter (\<lambda>a. in_effect (tc_trainee tc) today a \<and> find_site (as_site a) db \<noteq> None) (db_assignments db)"
    unfolding owner_iff [OF assms(1,3)] assms(5) by (metis (lifting) eff)
  have ids: "map_option da_id asn = map_option sx_assignment (activeSite tc today db)"
    using asn unfolding activeAssignment_def activeSite_def rows
    by (auto simp: Let_def site_ctx_of_def split: list.splits option.splits if_splits)
  have none: "todayAttendance ?uid today db = None \<longleftrightarrow>
      (\<forall>s\<in>set (db_attendance db). \<not> (at_trainee s = tp_id tp \<and> at_date s = today))"
    by (auto simp: todayAttendance_def find_None_all session_owner_def owner_iff [OF assms(1,3), simplified])
  have progress: "da_completed a = pv_completed p \<and> da_remaining a = pv_remaining p \<and>
      da_percent a = pv_percent p"
    if "asn = Some a" "p = progress (da_id a) (da_required a) db" for a p
    using asn that completed_agree [OF assms(2)] unfolding activeAssignment_def
    by (auto simp: Let_def progress_def ProgressPercent_def split: list.splits option.splits if_splits)
  have site: "asn \<noteq> None \<longleftrightarrow> activeSite tc today db \<noteq> None"
    using ids by (cases asn; cases "activeSite tc today db") auto
  have "ds_next d = OfferTimeIn \<longleftrightarrow> asn \<noteq> None \<and> todayAttendance ?uid today db = None"
    "ds_next d = OfferTimeOut \<longleftrightarrow> asn \<noteq> None \<and> map_option td_status (ds_today d) = Some AtOpen"
    unfolding d(3) by (auto simp: nextAction_def d(2) split: if_splits)
  then show ?thesis using ids none site progress d(1) by (simp add: Let_def)
qed

definition demo_trainee_user :: auth_user where
  "demo_trainee_user = \<lparr>ac_id = 10, ac_email = ''t@x'', ac_role = RTrainee, ac_status = AccActive,
     ac_name = ''T''\<rparr>"

lemma demo_dashboard:
  "\<exists>d. handle_Dashboard (\<lambda>_. Some (\<lambda>_. 0)) (demo_clock 5) demo_trainee_user demo_open_db = Inr d \<and>
     map_option td_status (ds_today d) = Some AtOpen"
  by (simp add: handle_Dashboard_def MustLocalDate_def LocalDate_def date_in_def us_per_day_def
      activeAssignment_def todayAttendance_def session_owner_def order_desc_def in_effect_def
      find_site_def find_trainee_def by_key_def demo_open_db_def demo_session_def demo_db_defs
      credited_sum_def fits_int4_def today_session_of_def demo_trainee_user_def Let_def)

theorem dashboard_agrees_witness:
  "\<exists>d. handle_Dashboard (\<lambda>_. Some (\<lambda>_. 0)) (demo_clock 5) demo_trainee_user demo_open_db = Inr d \<and>
     ds_next d = OfferTimeOut"
proof -
  obtain d where d: "handle_Dashboard (\<lambda>_. Some (\<lambda>_. 0)) (demo_clock 5) demo_trainee_user demo_open_db = Inr d"
    and st: "map_option td_status (ds_today d) = Some AtOpen" using demo_dashboard by blast
  define tc where "tc = \<lparr>tc_trainee = 2, tc_name = ''T'', tc_student = ''S1'',
    tc_timezone = ''UTC'', tc_low_accuracy = Fin 100, tc_unusual = 960\<rparr>"
  obtain tp where tp: "trainee_of_user (ac_id demo_trainee_user) demo_open_db = Some tp" "tp_id tp = 2"
    by (simp add: trainee_of_user_def by_key_def demo_open_db_def demo_db_def demo_trainee_user_def)
  have ok: "trainees_ok demo_open_db" "credit_ok demo_open_db"
    by (simp_all add: trainees_ok_def credit_ok_def unique_on_def demo_open_db_def demo_session_def demo_db_def)
  have today: "0 = MustLocalDate (\<lambda>_. Some (\<lambda>_. 0)) (ck_now (demo_clock 5))
      (st_timezone (db_settings demo_open_db))"
    by (simp add: MustLocalDate_def LocalDate_def date_in_def us_per_day_def demo_clock_def)
  have tc: "tc_trainee tc = tp_id tp" by (simp add: tc_def tp(2))
  have site: "activeSite tc 0 demo_open_db \<noteq> None"
    by (simp add: activeSite_def in_effect_def find_site_def by_key_def order_desc_def
        demo_open_db_def demo_db_defs tc_def)
  from dashboard_agrees [OF ok tp(1) today tc d] st site d show ?thesis by blast
qed

end
