(* ===== verification/CsvWriter.thy ===== *)
theory CsvWriter
  imports Csv
begin

text \<open>
  Go's \<open>encoding/csv.Writer\<close> with its defaults, which the report export uses, and that the reader
  of \<open>Csv\<close> takes back what it writes. The texts must be free of carriage returns, which the
  reader drops before a line feed, and a record of one empty field would be an empty line.
\<close>

section \<open>The writer\<close>

definition fieldNeedsQuotes :: "string \<Rightarrow> bool" where
  "fieldNeedsQuotes f =
     (f \<noteq> [] \<and>
      (f = [CHR 0x5C, CHR ''.''] \<or> list_ex (\<lambda>c. c = NL \<or> c = CR \<or> c = QUOTE \<or> c = COMMA) f \<or>
       strip_any space_encodings f \<noteq> None))"

fun escape :: "string \<Rightarrow> string" where
  "escape [] = []"
| "escape (c # cs) = (if c = QUOTE then QUOTE # QUOTE # escape cs else c # escape cs)"

definition write_field :: "string \<Rightarrow> string" where
  "write_field f = (if fieldNeedsQuotes f then QUOTE # escape f @ [QUOTE] else f)"

fun write_fields :: "string list \<Rightarrow> string" where
  "write_fields [] = [NL]"
| "write_fields [f] = write_field f @ [NL]"
| "write_fields (f # fs) = write_field f @ COMMA # write_fields fs"

definition csv_write :: "string list list \<Rightarrow> string" where
  "csv_write rows = concat (map write_fields rows)"

section \<open>The reader on lines\<close>

text \<open>\<open>ahead s l ls\<close>: the reader has \<open>s\<close> before it, the rest of a line in \<open>l\<close>.\<close>

definition ahead :: "string \<Rightarrow> string \<Rightarrow> string list \<Rightarrow> bool" where
  "ahead s l ls \<longleftrightarrow> l # ls = split_lines s \<or> (l = [] \<and> ls = split_lines s)"

lemma char_facts [simp]:
  "QUOTE \<noteq> NL" "COMMA \<noteq> NL" "QUOTE \<noteq> COMMA" "NL \<noteq> QUOTE" "NL \<noteq> COMMA" "COMMA \<noteq> QUOTE"
  by (simp_all add: QUOTE_def NL_def COMMA_def)

lemma split_lines_not_Nil: "[] \<notin> set (split_lines s)"
  by (induction s) (auto split: list.splits)

lemma split_lines_eq_Nil [simp]: "split_lines s = [] \<longleftrightarrow> s = []"
  by (cases s) (auto split: list.splits)

lemma split_lines_cons: "c \<noteq> NL \<Longrightarrow> l # ls = split_lines s \<Longrightarrow> split_lines (c # s) = (c # l) # ls"
  by (cases "split_lines s") auto

lemma ahead_cons:
  assumes "ahead (c # s) l ls"
  obtains cs ls' where "l = c # cs \<and> ls' = ls \<or> l = [] \<and> ls = (c # cs) # ls'"
    and "ahead s cs ls'" and "c \<noteq> NL \<Longrightarrow> s \<noteq> [] \<Longrightarrow> cs # ls' = split_lines s"
    and "c = NL \<Longrightarrow> cs = [] \<and> ls' = split_lines s"
proof -
  obtain cs ls' where sl: "split_lines (c # s) = (c # cs) # ls'"
    and c: "ahead s cs ls'" "c \<noteq> NL \<Longrightarrow> s \<noteq> [] \<Longrightarrow> cs # ls' = split_lines s"
      "c = NL \<Longrightarrow> cs = [] \<and> ls' = split_lines s"
    by (cases "c = NL"; cases "split_lines s") (auto simp: ahead_def)
  have "l = c # cs \<and> ls' = ls \<or> l = [] \<and> ls = (c # cs) # ls'"
    using assms sl by (auto simp: ahead_def)
  with c that show thesis by blast
qed

lemma csv_quoted_skip: "l \<noteq> [] \<Longrightarrow> csv_quoted buf [] (l # ls) = csv_quoted buf l ls"
  by simp

lemma csv_quoted_char:
  assumes "ahead (c # s) l ls" and "c \<noteq> QUOTE"
  obtains l' ls' where "ahead s l' ls'" and "csv_quoted buf l ls = csv_quoted (buf @ [c]) l' ls'"
proof -
  from assms(1) obtain cs ls' where
    "l = c # cs \<and> ls' = ls \<or> l = [] \<and> ls = (c # cs) # ls'" "ahead s cs ls'"
    by (rule ahead_cons)
  with assms(2) that show thesis by auto
qed

lemma csv_quoted_quote:
  assumes "ahead (QUOTE # d # s) l ls"
  obtains ds ls' where "(d # ds) # ls' = split_lines (d # s)"
    and "csv_quoted buf l ls =
      (if d = QUOTE then csv_quoted (buf @ [QUOTE]) ds ls'
       else if d = COMMA then (ls', Some (buf, Some ds))
       else if d = NL then (ls', Some (buf, None)) else csv_quoted buf l ls)"
proof -
  from assms obtain cs ls' where l: "l = QUOTE # cs \<and> ls' = ls \<or> l = [] \<and> ls = (QUOTE # cs) # ls'"
    and "QUOTE \<noteq> NL \<Longrightarrow> d # s \<noteq> [] \<Longrightarrow> cs # ls' = split_lines (d # s)"
    by (rule ahead_cons) blast
  then have sl: "cs # ls' = split_lines (d # s)" by simp
  then obtain ds where cs: "cs = d # ds" and "d = NL \<Longrightarrow> ds = []"
    by (cases "d = NL"; cases "split_lines s") auto
  with l have "csv_quoted buf l ls =
      (if d = QUOTE then csv_quoted (buf @ [QUOTE]) ds ls'
       else if d = COMMA then (ls', Some (buf, Some ds))
       else if d = NL then (ls', Some (buf, None)) else csv_quoted buf l ls)"
    by auto
  with that sl cs show thesis by blast
qed

lemma ahead_tl:
  assumes "(d # ds) # ls' = split_lines (d # s)"
  shows "ahead s ds ls'" and "d \<noteq> NL \<Longrightarrow> s \<noteq> [] \<Longrightarrow> ds # ls' = split_lines s"
    and "d = NL \<Longrightarrow> ls' = split_lines s"
  using assms by (cases "d = NL"; cases "split_lines s"; auto simp: ahead_def)+

lemma csv_quoted_escape:
  "ahead (escape f @ QUOTE # d # s) l ls \<Longrightarrow> d = COMMA \<or> d = NL \<Longrightarrow>
   \<exists>ds ls'. (d # ds) # ls' = split_lines (d # s) \<and>
     csv_quoted buf l ls = (ls', Some (buf @ f, if d = COMMA then Some ds else None))"
proof (induction f arbitrary: buf l ls)
  case Nil
  then have "ahead (QUOTE # d # s) l ls" by simp
  then obtain ds ls' where "(d # ds) # ls' = split_lines (d # s)"
      "csv_quoted buf l ls =
      (if d = QUOTE then csv_quoted (buf @ [QUOTE]) ds ls'
       else if d = COMMA then (ls', Some (buf, Some ds))
       else if d = NL then (ls', Some (buf, None)) else csv_quoted buf l ls)"
    by (rule csv_quoted_quote)
  with Nil.prems(2) show ?case by auto
next
  case (Cons c f)
  show ?case
  proof (cases "c = QUOTE")
    case True
    then have "ahead (QUOTE # QUOTE # escape f @ QUOTE # d # s) l ls" using Cons.prems(1) by simp
    then obtain ds ls' where d: "(QUOTE # ds) # ls' = split_lines (QUOTE # escape f @ QUOTE # d # s)"
        "csv_quoted buf l ls = csv_quoted (buf @ [QUOTE]) ds ls'"
      by (rule csv_quoted_quote) simp
    from Cons.IH [OF ahead_tl(1) [OF d(1)] Cons.prems(2), of "buf @ [QUOTE]"] d(2) True
    show ?thesis by simp
  next
    case False
    then have "ahead (c # escape f @ QUOTE # d # s) l ls" using Cons.prems(1) by simp
    then obtain l' ls' where "ahead (escape f @ QUOTE # d # s) l' ls'"
        "csv_quoted buf l ls = csv_quoted (buf @ [c]) l' ls'"
      by (rule csv_quoted_char [OF _ False])
    from Cons.IH [OF this(1) Cons.prems(2), of "buf @ [c]"] this(2) show ?thesis by simp
  qed
qed

section \<open>One field\<close>

text \<open>White space before a field is none of the bytes that end it.\<close>

lemma strip_prefix_app:
  "strip_prefix p (f @ d # r) \<noteq> None \<Longrightarrow> f \<noteq> [] \<Longrightarrow> d \<notin> set (tl p) \<Longrightarrow> strip_prefix p f \<noteq> None"
proof -
  have gen: "strip_prefix p (f @ d # r) \<noteq> None \<Longrightarrow> d \<notin> set p \<Longrightarrow> strip_prefix p f \<noteq> None" for p f
    by (induction p f rule: strip_prefix.induct) (auto split: if_splits)
  assume "strip_prefix p (f @ d # r) \<noteq> None" "f \<noteq> []" "d \<notin> set (tl p)"
  then show ?thesis using gen [of "tl p" "tl f"] by (cases p; cases f) (auto split: if_splits)
qed

lemma strip_any_app:
  "strip_any ps (f @ d # r) \<noteq> None \<Longrightarrow> f \<noteq> [] \<Longrightarrow> \<forall>p\<in>set ps. d \<notin> set (tl p) \<Longrightarrow>
     strip_any ps f \<noteq> None"
proof (induction ps)
  case (Cons p ps)
  then show ?case using strip_prefix_app [of p f d r]
    by (cases "strip_prefix p (f @ d # r)") (auto split: option.splits)
qed simp

lemma space_tails: "\<forall>p\<in>set space_encodings. COMMA \<notin> set (tl p)" "\<forall>p\<in>set space_encodings. NL \<notin> set (tl p)"
  by (simp_all add: space_encodings_def COMMA_def NL_def)

lemma no_space_start:
  assumes "strip_any space_encodings s = None"
  shows "trim_front space_encodings s = s"
  using assms by (simp add: trim_front.simps)

lemma trim_field:
  assumes "f \<noteq> []" and "strip_any space_encodings f = None" and "d = COMMA \<or> d = NL"
  shows "trim_front space_encodings (f @ d # r) = f @ d # r"
proof (rule no_space_start, rule ccontr)
  assume "strip_any space_encodings (f @ d # r) \<noteq> None"
  from strip_any_app [OF this assms(1)] assms(2,3) space_tails show False by auto
qed

lemma trim_comma: "trim_front space_encodings (COMMA # r) = COMMA # r"
  by (rule no_space_start) (simp add: space_encodings_def COMMA_def)

lemma trim_quote: "trim_front space_encodings (QUOTE # r) = QUOTE # r"
  by (rule no_space_start) (simp add: space_encodings_def QUOTE_def)

lemma trim_nl: "trim_front space_encodings [NL] = []"
  by (simp add: trim_front.simps space_encodings_def NL_def)

lemma plain_field:
  assumes "\<not> fieldNeedsQuotes f"
  shows "NL \<notin> set f" "QUOTE \<notin> set f" "COMMA \<notin> set f" "f \<noteq> [] \<Longrightarrow> strip_any space_encodings f = None"
  using assms by (auto simp: fieldNeedsQuotes_def list_ex_iff)

lemma split_lines_plain:
  "NL \<notin> set f \<Longrightarrow> l # ls = split_lines s \<Longrightarrow> split_lines (f @ s) = (f @ l) # ls"
  by (induction f) auto

lemma takeWhile_plain: "COMMA \<notin> set f \<Longrightarrow> takeWhile (\<lambda>c. c \<noteq> COMMA) (f @ COMMA # r) = f"
  by (simp add: takeWhile_append)

lemma dropWhile_plain: "COMMA \<notin> set f \<Longrightarrow> dropWhile (\<lambda>c. c \<noteq> COMMA) (f @ COMMA # r) = COMMA # r"
  by (simp add: dropWhile_append)

lemma drop_nl_snoc [simp]: "drop_nl (f @ [NL]) = f"
  by (simp add: drop_nl_def)

lemma csv_record_plain_comma:
  assumes "\<not> fieldNeedsQuotes f"
  shows "csv_record acc (f @ COMMA # r) ls = csv_record (acc @ [f]) r ls"
proof -
  have t: "trim_front space_encodings (f @ COMMA # r) = f @ COMMA # r"
    using trim_field [of f COMMA r] plain_field [OF assms] trim_comma by (cases "f = []") auto
  have "hd (f @ COMMA # r) \<noteq> QUOTE" using plain_field [OF assms] by (cases f) auto
  then show ?thesis
    using plain_field [OF assms]
    by (subst csv_record.simps) (simp add: t Let_def takeWhile_plain dropWhile_plain)
qed

lemma csv_record_plain_end:
  assumes "\<not> fieldNeedsQuotes f"
  shows "csv_record acc (f @ [NL]) ls = (ls, Some (acc @ [f]))"
proof (cases "f = []")
  case True
  then show ?thesis
    by (subst csv_record.simps) (simp add: trim_nl drop_nl_def)
next
  case False
  have t: "trim_front space_encodings (f @ [NL]) = f @ [NL]"
    using trim_field [of f NL "[]"] plain_field [OF assms] False by simp
  have "hd (f @ [NL]) \<noteq> QUOTE" "takeWhile (\<lambda>c. c \<noteq> COMMA) (f @ [NL]) = f @ [NL]"
    using plain_field [OF assms] False by (cases f, auto)
  then show ?thesis
    using plain_field [OF assms] by (subst csv_record.simps) (simp add: t Let_def)
qed

section \<open>Records and files\<close>

lemma write_fields_cons:
  "write_fields (f # g # fs) = write_field f @ COMMA # write_fields (g # fs)"
  by simp

lemma quoted_line:
  assumes "line # ls = split_lines (QUOTE # t)" and "t \<noteq> []"
  obtains l where "line = QUOTE # l" and "ahead t l ls"
  using assms by (cases "split_lines t") (auto simp: ahead_def)

lemma csv_record_quoted:
  assumes "line # ls = split_lines (QUOTE # escape f @ QUOTE # d # s)" and "d = COMMA \<or> d = NL"
  obtains ds ls' where "(d # ds) # ls' = split_lines (d # s)"
    and "csv_record acc line ls =
      (if d = COMMA then csv_record (acc @ [f]) ds ls' else (ls', Some (acc @ [f])))"
proof -
  from quoted_line [OF assms(1)] obtain l where l: "line = QUOTE # l"
    "ahead (escape f @ QUOTE # d # s) l ls" by blast
  from csv_quoted_escape [OF l(2) assms(2), of "[]"] obtain ds ls' where
    q: "(d # ds) # ls' = split_lines (d # s)"
      "csv_quoted [] l ls = (ls', Some (f, if d = COMMA then Some ds else None))"
    by auto
  have "csv_record acc line ls =
      (if d = COMMA then csv_record (acc @ [f]) ds ls' else (ls', Some (acc @ [f])))"
    using q(2) by (subst csv_record.simps) (simp add: l(1) trim_quote)
  with that q(1) show thesis by blast
qed

lemma csv_record_row:
  "fs \<noteq> [] \<Longrightarrow> line # ls = split_lines (write_fields fs @ s) \<Longrightarrow>
     csv_record acc line ls = (split_lines s, Some (acc @ fs))"
proof (induction fs arbitrary: acc line ls rule: write_fields.induct)
  case (2 f)
  show ?case
  proof (cases "fieldNeedsQuotes f")
    case True
    then have "line # ls = split_lines (QUOTE # escape f @ QUOTE # NL # s)"
      using 2 by (simp add: write_field_def)
    from csv_record_quoted [OF this, of acc] show ?thesis by auto
  next
    case False
    have "split_lines (f @ [NL] @ s) = (f @ [NL]) # split_lines s"
      using split_lines_plain [OF plain_field(1) [OF False], of "[NL]" "split_lines s" "NL # s"] by simp
    with 2 False have "line = f @ [NL]" "ls = split_lines s" by (simp_all add: write_field_def)
    then show ?thesis using csv_record_plain_end [OF False] by simp
  qed
next
  case (3 f g fs)
  let ?rest = "write_fields (g # fs) @ s"
  have ne: "?rest \<noteq> []" by (cases fs) auto
  show ?case
  proof (cases "fieldNeedsQuotes f")
    case True
    then have "line # ls = split_lines (QUOTE # escape f @ QUOTE # COMMA # ?rest)"
      using "3.prems" by (simp add: write_field_def)
    from csv_record_quoted [OF this, of acc] obtain ds ls' where
      d: "(COMMA # ds) # ls' = split_lines (COMMA # ?rest)"
        "csv_record acc line ls = csv_record (acc @ [f]) ds ls'" by auto
    from ahead_tl(2) [OF d(1)] ne have "ds # ls' = split_lines ?rest" by simp
    from "3.IH" [OF _ this, of "acc @ [f]"] d(2) show ?thesis by simp
  next
    case False
    obtain l ls' where l: "l # ls' = split_lines ?rest" using ne by (cases "split_lines ?rest") auto
    then have "split_lines (COMMA # ?rest) = (COMMA # l) # ls'"
      by (metis char_facts(2) split_lines_cons)
    from split_lines_plain [OF plain_field(1) [OF False] this [symmetric]]
    have "line = f @ COMMA # l" "ls = ls'" using "3.prems" False by (simp_all add: write_field_def)
    then show ?thesis using csv_record_plain_comma [OF False] "3.IH" [OF _ l, of "acc @ [f]"] by simp
  qed
qed simp

text \<open>A written record starts with no line feed, unless it is one empty field.\<close>

lemma write_fields_head:
  assumes "fs \<noteq> []" and "fs \<noteq> [[]]"
  obtains c t where "write_fields fs @ s = c # t" and "c \<noteq> NL"
proof -
  obtain f gs where fs: "fs = f # gs" using assms(1) by (cases fs) auto
  show thesis
  proof (cases "fieldNeedsQuotes f")
    case True
    with that show thesis by (cases gs) (auto simp: fs write_field_def)
  next
    case False
    with that assms(2) plain_field(1) [OF False] show thesis
      by (cases f; cases gs) (auto simp: fs write_field_def)
  qed
qed

lemma csv_read_rows:
  "\<forall>r\<in>set rows. r \<noteq> [] \<and> r \<noteq> [[]] \<and> length r = k \<Longrightarrow> n = None \<or> n = Some k \<Longrightarrow>
     csv_read n (split_lines (csv_write rows)) = map Some rows"
proof (induction rows arbitrary: n)
  case Nil
  then show ?case by (simp add: csv_write_def)
next
  case (Cons r rows)
  let ?s = "csv_write rows"
  have r: "r \<noteq> []" "r \<noteq> [[]]" "length r = k" using Cons.prems(1) by simp_all
  from write_fields_head [OF r(1,2), of ?s] obtain c t where t: "write_fields r @ ?s = c # t" "c \<noteq> NL" .
  then obtain l ls where l: "(c # l) # ls = split_lines (write_fields r @ ?s)"
    by (cases "split_lines t") auto
  have "drop_nl (c # l) \<noteq> []" using t(2) by (auto simp: drop_nl_def)
  moreover have "csv_record [] (c # l) ls = (split_lines ?s, Some r)"
    using csv_record_row [OF r(1) l] by simp
  moreover have "csv_read (Some k) (split_lines ?s) = map Some rows"
    using Cons.IH [of "Some k"] Cons.prems(1) by simp
  moreover have "split_lines (csv_write (r # rows)) = (c # l) # ls"
    using l by (simp add: csv_write_def)
  ultimately show ?case using Cons.prems(2) r(3) by auto
qed

lemma concat_split_lines: "concat (split_lines s) = s"
  by (induction s) (auto split: list.splits)

lemma split_lines_set: "l \<in> set (split_lines s) \<Longrightarrow> set l \<subseteq> set s"
  by (subst (2) concat_split_lines [symmetric]) auto

lemma norm_line_id: "CR \<notin> set l \<Longrightarrow> norm_line l = l"
  by (auto simp: norm_line_def dest: in_set_butlastD) (metis in_set_butlastD last_in_set)+

lemma csv_roundtrip:
  assumes "\<forall>r\<in>set rows. r \<noteq> [] \<and> r \<noteq> [[]] \<and> length r = k" and "CR \<notin> set (csv_write rows)"
  shows "csv_records (csv_write rows) = map Some rows"
proof -
  have "map norm_line (split_lines (csv_write rows)) = split_lines (csv_write rows)"
    using assms(2) split_lines_set norm_line_id by (intro map_idI) blast
  then show ?thesis using csv_read_rows [OF assms(1), of None] by (simp add: csv_records_def)
qed

lemma set_write_field: "set (write_field f) \<subseteq> insert QUOTE (set f)"
proof -
  have "set (escape f) \<subseteq> insert QUOTE (set f)" by (induction f) auto
  then show ?thesis by (auto simp: write_field_def)
qed

lemma set_write_fields: "set (write_fields fs) \<subseteq> {QUOTE, COMMA, NL} \<union> \<Union> (set ` set fs)"
proof (induction fs rule: write_fields.induct)
  case (3 f g fs)
  then show ?case using set_write_field [of f] by (simp only: write_fields_cons) auto
qed (use set_write_field in auto)

lemma csv_write_no_CR:
  assumes "\<forall>r\<in>set rows. \<forall>f\<in>set r. CR \<notin> set f"
  shows "CR \<notin> set (csv_write rows)"
proof
  assume "CR \<in> set (csv_write rows)"
  then obtain r where "r \<in> set rows" "CR \<in> set (write_fields r)" by (auto simp: csv_write_def)
  with set_write_fields [of r] assms show False by (auto simp: QUOTE_def COMMA_def NL_def CR_def)
qed

end
