(* ===== verification/Reports.thy ===== *)
theory Reports
  imports Dashboard Calendar CsvWriter Journals
begin

text \<open>
  \<open>internal/reports\<close>: the six staff reports as tables of cells, and their CSV export. \<open>coll\<close> is
  the collation of the database, \<open>pg_date\<close> its cast of a text to a date, \<open>uuid_parse\<close> the UUID
  parser. Every query is given six arguments; two of the queries leave the second and third
  unused. Whether the database takes such a statement is the parameter \<open>gaps_ok\<close>: PostgreSQL
  does not, since it cannot determine the type of an argument no expression uses.
\<close>

section \<open>Tables\<close>

datatype cell = CNull | CText string | CInt int | CTime instant

record report =
  rp_name :: string
  rp_columns :: "(string \<times> string) list"
  rp_rows :: "(string \<times> cell) list list"

record report_filters =
  rf_from :: string
  rf_to :: string
  rf_trainee :: string
  rf_site :: string
  rf_status :: string

definition uuidOrNil :: "(string \<Rightarrow> uuid option) \<Rightarrow> string \<Rightarrow> uuid option" where
  "uuidOrNil uuid_parse s = (if s = [] then None else uuid_parse s)"

text \<open>The six arguments, from the scope and the filters; a date that is none fails its query.\<close>

record report_args =
  ra_scope :: "uuid list option"
  ra_from :: "date option option"
  ra_to :: "date option option"
  ra_trainee :: "uuid option"
  ra_site :: "uuid option"
  ra_status :: string

definition report_args_of ::
  "(string \<Rightarrow> date option) \<Rightarrow> (string \<Rightarrow> uuid option) \<Rightarrow> uuid list option \<Rightarrow> report_filters \<Rightarrow> report_args"
where
  "report_args_of pg_date uuid_parse scope f =
     \<lparr>ra_scope = scope, ra_from = date_bound pg_date (rf_from f), ra_to = date_bound pg_date (rf_to f),
      ra_trainee = uuidOrNil uuid_parse (rf_trainee f), ra_site = uuidOrNil uuid_parse (rf_site f),
      ra_status = rf_status f\<rparr>"

definition run_query :: "bool \<Rightarrow> nat list \<Rightarrow> 'r list option \<Rightarrow> go_error + 'r list" where
  "run_query gaps_ok used rows =
     (if \<not> gaps_ok \<and> \<not> list_all (\<lambda>i. i \<in> set used) [1..<7] then Inl QueryFailed
      else case rows of None \<Rightarrow> Inl QueryFailed | Some rs \<Rightarrow> Inr rs)"

definition join_text :: "string \<Rightarrow> string list \<Rightarrow> string" where
  "join_text sep ss = (case ss of [] \<Rightarrow> [] | s # ss \<Rightarrow> s @ concat (map (\<lambda>t. sep @ t) ss))"

definition time_cell :: "instant option \<Rightarrow> cell" where
  "time_cell t = (case t of None \<Rightarrow> CNull | Some t \<Rightarrow> CTime t)"

definition int_cell :: "int option \<Rightarrow> cell" where
  "int_cell n = (case n of None \<Rightarrow> CNull | Some n \<Rightarrow> CInt n)"

section \<open>The rows the reports draw from\<close>

record base_row =
  bw_session :: attendance_row
  bw_trainee :: trainee_row
  bw_user :: user_row
  bw_assignment :: assignment_row
  bw_site :: site_row
  bw_journal :: "journal_row option"

text \<open>\<open>joinBase\<close>, with the profile of the given trainee.\<close>

definition join_base :: "database \<Rightarrow> uuid \<Rightarrow> attendance_row \<Rightarrow> base_row option" where
  "join_base db t s =
     Option.bind (find_trainee t db) (\<lambda>tp.
     Option.bind (find_user (tp_user tp) db) (\<lambda>u.
     Option.bind (find_assignment (at_assignment s) db) (\<lambda>a.
     map_option (\<lambda>si. \<lparr>bw_session = s, bw_trainee = tp, bw_user = u, bw_assignment = a,
       bw_site = si, bw_journal = journal_of (at_id s) db\<rparr>) (find_site (as_site a) db))))"

definition in_dates :: "date option \<Rightarrow> date option \<Rightarrow> date \<Rightarrow> bool" where
  "in_dates from till d = (opt_all (\<lambda>x. x \<le> d) from \<and> opt_all (\<lambda>x. d \<le> x) till)"

text \<open>The predicate of a report, on a trainee and a status of its own.\<close>

definition args_match ::
  "report_args \<Rightarrow> date option \<Rightarrow> date option \<Rightarrow> uuid \<Rightarrow> string \<Rightarrow> base_row \<Rightarrow> bool" where
  "args_match ra from till t status b =
     (in_dates from till (at_date (bw_session b)) \<and> opt_all (\<lambda>x. t = x) (ra_trainee ra) \<and>
      opt_all (\<lambda>x. as_site (bw_assignment b) = x) (ra_site ra) \<and>
      (ra_status ra = [] \<or> status = ra_status ra))"

definition base_rows :: "report_args \<Rightarrow> database \<Rightarrow> base_row list option" where
  "base_rows ra db =
     (case (ra_from ra, ra_to ra) of
        (Some from, Some till) \<Rightarrow> Some
          (filter (\<lambda>b. args_match ra from till (at_trainee (bw_session b))
               (attendance_status_text (at_status (bw_session b))) b)
             (List.map_filter (\<lambda>s. join_base db (at_trainee s) s)
               (filter (\<lambda>s. in_scope (ra_scope ra) (at_trainee s)) (db_attendance db))))
      | _ \<Rightarrow> None)"

definition name_of :: "base_row \<Rightarrow> string" where "name_of b = us_display_name (bw_user b)"

definition by_date_name :: "(string \<Rightarrow> 'k::linorder) \<Rightarrow> ('r \<Rightarrow> date) \<Rightarrow> ('r \<Rightarrow> string) \<Rightarrow> 'r list \<Rightarrow> 'r list"
where
  "by_date_name coll dt nm rows = order_desc dt (sort_key (\<lambda>r. coll (nm r)) rows)"

section \<open>The reports\<close>

definition daily_columns :: "(string \<times> string) list" where
  "daily_columns = [(''date'', ''Date''), (''trainee'', ''Trainee''), (''student_number'', ''Student #''),
     (''site'', ''Site''), (''status'', ''Status''), (''time_in'', ''Time In''), (''time_out'', ''Time Out''),
     (''credited_minutes'', ''Credited Minutes''), (''flags'', ''Flags''), (''journal_status'', ''Journal'')]"

definition daily_cells :: "base_row \<Rightarrow> cell list" where
  "daily_cells b =
     (let s = bw_session b in
      [CText (format_date (at_date s)), CText (name_of b), CText (tp_student_number (bw_trainee b)),
       CText (si_name (bw_site b)), CText (attendance_status_text (at_status s)),
       CTime (at_effective_in s), time_cell (at_effective_out s), int_cell (at_credited s),
       CText (join_text '','' (at_flags s)),
       CText (case bw_journal b of None \<Rightarrow> [] | Some j \<Rightarrow> journal_status_text (jo_status j))])"

definition to_report :: "(string \<times> string) list \<Rightarrow> cell list list \<Rightarrow> report" where
  "to_report cols rows = \<lparr>rp_name = [], rp_columns = cols, rp_rows = map (zip (map fst cols)) rows\<rparr>"

definition dailyAttendance ::
  "(string \<Rightarrow> 'k::linorder) \<Rightarrow> bool \<Rightarrow> report_args \<Rightarrow> database \<Rightarrow> go_error + report" where
  "dailyAttendance coll gaps_ok ra db =
     result_bind (run_query gaps_ok [1, 2, 3, 4, 5, 6] (base_rows ra db)) (\<lambda>rows.
       Inr (to_report daily_columns
         (map daily_cells (by_date_name coll (\<lambda>b. at_date (bw_session b)) name_of rows))))"

text \<open>Monday of the week; day 0 is a Thursday.\<close>

definition week_start :: "date \<Rightarrow> date" where "week_start d = d - (d + 3) mod 7"

definition week_key :: "base_row \<Rightarrow> date \<times> string \<times> string \<times> string" where
  "week_key b = (week_start (at_date (bw_session b)), name_of b, tp_student_number (bw_trainee b),
     si_name (bw_site b))"

definition weekly_columns :: "(string \<times> string) list" where
  "weekly_columns = [(''week_start'', ''Week Start''), (''trainee'', ''Trainee''),
     (''student_number'', ''Student #''), (''site'', ''Site''), (''days_present'', ''Days Present''),
     (''credited_minutes'', ''Credited Minutes''), (''journals_submitted'', ''Journals Submitted'')]"

definition weekly_cells :: "base_row list \<Rightarrow> date \<times> string \<times> string \<times> string \<Rightarrow> cell list" where
  "weekly_cells rows k =
     (let (w, name, student, site) = k; g = filter (\<lambda>b. week_key b = k) rows in
      [CText (format_date w), CText name, CText student, CText site,
       CInt (int (length (filter (\<lambda>b. at_status (bw_session b) \<noteq> AtOpen) g))),
       CInt (credited_sum (map bw_session g)),
       CInt (int (length (filter (\<lambda>b. case bw_journal b of None \<Rightarrow> False
          | Some j \<Rightarrow> jo_status j = JSubmitted \<or> jo_status j = JReviewed) g)))])"

definition weeklySummary ::
  "(string \<Rightarrow> 'k::linorder) \<Rightarrow> bool \<Rightarrow> report_args \<Rightarrow> database \<Rightarrow> go_error + report" where
  "weeklySummary coll gaps_ok ra db =
     result_bind (run_query gaps_ok [1, 2, 3, 4, 5, 6] (base_rows ra db)) (\<lambda>rows.
       Inr (to_report weekly_columns (map (weekly_cells rows)
         (by_date_name coll fst (\<lambda>(w, name, _). name) (remdups (map week_key rows))))))"

text \<open>
  The two progress reports group the assignments by name, student number, site, required minutes
  and status - not by their identifier.
\<close>

type_synonym progress_key = "string \<times> string \<times> string \<times> int \<times> assignment_status"

definition progress_key_of :: "database \<Rightarrow> assignment_row \<Rightarrow> progress_key option" where
  "progress_key_of db a =
     Option.bind (find_trainee (as_trainee a) db) (\<lambda>tp.
     Option.bind (find_user (tp_user tp) db) (\<lambda>u.
     map_option (\<lambda>si. (us_display_name u, tp_student_number tp, si_name si, as_required a, as_status a))
       (find_site (as_site a) db)))"

definition progress_assignments :: "report_args \<Rightarrow> database \<Rightarrow> (progress_key \<times> assignment_row) list" where
  "progress_assignments ra db =
     List.map_filter (\<lambda>a. map_option (\<lambda>k. (k, a)) (progress_key_of db a))
       (filter (\<lambda>a. in_scope (ra_scope ra) (as_trainee a) \<and>
            opt_all (\<lambda>t. as_trainee a = t) (ra_trainee ra) \<and>
            opt_all (\<lambda>x. as_site a = x) (ra_site ra) \<and>
            (ra_status ra = [] \<or> assignment_status_text (as_status a) = ra_status ra))
          (db_assignments db))"

definition group_minutes :: "database \<Rightarrow> (progress_key \<times> assignment_row) list \<Rightarrow> progress_key \<Rightarrow> int" where
  "group_minutes db rows k =
     sum_list (map (\<lambda>(_, a). completed_minutes (as_id a) db) (filter (\<lambda>(k', _). k' = k) rows))"

definition percent_of :: "int \<Rightarrow> int \<Rightarrow> int" where
  "percent_of req minutes =
     (let pct = (if 0 < req then quot (minutes * 100) req else 0) in if 100 < pct then 100 else pct)"

definition student_columns :: "(string \<times> string) list" where
  "student_columns = [(''trainee'', ''Trainee''), (''student_number'', ''Student #''), (''site'', ''Site''),
     (''required_minutes'', ''Required Minutes''), (''completed_minutes'', ''Completed Minutes''),
     (''progress_percent'', ''Progress %''), (''remaining_minutes'', ''Remaining Minutes''),
     (''status'', ''Assignment Status'')]"

definition student_cells :: "database \<Rightarrow> (progress_key \<times> assignment_row) list \<Rightarrow> progress_key \<Rightarrow> cell list" where
  "student_cells db rows k =
     (let (name, student, site, req, status) = k; minutes = group_minutes db rows k in
      [CText name, CText student, CText site, CInt req, CInt minutes, CInt (percent_of req minutes),
       CInt (max (req - minutes) 0), CText (assignment_status_text status)])"

definition progress_groups ::
  "(string \<Rightarrow> 'k::linorder) \<Rightarrow> (progress_key \<times> assignment_row) list \<Rightarrow> progress_key list" where
  "progress_groups coll rows = sort_key (\<lambda>(name, _). coll name) (remdups (map fst rows))"

definition studentProgress ::
  "(string \<Rightarrow> 'k::linorder) \<Rightarrow> bool \<Rightarrow> report_args \<Rightarrow> database \<Rightarrow> go_error + report" where
  "studentProgress coll gaps_ok ra db =
     result_bind (run_query gaps_ok [1, 4, 5, 6] (Some (progress_assignments ra db))) (\<lambda>rows.
       Inr (to_report student_columns (map (student_cells db rows) (progress_groups coll rows))))"

definition completion_columns :: "(string \<times> string) list" where
  "completion_columns = [(''trainee'', ''Trainee''), (''student_number'', ''Student #''), (''site'', ''Site''),
     (''required_minutes'', ''Required Minutes''), (''completed_minutes'', ''Completed Minutes''),
     (''progress_percent'', ''Progress %''), (''journals_reviewed'', ''Journals Reviewed''),
     (''completion_state'', ''Completion'')]"

definition reviewed_journals :: "database \<Rightarrow> uuid \<Rightarrow> int" where
  "reviewed_journals db a =
     int (length (filter (\<lambda>s. at_assignment s = a \<and>
       (case journal_of (at_id s) db of None \<Rightarrow> False | Some j \<Rightarrow> jo_status j = JReviewed))
       (db_attendance db)))"

definition completion_cells :: "database \<Rightarrow> (progress_key \<times> assignment_row) list \<Rightarrow> progress_key \<Rightarrow> cell list" where
  "completion_cells db rows k =
     (let (name, student, site, req, status) = k; minutes = group_minutes db rows k;
          pct = percent_of req minutes in
      [CText name, CText student, CText site, CInt req, CInt minutes, CInt pct,
       CInt (sum_list (map (\<lambda>(_, a). reviewed_journals db (as_id a)) (filter (\<lambda>(k', _). k' = k) rows))),
       CText (if 100 \<le> pct then ''hours_complete'' else ''in_progress'')])"

definition completion ::
  "(string \<Rightarrow> 'k::linorder) \<Rightarrow> bool \<Rightarrow> report_args \<Rightarrow> database \<Rightarrow> go_error + report" where
  "completion coll gaps_ok ra db =
     result_bind (run_query gaps_ok [1, 4, 5, 6] (Some (progress_assignments ra db))) (\<lambda>rows.
       Inr (to_report completion_columns (map (completion_cells db rows) (progress_groups coll rows))))"

definition journal_columns :: "(string \<times> string) list" where
  "journal_columns = [(''date'', ''Date''), (''trainee'', ''Trainee''), (''student_number'', ''Student #''),
     (''site'', ''Site''), (''status'', ''Journal Status''), (''submitted_at'', ''Submitted''),
     (''reviewed_at'', ''Reviewed''), (''revision_count'', ''Revisions'')]"

definition journal_rows :: "report_args \<Rightarrow> database \<Rightarrow> (journal_row \<times> base_row) list option" where
  "journal_rows ra db =
     (case (ra_from ra, ra_to ra) of
        (Some from, Some till) \<Rightarrow> Some
          (filter (\<lambda>(j, b). args_match ra from till (jo_trainee j) (journal_status_text (jo_status j)) b)
             (List.map_filter (\<lambda>j. Option.bind (find_attendance (jo_attendance j) db) (\<lambda>s.
                  map_option (\<lambda>b. (j, b)) (join_base db (jo_trainee j) s)))
               (filter (\<lambda>j. in_scope (ra_scope ra) (jo_trainee j)) (db_journals db))))
      | _ \<Rightarrow> None)"

definition journal_cells :: "journal_row \<times> base_row \<Rightarrow> cell list" where
  "journal_cells r =
     (let (j, b) = r in
      [CText (format_date (at_date (bw_session b))), CText (name_of b),
       CText (tp_student_number (bw_trainee b)), CText (si_name (bw_site b)),
       CText (journal_status_text (jo_status j)), time_cell (jo_submitted j),
       time_cell (jo_reviewed j), CInt (jo_revisions j)])"

definition journalCompletion ::
  "(string \<Rightarrow> 'k::linorder) \<Rightarrow> bool \<Rightarrow> report_args \<Rightarrow> database \<Rightarrow> go_error + report" where
  "journalCompletion coll gaps_ok ra db =
     result_bind (run_query gaps_ok [1, 2, 3, 4, 5, 6] (journal_rows ra db)) (\<lambda>rows.
       Inr (to_report journal_columns (map journal_cells
         (by_date_name coll (\<lambda>(_, b). at_date (bw_session b)) (\<lambda>(_, b). name_of b) rows))))"

definition exception_columns :: "(string \<times> string) list" where
  "exception_columns = [(''date'', ''Date''), (''trainee'', ''Trainee''), (''site'', ''Site''),
     (''kind'', ''Kind''), (''detail'', ''Detail''), (''status'', ''Status'')]"

definition correction_type_text :: "correction_type \<Rightarrow> string" where
  "correction_type_text t = (case t of MissedTimeOut \<Rightarrow> ''missed_time_out''
     | IncorrectTime \<Rightarrow> ''incorrect_time'' | FieldAssignment \<Rightarrow> ''field_assignment''
     | GpsIssue \<Rightarrow> ''gps_issue'' | OtherCorrection \<Rightarrow> ''other'')"

definition correction_status_text :: "correction_status \<Rightarrow> string" where
  "correction_status_text st = (case st of CrPending \<Rightarrow> ''pending'' | CrApproved \<Rightarrow> ''approved''
     | CrRejected \<Rightarrow> ''rejected'' | CrCancelled \<Rightarrow> ''cancelled'')"

text \<open>A row of the union: its session with the joined rows, and the last three cells.\<close>

definition flag_rows :: "base_row list \<Rightarrow> (base_row \<times> cell list) list" where
  "flag_rows rows =
     map (\<lambda>b. (b, [CText ''flag'', CText (join_text '', '' (at_flags (bw_session b))),
            CText (attendance_status_text (at_status (bw_session b)))]))
       (filter (\<lambda>b. at_flags (bw_session b) \<noteq> []) rows)"

definition correction_rows :: "report_args \<Rightarrow> database \<Rightarrow> (base_row \<times> cell list) list option" where
  "correction_rows ra db =
     (case (ra_from ra, ra_to ra) of
        (Some from, Some till) \<Rightarrow> Some
          (map (\<lambda>(c, b). (b, [CText ''correction'',
                 CText (correction_type_text (cr_type c) @ '': '' @ cr_reason c),
                 CText (correction_status_text (cr_status c))]))
            (filter (\<lambda>(c, b). args_match ra from till (cr_trainee c)
                 (correction_status_text (cr_status c)) b)
              (List.map_filter (\<lambda>c. Option.bind (find_attendance (cr_attendance c) db) (\<lambda>s.
                   if in_scope (ra_scope ra) (at_trainee s)
                   then map_option (\<lambda>b. (c, b)) (join_base db (cr_trainee c) s) else None))
                (db_corrections db))))
      | _ \<Rightarrow> None)"

definition exception_cells :: "base_row \<times> cell list \<Rightarrow> cell list" where
  "exception_cells r =
     (let (b, rest) = r in
      [CText (format_date (at_date (bw_session b))), CText (name_of b), CText (si_name (bw_site b))] @ rest)"

definition exceptions ::
  "(string \<Rightarrow> 'k::linorder) \<Rightarrow> bool \<Rightarrow> report_args \<Rightarrow> database \<Rightarrow> go_error + report" where
  "exceptions coll gaps_ok ra db =
     result_bind (run_query gaps_ok [1, 2, 3, 4, 5, 6]
       (case (base_rows ra db, correction_rows ra db) of
          (Some rows, Some cs) \<Rightarrow> Some (flag_rows rows @ cs) | _ \<Rightarrow> None)) (\<lambda>rows.
       Inr (to_report exception_columns (map exception_cells
         (by_date_name coll (\<lambda>(b, _). at_date (bw_session b)) (\<lambda>(b, _). name_of b) rows))))"

section \<open>By name, and as CSV\<close>

definition report_names :: "string list" where
  "report_names = [''daily-attendance'', ''weekly-summary'', ''student-progress'',
     ''journal-completion'', ''exceptions'', ''completion'']"

definition Run_report ::
  "(string \<Rightarrow> 'k::linorder) \<Rightarrow> bool \<Rightarrow> string \<Rightarrow> report_args \<Rightarrow> database \<Rightarrow> go_error + report" where
  "Run_report coll gaps_ok name ra db =
     result_bind
     (if name = ''daily-attendance'' then dailyAttendance coll gaps_ok ra db
      else if name = ''weekly-summary'' then weeklySummary coll gaps_ok ra db
      else if name = ''student-progress'' then studentProgress coll gaps_ok ra db
      else if name = ''journal-completion'' then journalCompletion coll gaps_ok ra db
      else if name = ''exceptions'' then exceptions coll gaps_ok ra db
      else if name = ''completion'' then completion coll gaps_ok ra db
      else Inl (Api ErrNotFound))
     (\<lambda>r. Inr (r\<lparr>rp_name := name\<rparr>))"

definition int_text :: "int \<Rightarrow> string" where
  "int_text n = (if n < 0 then CHR ''-'' # decimal (nat (- n)) else decimal (nat n))"

definition rfc3339 :: "instant \<Rightarrow> string" where
  "rfc3339 t = format_date (date_in (\<lambda>_. 0) t) @ ''T'' @ format_time (\<lambda>_. 0) t @ ''Z''"

definition formula_chars :: "char list" where
  "formula_chars = [CHR ''='', CHR ''+'', CHR ''-'', CHR ''@'', CHR 0x09, CHR 0x0D, CHR 0x0A]"

definition csvSafe :: "cell \<Rightarrow> string" where
  "csvSafe v =
     (let s = (case v of CNull \<Rightarrow> [] | CText t \<Rightarrow> t | CInt n \<Rightarrow> int_text n | CTime t \<Rightarrow> rfc3339 t)
      in if s \<noteq> [] \<and> hd s \<in> set formula_chars then CHR 0x27 # s else s)"

definition cell_at :: "(string \<times> cell) list \<Rightarrow> string \<Rightarrow> cell" where
  "cell_at row key = (case map_of row key of None \<Rightarrow> CNull | Some v \<Rightarrow> v)"

definition byte_order_mark :: string where
  "byte_order_mark = [CHR 0xEF, CHR 0xBB, CHR 0xBF]"

definition export_rows :: "report \<Rightarrow> string list list" where
  "export_rows r =
     map snd (rp_columns r) #
     map (\<lambda>row. map (\<lambda>(key, _). csvSafe (cell_at row key)) (rp_columns r)) (rp_rows r)"

definition WriteCSV :: "report \<Rightarrow> string" where
  "WriteCSV r = byte_order_mark @ csv_write (export_rows r)"

definition Filename :: "string \<Rightarrow> report_filters \<Rightarrow> string" where
  "Filename name f =
     ''ojt-'' @ name @ ''-'' @ (if rf_from f = [] then ''all'' else rf_from f) @ ''-to-'' @
     (if rf_to f = [] then ''all'' else rf_to f) @ ''.csv''"

section \<open>Handlers\<close>

definition handle_Report ::
  "(string \<Rightarrow> 'k::linorder) \<Rightarrow> bool \<Rightarrow> (string \<Rightarrow> date option) \<Rightarrow> (string \<Rightarrow> uuid option) \<Rightarrow>
   auth_user \<Rightarrow> string \<Rightarrow> report_filters \<Rightarrow> database \<Rightarrow> api_error + report" where
  "handle_Report coll gaps_ok pg_date uuid_parse actor name f db =
     (case Run_report coll gaps_ok name
             (report_args_of pg_date uuid_parse (ScopedTraineeIDs actor db) f) db of
        Inl e \<Rightarrow> Inl (Fail e) | Inr r \<Rightarrow> Inr r)"

definition handle_Export ::
  "(string \<Rightarrow> 'k::linorder) \<Rightarrow> bool \<Rightarrow> (string \<Rightarrow> date option) \<Rightarrow> (string \<Rightarrow> uuid option) \<Rightarrow>
   auth_user \<Rightarrow> string \<Rightarrow> report_filters \<Rightarrow> database \<Rightarrow> api_error + string \<times> string" where
  "handle_Export coll gaps_ok pg_date uuid_parse actor name f db =
     (case handle_Report coll gaps_ok pg_date uuid_parse actor name f db of
        Inl e \<Rightarrow> Inl e | Inr r \<Rightarrow> Inr (Filename name f, WriteCSV r))"

end
