(* ===== verification/ReportLaws.thy ===== *)
theory ReportLaws
  imports Reports
begin

text \<open>
  What the reports guarantee: the CSV export keeps every cell in its place and starts no cell as
  a formula, and the report of a coordinator depends on the coordinator's trainees alone. The
  grouping of the progress reports is shown to merge assignments.
\<close>

section \<open>The export\<close>

lemma csvSafe_head:
  "csvSafe v \<noteq> [] \<Longrightarrow> hd (csvSafe v) \<notin>
     {CHR ''='', CHR ''+'', CHR ''-'', CHR ''@'', CHR 0x09, CHR 0x0D, CHR 0x0A}"
  by (auto simp: csvSafe_def Let_def formula_chars_def)

text \<open>
  C28. The export keeps the table. For a report of two columns or more without carriage returns
  in its texts, a CSV reader finds in the file, after the byte order mark, the labels and then
  one record for each row with each cell's text in its column, whatever commas, quotes and line
  feeds the cells contain; and no cell starts with a character that makes a spreadsheet read it
  as a formula.
\<close>

theorem export_roundtrip:
  assumes "2 \<le> length (rp_columns r)" and "\<forall>row\<in>set (export_rows r). \<forall>f\<in>set row. CR \<notin> set f"
  shows "csv_records (drop 3 (WriteCSV r)) =
      Some (map snd (rp_columns r)) #
      map (\<lambda>row. Some (map (\<lambda>(key, _). csvSafe (cell_at row key)) (rp_columns r))) (rp_rows r) \<and>
    (\<forall>row\<in>set (rp_rows r). \<forall>(key, _)\<in>set (rp_columns r).
       csvSafe (cell_at row key) = [] \<or> hd (csvSafe (cell_at row key)) \<notin>
         {CHR ''='', CHR ''+'', CHR ''-'', CHR ''@'', CHR 0x09, CHR 0x0D, CHR 0x0A})"
proof -
  have "drop 3 (WriteCSV r) = csv_write (export_rows r)" by (simp add: WriteCSV_def byte_order_mark_def)
  moreover have "\<forall>row\<in>set (export_rows r). row \<noteq> [] \<and> row \<noteq> [[]] \<and> length row = length (rp_columns r)"
  proof
    fix row assume "row \<in> set (export_rows r)"
    then have l: "length row = length (rp_columns r)" by (auto simp: export_rows_def)
    with assms(1) show "row \<noteq> [] \<and> row \<noteq> [[]] \<and> length row = length (rp_columns r)"
      by (cases row) auto
  qed
  ultimately have "csv_records (drop 3 (WriteCSV r)) = map Some (export_rows r)"
    using csv_roundtrip csv_write_no_CR [OF assms(2)] by simp
  then show ?thesis using csvSafe_head by (auto simp: export_rows_def)
qed

definition demo_report :: report where
  "demo_report = \<lparr>rp_name = ''exceptions'', rp_columns = [(''a'', ''A''), (''b'', ''B'')],
     rp_rows = [[(''a'', CText ''=1,2''), (''b'', CText [QUOTE, NL])]]\<rparr>"

theorem export_roundtrip_witness:
  "csv_records (drop 3 (WriteCSV demo_report)) =
     [Some [''A'', ''B''], Some [CHR 0x27 # ''=1,2'', [QUOTE, NL]]]"
proof -
  have "2 \<le> length (rp_columns demo_report)" by (simp add: demo_report_def)
  moreover have "\<forall>row\<in>set (export_rows demo_report). \<forall>f\<in>set row. CR \<notin> set f"
    by (simp add: demo_report_def export_rows_def csvSafe_def cell_at_def formula_chars_def CR_def
        QUOTE_def NL_def)
  ultimately show ?thesis
    using export_roundtrip [of demo_report]
    by (simp add: demo_report_def csvSafe_def cell_at_def formula_chars_def QUOTE_def NL_def)
qed

section \<open>Scope\<close>

text \<open>What a scope sees of the database: the rows of its trainees.\<close>

definition restrict_to :: "uuid list option \<Rightarrow> database \<Rightarrow> database" where
  "restrict_to scope db =
     db\<lparr>db_attendance := filter (\<lambda>s. in_scope scope (at_trainee s)) (db_attendance db),
        db_assignments := filter (\<lambda>a. in_scope scope (as_trainee a)) (db_assignments db),
        db_journals := filter (\<lambda>j. in_scope scope (jo_trainee j)) (db_journals db),
        db_corrections := filter (\<lambda>c. in_scope scope (cr_trainee c)) (db_corrections db)\<rparr>"

text \<open>The rows about a session belong to its trainee.\<close>

definition links_ok :: "database \<Rightarrow> bool" where
  "links_ok db \<longleftrightarrow>
     (\<forall>s\<in>set (db_attendance db). \<forall>a\<in>set (db_assignments db).
        at_assignment s = as_id a \<longrightarrow> as_trainee a = at_trainee s) \<and>
     (\<forall>s\<in>set (db_attendance db). \<forall>j\<in>set (db_journals db).
        jo_attendance j = at_id s \<longrightarrow> jo_trainee j = at_trainee s) \<and>
     (\<forall>s\<in>set (db_attendance db). \<forall>c\<in>set (db_corrections db).
        cr_attendance c = at_id s \<longrightarrow> cr_trainee c = at_trainee s)"

lemma by_key_filter:
  "(\<And>r. r \<in> set t \<Longrightarrow> key r = k \<Longrightarrow> p r) \<Longrightarrow> by_key key k (filter p t) = by_key key k t"
  by (induction t) (auto simp: by_key_def)

lemma by_key_filter_out:
  "(\<And>r. r \<in> set t \<Longrightarrow> key r = k \<Longrightarrow> \<not> p r) \<Longrightarrow> by_key key k (filter p t) = None"
  by (auto simp: by_key_None)

lemma restrict_same [simp]:
  "find_trainee t (restrict_to scope db) = find_trainee t db"
  "find_user u (restrict_to scope db) = find_user u db"
  "find_site i (restrict_to scope db) = find_site i db"
  by (simp_all add: restrict_to_def find_trainee_def find_user_def find_site_def)

lemma restrict_join:
  assumes "links_ok db" and "s \<in> set (db_attendance db)" and "in_scope scope (at_trainee s)"
  shows "join_base (restrict_to scope db) t s = join_base db t s"
proof -
  have "find_assignment (at_assignment s) (restrict_to scope db) = find_assignment (at_assignment s) db"
    using assms by (auto simp: find_assignment_def restrict_to_def links_ok_def intro!: by_key_filter)
  moreover have "journal_of (at_id s) (restrict_to scope db) = journal_of (at_id s) db"
    using assms by (auto simp: journal_of_def restrict_to_def links_ok_def intro!: by_key_filter)
  ultimately show ?thesis by (simp add: join_base_def)
qed

lemma map_filter_cong: "(\<And>x. x \<in> set xs \<Longrightarrow> f x = g x) \<Longrightarrow> List.map_filter f xs = List.map_filter g xs"
  by (induction xs) (simp_all add: List.map_filter_simps split: option.split)

lemma map_filter_drop:
  "(\<And>x. x \<in> set xs \<Longrightarrow> \<not> p x \<Longrightarrow> f x = None) \<Longrightarrow> List.map_filter f (filter p xs) = List.map_filter f xs"
  by (induction xs) (auto simp: List.map_filter_simps split: option.split)

lemma restrict_rows [simp]:
  "db_attendance (restrict_to scope db) = filter (\<lambda>s. in_scope scope (at_trainee s)) (db_attendance db)"
  "db_assignments (restrict_to scope db) = filter (\<lambda>a. in_scope scope (as_trainee a)) (db_assignments db)"
  "db_journals (restrict_to scope db) = filter (\<lambda>j. in_scope scope (jo_trainee j)) (db_journals db)"
  "db_corrections (restrict_to scope db) = filter (\<lambda>c. in_scope scope (cr_trainee c)) (db_corrections db)"
  by (simp_all add: restrict_to_def)

lemma restrict_base_rows:
  assumes "links_ok db"
  shows "base_rows ra (restrict_to (ra_scope ra) db) = base_rows ra db"
proof -
  have "List.map_filter (\<lambda>s. join_base (restrict_to (ra_scope ra) db) (at_trainee s) s)
      (filter (\<lambda>s. in_scope (ra_scope ra) (at_trainee s)) (db_attendance db)) =
    List.map_filter (\<lambda>s. join_base db (at_trainee s) s)
      (filter (\<lambda>s. in_scope (ra_scope ra) (at_trainee s)) (db_attendance db))"
    by (rule map_filter_cong) (simp add: restrict_join [OF assms])
  then show ?thesis by (simp add: base_rows_def filter_filter split: option.splits)
qed

text \<open>The session a row of a trainee in scope is about.\<close>

lemma restrict_session:
  assumes "\<And>s. s \<in> set (db_attendance db) \<Longrightarrow> at_id s = i \<Longrightarrow> in_scope scope (at_trainee s)"
  shows "find_attendance i (restrict_to scope db) = find_attendance i db"
  using assms by (auto simp: find_attendance_def intro: by_key_filter)

lemma restrict_journal_rows:
  assumes "links_ok db"
  shows "journal_rows ra (restrict_to (ra_scope ra) db) = journal_rows ra db"
proof -
  let ?sc = "ra_scope ra" and ?J = "filter (\<lambda>j. in_scope (ra_scope ra) (jo_trainee j)) (db_journals db)"
  have "Option.bind (find_attendance (jo_attendance j) (restrict_to ?sc db))
        (\<lambda>s. map_option (\<lambda>b. (j, b)) (join_base (restrict_to ?sc db) (jo_trainee j) s)) =
      Option.bind (find_attendance (jo_attendance j) db)
        (\<lambda>s. map_option (\<lambda>b. (j, b)) (join_base db (jo_trainee j) s))" if "j \<in> set ?J" for j
  proof -
    have t: "at_trainee s = jo_trainee j" if "s \<in> set (db_attendance db)" "at_id s = jo_attendance j" for s
      using assms \<open>j \<in> set ?J\<close> that by (auto simp: links_ok_def)
    have "find_attendance (jo_attendance j) (restrict_to ?sc db) = find_attendance (jo_attendance j) db"
      using t \<open>j \<in> set ?J\<close> by (intro restrict_session) simp
    moreover have "join_base (restrict_to ?sc db) (jo_trainee j) s = join_base db (jo_trainee j) s"
      if "find_attendance (jo_attendance j) db = Some s" for s
    proof -
      from that have "s \<in> set (db_attendance db)" "at_id s = jo_attendance j"
        by (auto simp: find_attendance_def dest: by_key_mem)
      then show ?thesis using t \<open>j \<in> set ?J\<close> restrict_join [OF assms] by simp
    qed
    ultimately show ?thesis by (cases "find_attendance (jo_attendance j) db") auto
  qed
  then have "List.map_filter (\<lambda>j. Option.bind (find_attendance (jo_attendance j) (restrict_to ?sc db))
        (\<lambda>s. map_option (\<lambda>b. (j, b)) (join_base (restrict_to ?sc db) (jo_trainee j) s))) ?J =
      List.map_filter (\<lambda>j. Option.bind (find_attendance (jo_attendance j) db)
        (\<lambda>s. map_option (\<lambda>b. (j, b)) (join_base db (jo_trainee j) s))) ?J"
    by (rule map_filter_cong)
  then show ?thesis by (simp add: journal_rows_def filter_filter split: option.splits)
qed

lemma restrict_correction_rows:
  assumes "links_ok db"
  shows "correction_rows ra (restrict_to (ra_scope ra) db) = correction_rows ra db"
proof -
  let ?sc = "ra_scope ra"
  define f where "f = (\<lambda>d (c :: correction_row). Option.bind (find_attendance (cr_attendance c) d) (\<lambda>s.
      if in_scope (ra_scope ra) (at_trainee s)
      then map_option (\<lambda>b. (c, b)) (join_base d (cr_trainee c) s) else None))"
  have t: "at_trainee s = cr_trainee c"
    if "c \<in> set (db_corrections db)" "s \<in> set (db_attendance db)" "at_id s = cr_attendance c" for c s
    using assms that by (auto simp: links_ok_def)
  have kept: "f (restrict_to ?sc db) c = f db c"
    if "c \<in> set (db_corrections db)" "in_scope ?sc (cr_trainee c)" for c
  proof -
    have "find_attendance (cr_attendance c) (restrict_to ?sc db) = find_attendance (cr_attendance c) db"
      using t that by (intro restrict_session) simp
    moreover have "join_base (restrict_to ?sc db) (cr_trainee c) s = join_base db (cr_trainee c) s"
      if "find_attendance (cr_attendance c) db = Some s" for s
    proof -
      from that have "s \<in> set (db_attendance db)" "at_id s = cr_attendance c"
        by (auto simp: find_attendance_def dest: by_key_mem)
      then show ?thesis using t \<open>c \<in> set (db_corrections db)\<close> \<open>in_scope ?sc (cr_trainee c)\<close>
          restrict_join [OF assms] by simp
    qed
    ultimately show ?thesis by (cases "find_attendance (cr_attendance c) db") (auto simp: f_def)
  qed
  have dropped: "f db c = None" if "c \<in> set (db_corrections db)" "\<not> in_scope ?sc (cr_trainee c)" for c
    using t that by (cases "find_attendance (cr_attendance c) db")
      (auto simp: f_def find_attendance_def dest: by_key_mem)
  have "List.map_filter (f (restrict_to ?sc db)) (db_corrections (restrict_to ?sc db)) =
      List.map_filter (f db) (filter (\<lambda>c. in_scope ?sc (cr_trainee c)) (db_corrections db))"
    by (auto intro!: map_filter_cong kept)
  also have "\<dots> = List.map_filter (f db) (db_corrections db)"
    by (rule map_filter_drop) (auto intro: dropped)
  finally show ?thesis by (simp add: correction_rows_def f_def split: option.splits)
qed

lemma restrict_minutes:
  assumes "links_ok db" and "a \<in> set (db_assignments db)" and "in_scope scope (as_trainee a)"
  shows "completed_minutes (as_id a) (restrict_to scope db) = completed_minutes (as_id a) db"
    and "reviewed_journals (restrict_to scope db) (as_id a) = reviewed_journals db (as_id a)"
proof -
  have t: "in_scope scope (at_trainee s)" if "s \<in> set (db_attendance db)" "at_assignment s = as_id a" for s
    using assms that by (auto simp: links_ok_def)
  have "filter (\<lambda>s. at_assignment s = as_id a \<and> counted_status (at_status s))
        (filter (\<lambda>s. in_scope scope (at_trainee s)) (db_attendance db)) =
      filter (\<lambda>s. at_assignment s = as_id a \<and> counted_status (at_status s)) (db_attendance db)"
    unfolding filter_filter by (rule filter_cong) (auto dest: t)
  then show "completed_minutes (as_id a) (restrict_to scope db) = completed_minutes (as_id a) db"
    by (simp add: completed_minutes_def)
  have j: "journal_of (at_id s) (restrict_to scope db) = journal_of (at_id s) db"
    if "s \<in> set (db_attendance db)" "at_assignment s = as_id a" for s
    using assms(1) that t [OF that]
    by (auto simp: journal_of_def links_ok_def intro!: by_key_filter)
  define R where "R = (\<lambda>d (s :: attendance_row). at_assignment s = as_id a \<and>
    (case journal_of (at_id s) d of None \<Rightarrow> False | Some j \<Rightarrow> jo_status j = JReviewed))"
  have "filter (R (restrict_to scope db)) (filter (\<lambda>s. in_scope scope (at_trainee s)) (db_attendance db)) =
      filter (R db) (db_attendance db)"
    unfolding filter_filter by (rule filter_cong) (auto simp: R_def j dest: t)
  then show "reviewed_journals (restrict_to scope db) (as_id a) = reviewed_journals db (as_id a)"
    by (simp add: reviewed_journals_def R_def)
qed

lemma progress_assignments_in:
  "(k, a) \<in> set (progress_assignments ra db) \<Longrightarrow>
     a \<in> set (db_assignments db) \<and> in_scope (ra_scope ra) (as_trainee a)"
  by (auto simp: progress_assignments_def in_map_filter)

lemma restrict_progress_assignments:
  "progress_assignments ra (restrict_to (ra_scope ra) db) = progress_assignments ra db"
proof -
  have "progress_key_of (restrict_to (ra_scope ra) db) a = progress_key_of db a" for a
    by (simp add: progress_key_of_def)
  then show ?thesis by (simp add: progress_assignments_def filter_filter conj_ac)
qed

lemma restrict_progress_cells:
  assumes "links_ok db"
  shows "student_cells (restrict_to (ra_scope ra) db) (progress_assignments ra db) =
      student_cells db (progress_assignments ra db)"
    and "completion_cells (restrict_to (ra_scope ra) db) (progress_assignments ra db) =
      completion_cells db (progress_assignments ra db)"
proof -
  let ?rows = "progress_assignments ra db" and ?db = "restrict_to (ra_scope ra) db"
  have m: "completed_minutes (as_id a) ?db = completed_minutes (as_id a) db"
      "reviewed_journals ?db (as_id a) = reviewed_journals db (as_id a)" if "(k, a) \<in> set ?rows" for k a
    using restrict_minutes [OF assms] progress_assignments_in [OF that] by blast+
  have g: "group_minutes ?db ?rows k = group_minutes db ?rows k" for k
    unfolding group_minutes_def by (rule arg_cong [where f = sum_list]) (auto simp: m)
  moreover have "sum_list (map (\<lambda>(_, a). reviewed_journals ?db (as_id a)) (filter (\<lambda>(k', _). k' = k) ?rows)) =
      sum_list (map (\<lambda>(_, a). reviewed_journals db (as_id a)) (filter (\<lambda>(k', _). k' = k) ?rows))" for k
    by (rule arg_cong [where f = sum_list]) (auto simp: m)
  ultimately show "student_cells ?db ?rows = student_cells db ?rows"
    "completion_cells ?db ?rows = completion_cells db ?rows"
    by (auto simp: student_cells_def completion_cells_def fun_eq_iff Let_def split: prod.splits)
qed

lemma restrict_report:
  assumes "links_ok db"
  shows "Run_report coll gaps_ok name ra (restrict_to (ra_scope ra) db) = Run_report coll gaps_ok name ra db"
  unfolding Run_report_def dailyAttendance_def weeklySummary_def studentProgress_def
    journalCompletion_def exceptions_def completion_def run_query_def
  by (simp add: restrict_base_rows [OF assms] restrict_journal_rows [OF assms]
      restrict_correction_rows [OF assms] restrict_progress_assignments
      restrict_progress_cells [OF assms])

text \<open>
  C25. A report shows its reader nothing beyond the reader's scope. Two databases that differ
  only in the sessions, assignments, journals and corrections of trainees out of scope give the
  same report, for every report and every filter, as a table and as a file.
\<close>

theorem reports_noninterference:
  assumes "links_ok db1" and "links_ok db2"
    and "restrict_to (ScopedTraineeIDs actor db1) db1 = restrict_to (ScopedTraineeIDs actor db1) db2"
  shows "handle_Report coll gaps_ok pg_date uuid_parse actor name f db1 =
      handle_Report coll gaps_ok pg_date uuid_parse actor name f db2 \<and>
    handle_Export coll gaps_ok pg_date uuid_parse actor name f db1 =
      handle_Export coll gaps_ok pg_date uuid_parse actor name f db2"
proof -
  define scope where "scope = ScopedTraineeIDs actor db1"
  have "db_scopes (restrict_to scope db1) = db_scopes (restrict_to scope db2)"
    using assms(3) by (simp add: scope_def)
  then have "db_scopes db1 = db_scopes db2" by (simp add: restrict_to_def)
  then have s2: "ScopedTraineeIDs actor db2 = scope" by (simp add: scope_def ScopedTraineeIDs_def)
  let ?ra = "report_args_of pg_date uuid_parse scope f"
  have "Run_report coll gaps_ok name ?ra db1 = Run_report coll gaps_ok name ?ra db2"
    using restrict_report [OF assms(1), of coll gaps_ok name ?ra]
      restrict_report [OF assms(2), of coll gaps_ok name ?ra] assms(3)
    by (simp add: report_args_of_def flip: scope_def)
  then have "handle_Report coll gaps_ok pg_date uuid_parse actor name f db1 =
      handle_Report coll gaps_ok pg_date uuid_parse actor name f db2"
    by (simp add: handle_Report_def s2 flip: scope_def)
  then show ?thesis by (simp add: handle_Export_def)
qed

text \<open>A second trainee's session, out of the scope of a coordinator without trainees.\<close>

theorem reports_noninterference_witness:
  "handle_Report (\<lambda>s. length s) True (\<lambda>_. None) (\<lambda>_. None)
     \<lparr>ac_id = 12, ac_email = ''d@x'', ac_role = RCoordinator, ac_status = AccActive, ac_name = ''D''\<rparr>
     ''daily-attendance'' \<lparr>rf_from = [], rf_to = [], rf_trainee = [], rf_site = [], rf_status = []\<rparr>
     demo_open_db =
   handle_Report (\<lambda>s. length s) True (\<lambda>_. None) (\<lambda>_. None)
     \<lparr>ac_id = 12, ac_email = ''d@x'', ac_role = RCoordinator, ac_status = AccActive, ac_name = ''D''\<rparr>
     ''daily-attendance'' \<lparr>rf_from = [], rf_to = [], rf_trainee = [], rf_site = [], rf_status = []\<rparr>
     demo_db"
proof -
  let ?actor = "\<lparr>ac_id = 12, ac_email = ''d@x'', ac_role = RCoordinator, ac_status = AccActive, ac_name = ''D''\<rparr>"
  have "links_ok demo_open_db" "links_ok demo_db"
    by (simp_all add: links_ok_def demo_open_db_def demo_session_def demo_db_defs)
  moreover have "restrict_to (ScopedTraineeIDs ?actor demo_open_db) demo_open_db =
      restrict_to (ScopedTraineeIDs ?actor demo_open_db) demo_db"
    by (simp add: restrict_to_def ScopedTraineeIDs_def in_scope_def demo_open_db_def demo_db_def)
  ultimately show ?thesis using reports_noninterference by blast
qed

section \<open>Merged assignments\<close>

lemma percent_of_full:
  assumes "0 < req" and "req \<le> m"
  shows "percent_of req m = 100"
proof -
  have "100 \<le> m * 100 div req"
    using assms zdiv_mono1 [of "100 * req" "m * 100" req] by simp
  then show ?thesis using assms by (simp add: percent_of_def Let_def)
qed

lemma percent_of_bounds:
  assumes "0 \<le> m"
  shows "0 \<le> percent_of req m" and "percent_of req m \<le> 100"
  using assms by (auto simp: percent_of_def Let_def pos_imp_zdiv_nonneg_iff)

text \<open>
  The progress reports do not show assignments but groups of them: two assignments of a
  trainee at one site with the same required minutes and the same status appear as one row,
  whose completed minutes are those of both against the requirement of one - so two halves are
  reported as complete hours.
\<close>

theorem progress_report_merges:
  assumes "progress_assignments ra db = [(k, a), (k, b)]"
    and "k = (trainee, student, site, required, status)" and "0 < required"
    and "required \<le> completed_minutes (as_id a) db + completed_minutes (as_id b) db"
  shows "completion coll True ra db = Inr (to_report completion_columns
    [[CText trainee, CText student, CText site, CInt required,
      CInt (completed_minutes (as_id a) db + completed_minutes (as_id b) db), CInt 100,
      CInt (reviewed_journals db (as_id a) + reviewed_journals db (as_id b)),
      CText ''hours_complete'']])"
proof -
  have pct: "percent_of required
      (completed_minutes (as_id a) db + completed_minutes (as_id b) db) = 100"
    using assms(3,4) by (rule percent_of_full)
  show ?thesis
    using assms(1,2) pct
    by (simp add: completion_def run_query_def progress_groups_def completion_cells_def
        group_minutes_def Let_def)
qed

definition merge_db :: database where
  "merge_db = demo_db\<lparr>
     db_assignments := [demo_assignment\<lparr>as_status := AsCompleted\<rparr>,
       demo_assignment\<lparr>as_id := 8, as_start := 50, as_status := AsCompleted\<rparr>],
     db_attendance := [
       demo_session\<lparr>at_status := AtValid, at_credited := Some 40\<rparr>,
       demo_session\<lparr>at_id := 301, at_assignment := 8, at_status := AtValid, at_credited := Some 30\<rparr>]\<rparr>"

definition all_reports :: report_args where
  "all_reports = \<lparr>ra_scope = None, ra_from = None, ra_to = None, ra_trainee = None, ra_site = None,
     ra_status = []\<rparr>"

theorem progress_report_merges_witness:
  "completion length True all_reports merge_db = Inr (to_report completion_columns
     [[CText ''T'', CText ''S1'', CText ''Site'', CInt 60, CInt 70, CInt 100, CInt 0,
       CText ''hours_complete'']])"
proof -
  let ?a = "demo_assignment\<lparr>as_status := AsCompleted\<rparr>"
  let ?b = "demo_assignment\<lparr>as_id := 8, as_start := 50, as_status := AsCompleted\<rparr>"
  let ?k = "(''T'', ''S1'', ''Site'', 60, AsCompleted)"
  have "progress_key_of merge_db ?a = Some ?k" "progress_key_of merge_db ?b = Some ?k"
    by (simp_all add: progress_key_of_def find_trainee_def find_user_def find_site_def by_key_def
        merge_db_def demo_db_defs)
  moreover have "db_assignments merge_db = [?a, ?b]" by (simp add: merge_db_def)
  ultimately have rows: "progress_assignments all_reports merge_db = [(?k, ?a), (?k, ?b)]"
    by (simp add: progress_assignments_def all_reports_def in_scope_def List.map_filter_simps)
  have mins: "completed_minutes (as_id ?a) merge_db = 40" "completed_minutes (as_id ?b) merge_db = 30"
    by (simp_all add: completed_minutes_def credited_sum_def merge_db_def demo_session_def
        demo_db_defs counted_status_def)
  have revs: "reviewed_journals merge_db (as_id ?a) = 0" "reviewed_journals merge_db (as_id ?b) = 0"
    by (simp_all add: reviewed_journals_def merge_db_def demo_session_def demo_db_defs
        journal_of_def by_key_def)
  show ?thesis
    using progress_report_merges [OF rows refl, of length] mins revs by simp
qed

end
