(* ===== verification/Monitoring.thy ===== *)
theory Monitoring
  imports Reports Reminders
begin

text \<open>
  \<open>internal/monitoring\<close>: the metrics and queues of the staff dashboard and the list of sessions.
  The percentages of the metrics are computed in \<open>float64\<close> by the database; \<open>rnd\<close> is its
  rounding. Ties of an ordering, which SQL leaves open, are broken by the order of the table.
\<close>

section \<open>Metrics\<close>

record metrics =
  me_active_trainees :: int
  me_present_today :: int
  me_no_attendance :: int
  me_no_attendance_configured :: bool
  me_flagged :: int
  me_missing_journals :: int
  me_near_completion :: int
  me_completed :: int

definition count_rows :: "('r \<Rightarrow> bool) \<Rightarrow> 'r list \<Rightarrow> int" where
  "count_rows p rows = int (length (filter p rows))"

definition count_distinct :: "('r \<Rightarrow> 'k) \<Rightarrow> ('r \<Rightarrow> bool) \<Rightarrow> 'r list \<Rightarrow> int" where
  "count_distinct k p rows = int (card (k ` set (filter p rows)))"

definition active_in :: "uuid list option \<Rightarrow> assignment_row \<Rightarrow> bool" where
  "active_in scope a = (as_status a = AsActive \<and> in_scope scope (as_trainee a))"

definition has_weekdays :: "assignment_row \<Rightarrow> bool" where
  "has_weekdays a = (case as_weekdays a of None \<Rightarrow> False | Some ds \<Rightarrow> ds \<noteq> [])"

text \<open>\<open>NULLIF(a.required_minutes, 0)\<close> makes the percentage null, which no filter counts.\<close>

definition completion_pct :: "(real \<Rightarrow> real) \<Rightarrow> database \<Rightarrow> assignment_row \<Rightarrow> real option" where
  "completion_pct rnd db a =
     (if as_required a = 0 then None
      else Some (rnd (rnd (rnd (of_int (completed_minutes (as_id a) db)) / of_int (as_required a)) * 100)))"

definition near_pct :: "(real \<Rightarrow> real) \<Rightarrow> settings_row \<Rightarrow> real" where
  "near_pct rnd st = rnd (of_int (st_near_completion st) / 100)"

definition staff_metrics ::
  "(real \<Rightarrow> real) \<Rightarrow> uuid list option \<Rightarrow> instant \<Rightarrow> date \<Rightarrow> int \<Rightarrow> database \<Rightarrow> metrics" where
  "staff_metrics rnd scope now today weekday db =
     (let st = db_settings db in
      \<lparr>me_active_trainees = count_distinct as_trainee (active_in scope) (db_assignments db),
       me_present_today = count_distinct at_trainee
         (\<lambda>s. at_date s = today \<and> in_scope scope (at_trainee s)) (db_attendance db),
       me_no_attendance = count_rows (\<lambda>a. expected_today today weekday db a \<and>
         in_scope scope (as_trainee a)) (db_assignments db),
       me_no_attendance_configured =
         list_ex (\<lambda>a. active_in scope a \<and> has_weekdays a) (db_assignments db),
       me_flagged = count_rows (\<lambda>s. at_date s = today \<and> at_status s = AtFlagged \<and>
         in_scope scope (at_trainee s)) (db_attendance db),
       me_missing_journals = count_rows (\<lambda>j. journal_due now (st_journal_cutoff st) db j \<and>
         in_scope scope (jo_trainee j)) (db_journals db),
       me_near_completion = count_rows (\<lambda>a. active_in scope a \<and>
         (case completion_pct rnd db a of None \<Rightarrow> False
          | Some pct \<Rightarrow> near_pct rnd st \<le> pct \<and> pct < 100)) (db_assignments db),
       me_completed = count_rows (\<lambda>a. active_in scope a \<and>
         (case completion_pct rnd db a of None \<Rightarrow> False | Some pct \<Rightarrow> 100 \<le> pct))
         (db_assignments db)\<rparr>)"

section \<open>Queues\<close>

text \<open>The session, profile and user a queue item joins.\<close>

definition queue_join :: "database \<Rightarrow> uuid \<Rightarrow> uuid \<Rightarrow> (attendance_row \<times> user_row) option" where
  "queue_join db att t =
     Option.bind (find_attendance att db) (\<lambda>s.
     Option.bind (find_trainee t db) (\<lambda>tp.
     map_option (\<lambda>u. (s, u)) (find_user (tp_user tp) db)))"

definition pendingCorrections ::
  "uuid list option \<Rightarrow> database \<Rightarrow> (correction_row \<times> attendance_row \<times> user_row) list" where
  "pendingCorrections scope db =
     take 10 (sort_key (\<lambda>(c, _). cr_requested c)
       (List.map_filter (\<lambda>c. map_option (\<lambda>q. (c, q)) (queue_join db (cr_attendance c) (cr_trainee c)))
         (filter (\<lambda>c. cr_status c = CrPending \<and> in_scope scope (cr_trainee c)) (db_corrections db))))"

definition recentFlags ::
  "uuid list option \<Rightarrow> database \<Rightarrow> (attendance_row \<times> user_row) list" where
  "recentFlags scope db =
     take 10 (order_desc (\<lambda>(s, _). at_date s)
       (List.map_filter (\<lambda>s. map_option (\<lambda>u. (s, u))
           (Option.bind (find_trainee (at_trainee s) db) (\<lambda>tp. find_user (tp_user tp) db)))
         (filter (\<lambda>s. at_status s = AtFlagged \<and> at_flags s \<noteq> [] \<and> in_scope scope (at_trainee s))
           (db_attendance db))))"

text \<open>PostgreSQL sorts nulls last.\<close>

definition by_submission :: "('r \<Rightarrow> instant option) \<Rightarrow> 'r list \<Rightarrow> 'r list" where
  "by_submission sub rows =
     sort_key (\<lambda>r. sub r = None) (sort_key (\<lambda>r. case sub r of None \<Rightarrow> 0 | Some t \<Rightarrow> t) rows)"

definition journalsAttention ::
  "uuid list option \<Rightarrow> database \<Rightarrow> (journal_row \<times> attendance_row \<times> user_row) list" where
  "journalsAttention scope db =
     take 10 (by_submission (\<lambda>(j, _). jo_submitted j)
       (List.map_filter (\<lambda>j. map_option (\<lambda>q. (j, q)) (queue_join db (jo_attendance j) (jo_trainee j)))
         (filter (\<lambda>j. jo_status j = JSubmitted \<and> in_scope scope (jo_trainee j)) (db_journals db))))"

record correction_queue_item =
  cq_id :: uuid
  cq_trainee_name :: string
  cq_type :: correction_type
  cq_date :: date
  cq_requested :: instant

record flag_queue_item =
  fq_id :: uuid
  fq_trainee_name :: string
  fq_date :: date
  fq_flags :: "string list"

record journal_queue_item =
  jq_id :: uuid
  jq_trainee_name :: string
  jq_date :: date
  jq_submitted :: "instant option"

record dashboard_data =
  dd_metrics :: metrics
  dd_corrections :: "correction_queue_item list"
  dd_flags :: "flag_queue_item list"
  dd_journals :: "journal_queue_item list"

definition correction_item :: "correction_row \<times> attendance_row \<times> user_row \<Rightarrow> correction_queue_item" where
  "correction_item = (\<lambda>(c, s, u). \<lparr>cq_id = cr_id c, cq_trainee_name = us_display_name u,
     cq_type = cr_type c, cq_date = at_date s, cq_requested = cr_requested c\<rparr>)"

definition flag_item :: "attendance_row \<times> user_row \<Rightarrow> flag_queue_item" where
  "flag_item = (\<lambda>(s, u). \<lparr>fq_id = at_id s, fq_trainee_name = us_display_name u,
     fq_date = at_date s, fq_flags = at_flags s\<rparr>)"

definition journal_item :: "journal_row \<times> attendance_row \<times> user_row \<Rightarrow> journal_queue_item" where
  "journal_item = (\<lambda>(j, s, u). \<lparr>jq_id = jo_id j, jq_trainee_name = us_display_name u,
     jq_date = at_date s, jq_submitted = jo_submitted j\<rparr>)"

text \<open>\<open>None\<close> is the error of a timezone that does not load.\<close>

definition StaffDashboard ::
  "(real \<Rightarrow> real) \<Rightarrow> tzdb \<Rightarrow> uuid list option \<Rightarrow> instant \<Rightarrow> database \<Rightarrow> dashboard_data option" where
  "StaffDashboard rnd tzdb scope now db =
     (let tz = st_timezone (db_settings db)
      in case (tzdb tz, LocalDate tzdb now tz) of
           (Some z, Some today) \<Rightarrow> Some
             \<lparr>dd_metrics = staff_metrics rnd scope now today (iso_weekday z now) db,
              dd_corrections = map correction_item (pendingCorrections scope db),
              dd_flags = map flag_item (recentFlags scope db),
              dd_journals = map journal_item (journalsAttention scope db)\<rparr>
         | _ \<Rightarrow> None)"

section \<open>The list of sessions\<close>

record attendance_filter =
  af_q :: string
  af_from :: string
  af_to :: string
  af_date :: string
  af_site :: string
  af_trainee :: string
  af_status :: string

record attendance_item =
  ai_session :: session_view
  ai_trainee_name :: string
  ai_student_number :: string
  ai_site_name :: string
  ai_journal :: "journal_status option"

definition attendance_item_of :: "base_row \<Rightarrow> attendance_item" where
  "attendance_item_of b =
     \<lparr>ai_session = session_view_of (bw_session b), ai_trainee_name = name_of b,
      ai_student_number = tp_student_number (bw_trainee b), ai_site_name = si_name (bw_site b),
      ai_journal = map_option jo_status (bw_journal b)\<rparr>"

text \<open>The search term is taken as it is, unlike the other searches, which trim it.\<close>

definition found_by :: "string \<Rightarrow> base_row \<Rightarrow> bool" where
  "found_by q b =
     (q = [] \<or> list_ex (\<lambda>s. ilike s q)
       ([name_of b, tp_student_number (bw_trainee b), si_name (bw_site b),
         attendance_status_text (at_status (bw_session b))] @ at_flags (bw_session b)))"

definition AttendanceList ::
  "(string \<Rightarrow> 'k::linorder) \<Rightarrow> (string \<Rightarrow> date option) \<Rightarrow> (string \<Rightarrow> uuid option) \<Rightarrow>
   uuid list option \<Rightarrow> attendance_filter \<Rightarrow> page \<Rightarrow> database \<Rightarrow>
   go_error + attendance_item list \<times> int" where
  "AttendanceList coll pg_date uuid_parse scope f p db =
     (case (date_bound pg_date (af_from f), date_bound pg_date (af_to f), date_bound pg_date (af_date f)) of
        (Some from, Some till, Some day) \<Rightarrow>
          let rows = filter (\<lambda>b. in_dates from till (at_date (bw_session b)) \<and>
                  opt_all (\<lambda>d. at_date (bw_session b) = d) day \<and>
                  opt_all (\<lambda>x. as_site (bw_assignment b) = x) (uuidOrNil uuid_parse (af_site f)) \<and>
                  opt_all (\<lambda>x. at_trainee (bw_session b) = x) (uuidOrNil uuid_parse (af_trainee f)) \<and>
                  (af_status f = [] \<or> attendance_status_text (at_status (bw_session b)) = af_status f) \<and>
                  found_by (af_q f) b)
                (List.map_filter (\<lambda>s. join_base db (at_trainee s) s)
                  (filter (\<lambda>s. in_scope scope (at_trainee s)) (db_attendance db)))
          in result_bind
               (page_rows p (by_date_name coll (\<lambda>b. at_date (bw_session b)) name_of rows))
               (\<lambda>items. Inr (map attendance_item_of items, int (length rows)))
      | _ \<Rightarrow> Inl QueryFailed)"

section \<open>Handlers\<close>

definition handle_StaffDashboard ::
  "(real \<Rightarrow> real) \<Rightarrow> tzdb \<Rightarrow> clock \<Rightarrow> auth_user \<Rightarrow> database \<Rightarrow> api_error + dashboard_data" where
  "handle_StaffDashboard rnd tzdb ck actor db =
     (case StaffDashboard rnd tzdb (ScopedTraineeIDs actor db) (ck_now ck) db of
        None \<Rightarrow> Inl Internal | Some d \<Rightarrow> Inr d)"

definition handle_AttendanceList ::
  "(string \<Rightarrow> 'k::linorder) \<Rightarrow> (string \<Rightarrow> date option) \<Rightarrow> (string \<Rightarrow> uuid option) \<Rightarrow> auth_user \<Rightarrow>
   attendance_filter \<Rightarrow> int option \<Rightarrow> int option \<Rightarrow> database \<Rightarrow>
   api_error + attendance_item list \<times> page_meta" where
  "handle_AttendanceList coll pg_date uuid_parse actor f page_q size_q db =
     (let page = ParsePage page_q size_q
      in case AttendanceList coll pg_date uuid_parse (ScopedTraineeIDs actor db) f page db of
           Inl e \<Rightarrow> Inl Internal
         | Inr (items, tot) \<Rightarrow> Inr (items, NewPageMeta page tot))"

end
