(* ===== verification/MonitoringLaws.thy ===== *)
theory MonitoringLaws
  imports Monitoring ReportLaws AssignmentLaws
begin

text \<open>
  What the staff dashboard guarantees: its completion counts, computed in floating point, agree
  with the integer progress the trainee sees, and neither the dashboard nor the list of sessions
  shows anything outside the scope of its reader.
\<close>

section \<open>Completion counts\<close>

text \<open>The percentage in \<open>float64\<close> reaches 100 exactly when the hours are complete.\<close>

lemma f64_quotient_percent:
  fixes c r :: int
  assumes rnd: "f64_rounding rnd" and c: "0 \<le> c" "c < 2 ^ 31" and r: "0 < r" "r < 2 ^ 31"
  shows "100 \<le> rnd (rnd (rnd (of_int c) / of_int r) * 100) \<longleftrightarrow> r \<le> c"
proof -
  have exact: "rnd (of_int n) = of_int n" if "\<bar>n\<bar> \<le> 2 ^ 53" for n :: int
    using rnd that by (simp add: f64_rounding_def)
  have err: "rnd x \<le> x + x / 9007199254740992 \<and> x - x / 9007199254740992 \<le> rnd x"
    if x: "1 / 2147483648 \<le> x" "x \<le> 1099511627776" for x
  proof -
    have "1 / 2 ^ 100 \<le> \<bar>x\<bar> \<and> \<bar>x\<bar> \<le> 2 ^ 100" using x by simp
    then have "\<bar>rnd x - x\<bar> \<le> \<bar>x\<bar> / 2 ^ 53" using rnd unfolding f64_rounding_def by blast
    then have "\<bar>rnd x - x\<bar> \<le> x / 9007199254740992" using x by simp
    then show ?thesis by linarith
  qed
  define v where "v = real_of_int c / real_of_int r"
  define q where "q = rnd v"
  have cc: "rnd (of_int c) = of_int c" using c by (intro exact) simp
  have goal: "rnd (rnd (rnd (of_int c) / of_int r) * 100) = rnd (q * 100)" by (simp add: cc q_def v_def)
  consider "c = 0" | "c = r" | "0 < c" "c \<noteq> r" using c by linarith
  then show ?thesis
  proof cases
    case 1
    then have "q = 0" using exact [of 0] by (simp add: q_def v_def)
    then show ?thesis unfolding goal using 1 r exact [of 0] by simp
  next
    case 2
    then have "q = 1" using exact [of 1] r by (simp add: q_def v_def)
    then show ?thesis unfolding goal using 2 exact [of 100] by simp
  next
    case 3
    have rr: "1 \<le> real_of_int r" "real_of_int r \<le> 2147483647" and c1: "1 \<le> real_of_int c"
        "real_of_int c \<le> 2147483647"
      using r c 3 by simp_all
    have v: "1 / 2147483647 \<le> v" "v \<le> 2147483647"
      using rr c1 frac_le [of "of_int c" 1 "real_of_int r" 2147483647]
        frac_le [of 2147483647 "of_int c" 1 "real_of_int r"] by (simp_all add: v_def)
    then have q: "q \<le> v + v / 9007199254740992" "v - v / 9007199254740992 \<le> q"
      using err [of v] by (simp_all add: q_def)
    then have "1 / 2147483648 \<le> q * 100" "q * 100 \<le> 1099511627776" using v by linarith+
    then have z: "rnd (q * 100) \<le> q * 100 + q * 100 / 9007199254740992"
        "q * 100 - q * 100 / 9007199254740992 \<le> rnd (q * 100)"
      using err [of "q * 100"] by simp_all
    show ?thesis
    proof (cases "r < c")
      case True
      then have "real_of_int r + 1 \<le> real_of_int c" by linarith
      then have "1 + 1 / 2147483647 \<le> v" using rr unfolding v_def by (simp add: field_simps)
      then have "100 \<le> rnd (q * 100)" using q z by linarith
      then show ?thesis using True unfolding goal by simp
    next
      case False
      then have "real_of_int c + 1 \<le> real_of_int r" using 3 by linarith
      then have "v \<le> 1 - 1 / 2147483647" using rr unfolding v_def by (simp add: field_simps)
      then have "rnd (q * 100) < 100" using q z by linarith
      then show ?thesis unfolding goal using False 3 by simp
    qed
  qed
qed

lemma count_rows_cong:
  "(\<And>r. r \<in> set rows \<Longrightarrow> p r = q r) \<Longrightarrow> count_rows p rows = count_rows q rows"
  by (simp add: count_rows_def cong: filter_cong)

lemma count_rows_disjoint:
  assumes "\<And>r. r \<in> set rows \<Longrightarrow> \<not> (p r \<and> q r)" and "\<And>r. r \<in> set rows \<Longrightarrow> p r \<or> q r \<Longrightarrow> t r"
  shows "count_rows p rows + count_rows q rows \<le> count_rows t rows"
  using assms by (induction rows) (auto simp: count_rows_def)

lemma active_count_distinct:
  assumes "active_unique db"
  shows "count_distinct as_trainee (active_in scope) (db_assignments db) =
    count_rows (active_in scope) (db_assignments db)"
proof -
  let ?A = "filter (\<lambda>a. as_status a = AsActive) (db_assignments db)"
  have "distinct (map as_trainee ?A)" using assms by (simp add: active_unique_def unique_on_def)
  moreover have "filter (active_in scope) (db_assignments db) = filter (\<lambda>a. in_scope scope (as_trainee a)) ?A"
    by (auto simp: active_in_def filter_filter intro: filter_cong)
  ultimately have d: "distinct (map as_trainee (filter (active_in scope) (db_assignments db)))"
    by (simp only: distinct_map_filter)
  have "card (as_trainee ` set (filter (active_in scope) (db_assignments db))) =
      length (map as_trainee (filter (active_in scope) (db_assignments db)))"
    using distinct_card [OF d] by (simp only: set_map)
  then show ?thesis by (simp add: count_distinct_def count_rows_def)
qed

text \<open>The columns of the assignments and their sums are those of 32-bit integers.\<close>

definition minutes_fit :: "database \<Rightarrow> bool" where
  "minutes_fit db \<longleftrightarrow> (\<forall>a\<in>set (db_assignments db). 0 < as_required a \<and> as_required a < 2 ^ 31 \<and>
     0 \<le> completed_minutes (as_id a) db \<and> completed_minutes (as_id a) db < 2 ^ 31)"

text \<open>
  C32. The completion counts of the staff dashboard agree with what each trainee sees. Although
  the database computes percentages in floating point, the number of completed assignments is
  the number of active ones in scope whose progress, in integers, shows 100 percent; the ones
  near completion are among the others; and together they are no more than the active trainees.
\<close>

theorem staff_metrics_completed:
  assumes "f64_rounding rnd" and "minutes_fit db" and "active_unique db"
  shows "let m = staff_metrics rnd scope now today weekday db in
    me_completed m = count_rows (\<lambda>a. active_in scope a \<and>
      pv_percent (progress (as_id a) (as_required a) db) = 100) (db_assignments db) \<and>
    me_near_completion m + me_completed m \<le> me_active_trainees m"
proof -
  let ?full = "\<lambda>a. active_in scope a \<and>
    (case completion_pct rnd db a of None \<Rightarrow> False | Some pct \<Rightarrow> 100 \<le> pct)"
  let ?near = "\<lambda>a. active_in scope a \<and> (case completion_pct rnd db a of None \<Rightarrow> False
    | Some pct \<Rightarrow> near_pct rnd (db_settings db) \<le> pct \<and> pct < 100)"
  have full: "?full a \<longleftrightarrow> active_in scope a \<and> pv_percent (progress (as_id a) (as_required a) db) = 100"
    if "a \<in> set (db_assignments db)" for a
  proof -
    have c: "0 < as_required a" "as_required a < 2 ^ 31" "0 \<le> completed_minutes (as_id a) db"
        "completed_minutes (as_id a) db < 2 ^ 31"
      using assms(2) that by (simp_all add: minutes_fit_def)
    have "pv_percent (progress (as_id a) (as_required a) db) =
        ProgressPercent (completed_minutes (as_id a) db) (as_required a)"
      by (simp add: progress_def completed_minutes_def Let_def)
    then show ?thesis
      using c f64_quotient_percent [OF assms(1) c(3,4,1,2)] ProgressPercent_full_iff [OF c(3,1)]
      by (simp add: completion_pct_def)
  qed
  have "count_rows ?full (db_assignments db) = count_rows (\<lambda>a. active_in scope a \<and>
      pv_percent (progress (as_id a) (as_required a) db) = 100) (db_assignments db)"
    using full by (rule count_rows_cong)
  moreover have "count_rows ?near (db_assignments db) + count_rows ?full (db_assignments db) \<le>
      count_rows (active_in scope) (db_assignments db)"
    by (rule count_rows_disjoint) (auto split: option.splits)
  ultimately show ?thesis
    by (simp add: staff_metrics_def Let_def active_count_distinct [OF assms(3)])
qed

theorem staff_metrics_completed_witness:
  "me_completed (staff_metrics (\<lambda>x. x) None 0 0 4 demo_open_db) = 0 \<and>
   me_near_completion (staff_metrics (\<lambda>x. x) None 0 0 4 demo_open_db) \<le> 1"
proof -
  have fit: "minutes_fit demo_open_db" and act: "active_unique demo_open_db"
    by (simp_all add: minutes_fit_def active_unique_def unique_on_def completed_minutes_def
        credited_sum_def counted_status_def demo_open_db_def demo_session_def demo_db_defs)
  have "count_rows (\<lambda>a. active_in None a \<and>
      pv_percent (progress (as_id a) (as_required a) demo_open_db) = 100) (db_assignments demo_open_db) = 0"
    by (simp add: count_rows_def progress_def Let_def credited_sum_def counted_status_def
        ProgressPercent_def quot_def demo_open_db_def demo_session_def demo_db_defs)
  moreover have "me_active_trainees (staff_metrics (\<lambda>x. x) None 0 0 4 demo_open_db) = 1"
    by (simp add: staff_metrics_def Let_def count_distinct_def active_in_def in_scope_def
        demo_open_db_def demo_db_defs)
  ultimately show ?thesis
    using staff_metrics_completed [OF f64_rounding_id fit act, of None 0 0 4]
    by (simp add: Let_def)
qed

section \<open>Scope\<close>

lemma restrict_queue_join:
  assumes "\<And>s. s \<in> set (db_attendance db) \<Longrightarrow> at_id s = i \<Longrightarrow> in_scope scope (at_trainee s)"
  shows "queue_join (restrict_to scope db) i t = queue_join db i t"
  using restrict_session [OF assms] by (simp add: queue_join_def)

lemma restrict_settings [simp]: "db_settings (restrict_to scope db) = db_settings db"
  by (simp add: restrict_to_def)

lemma count_restrict:
  assumes "\<And>r. r \<in> set rows \<Longrightarrow> q r \<Longrightarrow> p' r = p r" and "\<And>r. r \<in> set rows \<Longrightarrow> p r \<Longrightarrow> q r"
  shows "count_rows p' (filter q rows) = count_rows p rows"
proof -
  have "filter (\<lambda>r. q r \<and> p' r) rows = filter p rows"
    using assms by (intro filter_cong) auto
  then show ?thesis by (simp add: count_rows_def filter_filter)
qed

lemma distinct_restrict:
  assumes "\<And>r. r \<in> set rows \<Longrightarrow> p r \<Longrightarrow> q r"
  shows "count_distinct k p (filter q rows) = count_distinct k p rows"
proof -
  have "filter (\<lambda>r. q r \<and> p r) rows = filter p rows"
    using assms by (intro filter_cong) auto
  then show ?thesis by (simp add: count_distinct_def filter_filter)
qed

text \<open>No metric sees a row of a trainee out of scope.\<close>

lemma restrict_metrics:
  assumes "links_ok db"
  shows "staff_metrics rnd scope now today weekday (restrict_to scope db) =
    staff_metrics rnd scope now today weekday db"
proof -
  let ?db = "restrict_to scope db"
  have e: "expected_today today weekday ?db a = expected_today today weekday db a"
    if "in_scope scope (as_trainee a)" for a
    using that by (auto simp: expected_today_def list_ex_iff)
  have j: "journal_due now h ?db j = journal_due now h db j"
    if "j \<in> set (db_journals db)" "in_scope scope (jo_trainee j)" for h j
  proof -
    have "find_attendance (jo_attendance j) ?db = find_attendance (jo_attendance j) db"
      using assms that by (intro restrict_session) (auto simp: links_ok_def)
    then show ?thesis by (simp add: journal_due_def)
  qed
  have p: "completion_pct rnd ?db a = completion_pct rnd db a"
    if "a \<in> set (db_assignments db)" "in_scope scope (as_trainee a)" for a
    using restrict_minutes(1) [OF assms that] by (simp add: completion_pct_def)
  have "count_distinct as_trainee (active_in scope) (db_assignments ?db) =
      count_distinct as_trainee (active_in scope) (db_assignments db)"
    unfolding restrict_rows by (rule distinct_restrict) (simp add: active_in_def)
  moreover have "count_distinct at_trainee
        (\<lambda>s. at_date s = today \<and> in_scope scope (at_trainee s)) (db_attendance ?db) =
      count_distinct at_trainee
        (\<lambda>s. at_date s = today \<and> in_scope scope (at_trainee s)) (db_attendance db)"
    unfolding restrict_rows by (rule distinct_restrict) simp
  moreover have "count_rows (\<lambda>a. expected_today today weekday ?db a \<and> in_scope scope (as_trainee a))
        (db_assignments ?db) =
      count_rows (\<lambda>a. expected_today today weekday db a \<and> in_scope scope (as_trainee a))
        (db_assignments db)"
    unfolding restrict_rows by (rule count_restrict) (auto simp: e)
  moreover have "list_ex (\<lambda>a. active_in scope a \<and> has_weekdays a) (db_assignments ?db) =
      list_ex (\<lambda>a. active_in scope a \<and> has_weekdays a) (db_assignments db)"
    by (auto simp: list_ex_iff active_in_def)
  moreover have "count_rows (\<lambda>s. at_date s = today \<and> at_status s = AtFlagged \<and> in_scope scope (at_trainee s))
        (db_attendance ?db) =
      count_rows (\<lambda>s. at_date s = today \<and> at_status s = AtFlagged \<and> in_scope scope (at_trainee s))
        (db_attendance db)"
    unfolding restrict_rows by (rule count_restrict) auto
  moreover have "count_rows (\<lambda>j. journal_due now h ?db j \<and> in_scope scope (jo_trainee j)) (db_journals ?db) =
      count_rows (\<lambda>j. journal_due now h db j \<and> in_scope scope (jo_trainee j)) (db_journals db)" for h
    unfolding restrict_rows by (rule count_restrict) (auto simp: j)
  moreover have "count_rows (\<lambda>a. active_in scope a \<and> g (completion_pct rnd ?db a)) (db_assignments ?db) =
      count_rows (\<lambda>a. active_in scope a \<and> g (completion_pct rnd db a)) (db_assignments db)" for g
    unfolding restrict_rows by (rule count_restrict) (auto simp: p active_in_def)
  ultimately show ?thesis unfolding staff_metrics_def Let_def restrict_settings by presburger
qed

lemma restrict_queues:
  assumes "links_ok db"
  shows "pendingCorrections scope (restrict_to scope db) = pendingCorrections scope db"
    and "recentFlags scope (restrict_to scope db) = recentFlags scope db"
    and "journalsAttention scope (restrict_to scope db) = journalsAttention scope db"
proof -
  let ?db = "restrict_to scope db"
  have "queue_join ?db (cr_attendance c) (cr_trainee c) = queue_join db (cr_attendance c) (cr_trainee c)"
    if "c \<in> set (db_corrections db)" "in_scope scope (cr_trainee c)" for c
    using assms that by (intro restrict_queue_join) (auto simp: links_ok_def)
  then show "pendingCorrections scope ?db = pendingCorrections scope db"
    unfolding pendingCorrections_def restrict_rows filter_filter
    by (auto intro!: arg_cong [where f = "take 10"] arg_cong [where f = "sort_key _"] map_filter_cong
        simp: conj_ac cong: filter_cong)
  show "recentFlags scope ?db = recentFlags scope db"
    by (simp add: recentFlags_def filter_filter conj_ac cong: filter_cong)
  have "queue_join ?db (jo_attendance j) (jo_trainee j) = queue_join db (jo_attendance j) (jo_trainee j)"
    if "j \<in> set (db_journals db)" "in_scope scope (jo_trainee j)" for j
    using assms that by (intro restrict_queue_join) (auto simp: links_ok_def)
  then show "journalsAttention scope ?db = journalsAttention scope db"
    unfolding journalsAttention_def restrict_rows filter_filter
    by (auto intro!: arg_cong [where f = "take 10"] arg_cong [where f = "by_submission _"] map_filter_cong
        simp: conj_ac cong: filter_cong)
qed

lemma restrict_attendance_list:
  assumes "links_ok db"
  shows "AttendanceList coll pg_date uuid_parse scope f p (restrict_to scope db) =
    AttendanceList coll pg_date uuid_parse scope f p db"
proof -
  have "List.map_filter (\<lambda>s. join_base (restrict_to scope db) (at_trainee s) s)
      (filter (\<lambda>s. in_scope scope (at_trainee s)) (db_attendance db)) =
    List.map_filter (\<lambda>s. join_base db (at_trainee s) s)
      (filter (\<lambda>s. in_scope scope (at_trainee s)) (db_attendance db))"
    by (rule map_filter_cong) (simp add: restrict_join [OF assms])
  then show ?thesis by (simp add: AttendanceList_def filter_filter Let_def split: option.splits)
qed

lemma restrict_dashboard:
  assumes "links_ok db"
  shows "StaffDashboard rnd tzdb scope now (restrict_to scope db) = StaffDashboard rnd tzdb scope now db"
  by (simp add: StaffDashboard_def Let_def restrict_metrics [OF assms] restrict_queues [OF assms]
      split: option.splits)

text \<open>
  C26. The staff dashboard and the list of sessions show their reader nothing beyond the
  reader's scope: two databases that differ only in the sessions, assignments, journals and
  corrections of trainees out of scope give the same metrics, the same queues and, for every
  filter and every page, the same list with the same total.
\<close>

theorem monitoring_noninterference:
  assumes "links_ok db1" and "links_ok db2"
    and "restrict_to (ScopedTraineeIDs actor db1) db1 = restrict_to (ScopedTraineeIDs actor db1) db2"
  shows "handle_StaffDashboard rnd tzdb ck actor db1 = handle_StaffDashboard rnd tzdb ck actor db2 \<and>
    handle_AttendanceList coll pg_date uuid_parse actor f page_q size_q db1 =
      handle_AttendanceList coll pg_date uuid_parse actor f page_q size_q db2"
proof -
  define scope where "scope = ScopedTraineeIDs actor db1"
  have r: "restrict_to scope db1 = restrict_to scope db2" using assms(3) by (simp add: scope_def)
  then have "db_scopes (restrict_to scope db1) = db_scopes (restrict_to scope db2)" by simp
  then have s2: "ScopedTraineeIDs actor db2 = scope"
    by (simp add: scope_def ScopedTraineeIDs_def restrict_to_def)
  have "StaffDashboard rnd tzdb scope (ck_now ck) db1 = StaffDashboard rnd tzdb scope (ck_now ck) db2"
    using restrict_dashboard [OF assms(1)] restrict_dashboard [OF assms(2)] r by metis
  moreover have "AttendanceList coll pg_date uuid_parse scope f page db1 =
      AttendanceList coll pg_date uuid_parse scope f page db2" for page
    using restrict_attendance_list [OF assms(1)] restrict_attendance_list [OF assms(2)] r by metis
  ultimately show ?thesis
    by (simp add: handle_StaffDashboard_def handle_AttendanceList_def s2 flip: scope_def)
qed

theorem monitoring_noninterference_witness:
  "handle_StaffDashboard (\<lambda>x. x) (\<lambda>_. Some (\<lambda>_. 0)) (demo_clock 5) demo_outsider demo_open_db =
   handle_StaffDashboard (\<lambda>x. x) (\<lambda>_. Some (\<lambda>_. 0)) (demo_clock 5) demo_outsider demo_db"
proof -
  have "links_ok demo_open_db" "links_ok demo_db"
    by (simp_all add: links_ok_def demo_open_db_def demo_session_def demo_db_defs)
  moreover have "restrict_to (ScopedTraineeIDs demo_outsider demo_open_db) demo_open_db =
      restrict_to (ScopedTraineeIDs demo_outsider demo_open_db) demo_db"
    by (simp add: restrict_to_def ScopedTraineeIDs_def in_scope_def demo_outsider_def
        demo_open_db_def demo_db_def)
  ultimately show ?thesis using monitoring_noninterference by blast
qed

end
