(* ===== verification/CorrectionLists.thy ===== *)
theory CorrectionLists
  imports MonitoringLaws CorrectionLaws
begin

text \<open>
  The lists of \<open>internal/corrections\<close>: the staff queue with its filters, and the two list handlers.
\<close>

record staff_correction =
  ci_correction :: correction_row
  ci_date :: date
  ci_trainee_name :: string
  ci_site_name :: string

definition correction_join :: "database \<Rightarrow> correction_row \<Rightarrow> staff_correction option" where
  "correction_join db c =
     Option.bind (find_attendance (cr_attendance c) db) (\<lambda>s.
     map_option (\<lambda>b. \<lparr>ci_correction = c, ci_date = at_date s, ci_trainee_name = name_of b,
       ci_site_name = si_name (bw_site b)\<rparr>) (join_base db (cr_trainee c) s))"

definition correction_matches ::
  "string \<Rightarrow> string \<Rightarrow> uuid option \<Rightarrow> date option \<Rightarrow> date option \<Rightarrow> string \<Rightarrow> staff_correction \<Rightarrow> bool" where
  "correction_matches status cType trainee from till q it =
     (let c = ci_correction it in
      (status = [] \<or> correction_status_text (cr_status c) = status) \<and>
      (cType = [] \<or> correction_type_text (cr_type c) = cType) \<and>
      opt_all (\<lambda>t. cr_trainee c = t) trainee \<and> in_dates from till (ci_date it) \<and>
      search_any q [ci_trainee_name it, ci_site_name it, cr_reason c,
        correction_type_text (cr_type c)])"

definition pending_first :: "staff_correction list \<Rightarrow> staff_correction list" where
  "pending_first items =
     sort_key (\<lambda>it. cr_status (ci_correction it) \<noteq> CrPending)
       (order_desc (\<lambda>it. cr_requested (ci_correction it)) items)"

definition ListStaff ::
  "(string \<Rightarrow> date option) \<Rightarrow> (string \<Rightarrow> uuid option) \<Rightarrow> uuid list option \<Rightarrow> string \<Rightarrow> string \<Rightarrow>
   string \<Rightarrow> string \<Rightarrow> string \<Rightarrow> string \<Rightarrow> page \<Rightarrow> database \<Rightarrow> go_error + staff_correction list \<times> int" where
  "ListStaff pg_date uuid_parse scope status cType traineeID from till q p db =
     (case (date_bound pg_date from, date_bound pg_date till) of
        (Some f, Some t) \<Rightarrow>
          let rows = filter (correction_matches status cType (uuidOrNil uuid_parse traineeID) f t q)
                (List.map_filter (correction_join db)
                  (filter (\<lambda>c. in_scope scope (cr_trainee c)) (db_corrections db)))
          in result_bind (page_rows p (pending_first rows)) (\<lambda>items. Inr (items, int (length rows)))
      | _ \<Rightarrow> Inl QueryFailed)"

section \<open>Handlers\<close>

definition handle_Mine ::
  "auth_user \<Rightarrow> int option \<Rightarrow> int option \<Rightarrow> database \<Rightarrow>
   api_error + (correction_row \<times> date) list \<times> page_meta" where
  "handle_Mine actor page_q size_q db =
     (case trainee_of_user (ac_id actor) db of
        None \<Rightarrow> Inl ErrNotFound
      | Some tp \<Rightarrow>
          let page = ParsePage page_q size_q
          in case ListMine (tp_id tp) page db of
               Inl e \<Rightarrow> Inl Internal
             | Inr (items, tot) \<Rightarrow> Inr (items, NewPageMeta page tot))"

definition handle_List_corrections ::
  "(string \<Rightarrow> date option) \<Rightarrow> (string \<Rightarrow> uuid option) \<Rightarrow> auth_user \<Rightarrow> string \<Rightarrow> string \<Rightarrow> string \<Rightarrow>
   string \<Rightarrow> string \<Rightarrow> string \<Rightarrow> int option \<Rightarrow> int option \<Rightarrow> database \<Rightarrow>
   api_error + staff_correction list \<times> page_meta" where
  "handle_List_corrections pg_date uuid_parse actor status cType traineeID from till q page_q size_q db =
     (let page = ParsePage page_q size_q
      in case ListStaff pg_date uuid_parse (ScopedTraineeIDs actor db) status cType traineeID from till q
             page db of
           Inl e \<Rightarrow> Inl Internal
         | Inr (items, tot) \<Rightarrow> Inr (items, NewPageMeta page tot))"

section \<open>What the queue shows\<close>

lemma pending_first_sorted:
  "sorted (map (\<lambda>it. cr_status (ci_correction it) \<noteq> CrPending) (pending_first items))"
  "set (pending_first items) = set items"
  by (simp_all add: pending_first_def order_desc_def)

lemma ListStaff_items:
  assumes "ListStaff pg_date uuid_parse scope status cType traineeID from till q p db = Inr (items, n)"
  shows "(\<forall>it\<in>set items. in_scope scope (cr_trainee (ci_correction it)) \<and>
      ci_correction it \<in> set (db_corrections db) \<and>
      (status = [] \<or> correction_status_text (cr_status (ci_correction it)) = status)) \<and>
    int (length items) \<le> n"
proof -
  obtain f t where ft: "date_bound pg_date from = Some f" "date_bound pg_date till = Some t"
    using assms by (auto simp: ListStaff_def split: option.splits)
  define rows where "rows = filter (correction_matches status cType (uuidOrNil uuid_parse traineeID) f t q)
    (List.map_filter (correction_join db)
      (filter (\<lambda>c. in_scope scope (cr_trainee c)) (db_corrections db)))"
  have items: "page_rows p (pending_first rows) = Inr items" "n = int (length rows)"
    using assms ft by (auto simp: ListStaff_def rows_def Let_def result_bind_def split: sum.splits)
  then have i: "items = take (nat (Limit p)) (drop (nat (Offset p)) (pending_first rows))"
    by (simp add: page_rows_def split: if_splits)
  then have "set items \<subseteq> set rows"
    by (metis in_set_dropD in_set_takeD pending_first_sorted(2) subsetI)
  moreover have "length items \<le> length rows"
    by (simp add: i pending_first_def order_desc_def)
  ultimately show ?thesis
    using items(2)
    by (force simp: rows_def in_map_filter correction_join_def correction_matches_def Let_def
        split: bind_splits)
qed

end
