(* ===== verification/Ledger.thy ===== *)
theory Ledger
  imports CorrectionLaws JournalLaws
begin

text \<open>
  The abstract specification of the service: the ledger of the trainees' days. It is what remains
  of the database when accounts, sites, settings, notifications and the audit log are left out,
  and its events are the only ways in which a trainee's record is meant to change: a day is opened
  and closed with evidence, a correction is requested and decided, a journal is written and
  reviewed. The consistency of the ledger is proved here once, of the events; that every endpoint
  performs one event or none is proved of the code's model.
\<close>

section \<open>The ledger\<close>

record ledger =
  lg_days :: "attendance_row list"
  lg_proofs :: "evidence_row list"
  lg_journals :: "journal_row list"
  lg_reviews :: "review_row list"
  lg_corrections :: "correction_row list"
  lg_adjustments :: "adjustment_row list"
  lg_owners :: "(uuid \<times> uuid) set"

definition ledger_of :: "database \<Rightarrow> ledger" where
  "ledger_of db = \<lparr>lg_days = db_attendance db, lg_proofs = db_evidence db,
     lg_journals = db_journals db, lg_reviews = db_reviews db,
     lg_corrections = db_corrections db, lg_adjustments = db_adjustments db,
     lg_owners = (\<lambda>a. (as_id a, as_trainee a)) ` set (db_assignments db)\<rparr>"

text \<open>What an operation may do to a row: the columns it has to leave.\<close>

definition day_kept :: "attendance_row \<Rightarrow> attendance_row \<Rightarrow> bool" where
  "day_kept q r \<longleftrightarrow> at_id r = at_id q \<and> at_trainee r = at_trainee q \<and>
     at_assignment r = at_assignment q \<and> at_date r = at_date q \<and>
     at_original_in r = at_original_in q \<and> at_created r = at_created q \<and>
     (at_original_out q \<noteq> None \<longrightarrow> at_original_out r = at_original_out q)"

definition opened :: "attendance_row \<Rightarrow> bool" where
  "opened s \<longleftrightarrow> at_status s = AtOpen \<and> at_original_out s = None \<and> at_effective_out s = None \<and>
     at_credited s = None \<and> at_effective_in s = at_original_in s"

text \<open>
  A day that counts has its minutes, at least none and at most those between its times; one
  without a Time Out has none.
\<close>

definition minutes_ok :: "attendance_row \<Rightarrow> bool" where
  "minutes_ok s \<longleftrightarrow>
     (case at_effective_out s of
        None \<Rightarrow> at_credited s = None
      | Some t \<Rightarrow> (\<exists>c. at_credited s = Some c \<and> 0 \<le> c \<and> c * us_per_minute \<le> t - at_effective_in s))"

definition proof_of :: "attendance_row \<Rightarrow> evidence_action \<Rightarrow> instant \<Rightarrow> evidence_row \<Rightarrow> bool" where
  "proof_of s act t e \<longleftrightarrow> ev_attendance e = at_id s \<and> ev_trainee e = at_trainee s \<and>
     ev_action e = act \<and> ev_server_at e = t"

definition closes :: "instant \<Rightarrow> (attendance_row \<Rightarrow> attendance_row) \<Rightarrow> bool" where
  "closes now f \<longleftrightarrow> (\<forall>q. at_id (f q) = at_id q \<and> at_trainee (f q) = at_trainee q \<and>
     at_assignment (f q) = at_assignment q \<and> at_date (f q) = at_date q \<and>
     at_original_in (f q) = at_original_in q \<and> at_created (f q) = at_created q \<and>
     at_original_out (f q) = Some now \<and> at_effective_in (f q) = at_effective_in q \<and>
     at_effective_out (f q) = Some now \<and> at_status (f q) \<in> {AtValid, AtFlagged} \<and>
     at_credited (f q) \<noteq> None)"

definition corrects :: "adjustment_row \<Rightarrow> (attendance_row \<Rightarrow> attendance_row) \<Rightarrow> bool" where
  "corrects d f \<longleftrightarrow> (\<forall>q. at_id (f q) = at_id q \<and> at_trainee (f q) = at_trainee q \<and>
     at_assignment (f q) = at_assignment q \<and> at_date (f q) = at_date q \<and>
     at_original_in (f q) = at_original_in q \<and> at_created (f q) = at_created q \<and>
     at_original_out (f q) = at_original_out q \<and> at_effective_in (f q) = ad_effective_in d \<and>
     at_effective_out (f q) = ad_effective_out d \<and> at_status (f q) = AtCorrected)"

definition decides :: "correction_status \<Rightarrow> (correction_row \<Rightarrow> correction_row) \<Rightarrow> bool" where
  "decides st g \<longleftrightarrow> (\<forall>q. cr_id (g q) = cr_id q \<and> cr_attendance (g q) = cr_attendance q \<and>
     cr_trainee (g q) = cr_trainee q \<and> cr_status (g q) = st \<and> cr_decided_by (g q) \<noteq> None)"

definition journal_kept :: "(journal_row \<Rightarrow> journal_row) \<Rightarrow> bool" where
  "journal_kept f \<longleftrightarrow> (\<forall>q. jo_id (f q) = jo_id q \<and> jo_attendance (f q) = jo_attendance q \<and>
     jo_trainee (f q) = jo_trainee q)"

definition written :: "journal_row \<Rightarrow> bool" where
  "written j \<longleftrightarrow> (\<exists>n. jo_narrative j = Some n \<and> narrativeMinLen \<le> length n)"

definition journal_opened :: "attendance_row \<Rightarrow> journal_row list \<Rightarrow> journal_row list \<Rightarrow> bool" where
  "journal_opened s js js' \<longleftrightarrow>
     (if at_id s \<in> jo_attendance ` set js then js' = js
      else \<exists>j. js' = js @ [j] \<and> jo_id j \<notin> jo_id ` set js \<and> jo_attendance j = at_id s \<and>
        jo_trainee j = at_trainee s \<and> jo_status j = JDraft)"

section \<open>Events\<close>

abbreviation day_key :: "attendance_row \<Rightarrow> uuid \<times> date" where
  "day_key s \<equiv> (at_trainee s, at_date s)"

abbreviation proof_key :: "evidence_row \<Rightarrow> uuid \<times> evidence_action" where
  "proof_key e \<equiv> (ev_attendance e, ev_action e)"

text \<open>\<open>ledger_step t l l'\<close>: an event of the record of trainee \<open>t\<close>.\<close>

inductive ledger_step :: "uuid \<Rightarrow> ledger \<Rightarrow> ledger \<Rightarrow> bool" where
  time_in:
    "\<lbrakk>at_id s \<notin> at_id ` set (lg_days l); day_key s \<notin> day_key ` set (lg_days l); opened s;
      (at_assignment s, at_trainee s) \<in> lg_owners l; ev_id e \<notin> ev_id ` set (lg_proofs l);
      proof_key e \<notin> proof_key ` set (lg_proofs l); proof_of s ActTimeIn (at_original_in s) e\<rbrakk>
     \<Longrightarrow> ledger_step (at_trainee s) l
       (l\<lparr>lg_days := lg_days l @ [s], lg_proofs := lg_proofs l @ [e]\<rparr>)"
| time_out:
    "\<lbrakk>s \<in> set (lg_days l); at_status s = AtOpen; closes now f; at_effective_in s < now;
      ev_id e \<notin> ev_id ` set (lg_proofs l); proof_key e \<notin> proof_key ` set (lg_proofs l);
      proof_of s ActTimeOut now e; journal_opened s (lg_journals l) js; minutes_ok (f s)\<rbrakk>
     \<Longrightarrow> ledger_step (at_trainee s) l
       (l\<lparr>lg_days := set_by_key at_id (at_id s) f (lg_days l), lg_proofs := lg_proofs l @ [e],
          lg_journals := js\<rparr>)"
| ask_correction:
    "\<lbrakk>cr_id c \<notin> cr_id ` set (lg_corrections l); cr_status c = CrPending; cr_decided_by c = None;
      \<forall>q\<in>set (lg_corrections l). cr_status q = CrPending \<longrightarrow> cr_attendance q \<noteq> cr_attendance c;
      s \<in> set (lg_days l); at_id s = cr_attendance c; at_trainee s = cr_trainee c\<rbrakk>
     \<Longrightarrow> ledger_step (cr_trainee c) l (l\<lparr>lg_corrections := lg_corrections l @ [c]\<rparr>)"
| reject_correction:
    "\<lbrakk>c \<in> set (lg_corrections l); cr_status c = CrPending; decides CrRejected g\<rbrakk>
     \<Longrightarrow> ledger_step (cr_trainee c) l
       (l\<lparr>lg_corrections := set_by_key cr_id (cr_id c) g (lg_corrections l)\<rparr>)"
| approve_correction_event:
    "\<lbrakk>c \<in> set (lg_corrections l); cr_status c = CrPending; decides CrApproved g;
      s \<in> set (lg_days l); at_id s = cr_attendance c; ad_attendance d = at_id s;
      ad_correction d = cr_id c; ad_correction d \<notin> ad_correction ` set (lg_adjustments l);
      opt_all (\<lambda>t. ad_effective_in d < t) (ad_effective_out d); corrects d f;
      at_effective_out s \<noteq> None \<longrightarrow> ad_effective_out d \<noteq> None;
      if ad_effective_out d \<noteq> None \<and> at_effective_out s = None
      then journal_opened s (lg_journals l) js else js = lg_journals l;
      minutes_ok s \<longrightarrow> minutes_ok (f s)\<rbrakk>
     \<Longrightarrow> ledger_step (cr_trainee c) l
       (l\<lparr>lg_days := set_by_key at_id (at_id s) f (lg_days l), lg_journals := js,
          lg_corrections := set_by_key cr_id (cr_id c) g (lg_corrections l),
          lg_adjustments := lg_adjustments l @ [d]\<rparr>)"
| edit_journal:
    "\<lbrakk>j \<in> set (lg_journals l); editable (jo_status j); journal_kept f;
      jo_status (f j) = jo_status j \<or> jo_status (f j) = JSubmitted \<and> written (f j)\<rbrakk>
     \<Longrightarrow> ledger_step (jo_trainee j) l
       (l\<lparr>lg_journals := set_by_key jo_id (jo_id j) f (lg_journals l)\<rparr>)"
| review_journal:
    "\<lbrakk>j \<in> set (lg_journals l); jo_status j = JSubmitted; journal_kept f;
      jo_narrative (f j) = jo_narrative j; rv_journal r = jo_id j; review_check r;
      jo_status (f j) = status_of_decision (rv_decision r)\<rbrakk>
     \<Longrightarrow> ledger_step (jo_trainee j) l
       (l\<lparr>lg_journals := set_by_key jo_id (jo_id j) f (lg_journals l),
          lg_reviews := lg_reviews l @ [r]\<rparr>)"

text \<open>What the other operations do: nothing, but assignments may be added.\<close>

definition ledger_same :: "ledger \<Rightarrow> ledger \<Rightarrow> bool" where
  "ledger_same l l' \<longleftrightarrow> lg_owners l \<subseteq> lg_owners l' \<and> l' = l\<lparr>lg_owners := lg_owners l'\<rparr>"

lemma ledger_same_refl [simp]: "ledger_same l l" by (simp add: ledger_same_def)

lemma ledger_same_trans: "ledger_same a b \<Longrightarrow> ledger_same b c \<Longrightarrow> ledger_same a c"
  unfolding ledger_same_def by (cases a; cases b; cases c) auto

end
