(* ===== verification/LedgerLaws.thy ===== *)
theory LedgerLaws
  imports Ledger
begin

text \<open>
  The invariants of the ledger, proved of its events, and what no event ever changes.
\<close>

section \<open>Rows of a table after an update\<close>

lemma in_set_by_key [table_simps]:
  "r \<in> set (set_by_key key k f t) \<longleftrightarrow> (\<exists>q\<in>set t. r = (if key q = k then f q else q))"
  by (simp add: set_by_key_def in_update_where)

lemma map_set_by_key:
  "(\<And>q. col (f q) = col q) \<Longrightarrow> map col (set_by_key key k f t) = map col t"
  by (induction t) (auto simp: set_by_key_def update_where_def)

lemma unique_set_by_key:
  "(\<And>q. col (f q) = col q) \<Longrightarrow> unique_on col (set_by_key key k f t) \<longleftrightarrow> unique_on col t"
  by (simp add: unique_on_def map_set_by_key)

lemma image_set_by_key:
  "(\<And>q. col (f q) = col q) \<Longrightarrow> col ` set (set_by_key key k f t) = col ` set t"
  by (metis list.set_map map_set_by_key)

text \<open>The rows after the update of the row \<open>s\<close>, found by a key that is unique.\<close>

lemma rows_updated:
  assumes "unique_on key t" and "s \<in> set t"
  shows "set (set_by_key key (key s) f t) = insert (f s) (set t - {s})"
proof -
  have s: "key q = key s \<longleftrightarrow> q = s" if "q \<in> set t" for q
    using unique_on_inj [OF assms(1) that assms(2)] by auto
  have "set (set_by_key key (key s) f t) = (\<lambda>q. if q = s then f q else q) ` set t"
    by (auto simp: set_by_key_def update_where_def s)
  also have "\<dots> = insert (f s) (set t - {s})" using assms(2) by (auto simp: image_iff)
  finally show ?thesis .
qed

lemmas kept_defs = closes_def corrects_def decides_def journal_kept_def

lemma closesD:
  assumes "closes now f"
  shows "at_id (f q) = at_id q" "at_trainee (f q) = at_trainee q"
    "at_assignment (f q) = at_assignment q" "at_date (f q) = at_date q"
    "at_original_in (f q) = at_original_in q" "at_created (f q) = at_created q"
    "at_original_out (f q) = Some now" "at_effective_in (f q) = at_effective_in q"
    "at_effective_out (f q) = Some now" "at_status (f q) \<noteq> AtOpen" "at_status (f q) \<noteq> AtCorrected"
proof -
  have "at_status (f q) \<in> {AtValid, AtFlagged}" using assms unfolding closes_def by blast
  then show "at_status (f q) \<noteq> AtOpen" "at_status (f q) \<noteq> AtCorrected" by auto
qed (use assms in \<open>simp_all add: closes_def\<close>)

lemma correctsD:
  assumes "corrects d f"
  shows "at_id (f q) = at_id q" "at_trainee (f q) = at_trainee q"
    "at_assignment (f q) = at_assignment q" "at_date (f q) = at_date q"
    "at_original_in (f q) = at_original_in q" "at_created (f q) = at_created q"
    "at_original_out (f q) = at_original_out q" "at_effective_in (f q) = ad_effective_in d"
    "at_effective_out (f q) = ad_effective_out d" "at_status (f q) = AtCorrected"
  using assms by (simp_all add: corrects_def)

lemma decidesD:
  assumes "decides st g"
  shows "cr_id (g q) = cr_id q" "cr_attendance (g q) = cr_attendance q"
    "cr_trainee (g q) = cr_trainee q" "cr_status (g q) = st" "cr_decided_by (g q) \<noteq> None"
  using assms by (simp_all add: decides_def)

section \<open>Keys\<close>

definition keys_ok :: "ledger \<Rightarrow> bool" where
  "keys_ok l \<longleftrightarrow> unique_on at_id (lg_days l) \<and> unique_on day_key (lg_days l) \<and>
     unique_on ev_id (lg_proofs l) \<and> unique_on proof_key (lg_proofs l) \<and>
     unique_on jo_id (lg_journals l) \<and> unique_on jo_attendance (lg_journals l) \<and>
     unique_on cr_id (lg_corrections l) \<and> unique_on ad_correction (lg_adjustments l)"

lemma journal_opened_keys:
  assumes "journal_opened s js js'" and "unique_on jo_id js" and "unique_on jo_attendance js"
  shows "unique_on jo_id js' \<and> unique_on jo_attendance js'"
  using assms by (auto simp: journal_opened_def unique_on_append split: if_splits)

lemma keys_step: "ledger_step t l l' \<Longrightarrow> keys_ok l \<Longrightarrow> keys_ok l'"
  by (induction rule: ledger_step.induct)
    (auto simp: keys_ok_def unique_on_append unique_set_by_key kept_defs
      dest: journal_opened_keys split: if_splits)

section \<open>Days\<close>

definition day_ok :: "ledger \<Rightarrow> attendance_row \<Rightarrow> bool" where
  "day_ok l s \<longleftrightarrow> (at_assignment s, at_trainee s) \<in> lg_owners l \<and>
     (at_status s = AtOpen \<longrightarrow> opened s) \<and>
     (at_status s \<in> {AtValid, AtFlagged} \<longrightarrow> at_original_out s \<noteq> None \<and>
        at_effective_in s = at_original_in s \<and> at_effective_out s = at_original_out s) \<and>
     opt_all (\<lambda>t. at_effective_in s < t) (at_effective_out s) \<and> minutes_ok s"

definition days_ok :: "ledger \<Rightarrow> bool" where
  "days_ok l \<longleftrightarrow> (\<forall>s\<in>set (lg_days l). day_ok l s)"

lemma days_step:
  assumes "ledger_step t l l'" and "keys_ok l" and "days_ok l"
  shows "days_ok l'"
  using assms(1)
proof (cases rule: ledger_step.cases)
  case (time_out s now f e js)
  have days: "set (lg_days l') = insert (f s) (set (lg_days l) - {s})"
    using time_out assms(2) by (simp add: rows_updated keys_ok_def)
  have "day_ok l s" using time_out(3) assms(3) by (simp add: days_ok_def)
  then have new: "day_ok l (f s)" using time_out(4,6,11)
    by (simp add: day_ok_def opened_def closesD [OF time_out(5)])
  have same: "day_ok l' q = day_ok l q" for q using time_out(2) by (simp add: day_ok_def)
  show ?thesis using assms(3) new unfolding days_ok_def days same by blast
next
  case (approve_correction_event c g s d f js)
  have days: "set (lg_days l') = insert (f s) (set (lg_days l) - {s})"
    using approve_correction_event(6) assms(2) unfolding approve_correction_event(2)
    by (simp add: rows_updated keys_ok_def)
  have "day_ok l s" using approve_correction_event(6) assms(3) by (simp add: days_ok_def)
  then have new: "day_ok l (f s)"
    using approve_correction_event(11,15)
    by (simp add: day_ok_def correctsD [OF approve_correction_event(12)])
  have same: "day_ok l' q = day_ok l q" for q
    using approve_correction_event(2) by (simp add: day_ok_def)
  show ?thesis using assms(3) new unfolding days_ok_def days same by blast
qed (use assms(3) in \<open>auto simp: days_ok_def day_ok_def opened_def minutes_ok_def\<close>)

section \<open>Evidence\<close>

definition supports :: "attendance_row \<Rightarrow> evidence_row \<Rightarrow> bool" where
  "supports s e \<longleftrightarrow> proof_of s ActTimeIn (at_original_in s) e \<or>
     (\<exists>t. at_original_out s = Some t \<and> proof_of s ActTimeOut t e)"

definition proved :: "evidence_row set \<Rightarrow> attendance_row \<Rightarrow> bool" where
  "proved es s \<longleftrightarrow> (\<exists>e\<in>es. proof_of s ActTimeIn (at_original_in s) e) \<and>
     (\<forall>t. at_original_out s = Some t \<longrightarrow> (\<exists>e\<in>es. proof_of s ActTimeOut t e))"

definition proofs_ok :: "ledger \<Rightarrow> bool" where
  "proofs_ok l \<longleftrightarrow> (\<forall>s\<in>set (lg_days l). proved (set (lg_proofs l)) s) \<and>
     (\<forall>e\<in>set (lg_proofs l). \<exists>s\<in>set (lg_days l). supports s e)"

lemma proved_mono: "proved es s \<Longrightarrow> es \<subseteq> es' \<Longrightarrow> proved es' s"
  unfolding proved_def by blast

text \<open>The ledger after one day \<open>s\<close> has become \<open>s'\<close> and the evidence \<open>new\<close> has been added.\<close>

lemma proofs_day_changed:
  assumes "proofs_ok l" and "s \<in> set (lg_days l)"
    and "set (lg_days l') = insert s' (set (lg_days l) - {s})"
    and "set (lg_proofs l') = new \<union> set (lg_proofs l)"
    and "proved (set (lg_proofs l)) s \<Longrightarrow> proved (set (lg_proofs l')) s'"
    and "\<And>e. supports s e \<Longrightarrow> supports s' e" and "\<And>e. e \<in> new \<Longrightarrow> supports s' e"
  shows "proofs_ok l'"
proof -
  have "proved (set (lg_proofs l')) q" if "q \<in> set (lg_days l')" for q
  proof (cases "q = s'")
    case True
    then show ?thesis using assms(1,2,5) by (simp add: proofs_ok_def)
  next
    case False
    then have "proved (set (lg_proofs l)) q" using that assms(1,3) by (simp add: proofs_ok_def)
    then show ?thesis by (rule proved_mono) (simp add: assms(4))
  qed
  moreover have "\<exists>q\<in>set (lg_days l'). supports q e" if "e \<in> set (lg_proofs l')" for e
  proof (cases "e \<in> new")
    case True
    then show ?thesis using assms(7) [of e] by (simp add: assms(3))
  next
    case False
    then have "e \<in> set (lg_proofs l)" using that by (simp add: assms(4))
    then obtain q where "q \<in> set (lg_days l)" "supports q e"
      using assms(1) by (auto simp: proofs_ok_def)
    then show ?thesis using assms(6) [of e] by (cases "q = s") (auto simp: assms(3))
  qed
  ultimately show ?thesis by (simp add: proofs_ok_def)
qed

lemma proofs_step:
  assumes "ledger_step t l l'" and "keys_ok l" and "days_ok l" and "proofs_ok l"
  shows "proofs_ok l'"
  using assms(1)
proof (cases rule: ledger_step.cases)
  case (time_in s e)
  have "supports s e" "proved (insert e (set (lg_proofs l))) s"
    using time_in(5,9) by (auto simp: supports_def proved_def opened_def)
  moreover have "proved (insert e (set (lg_proofs l))) q" if "q \<in> set (lg_days l)" for q
    using assms(4) that by (auto simp: proofs_ok_def intro: proved_mono)
  moreover have "\<exists>q\<in>set (lg_days l). supports q x" if "x \<in> set (lg_proofs l)" for x
    using assms(4) that by (simp add: proofs_ok_def)
  ultimately show ?thesis unfolding time_in(2) proofs_ok_def by auto
next
  case (time_out s now f e js)
  have days: "set (lg_days l') = insert (f s) (set (lg_days l) - {s})"
    using time_out assms(2) by (simp add: rows_updated keys_ok_def)
  have out: "at_original_out s = None" "at_original_out (f s) = Some now"
      "at_original_in (f s) = at_original_in s"
    using time_out assms(3) by (auto simp: days_ok_def day_ok_def opened_def closes_def)
  have f: "proof_of (f s) a t x = proof_of s a t x" for a t x
    using time_out by (simp add: closes_def proof_of_def)
  show ?thesis
    by (rule proofs_day_changed [OF assms(4) time_out(3) days, of "{e}"])
      (use time_out(2,9) in \<open>auto simp: supports_def proved_def f out\<close>)
next
  case (approve_correction_event c g s d f js)
  have days: "set (lg_days l') = insert (f s) (set (lg_days l) - {s})"
    using approve_correction_event(6) assms(2) unfolding approve_correction_event(2)
    by (simp add: rows_updated keys_ok_def)
  have out: "at_original_in (f s) = at_original_in s" "at_original_out (f s) = at_original_out s"
    using approve_correction_event(12) by (simp_all add: corrects_def)
  have f: "proof_of (f s) a t x = proof_of s a t x" for a t x
    using approve_correction_event(12) by (simp add: corrects_def proof_of_def)
  show ?thesis
    by (rule proofs_day_changed [OF assms(4) approve_correction_event(6) days, of "{}"])
      (use approve_correction_event(2) in \<open>simp_all add: supports_def proved_def f out\<close>)
qed (use assms(4) in \<open>simp_all add: proofs_ok_def\<close>)

section \<open>What no event changes\<close>

text \<open>No day is ever deleted, and none loses what was recorded when it was opened and closed.\<close>

lemma days_kept:
  assumes "ledger_step t l l'" and "keys_ok l" and "days_ok l" and "q \<in> set (lg_days l)"
  shows "\<exists>r\<in>set (lg_days l'). day_kept q r"
  using assms(1)
proof (cases rule: ledger_step.cases)
  case (time_out s now f e js)
  have "set (lg_days l') = insert (f s) (set (lg_days l) - {s})"
    using time_out assms(2) by (simp add: rows_updated keys_ok_def)
  moreover have "at_original_out s = None"
    using time_out(3,4) assms(3) by (simp add: days_ok_def day_ok_def opened_def)
  then have "day_kept s (f s)" by (simp add: day_kept_def closesD [OF time_out(5)])
  moreover have "day_kept q q" by (simp add: day_kept_def)
  ultimately show ?thesis using assms(4) by (cases "q = s") auto
next
  case (approve_correction_event c g s d f js)
  have "set (lg_days l') = insert (f s) (set (lg_days l) - {s})"
    using approve_correction_event(6) assms(2) unfolding approve_correction_event(2)
    by (simp add: rows_updated keys_ok_def)
  moreover have "day_kept s (f s)"
    by (simp add: day_kept_def correctsD [OF approve_correction_event(12)])
  moreover have "day_kept q q" by (simp add: day_kept_def)
  ultimately show ?thesis using assms(4) by (cases "q = s") auto
qed (use assms(4) in \<open>auto simp: day_kept_def\<close>)

definition has_day :: "ledger \<Rightarrow> uuid \<Rightarrow> uuid \<Rightarrow> bool" where
  "has_day l i t \<longleftrightarrow> (\<exists>s\<in>set (lg_days l). at_id s = i \<and> at_trainee s = t)"

lemma has_day_step:
  "ledger_step u l l' \<Longrightarrow> keys_ok l \<Longrightarrow> days_ok l \<Longrightarrow> has_day l i t \<Longrightarrow> has_day l' i t"
  unfolding has_day_def using days_kept by (fastforce simp: day_kept_def)

section \<open>Journals\<close>

definition journal_ok :: "ledger \<Rightarrow> journal_row \<Rightarrow> bool" where
  "journal_ok l j \<longleftrightarrow> has_day l (jo_attendance j) (jo_trainee j) \<and>
     (jo_status j \<in> {JSubmitted, JReviewed} \<longrightarrow> written j) \<and>
     (\<forall>d. jo_status j = status_of_decision d \<longrightarrow>
        (\<exists>r\<in>set (lg_reviews l). rv_journal r = jo_id j \<and> rv_decision r = d))"

definition journals_ok :: "ledger \<Rightarrow> bool" where
  "journals_ok l \<longleftrightarrow> (\<forall>j\<in>set (lg_journals l). journal_ok l j) \<and>
     (\<forall>s\<in>set (lg_days l). at_effective_out s \<noteq> None \<longrightarrow> at_id s \<in> jo_attendance ` set (lg_journals l))"

lemma status_of_decision_simps [simp]:
  "status_of_decision d \<noteq> JDraft" "status_of_decision d \<noteq> JSubmitted"
  "JDraft \<noteq> status_of_decision d" "JSubmitted \<noteq> status_of_decision d"
  "status_of_decision d = status_of_decision d' \<longleftrightarrow> d = d'"
  by (cases d; cases d'; simp add: status_of_decision_def)+

lemma journal_ok_mono:
  assumes "journal_ok l j" and "has_day l (jo_attendance j) (jo_trainee j) \<Longrightarrow>
      has_day l' (jo_attendance j) (jo_trainee j)"
    and "set (lg_reviews l) \<subseteq> set (lg_reviews l')"
  shows "journal_ok l' j"
  using assms unfolding journal_ok_def by blast

lemma opened_journal_ok:
  assumes "journal_opened s (lg_journals l) js" and "\<forall>j\<in>set (lg_journals l). journal_ok l' j"
    and "has_day l' (at_id s) (at_trainee s)"
  shows "(\<forall>j\<in>set js. journal_ok l' j) \<and> at_id s \<in> jo_attendance ` set js \<and>
    jo_attendance ` set (lg_journals l) \<subseteq> jo_attendance ` set js"
  using assms by (auto simp: journal_opened_def journal_ok_def split: if_splits)

lemma reviews_kept: "ledger_step t l l' \<Longrightarrow> set (lg_reviews l) \<subseteq> set (lg_reviews l')"
  by (cases rule: ledger_step.cases) auto

lemma journals_step:
  assumes "ledger_step t l l'" and "keys_ok l" and "days_ok l" and "journals_ok l"
  shows "journals_ok l'"
proof -
  have old: "journal_ok l' j" if "j \<in> set (lg_journals l)" for j
    using assms(4) that has_day_step [OF assms(1-3)] reviews_kept [OF assms(1)]
    by (auto simp: journals_ok_def intro: journal_ok_mono)
  have day: "has_day l' (at_id s) (at_trainee s)" if "s \<in> set (lg_days l)" for s
    using that by (intro has_day_step [OF assms(1-3)]) (auto simp: has_day_def)
  have out: "at_id s \<in> jo_attendance ` set (lg_journals l)"
    if "s \<in> set (lg_days l)" "at_effective_out s \<noteq> None" for s
    using assms(4) that by (simp add: journals_ok_def)
  show ?thesis
    using assms(1)
  proof (cases rule: ledger_step.cases)
    case (time_in s e)
    then show ?thesis using old out by (auto simp: journals_ok_def opened_def)
  next
    case (time_out s now f e js)
    have days: "set (lg_days l') = insert (f s) (set (lg_days l) - {s})"
      using time_out assms(2) by (simp add: rows_updated keys_ok_def)
    have js: "lg_journals l' = js" using time_out(2) by simp
    have "\<forall>j\<in>set (lg_journals l). journal_ok l' j" using old by blast
    note ok = opened_journal_ok [OF time_out(10) this day [OF time_out(3)]]
    show ?thesis
      unfolding journals_ok_def days js using ok out
      by (auto simp: closesD [OF time_out(5)])
  next
    case (approve_correction_event c g s d f js)
    have days: "set (lg_days l') = insert (f s) (set (lg_days l) - {s})"
      using approve_correction_event(6) assms(2) unfolding approve_correction_event(2)
      by (simp add: rows_updated keys_ok_def)
    have js: "lg_journals l' = js" using approve_correction_event(2) by simp
    have all: "\<forall>j\<in>set (lg_journals l). journal_ok l' j" using old by blast
    have "(\<forall>j\<in>set js. journal_ok l' j) \<and> (ad_effective_out d \<noteq> None \<longrightarrow> at_id s \<in> jo_attendance ` set js) \<and>
        jo_attendance ` set (lg_journals l) \<subseteq> jo_attendance ` set js"
    proof (cases "ad_effective_out d \<noteq> None \<and> at_effective_out s = None")
      case True
      then show ?thesis
        using opened_journal_ok [OF _ all day [OF approve_correction_event(6)]]
          approve_correction_event(14) by simp
    next
      case False
      then show ?thesis using approve_correction_event(14) all out [OF approve_correction_event(6)] by auto
    qed
    then show ?thesis
      unfolding journals_ok_def days js using out
      by (auto simp: correctsD [OF approve_correction_event(12)])
  next
    case (edit_journal j f)
    have kept: "jo_id (f j) = jo_id j" "jo_attendance (f j) = jo_attendance j"
        "jo_trainee (f j) = jo_trainee j"
      using edit_journal(5) by (simp_all add: journal_kept_def)
    have rows: "set (lg_journals l') = insert (f j) (set (lg_journals l) - {j})"
      using edit_journal assms(2) by (simp add: rows_updated keys_ok_def)
    have att: "jo_attendance ` set (lg_journals l') = jo_attendance ` set (lg_journals l)"
      using edit_journal(2,5) by (simp add: image_set_by_key journal_kept_def)
    have "journal_ok l' j" using old edit_journal(3) .
    then have new: "journal_ok l' (f j)"
      using edit_journal(4,6) by (auto simp: journal_ok_def kept editable_def)
    have "lg_days l' = lg_days l" using edit_journal(2) by simp
    then show ?thesis using old out new unfolding journals_ok_def att unfolding rows by auto
  next
    case (review_journal j f r)
    have kept: "jo_id (f j) = jo_id j" "jo_attendance (f j) = jo_attendance j"
        "jo_trainee (f j) = jo_trainee j"
      using review_journal(5) by (simp_all add: journal_kept_def)
    have rows: "set (lg_journals l') = insert (f j) (set (lg_journals l) - {j})"
      using review_journal assms(2) by (simp add: rows_updated keys_ok_def)
    have att: "jo_attendance ` set (lg_journals l') = jo_attendance ` set (lg_journals l)"
      using review_journal(2,5) by (simp add: image_set_by_key journal_kept_def)
    have r: "r \<in> set (lg_reviews l')" using review_journal(2) by simp
    have "journal_ok l' j" using old review_journal(3) .
    then have new: "journal_ok l' (f j)"
      using r review_journal(4,6,7,9) by (auto simp: journal_ok_def kept written_def)
    have "lg_days l' = lg_days l" using review_journal(2) by simp
    then show ?thesis using old out new unfolding journals_ok_def att unfolding rows by auto
  qed (use old out in \<open>auto simp: journals_ok_def\<close>)
qed

section \<open>Corrections\<close>

abbreviation pending :: "correction_row \<Rightarrow> bool" where
  "pending c \<equiv> cr_status c = CrPending"

definition correction_ok :: "ledger \<Rightarrow> correction_row \<Rightarrow> bool" where
  "correction_ok l c \<longleftrightarrow> has_day l (cr_attendance c) (cr_trainee c) \<and>
     (pending c \<longleftrightarrow> cr_decided_by c = None) \<and>
     (cr_status c = CrApproved \<longleftrightarrow> cr_id c \<in> ad_correction ` set (lg_adjustments l))"

definition adjustment_ok :: "correction_row set \<Rightarrow> adjustment_row \<Rightarrow> bool" where
  "adjustment_ok cs d \<longleftrightarrow>
     (ad_correction d, ad_attendance d) \<in> (\<lambda>c. (cr_id c, cr_attendance c)) ` cs"

definition corrections_ok :: "ledger \<Rightarrow> bool" where
  "corrections_ok l \<longleftrightarrow> (\<forall>c\<in>set (lg_corrections l). correction_ok l c) \<and>
     unique_on cr_attendance (filter pending (lg_corrections l)) \<and>
     (\<forall>d\<in>set (lg_adjustments l). adjustment_ok (set (lg_corrections l)) d)"

lemma decided_unique:
  assumes "unique_on cr_id cs" and "unique_on cr_attendance (filter pending cs)"
    and "decides st g" and "st \<noteq> CrPending"
  shows "unique_on cr_attendance (filter pending (set_by_key cr_id i g cs))"
  unfolding set_by_key_def
proof (rule unique_on_update_where [OF assms(1)])
  fix a b
  assume "a \<in> set cs" "b \<in> set cs" "pending (if cr_id a = i then g a else a)"
    "pending (if cr_id b = i then g b else b)"
    "cr_attendance (if cr_id a = i then g a else a) = cr_attendance (if cr_id b = i then g b else b)"
  then show "a = b"
    using assms(2,4) by (auto simp: decidesD [OF assms(3)] partial_unique_iff [OF assms(1)] split: if_splits)
qed (simp add: decidesD [OF assms(3)])

lemma adjustment_decided:
  "adjustment_ok (set cs) d \<Longrightarrow> decides st g \<Longrightarrow> adjustment_ok (set (set_by_key cr_id i g cs)) d"
  unfolding adjustment_ok_def by (subst image_set_by_key) (simp_all add: decides_def)

lemma corrections_step:
  assumes "ledger_step t l l'" and "keys_ok l" and "days_ok l" and "corrections_ok l"
  shows "corrections_ok l'"
proof -
  have day: "has_day l i u \<Longrightarrow> has_day l' i u" for i u by (rule has_day_step [OF assms(1-3)])
  have ok: "correction_ok l c" if "c \<in> set (lg_corrections l)" for c
    using assms(4) that by (simp add: corrections_ok_def)
  have adj: "adjustment_ok (set (lg_corrections l)) d" if "d \<in> set (lg_adjustments l)" for d
    using assms(4) that by (simp add: corrections_ok_def)
  have unique: "unique_on cr_id (lg_corrections l)" using assms(2) by (simp add: keys_ok_def)
  have one: "unique_on cr_attendance (filter pending (lg_corrections l))"
    using assms(4) by (simp add: corrections_ok_def)
  have same: "corrections_ok l'"
    if "lg_corrections l' = lg_corrections l" "lg_adjustments l' = lg_adjustments l"
    using assms(4) day that by (auto simp: corrections_ok_def correction_ok_def)
  show ?thesis
    using assms(1)
  proof (cases rule: ledger_step.cases)
    case (ask_correction c s)
    have l': "lg_corrections l' = lg_corrections l @ [c]" "lg_adjustments l' = lg_adjustments l"
      using ask_correction(2) by simp_all
    have "ad_correction d \<noteq> cr_id c" if "d \<in> set (lg_adjustments l)" for d
      using adj [OF that] ask_correction(3) by (auto simp: adjustment_ok_def)
    then have "cr_id c \<notin> ad_correction ` set (lg_adjustments l)" by (metis imageE)
    then have "correction_ok l' c"
      using ask_correction by (auto simp: correction_ok_def has_day_def)
    moreover have "correction_ok l' q" if "q \<in> set (lg_corrections l)" for q
      using ok [OF that] day by (simp add: correction_ok_def l')
    moreover have "unique_on cr_attendance (filter pending (lg_corrections l @ [c]))"
      using one ask_correction(4,6) by (auto simp: unique_on_append)
    moreover have "adjustment_ok (set (lg_corrections l @ [c])) d" if "d \<in> set (lg_adjustments l)" for d
      using adj [OF that] by (auto simp: adjustment_ok_def)
    ultimately show ?thesis by (auto simp: corrections_ok_def l')
  next
    case (reject_correction c g)
    have l': "lg_corrections l' = set_by_key cr_id (cr_id c) g (lg_corrections l)"
        "lg_adjustments l' = lg_adjustments l"
      using reject_correction(2) by simp_all
    have rows: "set (lg_corrections l') = insert (g c) (set (lg_corrections l) - {c})"
      using reject_correction(3) unique by (simp add: l' rows_updated)
    have "correction_ok l' (g c)"
      using ok [OF reject_correction(3)] day reject_correction(4)
      by (simp add: correction_ok_def decidesD [OF reject_correction(5)] l')
    moreover have "correction_ok l' q" if "q \<in> set (lg_corrections l)" for q
      using ok [OF that] day by (simp add: correction_ok_def l')
    moreover have "unique_on cr_attendance (filter pending (lg_corrections l'))"
      unfolding l' by (rule decided_unique [OF unique one reject_correction(5)]) simp
    moreover have "adjustment_ok (set (lg_corrections l')) d" if "d \<in> set (lg_adjustments l)" for d
      unfolding l' by (rule adjustment_decided [OF adj [OF that] reject_correction(5)])
    ultimately show ?thesis unfolding corrections_ok_def using rows by (simp add: l'(2))
  next
    case (approve_correction_event c g s d f js)
    note dec = approve_correction_event(5)
    have l': "lg_corrections l' = set_by_key cr_id (cr_id c) g (lg_corrections l)"
        "lg_adjustments l' = lg_adjustments l @ [d]"
      using approve_correction_event(2) by simp_all
    have rows: "set (lg_corrections l') = insert (g c) (set (lg_corrections l) - {c})"
      using approve_correction_event(3) unique by (simp add: l' rows_updated)
    have "correction_ok l' (g c)"
      using ok [OF approve_correction_event(3)] day approve_correction_event(9)
      by (simp add: correction_ok_def decidesD [OF dec] l')
    moreover have "correction_ok l' q" if "q \<in> set (lg_corrections l) - {c}" for q
    proof -
      have "cr_id q \<noteq> cr_id c"
        using that unique_on_inj [OF unique _ approve_correction_event(3)] by blast
      then show ?thesis
        using ok [of q] that day approve_correction_event(9) by (auto simp: correction_ok_def l')
    qed
    moreover have "unique_on cr_attendance (filter pending (lg_corrections l'))"
      unfolding l' by (rule decided_unique [OF unique one dec]) simp
    moreover have "adjustment_ok (set (lg_corrections l')) x" if "x \<in> set (lg_adjustments l)" for x
      unfolding l' by (rule adjustment_decided [OF adj [OF that] dec])
    moreover have "adjustment_ok (set (lg_corrections l')) d"
      unfolding rows adjustment_ok_def
      using approve_correction_event(7-9) by (simp add: image_iff decidesD [OF dec])
    ultimately show ?thesis unfolding corrections_ok_def using rows by (auto simp: l'(2))
  qed (use same in simp_all)
qed

section \<open>Effective times\<close>

text \<open>
  The times a day counts with are those it was opened and closed with until a correction is
  approved; from then on they are those of its last adjustment.
\<close>

definition adjusted :: "ledger \<Rightarrow> attendance_row \<Rightarrow> adjustment_row list" where
  "adjusted l s = filter (\<lambda>d. ad_attendance d = at_id s) (lg_adjustments l)"

definition time_ok :: "ledger \<Rightarrow> attendance_row \<Rightarrow> bool" where
  "time_ok l s \<longleftrightarrow> (at_status s = AtCorrected \<longleftrightarrow> adjusted l s \<noteq> []) \<and>
     (adjusted l s \<noteq> [] \<longrightarrow> at_effective_in s = ad_effective_in (last (adjusted l s)) \<and>
        at_effective_out s = ad_effective_out (last (adjusted l s)))"

definition times_ok :: "ledger \<Rightarrow> bool" where
  "times_ok l \<longleftrightarrow> (\<forall>s\<in>set (lg_days l). time_ok l s)"

lemma adjusted_day:
  assumes "corrections_ok l" and "d \<in> set (lg_adjustments l)"
  shows "\<exists>t. has_day l (ad_attendance d) t"
proof -
  obtain c where "c \<in> set (lg_corrections l)" "cr_attendance c = ad_attendance d"
    using assms by (auto simp: corrections_ok_def adjustment_ok_def)
  then show ?thesis using assms(1) by (metis corrections_ok_def correction_ok_def)
qed

lemma times_step:
  assumes "ledger_step t l l'" and "keys_ok l" and "corrections_ok l" and "times_ok l"
  shows "times_ok l'"
  using assms(1)
proof (cases rule: ledger_step.cases)
  case (time_in s e)
  have "ad_attendance d \<noteq> at_id s" if "d \<in> set (lg_adjustments l)" for d
    using time_in(3) adjusted_day [OF assms(3) that] by (metis has_day_def imageI)
  then have "adjusted l s = []" by (simp add: adjusted_def filter_empty_conv)
  then show ?thesis
    using time_in assms(4) by (auto simp: times_ok_def time_ok_def adjusted_def opened_def)
next
  case (time_out s now f e js)
  have days: "set (lg_days l') = insert (f s) (set (lg_days l) - {s})"
    using time_out assms(2) by (simp add: rows_updated keys_ok_def)
  have adj: "adjusted l' q = adjusted l q" for q using time_out(2) by (simp add: adjusted_def)
  have fs: "adjusted l (f s) = adjusted l s" by (simp add: adjusted_def closesD [OF time_out(5)])
  have "time_ok l s" using assms(4) time_out(3) by (simp add: times_ok_def)
  then have "time_ok l' (f s)"
    using time_out(4) by (simp add: time_ok_def adj fs closesD [OF time_out(5)])
  then show ?thesis using assms(4) unfolding times_ok_def days by (simp add: time_ok_def adj)
next
  case (approve_correction_event c g s d f js)
  have days: "set (lg_days l') = insert (f s) (set (lg_days l) - {s})"
    using approve_correction_event(6) assms(2) unfolding approve_correction_event(2)
    by (simp add: rows_updated keys_ok_def)
  have adj: "adjusted l' q = adjusted l q @ (if at_id q = at_id s then [d] else [])" for q
    using approve_correction_event(2,8) by (simp add: adjusted_def)
  have "at_id q \<noteq> at_id s" if "q \<in> set (lg_days l) - {s}" for q
    using that assms(2) approve_correction_event(6) unique_on_inj [of at_id "lg_days l" q s]
    by (auto simp: keys_ok_def)
  then have "time_ok l' q" if "q \<in> set (lg_days l) - {s}" for q
    using that assms(4) by (simp add: times_ok_def time_ok_def adj)
  moreover have "time_ok l' (f s)"
    by (simp add: time_ok_def adj correctsD [OF approve_correction_event(12)])
  ultimately show ?thesis unfolding times_ok_def days by auto
qed (use assms(4) in \<open>simp_all add: times_ok_def time_ok_def adjusted_def\<close>)

section \<open>The invariant\<close>

definition ledger_ok :: "ledger \<Rightarrow> bool" where
  "ledger_ok l \<longleftrightarrow> keys_ok l \<and> days_ok l \<and> proofs_ok l \<and> journals_ok l \<and> corrections_ok l \<and> times_ok l"

lemma ledger_ok_step: "ledger_step t l l' \<Longrightarrow> ledger_ok l \<Longrightarrow> ledger_ok l'"
  using keys_step days_step proofs_step journals_step corrections_step times_step
  unfolding ledger_ok_def by blast

lemma ledger_ok_same:
  assumes "ledger_same l l'" and "ledger_ok l"
  shows "ledger_ok l'"
proof -
  obtain O' where l': "l' = l\<lparr>lg_owners := O'\<rparr>" "lg_owners l \<subseteq> O'"
    using assms(1) unfolding ledger_same_def by blast
  have "keys_ok l'" "proofs_ok l'" "times_ok l'"
    using assms(2) by (simp_all add: l'(1) ledger_ok_def keys_ok_def proofs_ok_def times_ok_def
        time_ok_def adjusted_def)
  moreover have "days_ok l'"
    using assms(2) l'(2) by (auto simp: l'(1) ledger_ok_def days_ok_def day_ok_def)
  moreover have "journals_ok l'" "corrections_ok l'"
    using assms(2) by (simp_all add: l'(1) ledger_ok_def journals_ok_def journal_ok_def
        corrections_ok_def correction_ok_def has_day_def)
  ultimately show ?thesis by (simp add: ledger_ok_def)
qed

section \<open>Permanence\<close>

text \<open>
  What was recorded stays: the days with their original times, every evidence row, review and
  adjustment, every decided correction and every reviewed journal.
\<close>

abbreviation journal_key :: "journal_row \<Rightarrow> uuid \<times> uuid \<times> uuid" where
  "journal_key j \<equiv> (jo_id j, jo_attendance j, jo_trainee j)"

abbreviation correction_key :: "correction_row \<Rightarrow> uuid \<times> uuid \<times> uuid" where
  "correction_key c \<equiv> (cr_id c, cr_attendance c, cr_trainee c)"

definition ledger_grown :: "ledger \<Rightarrow> ledger \<Rightarrow> bool" where
  "ledger_grown l l' \<longleftrightarrow>
     (\<forall>q\<in>set (lg_days l). \<exists>r\<in>set (lg_days l'). day_kept q r) \<and>
     set (lg_proofs l) \<subseteq> set (lg_proofs l') \<and> set (lg_reviews l) \<subseteq> set (lg_reviews l') \<and>
     set (lg_adjustments l) \<subseteq> set (lg_adjustments l') \<and>
     journal_key ` set (lg_journals l) \<subseteq> journal_key ` set (lg_journals l') \<and>
     correction_key ` set (lg_corrections l) \<subseteq> correction_key ` set (lg_corrections l') \<and>
     {c \<in> set (lg_corrections l). \<not> pending c} \<subseteq> set (lg_corrections l') \<and>
     {j \<in> set (lg_journals l). jo_status j = JReviewed} \<subseteq> set (lg_journals l') \<and>
     lg_owners l \<subseteq> lg_owners l'"

lemma day_kept_trans: "day_kept a b \<Longrightarrow> day_kept b c \<Longrightarrow> day_kept a c"
  by (auto simp: day_kept_def)

lemma day_kept_refl [simp]: "day_kept a a"
  by (simp add: day_kept_def)

lemma day_kept_in: "q \<in> S \<Longrightarrow> \<exists>r\<in>S. day_kept q r"
  using day_kept_refl by (rule bexI)

lemma ledger_grown_refl [simp]: "ledger_grown l l"
  by (auto simp: ledger_grown_def intro: day_kept_in)

lemma ledger_grown_trans:
  assumes "ledger_grown a b" and "ledger_grown b c"
  shows "ledger_grown a c"
  unfolding ledger_grown_def
proof (intro conjI ballI)
  fix q assume "q \<in> set (lg_days a)"
  then obtain r where "r \<in> set (lg_days b)" "day_kept q r"
    using assms(1) by (auto simp: ledger_grown_def)
  then show "\<exists>s\<in>set (lg_days c). day_kept q s"
    using assms(2) day_kept_trans by (fastforce simp: ledger_grown_def)
qed (use assms in \<open>auto simp: ledger_grown_def subset_iff\<close>)

lemma other_rows_kept: "q \<in> set t \<Longrightarrow> key q \<noteq> k \<Longrightarrow> q \<in> set (set_by_key key k f t)"
  by (auto simp: in_set_by_key)

lemma distinct_status_rows:
  assumes "unique_on key t" and "c \<in> set t" and "q \<in> set t" and "st q \<noteq> st c"
  shows "q \<in> set (set_by_key key (key c) f t)"
proof -
  have "key q \<noteq> key c" using unique_on_inj [OF assms(1,3,2)] assms(4) by auto
  then show ?thesis by (rule other_rows_kept [OF assms(3)])
qed

lemma opened_journal_kept: "journal_opened s js js' \<Longrightarrow> set js \<subseteq> set js'"
  by (auto simp: journal_opened_def split: if_splits)

lemma grown_step:
  assumes "ledger_step t l l'" and "ledger_ok l"
  shows "ledger_grown l l'"
proof -
  have ok: "keys_ok l" "days_ok l" using assms(2) by (simp_all add: ledger_ok_def)
  have "\<forall>q\<in>set (lg_days l). \<exists>r\<in>set (lg_days l'). day_kept q r"
    using days_kept [OF assms(1) ok] by blast
  moreover have "set (lg_proofs l) \<subseteq> set (lg_proofs l')" "set (lg_adjustments l) \<subseteq> set (lg_adjustments l')"
      "lg_owners l' = lg_owners l"
    using assms(1) by (cases rule: ledger_step.cases; auto)+
  moreover have "journal_key ` set (lg_journals l) \<subseteq> journal_key ` set (lg_journals l')"
      "correction_key ` set (lg_corrections l) \<subseteq> correction_key ` set (lg_corrections l')"
    using assms(1)
    by (cases rule: ledger_step.cases;
        auto simp: image_set_by_key decides_def journal_kept_def dest!: opened_journal_kept split: if_splits)+
  moreover have "c \<in> set (lg_corrections l')" if "c \<in> set (lg_corrections l)" "\<not> pending c" for c
    using assms(1)
  proof (cases rule: ledger_step.cases)
    case (reject_correction d g)
    then show ?thesis
      using that ok(1) distinct_status_rows [of cr_id "lg_corrections l" d c cr_status g]
      by (simp add: keys_ok_def)
  next
    case (approve_correction_event d g s a f js)
    then show ?thesis
      using that ok(1) distinct_status_rows [of cr_id "lg_corrections l" d c cr_status g]
      by (simp add: keys_ok_def)
  qed (use that in simp_all)
  moreover have "j \<in> set (lg_journals l')" if "j \<in> set (lg_journals l)" "jo_status j = JReviewed" for j
    using assms(1)
  proof (cases rule: ledger_step.cases)
    case (time_out s now f e js)
    then show ?thesis using that opened_journal_kept [OF time_out(10)] by auto
  next
    case (approve_correction_event c g s d f js)
    then have "set (lg_journals l) \<subseteq> set js" by (auto dest: opened_journal_kept split: if_splits)
    then show ?thesis using that approve_correction_event(2) by auto
  next
    case (edit_journal i f)
    then show ?thesis
      using that ok(1) distinct_status_rows [of jo_id "lg_journals l" i j jo_status f]
      by (auto simp: keys_ok_def editable_def)
  next
    case (review_journal i f r)
    then show ?thesis
      using that ok(1) distinct_status_rows [of jo_id "lg_journals l" i j jo_status f]
      by (simp add: keys_ok_def)
  qed (use that in simp_all)
  ultimately show ?thesis
    using reviews_kept [OF assms(1)] by (auto simp: ledger_grown_def)
qed

lemma grown_same:
  assumes "ledger_same l l'"
  shows "ledger_grown l l'"
proof -
  obtain O' where "l' = l\<lparr>lg_owners := O'\<rparr>" "lg_owners l \<subseteq> O'"
    using assms unfolding ledger_same_def by blast
  then show ?thesis by (auto simp: ledger_grown_def intro: day_kept_in)
qed

section \<open>One trainee at a time\<close>

text \<open>The record of a trainee, and that an event of another trainee's does not touch it.\<close>

definition record_of ::
  "uuid \<Rightarrow> ledger \<Rightarrow>
   attendance_row list \<times> evidence_row list \<times> journal_row list \<times> correction_row list" where
  "record_of u l =
     (filter (\<lambda>s. at_trainee s = u) (lg_days l), filter (\<lambda>e. ev_trainee e = u) (lg_proofs l),
      filter (\<lambda>j. jo_trainee j = u) (lg_journals l),
      filter (\<lambda>c. cr_trainee c = u) (lg_corrections l))"

lemma filter_set_by_key:
  assumes "\<And>q. col (f q) = col q" and "\<And>q. q \<in> set t \<Longrightarrow> key q = k \<Longrightarrow> col q \<noteq> u"
  shows "filter (\<lambda>q. col q = u) (set_by_key key k f t) = filter (\<lambda>q. col q = u) t"
  using assms(2)
  by (induction t) (auto simp: set_by_key_def update_where_def assms(1))

lemma filter_updated_row:
  assumes "unique_on key t" and "s \<in> set t" and "\<And>q. col (f q) = col q" and "col s \<noteq> u"
  shows "filter (\<lambda>q. col q = u) (set_by_key key (key s) f t) = filter (\<lambda>q. col q = u) t"
proof (rule filter_set_by_key)
  show "col (f q) = col q" for q by (rule assms(3))
next
  fix q assume "q \<in> set t" "key q = key s"
  then have "q = s" using unique_on_inj [OF assms(1) _ assms(2)] by blast
  then show "col q \<noteq> u" using assms(4) by simp
qed

lemma opened_journal_filter:
  "journal_opened s js js' \<Longrightarrow> at_trainee s \<noteq> u \<Longrightarrow>
     filter (\<lambda>j. jo_trainee j = u) js' = filter (\<lambda>j. jo_trainee j = u) js"
  by (auto simp: journal_opened_def split: if_splits)

lemma record_step:
  assumes "ledger_step t l l'" and "ledger_ok l" and "u \<noteq> t"
  shows "record_of u l' = record_of u l"
proof -
  have keys: "keys_ok l" using assms(2) by (simp add: ledger_ok_def)
  show ?thesis
    using assms(1)
  proof (cases rule: ledger_step.cases)
    case (time_out s now f e js)
    then have "filter (\<lambda>q. at_trainee q = u) (lg_days l') = filter (\<lambda>q. at_trainee q = u) (lg_days l)"
      using filter_updated_row [of at_id "lg_days l" s at_trainee f u] keys assms(3)
      by (simp add: keys_ok_def closesD [OF time_out(5)])
    then show ?thesis
      using time_out(1,2,9) assms(3) opened_journal_filter [OF time_out(10), of u]
      by (simp add: record_of_def proof_of_def)
  next
    case (reject_correction c g)
    then show ?thesis
      using filter_updated_row [of cr_id "lg_corrections l" c cr_trainee g u] keys assms(3)
      by (simp add: record_of_def keys_ok_def decidesD [OF reject_correction(5)])
  next
    case (approve_correction_event c g s d f js)
    have "has_day l (at_id s) t"
      using assms(2) approve_correction_event(1,3,7)
      by (auto simp: ledger_ok_def corrections_ok_def correction_ok_def)
    then have s: "at_trainee s = t"
      using keys approve_correction_event(6) unique_on_inj [of at_id "lg_days l" _ s]
      by (auto simp: has_day_def keys_ok_def)
    have "filter (\<lambda>q. at_trainee q = u) (set_by_key at_id (at_id s) f (lg_days l)) =
        filter (\<lambda>q. at_trainee q = u) (lg_days l)"
      by (rule filter_updated_row)
        (use keys s assms(3) approve_correction_event(6)
          in \<open>simp_all add: keys_ok_def correctsD [OF approve_correction_event(12)]\<close>)
    moreover have "filter (\<lambda>q. cr_trainee q = u) (set_by_key cr_id (cr_id c) g (lg_corrections l)) =
        filter (\<lambda>q. cr_trainee q = u) (lg_corrections l)"
      by (rule filter_updated_row)
        (use keys assms(3) approve_correction_event(1,3)
          in \<open>simp_all add: keys_ok_def decidesD [OF approve_correction_event(5)]\<close>)
    moreover have "filter (\<lambda>j. jo_trainee j = u) js = filter (\<lambda>j. jo_trainee j = u) (lg_journals l)"
      using approve_correction_event(14) opened_journal_filter [of s _ js u] s assms(3)
      by (auto split: if_splits)
    ultimately show ?thesis unfolding approve_correction_event(2) by (simp add: record_of_def)
  next
    case (edit_journal j f)
    then show ?thesis
      using filter_updated_row [of jo_id "lg_journals l" j jo_trainee f u] keys assms(3)
      by (simp add: record_of_def keys_ok_def journal_kept_def)
  next
    case (review_journal j f r)
    then show ?thesis
      using filter_updated_row [of jo_id "lg_journals l" j jo_trainee f u] keys assms(3)
      by (simp add: record_of_def keys_ok_def journal_kept_def)
  qed (use assms(3) in \<open>auto simp: record_of_def proof_of_def\<close>)
qed

lemma record_same:
  assumes "ledger_same l l'"
  shows "record_of u l' = record_of u l"
proof -
  obtain O' where "l' = l\<lparr>lg_owners := O'\<rparr>"
    using assms unfolding ledger_same_def by blast
  then show ?thesis by (simp add: record_of_def)
qed

end
