(* ===== verification/Refinement.thy ===== *)
theory Refinement
  imports LedgerLaws Reminders
begin

text \<open>
  The services refine the ledger: whatever a request reads from an earlier state of the database,
  its effect on the ledger is one event of a trainee the actor may act for, or none.
\<close>

section \<open>Who may act for whom\<close>

definition own_profile :: "database \<Rightarrow> uuid \<Rightarrow> uuid \<Rightarrow> bool" where
  "own_profile db u t \<longleftrightarrow> (\<exists>tp\<in>set (db_trainees db). tp_id tp = t \<and> tp_user tp = u)"

definition may_act :: "database \<Rightarrow> auth_user \<Rightarrow> uuid \<Rightarrow> bool" where
  "may_act db u t \<longleftrightarrow> own_profile db (ac_id u) t \<or> CanAccessTrainee u t db"

text \<open>
  \<open>performs allowed db db'\<close>: nothing happened to the ledger, or one event of a trainee that is
  \<open>allowed\<close>. \<open>before db0 db\<close>: what a request has read from \<open>db0\<close> is not newer than \<open>db\<close>.
\<close>

definition performs :: "(uuid \<Rightarrow> bool) \<Rightarrow> database \<Rightarrow> database \<Rightarrow> bool" where
  "performs allowed db db' \<longleftrightarrow> ledger_same (ledger_of db) (ledger_of db') \<or>
     (\<exists>t. allowed t \<and> ledger_step t (ledger_of db) (ledger_of db'))"

definition before :: "database \<Rightarrow> database \<Rightarrow> bool" where
  "before db0 db \<longleftrightarrow> ledger_grown (ledger_of db0) (ledger_of db) \<and> ledger_ok (ledger_of db)"

lemma performs_refl [simp]: "performs allowed db db"
  by (simp add: performs_def)

lemma performs_mono: "performs p db db' \<Longrightarrow> (\<And>t. p t \<Longrightarrow> q t) \<Longrightarrow> performs q db db'"
  unfolding performs_def by blast

text \<open>Tables outside the ledger do not matter.\<close>

lemma ledger_of_outside [simp]:
  "ledger_of (db\<lparr>db_users := us\<rparr>) = ledger_of db"
  "ledger_of (db\<lparr>db_sessions := ss\<rparr>) = ledger_of db"
  "ledger_of (db\<lparr>db_trainees := ts\<rparr>) = ledger_of db"
  "ledger_of (db\<lparr>db_scopes := sc\<rparr>) = ledger_of db"
  "ledger_of (db\<lparr>db_sites := si\<rparr>) = ledger_of db"
  "ledger_of (db\<lparr>db_settings := st\<rparr>) = ledger_of db"
  "ledger_of (db\<lparr>db_journal_evidence := je\<rparr>) = ledger_of db"
  "ledger_of (db\<lparr>db_notifications := ns\<rparr>) = ledger_of db"
  "ledger_of (db\<lparr>db_audit := au\<rparr>) = ledger_of db"
  "ledger_of (Record a e r i db) = ledger_of db"
  by (simp_all add: ledger_of_def Record_def)

lemma ledger_of_fields [simp]:
  "lg_days (ledger_of db) = db_attendance db" "lg_proofs (ledger_of db) = db_evidence db"
  "lg_journals (ledger_of db) = db_journals db" "lg_reviews (ledger_of db) = db_reviews db"
  "lg_corrections (ledger_of db) = db_corrections db"
  "lg_adjustments (ledger_of db) = db_adjustments db"
  "lg_owners (ledger_of db) = (\<lambda>a. (as_id a, as_trainee a)) ` set (db_assignments db)"
  by (simp_all add: ledger_of_def)

lemma by_key_row:
  "unique_on key t \<Longrightarrow> by_key key k t = Some r \<Longrightarrow> q \<in> set t \<Longrightarrow> key q = k \<Longrightarrow> q = r"
  by (metis by_key_mem unique_on_inj)

section \<open>Attendance\<close>

lemma traineeCtx_own: "traineeCtx u db = Inr tc \<Longrightarrow> own_profile db u (tc_trainee tc)"
  by (auto simp: traineeCtx_def own_profile_def trainee_of_user_def split: option.splits dest!: by_key_mem)

lemma activeSite_owner:
  assumes "activeSite tc today db = Some site"
  shows "(sx_assignment site, tc_trainee tc) \<in> lg_owners (ledger_of db)"
proof -
  obtain a rest where s: "order_desc as_start (filter (\<lambda>a. in_effect (tc_trainee tc) today a \<and>
      find_site (as_site a) db \<noteq> None) (db_assignments db)) = a # rest"
      and site: "sx_assignment site = as_id a"
    using assms by (auto simp: activeSite_def site_ctx_of_def split: list.splits)
  have "a \<in> set (order_desc as_start (filter (\<lambda>a. in_effect (tc_trainee tc) today a \<and>
      find_site (as_site a) db \<noteq> None) (db_assignments db)))"
    unfolding s by simp
  then have "a \<in> set (db_assignments db)" "as_trainee a = tc_trainee tc"
    by (auto simp: order_desc_def in_effect_def)
  then show ?thesis using site by auto
qed

lemma TimeIn_db:
  assumes "TimeIn sv ck ids ok u inp db0 db1 db2 b = ((db', b'), r)"
  shows "db' = db1 \<or> (\<exists>v. r = Inr (v, False))"
  using assms
  by (auto simp: TimeIn_def Let_def dest!: in_tx_error split: sum.splits option.splits prod.splits)

lemma TimeIn_performs:
  assumes "TimeIn sv ck ids ok u inp db0 db1 db2 b = ((db', b'), r)" and "before db0 db1"
  shows "performs (own_profile db0 u) db1 db'"
proof (cases "db' = db1")
  case False
  then obtain v where run: "TimeIn sv ck ids ok u inp db0 db1 db2 b = ((db', b'), Inr (v, False))"
    using TimeIn_db [OF assms(1)] assms(1) by auto
  show ?thesis
  proof (rule TimeIn_done [OF run])
    fix tc :: trainee_ctx and site :: site_ctx and loc :: location_result
      and ev :: stored_evidence
    define today where "today = MustLocalDate (sv_tzdb sv) (ck_now ck) (tc_timezone tc)"
    define s where "s = session_of ids ck tc site today (flagsFor (lr_status loc))"
    define e where "e = evidence_of ids (id_session ids) tc ActTimeIn (ck_now ck) inp loc ev"
    assume tc: "traineeCtx u db0 = Inr tc"
      and site: "activeSite tc (MustLocalDate (sv_tzdb sv) (ck_now ck) (tc_timezone tc)) db0 = Some site"
      and "TimeInTx ids ck u tc site (MustLocalDate (sv_tzdb sv) (ck_now ck) (tc_timezone tc))
        inp loc ev db1 = Inr (db', id_session ids)"
    then have tx: "TimeInTx ids ck u tc site today inp loc ev db1 = Inr (db', id_session ids)"
      by (simp add: today_def)
    have sel: "at_id s = id_session ids" "at_trainee s = tc_trainee tc" "at_date s = today"
        "opened s" "at_assignment s = sx_assignment site"
        "ev_id e = id_evidence ids" "ev_attendance e = id_session ids" "ev_action e = ActTimeIn"
        "proof_of s ActTimeIn (at_original_in s) e"
      by (simp_all add: s_def e_def session_of_def evidence_of_def opened_def proof_of_def)
    have step: "ledger_of db' = (ledger_of db1)\<lparr>lg_days := lg_days (ledger_of db1) @ [s],
        lg_proofs := lg_proofs (ledger_of db1) @ [e]\<rparr>"
      "at_id s \<notin> at_id ` set (db_attendance db1)" "day_key s \<notin> day_key ` set (db_attendance db1)"
      "ev_id e \<notin> ev_id ` set (db_evidence db1)" "proof_key e \<notin> proof_key ` set (db_evidence db1)"
      using tx unfolding TimeInTx_Inr Let_def s_def [symmetric] e_def [symmetric]
      by (simp_all add: ledger_of_def Record_def sel)
    have "(at_assignment s, at_trainee s) \<in> lg_owners (ledger_of db1)"
      using activeSite_owner [OF site] assms(2) unfolding sel(2,5) before_def ledger_grown_def by blast
    then have "ledger_step (at_trainee s) (ledger_of db1) (ledger_of db')"
      unfolding step(1) by (intro ledger_step.time_in) (simp_all only: ledger_of_fields step sel(4,9) not_False_eq_True)
    then show ?thesis using traineeCtx_own [OF tc] sel(2) unfolding performs_def by auto
  qed
qed simp

lemma before_day:
  assumes "before db0 db" and "find_attendance i db0 = Some q" and "find_attendance i db = Some r"
  shows "day_kept q r"
proof -
  have q: "q \<in> set (db_attendance db0)" "at_id q = i"
    using assms(2) by (auto simp: find_attendance_def dest: by_key_mem)
  then obtain r' where r': "r' \<in> set (db_attendance db)" "day_kept q r'"
    using assms(1) by (auto simp: before_def ledger_grown_def)
  moreover have "unique_on at_id (db_attendance db)"
    using assms(1) by (simp add: before_def ledger_ok_def keys_ok_def)
  ultimately have "r' = r"
    using assms(3) q(2) by (auto simp: find_attendance_def day_kept_def intro: by_key_row)
  then show ?thesis using r'(2) by simp
qed

lemma close_closes: "closes now (close_session now c (closed_status fl) fl)"
  by (simp add: closes_def close_session_def closed_status_def)

lemma TimeOut_db:
  assumes "TimeOut sv ck ids ok u i inp db0 db1 db2 b = ((db', b'), r)"
  shows "db' = db1 \<or> (\<exists>v. r = Inr (v, False))"
  using assms
  by (auto simp: TimeOut_def Let_def dest!: in_tx_error
      split: sum.splits option.splits prod.splits if_splits)

lemma TimeOut_performs:
  assumes "TimeOut sv ck ids ok u i inp db0 db1 db2 b = ((db', b'), r)" and "before db0 db1"
  shows "performs (own_profile db0 u) db1 db'"
proof (cases "db' = db1")
  case False
  then obtain v where run: "TimeOut sv ck ids ok u i inp db0 db1 db2 b = ((db', b'), Inr (v, False))"
    using TimeOut_db [OF assms(1)] assms(1) by auto
  show ?thesis
  proof (rule TimeOut_done [OF run])
    fix tc :: trainee_ctx and att :: attendance_row and site :: site_ctx
      and loc :: location_result and ev :: stored_evidence and v' j
    assume tc: "traineeCtx u db0 = Inr tc" and att: "find_attendance i db0 = Some att"
        "at_trainee att = tc_trainee tc"
      and tx: "TimeOutTx ids ck u tc site i (at_assignment att) inp loc ev db1 = Inr (db', v', j)"
    obtain cur elapsed deducted credited flags js ns au where
        cur: "find_attendance i db1 = Some cur" "at_status cur = AtOpen"
      and cm: "CreditedMinutes (at_effective_in cur) (ck_now ck) (sx_rule site) = (elapsed, deducted, credited)"
      and ins: "insert_evidence (evidence_of ids i tc ActTimeOut (ck_now ck) inp loc ev) db1 =
        Inr (db1\<lparr>db_evidence := db_evidence db1 @
          [evidence_of ids i tc ActTimeOut (ck_now ck) inp loc ev]\<rparr>)"
      and chk: "\<forall>r\<in>set (db_attendance db1). at_id r = i \<longrightarrow>
        attendance_check (close_session (ck_now ck) credited (closed_status flags) flags r)"
      and db': "db' = db1\<lparr>db_evidence := db_evidence db1 @
          [evidence_of ids i tc ActTimeOut (ck_now ck) inp loc ev],
        db_attendance := set_by_key at_id i
          (close_session (ck_now ck) credited (closed_status flags) flags) (db_attendance db1),
        db_journals := js, db_notifications := ns, db_audit := au\<rparr>"
      and js: "js = (if i \<in> jo_attendance ` set (db_journals db1) then db_journals db1
        else db_journals db1 @ [draft_journal (id_journal ids) ck i (tc_trainee tc)])"
      and jid: "i \<notin> jo_attendance ` set (db_journals db1) \<Longrightarrow> id_journal ids \<notin> jo_id ` set (db_journals db1)"
      by (rule TimeOutTx_Inr [OF tx]) blast
    define e where "e = evidence_of ids i tc ActTimeOut (ck_now ck) inp loc ev"
    have mem: "cur \<in> set (db_attendance db1)" "at_id cur = i"
      using cur(1) by (auto simp: find_attendance_def dest: by_key_mem)
    have t: "at_trainee cur = tc_trainee tc"
      using before_day [OF assms(2) att(1) cur(1)] att(2) by (simp add: day_kept_def)
    have e: "ev_id e \<notin> ev_id ` set (db_evidence db1)" "proof_key e \<notin> proof_key ` set (db_evidence db1)"
        "proof_of cur ActTimeOut (ck_now ck) e"
      using ins unfolding e_def [symmetric] insert_evidence_Inr
      by (simp_all add: e_def evidence_of_def proof_of_def mem t)
    have "journal_opened cur (db_journals db1) js"
      using jid by (auto simp: journal_opened_def js mem t draft_journal_def)
    moreover have lt: "at_effective_in cur < ck_now ck"
      using chk mem by (auto simp: attendance_check_def close_session_def)
    moreover have "minutes_ok (close_session (ck_now ck) credited (closed_status flags) flags cur)"
      using credited_within [OF lt, of "sx_rule site"] cm
      by (simp add: minutes_ok_def close_session_def credited_of_def)
    ultimately have "ledger_step (at_trainee cur) (ledger_of db1) ((ledger_of db1)
        \<lparr>lg_days := set_by_key at_id (at_id cur)
            (close_session (ck_now ck) credited (closed_status flags) flags) (lg_days (ledger_of db1)),
          lg_proofs := lg_proofs (ledger_of db1) @ [e], lg_journals := js\<rparr>)"
      using mem(1) cur(2) e by (intro ledger_step.time_out) (simp_all add: close_closes)
    moreover have "ledger_of db' = (ledger_of db1)
        \<lparr>lg_days := set_by_key at_id (at_id cur)
            (close_session (ck_now ck) credited (closed_status flags) flags) (lg_days (ledger_of db1)),
          lg_proofs := lg_proofs (ledger_of db1) @ [e], lg_journals := js\<rparr>"
      by (simp add: ledger_of_def db' e_def mem)
    ultimately show ?thesis
      using traineeCtx_own [OF tc] t unfolding performs_def by auto
  qed
qed simp

section \<open>Corrections\<close>

lemma Request_performs:
  assumes "Request cid ck ok t actor inp db0 db1 = (db', r)" and "before db0 db1"
  shows "performs (\<lambda>u. u = t) db1 db'"
proof (cases "db' = db1")
  case False
  obtain s ty where s: "find_attendance (rq_attendance inp) db0 = Some s" "at_trainee s = t"
    and run: "in_tx ok (RequestTx cid ck t actor ty inp) db1 = (db', r)"
    using assms(1) False by (auto simp: Request_def split: option.splits if_splits sum.splits)
  obtain x where tx: "RequestTx cid ck t actor ty inp db1 = Inr (db', x)"
    using run False by (cases r) (auto simp: in_tx_ok dest: in_tx_error)
  define c where "c = pending_row cid ck t ty inp"
  have c: "cr_id c = cid" "cr_status c = CrPending" "cr_decided_by c = None"
      "cr_attendance c = rq_attendance inp" "cr_trainee c = t"
    by (simp_all add: c_def pending_row_def)
  obtain d where ins: "insert_correction c db1 = Inr d" and db': "ledger_of db' = ledger_of d"
    using tx by (auto simp: RequestTx_def c_def split: sum.splits if_splits)
  have q: "s \<in> set (db_attendance db0)" "at_id s = rq_attendance inp"
    using s(1) by (auto simp: find_attendance_def dest: by_key_mem)
  then obtain q where q: "q \<in> set (db_attendance db1)" "at_id q = rq_attendance inp" "at_trainee q = t"
    using assms(2) s(2) by (fastforce simp: before_def ledger_grown_def day_kept_def)
  have "ledger_step (cr_trainee c) (ledger_of db1)
      ((ledger_of db1)\<lparr>lg_corrections := lg_corrections (ledger_of db1) @ [c]\<rparr>)"
    by (rule ledger_step.ask_correction [where s = q])
      (use ins q c in \<open>auto simp: insert_correction_Inr\<close>)
  moreover have "ledger_of db' = (ledger_of db1)\<lparr>lg_corrections := lg_corrections (ledger_of db1) @ [c]\<rparr>"
    using ins db' by (simp add: insert_correction_Inr ledger_of_def)
  ultimately show ?thesis using c(5) unfolding performs_def by auto
qed simp

lemma decide_decides: "st \<noteq> CrPending \<Longrightarrow> decides st (decide_row ck staff st comment)"
  by (simp add: decides_def decide_row_def)

lemma approved_corrects:
  "ad_effective_in d = new_in c s \<Longrightarrow> ad_effective_out d = new_out c s \<Longrightarrow>
     corrects d (approved_session ck c s a)"
  by (simp add: corrects_def approved_session_def project_session_def stamp_closed_def Let_def)

lemma approved_minutes:
  assumes "opt_all (\<lambda>t. new_in c s < t) (new_out c s)"
  shows "minutes_ok s \<longrightarrow> minutes_ok (approved_session ck c s a s)"
proof (cases "new_out c s")
  case None
  then have "at_effective_out s = None" by (simp add: new_out_def split: option.splits)
  then show ?thesis using None
    by (simp add: minutes_ok_def approved_session_def closes_day_def project_session_def new_credit_def)
next
  case (Some t)
  then show ?thesis using assms credited_within [of "new_in c s" t "break_rule_of a"]
    by (simp add: minutes_ok_def approved_session_def Let_def stamp_closed_def project_session_def
        new_credit_def)
qed

lemma decision_of_decided: "decision_of s = Some d \<Longrightarrow> d = CrApproved \<or> d = CrRejected"
  by (auto simp: decision_of_def split: if_splits)

lemma Decide_performs:
  assumes "Decide ids ck ok i staff decision comment db = (db', r)" and "ledger_ok (ledger_of db)"
  shows "performs (\<lambda>t. \<exists>c. find_correction i db = Some c \<and> cr_trainee c = t) db db'"
proof (cases "db' = db")
  case False
  obtain dec where dec: "decision_of decision = Some dec"
    and run: "in_tx ok (DecideTx ids ck i staff dec comment) db = (db', r)"
    using assms(1) False by (auto simp: Decide_def split: option.splits)
  then obtain x where tx: "DecideTx ids ck i staff dec comment db = Inr (db', x)"
    using False by (cases r) (auto simp: in_tx_ok dest: in_tx_error)
  obtain c d1 ns au where c: "find_correction i db = Some c" "cr_status c = CrPending"
    and d1: "if dec = CrRejected
      then d1 = update_correction i (decide_row ck staff CrRejected comment) db
      else \<exists>asn. approve_correction ids ck staff comment c db = Inr (d1, asn)"
    and db': "db' = d1\<lparr>db_notifications := ns, db_audit := au\<rparr>"
    by (rule DecideTx_Inr [OF tx]) blast
  have mem: "c \<in> set (db_corrections db)" "cr_id c = i"
    using c(1) by (auto simp: find_correction_def dest: by_key_mem)
  have "ledger_step (cr_trainee c) (ledger_of db) (ledger_of d1)"
  proof (cases "dec = CrRejected")
    case True
    then have "ledger_of d1 = (ledger_of db)\<lparr>lg_corrections := set_by_key cr_id (cr_id c)
        (decide_row ck staff CrRejected comment) (lg_corrections (ledger_of db))\<rparr>"
      using d1 mem(2) by (simp add: update_correction_def ledger_of_def)
    moreover have "ledger_step (cr_trainee c) (ledger_of db) ((ledger_of db)
        \<lparr>lg_corrections := set_by_key cr_id (cr_id c)
          (decide_row ck staff CrRejected comment) (lg_corrections (ledger_of db))\<rparr>)"
      by (rule ledger_step.reject_correction) (use mem c(2) in \<open>simp_all add: decide_decides\<close>)
    ultimately show ?thesis by simp
  next
    case False
    then obtain asn where ap: "approve_correction ids ck staff comment c db = Inr (d1, asn)"
      using d1 by auto
    obtain s a d js where s: "find_attendance (cr_attendance c) db = Some s"
      and lt: "opt_all (\<lambda>t. new_in c s < t) (new_out c s)"
      and d: "d = \<lparr>ad_id = dc_adjustment ids, ad_attendance = cr_attendance c,
        ad_correction = cr_id c, ad_effective_in = new_in c s, ad_effective_out = new_out c s,
        ad_credited = new_credit c s a, ad_approved_by = staff\<rparr>"
      and e: "d1 = db\<lparr>db_adjustments := db_adjustments db @ [d],
        db_attendance := set_by_key at_id (cr_attendance c) (approved_session ck c s a) (db_attendance db),
        db_corrections := set_by_key cr_id (cr_id c) (decide_row ck staff CrApproved comment)
          (db_corrections db), db_journals := js\<rparr>"
      and j: "\<not> closes_day c s \<Longrightarrow> js = db_journals db"
        "closes_day c s \<Longrightarrow> if cr_attendance c \<in> jo_attendance ` set (db_journals db)
          then js = db_journals db
          else dc_journal ids \<notin> jo_id ` set (db_journals db) \<and> js = db_journals db @
            [draft_journal (dc_journal ids) ck (cr_attendance c) (cr_trainee c)]"
      and ad: "ad_correction d \<notin> ad_correction ` set (db_adjustments db)"
      by (rule approve_correction_Inr [OF ap]) blast
    have sm: "s \<in> set (db_attendance db)" "at_id s = cr_attendance c"
      using s by (auto simp: find_attendance_def dest: by_key_mem)
    have "has_day (ledger_of db) (cr_attendance c) (cr_trainee c)"
      using assms(2) mem(1) by (auto simp: ledger_ok_def corrections_ok_def correction_ok_def)
    moreover have "unique_on at_id (db_attendance db)"
      using assms(2) by (simp add: ledger_ok_def keys_ok_def)
    ultimately have t: "at_trainee s = cr_trainee c"
      using sm by (auto simp: has_day_def dest: unique_on_inj)
    have sel: "ad_attendance d = at_id s" "ad_correction d = cr_id c" "ad_effective_in d = new_in c s"
        "ad_effective_out d = new_out c s"
      by (simp_all add: d sm(2))
    have js: "if ad_effective_out d \<noteq> None \<and> at_effective_out s = None
        then journal_opened s (lg_journals (ledger_of db)) js else js = lg_journals (ledger_of db)"
      using j by (auto simp: sel closes_day_def journal_opened_def sm(2) t draft_journal_def split: if_splits)
    have out: "at_effective_out s \<noteq> None \<longrightarrow> ad_effective_out d \<noteq> None"
      by (simp add: sel new_out_def split: option.split)
    have "ledger_step (cr_trainee c) (ledger_of db) ((ledger_of db)
        \<lparr>lg_days := set_by_key at_id (at_id s) (approved_session ck c s a) (lg_days (ledger_of db)),
         lg_journals := js, lg_corrections := set_by_key cr_id (cr_id c)
           (decide_row ck staff CrApproved comment) (lg_corrections (ledger_of db)),
         lg_adjustments := lg_adjustments (ledger_of db) @ [d]\<rparr>)"
      by (rule ledger_step.approve_correction_event [OF _ c(2) decide_decides _ sm(2) sel(1,2) _ _
            approved_corrects [OF sel(3,4)] out js approved_minutes [OF lt]])
        (use mem sm ad lt in \<open>simp_all add: sel\<close>)
    then show ?thesis by (simp add: e ledger_of_def sm(2))
  qed
  then show ?thesis using c(1) unfolding performs_def db' by auto
qed simp

section \<open>Journals\<close>

lemma SaveDraft_performs:
  assumes "SaveDraft ck i narrative db = (db', r)" and "ledger_ok (ledger_of db)"
  shows "performs (\<lambda>t. \<exists>j. find_journal i db = Some j \<and> jo_trainee j = t) db db'"
  using assms(1)
proof (cases rule: SaveDraft_cases)
  case saved
  define p where "p = (\<lambda>j :: journal_row. jo_id j = i \<and> editable (jo_status j))"
  have unique: "unique_on jo_id (db_journals db)" using assms(2) by (simp add: ledger_ok_def keys_ok_def)
  show ?thesis
  proof (cases "\<exists>j\<in>set (db_journals db). p j")
    case True
    then obtain j where j: "j \<in> set (db_journals db)" "jo_id j = i" "editable (jo_status j)"
      by (auto simp: p_def)
    have "p q \<longleftrightarrow> jo_id q = jo_id j" if "q \<in> set (db_journals db)" for q
      using unique_on_inj [OF unique that j(1)] j(2,3) by (auto simp: p_def)
    then have "update_where p (set_narrative ck narrative) (db_journals db) =
        set_by_key jo_id (jo_id j) (set_narrative ck narrative) (db_journals db)"
      unfolding set_by_key_def update_where_def by (auto cong: map_cong)
    then have db': "ledger_of db' = (ledger_of db)\<lparr>lg_journals := set_by_key jo_id (jo_id j)
        (set_narrative ck narrative) (lg_journals (ledger_of db))\<rparr>"
      unfolding saved p_def [symmetric] by (simp add: ledger_of_def)
    have "ledger_step (jo_trainee j) (ledger_of db) (ledger_of db')"
      unfolding db' by (rule ledger_step.edit_journal)
        (use j in \<open>simp_all add: journal_kept_def set_narrative_def\<close>)
    moreover have "find_journal i db = Some j"
      using by_key_unique [OF unique j(1)] j(2) by (simp add: find_journal_def)
    ultimately show ?thesis unfolding performs_def by auto
  next
    case False
    then have "update_where p (set_narrative ck narrative) (db_journals db) = db_journals db"
      unfolding update_where_def by (intro map_idI) auto
    then have "db' = db" unfolding saved p_def [symmetric] by simp
    then show ?thesis by simp
  qed
qed simp

lemma find_journal_row: "find_journal i db = Some j \<Longrightarrow> j \<in> set (db_journals db) \<and> jo_id j = i"
  by (auto simp: find_journal_def dest: by_key_mem)

lemma Submit_performs:
  assumes "Submit ck ok i actor narrative db = (db', r)"
  shows "performs (\<lambda>t. \<exists>j. find_journal i db = Some j \<and> jo_trainee j = t) db db'"
  using assms
proof (cases rule: Submit_cases)
  case (submitted j)
  have j: "j \<in> set (db_journals db)" "jo_id j = i" using find_journal_row [OF submitted(2)] by auto
  have db': "ledger_of db' = (ledger_of db)\<lparr>lg_journals := set_by_key jo_id (jo_id j)
      (submit_row ck (trim_space narrative)) (lg_journals (ledger_of db))\<rparr>"
    by (simp add: submitted update_journal_def j(2) ledger_of_def Record_def)
  have "ledger_step (jo_trainee j) (ledger_of db) (ledger_of db')"
    unfolding db' by (rule ledger_step.edit_journal)
      (use j submitted(3,4) in \<open>simp_all add: journal_kept_def submit_row_def written_def\<close>)
  then show ?thesis using submitted(2) unfolding performs_def by auto
qed simp

lemma Review_performs:
  assumes "Review rid nid ck ok i reviewer decision comment db = (db', r)"
  shows "performs (\<lambda>t. \<exists>j. find_journal i db = Some j \<and> jo_trainee j = t) db db'"
  using assms
proof (cases rule: Review_cases)
  case (reviewed j d ns au)
  have j: "j \<in> set (db_journals db)" "jo_id j = i" using find_journal_row [OF reviewed(2)] by auto
  define rv where "rv = review_of rid ck i reviewer d comment"
  have db': "ledger_of db' = (ledger_of db)\<lparr>lg_journals := set_by_key jo_id (jo_id j)
      (review_journal_row ck d) (lg_journals (ledger_of db)), lg_reviews := lg_reviews (ledger_of db) @ [rv]\<rparr>"
    by (simp add: reviewed(7) j(2) rv_def ledger_of_def)
  have "ledger_step (jo_trainee j) (ledger_of db) (ledger_of db')"
    unfolding db' by (rule ledger_step.review_journal)
      (use j reviewed(3,5) in \<open>auto simp: journal_kept_def review_journal_row_def rv_def review_of_def
        review_check_def\<close>)
  then show ?thesis using reviewed(2) unfolding performs_def by auto
qed simp

end
