(* ===== verification/Ratelimit.thy ===== *)
theory Ratelimit
  imports Httpx "HOL-Library.AList"
begin

text \<open>
  \<open>internal/platform/ratelimit\<close>: one token bucket for each key, dropped when it has been idle for
  four windows. The bucket is \<open>golang.org/x/time/rate\<close>, which is not part of the repository:
  \<open>fresh every burst\<close> is \<open>NewLimiter(Every(every), burst)\<close> and \<open>take t b\<close> is \<open>Allow\<close> at time \<open>t\<close>.
  Times and durations are in nanoseconds; a call of \<open>allow\<close> reads the clock three times.
\<close>

record 'b entry =
  en_lim :: 'b
  en_seen :: int

record 'b limiter =
  li_entries :: "(string \<times> 'b entry) list"
  li_every :: int
  li_burst :: int
  li_ttl :: int

definition New_limiter :: "int \<Rightarrow> int \<Rightarrow> 'b limiter" where
  "New_limiter max_events window =
     (let m = (if max_events \<le> 0 then 1 else max_events);
          w = (if window \<le> 0 then 60000000000 else window)
      in \<lparr>li_entries = [], li_every = quot w m, li_burst = m, li_ttl = wrap64 (w * 4)\<rparr>)"

record attempt =
  tr_key :: string
  tr_clean :: int
  tr_seen :: int
  tr_allow :: int

definition drop_stale :: "int \<Rightarrow> (string \<times> 'b entry) list \<Rightarrow> (string \<times> 'b entry) list" where
  "drop_stale cutoff es = filter (\<lambda>(_, e). \<not> en_seen e < cutoff) es"

definition entries_now :: "attempt \<Rightarrow> 'b limiter \<Rightarrow> (string \<times> 'b entry) list" where
  "entries_now r l =
     (if 10000 < length (li_entries l)
      then drop_stale (tr_clean r + wrap64 (- li_ttl l)) (li_entries l) else li_entries l)"

definition allow ::
  "(int \<Rightarrow> int \<Rightarrow> 'b) \<Rightarrow> (int \<Rightarrow> 'b \<Rightarrow> bool \<times> 'b) \<Rightarrow> attempt \<Rightarrow> 'b limiter \<Rightarrow> 'b limiter \<times> bool" where
  "allow fresh take_token r l =
     (let es = entries_now r l;
          b = (case map_of es (tr_key r) of None \<Rightarrow> fresh (li_every l) (li_burst l) | Some e \<Rightarrow> en_lim e);
          (ok, b') = take_token (tr_allow r) b
      in (l\<lparr>li_entries := AList.update (tr_key r) \<lparr>en_lim = b', en_seen = tr_seen r\<rparr> es\<rparr>, ok))"

text \<open>The middleware: the key of the request, or the address when the key function gives none.\<close>

definition limiter_key :: "string \<Rightarrow> string \<Rightarrow> string" where
  "limiter_key key ip = (if key = [] then ip else key)"

definition KeyedMiddleware ::
  "(int \<Rightarrow> int \<Rightarrow> 'b) \<Rightarrow> (int \<Rightarrow> 'b \<Rightarrow> bool \<times> 'b) \<Rightarrow> string \<Rightarrow> string \<Rightarrow> int \<Rightarrow> int \<Rightarrow> int \<Rightarrow> 'b limiter \<Rightarrow>
   'b limiter \<times> (api_error + unit)" where
  "KeyedMiddleware fresh take_token key ip t0 t1 t2 l =
     (let (l', ok) = allow fresh take_token
            \<lparr>tr_key = limiter_key key ip, tr_clean = t0, tr_seen = t1, tr_allow = t2\<rparr> l
      in (l', if ok then Inr () else Inl ErrRateLimited))"

section \<open>Forgetting a key is not observable\<close>

text \<open>A bucket that was last asked at time \<open>s\<close>.\<close>

inductive asked_at :: "'b \<Rightarrow> (int \<Rightarrow> 'b \<Rightarrow> bool \<times> 'b) \<Rightarrow> int \<Rightarrow> 'b \<Rightarrow> bool" for b0 take_token where
  first: "take_token t b0 = (ok, b) \<Longrightarrow> asked_at b0 take_token t b"
| again: "asked_at b0 take_token s b \<Longrightarrow> s \<le> t \<Longrightarrow> take_token t b = (ok, b') \<Longrightarrow> asked_at b0 take_token t b'"

text \<open>
  What the code relies on: a bucket that earns \<open>burst\<close> tokens within a window is full again after
  a window without a request, so it answers as a fresh one.
\<close>

definition refills :: "'b \<Rightarrow> (int \<Rightarrow> 'b \<Rightarrow> bool \<times> 'b) \<Rightarrow> int \<Rightarrow> bool" where
  "refills b0 take_token w \<longleftrightarrow>
     (\<forall>s t b. asked_at b0 take_token s b \<longrightarrow> s + w \<le> t \<longrightarrow> take_token t b = take_token t b0)"

fun allow_all ::
  "(int \<Rightarrow> int \<Rightarrow> 'b) \<Rightarrow> (int \<Rightarrow> 'b \<Rightarrow> bool \<times> 'b) \<Rightarrow> attempt list \<Rightarrow> 'b limiter \<Rightarrow> bool list" where
  "allow_all fresh take_token [] l = []"
| "allow_all fresh take_token (r # rs) l =
     (let (l', ok) = allow fresh take_token r l in ok # allow_all fresh take_token rs l')"

text \<open>The reference: every key has its own bucket, which is kept for ever.\<close>

fun allow_spec :: "(int \<Rightarrow> 'b \<Rightarrow> bool \<times> 'b) \<Rightarrow> attempt list \<Rightarrow> (string \<Rightarrow> 'b) \<Rightarrow> bool list" where
  "allow_spec take_token [] g = []"
| "allow_spec take_token (r # rs) g =
     (let (ok, b') = take_token (tr_allow r) (g (tr_key r))
      in ok # allow_spec take_token rs (g(tr_key r := b')))"

text \<open>
  The clock does not go back from one reading to the next, and under the lock the last two
  readings of a call are less than three windows apart.
\<close>

fun in_order :: "int \<Rightarrow> int \<Rightarrow> attempt list \<Rightarrow> bool" where
  "in_order w now [] = True"
| "in_order w now (r # rs) =
     (now \<le> tr_clean r \<and> tr_clean r \<le> tr_seen r \<and> tr_seen r \<le> tr_allow r \<and>
      tr_allow r \<le> tr_seen r + 3 * w \<and> in_order w (tr_allow r) rs)"

text \<open>What relates the limiter to the reference at time \<open>now\<close>.\<close>

definition limiter_rel ::
  "'b \<Rightarrow> (int \<Rightarrow> 'b \<Rightarrow> bool \<times> 'b) \<Rightarrow> int \<Rightarrow> int \<Rightarrow> (string \<times> 'b entry) list \<Rightarrow> (string \<Rightarrow> 'b) \<Rightarrow> bool" where
  "limiter_rel b0 take_token w now es g \<longleftrightarrow>
     distinct (map fst es) \<and>
     (\<forall>k e. map_of es k = Some e \<longrightarrow> en_lim e = g k \<and>
        (\<exists>s. asked_at b0 take_token s (g k) \<and> s \<le> now \<and> s \<le> en_seen e + 3 * w)) \<and>
     (\<forall>k. map_of es k = None \<longrightarrow> g k = b0 \<or>
        (\<exists>s. asked_at b0 take_token s (g k) \<and> s \<le> now \<and> s + w \<le> now))"

lemma map_of_drop_stale:
  assumes "distinct (map fst es)"
  shows "map_of (drop_stale c es) k =
    (case map_of es k of None \<Rightarrow> None | Some e \<Rightarrow> if en_seen e < c then None else Some e)"
  using assms
  by (induction es)
    (auto simp: drop_stale_def split: option.splits dest: map_of_SomeD intro: rev_image_eqI)

lemma rel_drop_stale:
  assumes "limiter_rel b0 tk w now es g" and "now \<le> t" and "0 \<le> w"
  shows "limiter_rel b0 tk w t (drop_stale (t - 4 * w) es) g"
proof -
  have d: "distinct (map fst es)" using assms(1) by (simp add: limiter_rel_def)
  then have "distinct (map fst (drop_stale (t - 4 * w) es))"
    by (simp add: drop_stale_def distinct_map_filter)
  moreover have "g k = b0 \<or> (\<exists>s. asked_at b0 tk s (g k) \<and> s \<le> t \<and> s + w \<le> t)"
    if "map_of (drop_stale (t - 4 * w) es) k = None" for k
  proof (cases "map_of es k")
    case None
    then have "g k = b0 \<or> (\<exists>s. asked_at b0 tk s (g k) \<and> s \<le> now \<and> s + w \<le> now)"
      using assms(1) unfolding limiter_rel_def by blast
    then show ?thesis using assms(2) by (meson order_trans)
  next
    case (Some e)
    then obtain s where "asked_at b0 tk s (g k)" "s \<le> now" "s \<le> en_seen e + 3 * w"
      using assms(1) unfolding limiter_rel_def by blast
    moreover have "en_seen e < t - 4 * w"
      using that Some by (simp add: map_of_drop_stale [OF d] split: if_splits)
    ultimately have "asked_at b0 tk s (g k) \<and> s \<le> t \<and> s + w \<le> t" using assms(2,3) by simp
    then show ?thesis by blast
  qed
  moreover have "en_lim e = g k \<and> (\<exists>s. asked_at b0 tk s (g k) \<and> s \<le> t \<and> s \<le> en_seen e + 3 * w)"
    if "map_of (drop_stale (t - 4 * w) es) k = Some e" for k e
  proof -
    have "map_of es k = Some e"
      using that by (simp add: map_of_drop_stale [OF d] split: option.splits if_splits)
    then show ?thesis using assms(1,2) unfolding limiter_rel_def by (meson order_trans)
  qed
  ultimately show ?thesis unfolding limiter_rel_def by blast
qed

lemma rel_later:
  assumes "limiter_rel b0 tk w now es g" and "now \<le> t"
  shows "limiter_rel b0 tk w t es g"
  using assms unfolding limiter_rel_def by (meson order_trans)

lemma rel_bucket:
  assumes "limiter_rel b0 tk w now es g" and "refills b0 tk w" and "now \<le> t"
  shows "tk t (case map_of es k of None \<Rightarrow> b0 | Some e \<Rightarrow> en_lim e) = tk t (g k)"
proof (cases "map_of es k")
  case None
  then consider "g k = b0" | s where "asked_at b0 tk s (g k)" "s + w \<le> now"
    using assms(1) unfolding limiter_rel_def by blast
  then show ?thesis
  proof cases
    case 2
    then have "tk t (g k) = tk t b0" using assms(2,3) unfolding refills_def by (meson order_trans)
    then show ?thesis using None by simp
  qed (simp add: None)
next
  case (Some e)
  then show ?thesis using assms(1) by (simp add: limiter_rel_def)
qed

lemma rel_update:
  assumes "limiter_rel b0 tk w now es g" and "now \<le> seen" and "seen \<le> t" and "t \<le> seen + 3 * w"
    and "tk t (g k) = (ok, b)"
  shows "limiter_rel b0 tk w t (AList.update k \<lparr>en_lim = b, en_seen = seen\<rparr> es) (g(k := b))"
proof -
  have "g k = b0 \<or> (\<exists>s. asked_at b0 tk s (g k) \<and> s \<le> now)"
  proof (cases "map_of es k")
    case None
    then show ?thesis using assms(1) unfolding limiter_rel_def by blast
  next
    case (Some e)
    then show ?thesis using assms(1) unfolding limiter_rel_def by blast
  qed
  then have asked: "asked_at b0 tk t b"
  proof
    assume "g k = b0"
    then show ?thesis using assms(5) by (auto intro: asked_at.first)
  next
    assume "\<exists>s. asked_at b0 tk s (g k) \<and> s \<le> now"
    then obtain s where "asked_at b0 tk s (g k)" "s \<le> t" using assms(2,3) by auto
    then show ?thesis using assms(5) by (rule asked_at.again)
  qed
  have "distinct (map fst es)" using assms(1) unfolding limiter_rel_def by blast
  then have d: "distinct (map fst (AList.update k \<lparr>en_lim = b, en_seen = seen\<rparr> es))"
    by (rule distinct_update)
  let ?es = "AList.update k \<lparr>en_lim = b, en_seen = seen\<rparr> es"
  have "now \<le> t" using assms(2,3) by simp
  then have later: "limiter_rel b0 tk w t es g" using assms(1) by (rule rel_later [rotated])
  have "en_lim e = (g(k := b)) k' \<and>
      (\<exists>s. asked_at b0 tk s ((g(k := b)) k') \<and> s \<le> t \<and> s \<le> en_seen e + 3 * w)"
    if "map_of ?es k' = Some e" for k' e
  proof (cases "k' = k")
    case True
    then have "e = \<lparr>en_lim = b, en_seen = seen\<rparr>" using that by (simp add: update_conv')
    moreover have "asked_at b0 tk t b \<and> t \<le> t \<and> t \<le> seen + 3 * w" using asked assms(4) by blast
    ultimately show ?thesis using True by (metis entry.select_convs fun_upd_same)
  next
    case False
    then have "map_of es k' = Some e" using that by (simp add: update_conv')
    then show ?thesis using later False unfolding limiter_rel_def fun_upd_other [OF False] by blast
  qed
  moreover have "(g(k := b)) k' = b0 \<or> (\<exists>s. asked_at b0 tk s ((g(k := b)) k') \<and> s \<le> t \<and> s + w \<le> t)"
    if "map_of ?es k' = None" for k'
  proof -
    have k: "k' \<noteq> k" and "map_of es k' = None"
      using that by (auto simp: update_conv' split: if_splits)
    then show ?thesis using later unfolding limiter_rel_def fun_upd_other [OF k] by blast
  qed
  ultimately show ?thesis using d unfolding limiter_rel_def by blast
qed

lemma allow_all_spec:
  assumes "refills (fresh (li_every l) (li_burst l)) tk w" and "0 \<le> w" and "li_ttl l = 4 * w"
    and "4 * w \<le> max_int64" and "in_order w now rs"
    and "limiter_rel (fresh (li_every l) (li_burst l)) tk w now (li_entries l) g"
  shows "allow_all fresh tk rs l = allow_spec tk rs g"
  using assms
proof (induction rs arbitrary: l g now)
  case (Cons r rs)
  let ?b0 = "fresh (li_every l) (li_burst l)" and ?es = "entries_now r l"
  have t: "now \<le> tr_clean r" "tr_clean r \<le> tr_seen r" "tr_seen r \<le> tr_allow r"
      "tr_allow r \<le> tr_seen r + 3 * w" "in_order w (tr_allow r) rs"
    using Cons.prems(5) by simp_all
  have "wrap64 (- li_ttl l) = - (4 * w)"
    using Cons.prems(2-4) by (simp add: wrap64_def max_int64_def)
  then have es: "limiter_rel ?b0 tk w (tr_clean r) ?es g"
    using rel_drop_stale [OF Cons.prems(6) t(1) Cons.prems(2)] rel_later [OF Cons.prems(6) t(1)]
    by (simp add: entries_now_def)
  obtain ok b where b: "tk (tr_allow r) (g (tr_key r)) = (ok, b)" by fastforce
  have "tk (tr_allow r) (case map_of ?es (tr_key r) of None \<Rightarrow> ?b0 | Some e \<Rightarrow> en_lim e) = (ok, b)"
    using rel_bucket [OF es Cons.prems(1)] t b by simp
  then have step: "allow fresh tk r l =
      (l\<lparr>li_entries := AList.update (tr_key r) \<lparr>en_lim = b, en_seen = tr_seen r\<rparr> ?es\<rparr>, ok)"
    by (simp add: allow_def Let_def)
  define l' where "l' = l\<lparr>li_entries := AList.update (tr_key r) \<lparr>en_lim = b, en_seen = tr_seen r\<rparr> ?es\<rparr>"
  have "limiter_rel ?b0 tk w (tr_allow r) (li_entries l') (g(tr_key r := b))"
    using rel_update [OF es t(2-4) b] by (simp add: l'_def)
  then have "allow_all fresh tk rs l' = allow_spec tk rs (g(tr_key r := b))"
    using Cons.prems(1-4) t(5) by (intro Cons.IH [of l' "tr_allow r"]) (simp_all add: l'_def fun_upd_def)
  then show ?case using b step by (simp add: l'_def)
qed simp

text \<open>
  C34. Dropping idle keys is not observable: with a bucket that refills within a window, the
  limiter answers every sequence of requests as if each key kept its own bucket for ever, however
  many keys there are.
\<close>

theorem limiter_forgets_safely:
  assumes "refills (fresh (quot window max_events) max_events) take_token window"
    and "0 < max_events" and "0 < window" and "4 * window \<le> max_int64" and "in_order window start rs"
  shows "allow_all fresh take_token rs (New_limiter max_events window) =
    allow_spec take_token rs (\<lambda>_. fresh (quot window max_events) max_events)"
proof -
  let ?l = "New_limiter max_events window :: 'a limiter"
  have "li_ttl ?l = 4 * window" "li_every ?l = quot window max_events" "li_burst ?l = max_events"
    using assms(2-4) by (simp_all add: New_limiter_def Let_def wrap64_def max_int64_def)
  moreover have "limiter_rel b0 take_token window start (li_entries ?l) (\<lambda>_. b0)" for b0
    by (simp add: limiter_rel_def New_limiter_def Let_def)
  ultimately show ?thesis
    using assms by (intro allow_all_spec [where w = window and now = start]) simp_all
qed

text \<open>A bucket of the documented kind: credit in nanoseconds, and the time of the last request.\<close>

definition demo_fresh :: "int \<Rightarrow> int \<Rightarrow> int \<times> int \<times> int \<times> int" where
  "demo_fresh every burst = (every, every * burst, every * burst, 0)"

definition demo_take :: "int \<Rightarrow> int \<times> int \<times> int \<times> int \<Rightarrow> bool \<times> int \<times> int \<times> int \<times> int" where
  "demo_take t = (\<lambda>(every, cap, credit, last).
     let c = min cap (credit + max 0 (t - last))
     in if every \<le> c then (True, every, cap, c - every, t) else (False, every, cap, c, t))"

lemma demo_asked:
  assumes "asked_at (demo_fresh 30 2) demo_take s b"
  shows "\<exists>c. b = (30, 60, c, s) \<and> 0 \<le> c \<and> c \<le> 60"
  using assms
proof (induction rule: asked_at.induct)
  case (first t ok b)
  then show ?case by (auto simp: demo_take_def demo_fresh_def Let_def split: if_splits)
next
  case (again s b t ok b')
  then show ?case by (auto simp: demo_take_def Let_def split: if_splits)
qed

theorem limiter_forgets_safely_witness:
  "allow_all demo_fresh demo_take
     [\<lparr>tr_key = ''a'', tr_clean = 1, tr_seen = 1, tr_allow = 2\<rparr>,
      \<lparr>tr_key = ''a'', tr_clean = 3, tr_seen = 3, tr_allow = 3\<rparr>,
      \<lparr>tr_key = ''a'', tr_clean = 4, tr_seen = 4, tr_allow = 4\<rparr>,
      \<lparr>tr_key = ''b'', tr_clean = 5, tr_seen = 5, tr_allow = 5\<rparr>] (New_limiter 2 60) =
   [True, True, False, True]"
proof -
  have q: "quot 60 2 = 30" by (simp add: quot_def)
  have "demo_take t b = demo_take t (demo_fresh 30 2)"
    if asked: "asked_at (demo_fresh 30 2) demo_take s b" and later: "s + 60 \<le> t" for s t b
  proof -
    obtain c where "b = (30, 60, c, s)" "0 \<le> c" using demo_asked [OF asked] by blast
    moreover from this later have "min 60 (c + max 0 (t - s)) = 60" by simp
    moreover have "min 60 (60 + max 0 t) = 60" by simp
    ultimately show ?thesis by (simp add: demo_take_def demo_fresh_def Let_def)
  qed
  then have "refills (demo_fresh (quot 60 2) 2) demo_take 60" by (simp add: refills_def q)
  then show ?thesis
    by (subst limiter_forgets_safely [where start = 0])
      (simp_all add: q max_int64_def demo_take_def demo_fresh_def)
qed

end
