(* ===== verification/App.thy ===== *)
theory App
  imports Ratelimit AccessLaws
begin

text \<open>
  \<open>internal/app\<close>, with the routes of \<open>internal/auth\<close> and \<open>internal/platform/httpx/health.go\<close>: the
  table of routes, the guards in front of each, and the way a request takes through them to an
  endpoint. Fiber is not part of the repository; what the code relies on is that the guards of
  a group run for every path below the group's prefix, before the route's own guards, and that
  the first route registered for the method and the path is taken. A path comes split at its
  slashes. \<open>fresh\<close> and \<open>take_token\<close> are the token buckets, as in the rate limiter.
\<close>

section \<open>Guards, endpoints, routes\<close>

datatype guard =
    GAuth
  | GCSRF
  | GRole "role list"
  | GLoginLimit
  | GAttendanceLimit string

datatype endpoint =
    EpLive | EpReady
  | EpLogin | EpLogout | EpChangePassword | EpMe | EpUpdateMe | EpCSRFToken
  | EpTraineeDashboard
  | EpTimeIn | EpTimeOut | EpToday | EpHistory | EpSession | EpSessionImage
  | EpJournal | EpSaveDraft | EpAddEvidence | EpDeleteEvidence | EpSubmit | EpJournalImage
  | EpJournalQueue | EpReview
  | EpRequestCorrection | EpMyCorrections | EpCorrections | EpDecide
  | EpStaffDashboard | EpAttendanceList | EpExport | EpReport
  | EpNotifications | EpRead | EpReadAll
  | EpSites | EpCreateSite | EpSite | EpUpdateSite
  | EpAssignments | EpCreateAssignment | EpAssignment | EpUpdateAssignment
  | EpTrainees | EpCreateTrainee | EpImportValidate | EpImportCommit | EpTrainee | EpUpdateTrainee
  | EpTraineePassword
  | EpCoordinators | EpCreateCoordinator | EpPatchCoordinator | EpSetScope | EpCoordinatorPassword
  | EpSettings | EpPatchSettings

datatype segment = Lit string | Param

record route =
  rt_method :: http_method
  rt_path :: "segment list"
  rt_guards :: "guard list"
  rt_endpoint :: endpoint

definition api :: "string \<Rightarrow> segment list \<Rightarrow> segment list" where
  "api g rest = [Lit ''api'', Lit ''v1'', Lit g] @ rest"

abbreviation rt :: "http_method \<Rightarrow> segment list \<Rightarrow> guard list \<Rightarrow> endpoint \<Rightarrow> route" where
  "rt m p gs e \<equiv> \<lparr>rt_method = m, rt_path = p, rt_guards = gs, rt_endpoint = e\<rparr>"

definition health_routes :: "route list" where
  "health_routes =
     [rt GET [Lit ''health'', Lit ''live''] [] EpLive,
      rt GET [Lit ''health'', Lit ''ready''] [] EpReady]"

definition auth_routes :: "route list" where
  "auth_routes =
     [rt POST (api ''auth'' [Lit ''login'']) [GLoginLimit] EpLogin,
      rt POST (api ''auth'' [Lit ''logout'']) [GAuth, GCSRF] EpLogout,
      rt POST (api ''auth'' [Lit ''change-password'']) [GAuth, GCSRF] EpChangePassword,
      rt GET (api ''auth'' [Lit ''me'']) [GAuth] EpMe,
      rt PATCH (api ''auth'' [Lit ''me'']) [GAuth, GCSRF] EpUpdateMe,
      rt GET (api ''auth'' [Lit ''csrf'']) [GAuth] EpCSRFToken]"

definition groups :: "(string list \<times> guard list) list" where
  "groups =
     [([''api'', ''v1'', ''staff''], [GAuth, GCSRF, GRole [RCoordinator, RAdmin]]),
      ([''api'', ''v1'', ''admin''], [GAuth, GCSRF, GRole [RAdmin]]),
      ([''api'', ''v1'', ''trainee''], [GAuth, GCSRF, GRole [RTrainee]]),
      ([''api'', ''v1'', ''attendance''], [GAuth, GCSRF]),
      ([''api'', ''v1'', ''journals''], [GAuth, GCSRF]),
      ([''api'', ''v1'', ''notifications''], [GAuth, GCSRF])]"

definition attendance_routes :: "route list" where
  "attendance_routes =
     [rt GET (api ''trainee'' [Lit ''dashboard'']) [] EpTraineeDashboard,
      rt POST (api ''attendance'' [Lit ''time-in'']) [GRole [RTrainee], GAttendanceLimit ''attendance:'']
        EpTimeIn,
      rt POST (api ''attendance'' [Param, Lit ''time-out''])
        [GRole [RTrainee], GAttendanceLimit ''attendance:''] EpTimeOut,
      rt GET (api ''attendance'' [Lit ''today'']) [GRole [RTrainee]] EpToday,
      rt GET (api ''attendance'' [Lit ''history'']) [GRole [RTrainee]] EpHistory,
      rt GET (api ''attendance'' [Param]) [] EpSession,
      rt GET (api ''attendance'' [Param, Lit ''evidence'', Param, Lit ''image'']) [] EpSessionImage]"

definition journal_routes :: "route list" where
  "journal_routes =
     [rt GET (api ''journals'' [Param]) [] EpJournal,
      rt PUT (api ''journals'' [Param, Lit ''draft'']) [GRole [RTrainee]] EpSaveDraft,
      rt POST (api ''journals'' [Param, Lit ''evidence'']) [GRole [RTrainee]] EpAddEvidence,
      rt DELETE (api ''journals'' [Param, Lit ''evidence'', Param]) [GRole [RTrainee]] EpDeleteEvidence,
      rt POST (api ''journals'' [Param, Lit ''submit'']) [GRole [RTrainee]] EpSubmit,
      rt GET (api ''journals'' [Param, Lit ''evidence'', Param, Lit ''image'']) [] EpJournalImage,
      rt GET (api ''staff'' [Lit ''journals'']) [] EpJournalQueue,
      rt POST (api ''staff'' [Lit ''journals'', Param, Lit ''review'']) [] EpReview]"

definition correction_routes :: "route list" where
  "correction_routes =
     [rt POST (api ''attendance'' [Param, Lit ''corrections''])
        [GRole [RTrainee], GAttendanceLimit ''correction:''] EpRequestCorrection,
      rt GET (api ''trainee'' [Lit ''corrections'']) [] EpMyCorrections,
      rt GET (api ''staff'' [Lit ''corrections'']) [] EpCorrections,
      rt POST (api ''staff'' [Lit ''corrections'', Param, Lit ''decision'']) [] EpDecide]"

definition staff_routes :: "route list" where
  "staff_routes =
     [rt GET (api ''staff'' [Lit ''dashboard'']) [] EpStaffDashboard,
      rt GET (api ''staff'' [Lit ''attendance'']) [] EpAttendanceList,
      rt GET (api ''staff'' [Lit ''reports'', Param, Lit ''export.csv'']) [] EpExport,
      rt GET (api ''staff'' [Lit ''reports'', Param]) [] EpReport,
      rt GET (api ''notifications'' []) [] EpNotifications,
      rt POST (api ''notifications'' [Param, Lit ''read'']) [] EpRead,
      rt POST (api ''notifications'' [Lit ''read-all'']) [] EpReadAll,
      rt GET (api ''staff'' [Lit ''sites'']) [] EpSites,
      rt POST (api ''staff'' [Lit ''sites'']) [] EpCreateSite,
      rt GET (api ''staff'' [Lit ''sites'', Param]) [] EpSite,
      rt PATCH (api ''staff'' [Lit ''sites'', Param]) [] EpUpdateSite,
      rt GET (api ''staff'' [Lit ''assignments'']) [] EpAssignments,
      rt POST (api ''staff'' [Lit ''assignments'']) [] EpCreateAssignment,
      rt GET (api ''staff'' [Lit ''assignments'', Param]) [] EpAssignment,
      rt PATCH (api ''staff'' [Lit ''assignments'', Param]) [] EpUpdateAssignment,
      rt GET (api ''staff'' [Lit ''trainees'']) [] EpTrainees,
      rt POST (api ''staff'' [Lit ''trainees'']) [] EpCreateTrainee,
      rt POST (api ''staff'' [Lit ''trainees'', Lit ''import'', Lit ''validate'']) [] EpImportValidate,
      rt POST (api ''staff'' [Lit ''trainees'', Lit ''import'', Lit ''commit'']) [] EpImportCommit,
      rt GET (api ''staff'' [Lit ''trainees'', Param]) [] EpTrainee,
      rt PATCH (api ''staff'' [Lit ''trainees'', Param]) [] EpUpdateTrainee,
      rt POST (api ''staff'' [Lit ''trainees'', Param, Lit ''password'']) [] EpTraineePassword]"

definition admin_routes :: "route list" where
  "admin_routes =
     [rt GET (api ''admin'' [Lit ''coordinators'']) [] EpCoordinators,
      rt POST (api ''admin'' [Lit ''coordinators'']) [] EpCreateCoordinator,
      rt PATCH (api ''admin'' [Lit ''coordinators'', Param]) [] EpPatchCoordinator,
      rt PUT (api ''admin'' [Lit ''coordinators'', Param, Lit ''trainee-scope'']) [] EpSetScope,
      rt POST (api ''admin'' [Lit ''coordinators'', Param, Lit ''password'']) [] EpCoordinatorPassword,
      rt GET (api ''admin'' [Lit ''settings'']) [] EpSettings,
      rt PATCH (api ''admin'' [Lit ''settings'']) [] EpPatchSettings]"

text \<open>All routes in the order in which \<open>Build\<close> registers them.\<close>

definition routes :: "route list" where
  "routes = health_routes @ auth_routes @ attendance_routes @ journal_routes @ correction_routes @
     staff_routes @ admin_routes"

section \<open>Matching\<close>

fun match_path :: "segment list \<Rightarrow> string list \<Rightarrow> string list option" where
  "match_path [] [] = Some []"
| "match_path (Lit l # ps) (s # ss) = (if s = l then match_path ps ss else None)"
| "match_path (Param # ps) (s # ss) = (if s = [] then None else map_option (Cons s) (match_path ps ss))"
| "match_path _ _ = None"

fun find_route :: "http_method \<Rightarrow> string list \<Rightarrow> route list \<Rightarrow> (route \<times> string list) option" where
  "find_route m path [] = None"
| "find_route m path (r # rs) =
     (case (if rt_method r = m then match_path (rt_path r) path else None) of
        Some ps \<Rightarrow> Some (r, ps)
      | None \<Rightarrow> find_route m path rs)"

definition below :: "string list \<Rightarrow> string list \<Rightarrow> bool" where
  "below p path = (take (length p) path = p)"

definition group_guards :: "string list \<Rightarrow> guard list" where
  "group_guards path = concat (map snd (filter (\<lambda>(p, _). below p path) groups))"

section \<open>A request on its way\<close>

record 'b app_env =
  ae_sha :: "string \<Rightarrow> string"
  ae_origins :: "string list"
  ae_fresh :: "int \<Rightarrow> int \<Rightarrow> 'b"
  ae_take :: "int \<Rightarrow> 'b \<Rightarrow> bool \<times> 'b"
  ae_uuid_text :: "uuid \<Rightarrow> string"

record 'b app_state =
  ap_db :: database
  ap_login :: "'b limiter"
  ap_attendance :: "'b limiter"

record request =
  rq_method :: http_method
  rq_path :: "string list"
  rq_address :: string
  rq_cookie :: string
  rq_origin :: string
  rq_csrf_token :: string
  rq_times :: "int \<times> int \<times> int"

record principal =
  pr_session :: "session_row option"
  pr_actor :: "auth_user option"

definition nobody :: principal where "nobody = \<lparr>pr_session = None, pr_actor = None\<rparr>"

definition limited ::
  "'b app_env \<Rightarrow> request \<Rightarrow> string \<Rightarrow> 'b limiter \<Rightarrow> 'b limiter \<times> (api_error + unit)" where
  "limited env q key l =
     (let (t0, t1, t2) = rq_times q
      in KeyedMiddleware (ae_fresh env) (ae_take env) key (rq_address q) t0 t1 t2 l)"

fun run_guard ::
  "'b app_env \<Rightarrow> clock \<Rightarrow> request \<Rightarrow> guard \<Rightarrow> principal \<Rightarrow> 'b app_state \<Rightarrow>
   'b app_state \<times> (api_error + principal)" where
  "run_guard env ck q GAuth pr st =
     (case RequireAuth (ae_sha env) ck (rq_cookie q) (ap_db st) of
        (db, Inl e) \<Rightarrow> (st\<lparr>ap_db := db\<rparr>, Inl e)
      | (db, Inr (s, u)) \<Rightarrow> (st\<lparr>ap_db := db\<rparr>, Inr \<lparr>pr_session = Some s, pr_actor = Some u\<rparr>))"
| "run_guard env ck q GCSRF pr st =
     (case CSRFProtect (ae_sha env) (ae_origins env) (rq_method q) (rq_origin q) (pr_session pr)
             (rq_csrf_token q) of
        Some e \<Rightarrow> (st, Inl e) | None \<Rightarrow> (st, Inr pr))"
| "run_guard env ck q (GRole roles) pr st =
     (case RequireRole roles (pr_actor pr) of Some e \<Rightarrow> (st, Inl e) | None \<Rightarrow> (st, Inr pr))"
| "run_guard env ck q GLoginLimit pr st =
     (case limited env q [] (ap_login st) of
        (l, Inl e) \<Rightarrow> (st\<lparr>ap_login := l\<rparr>, Inl e)
      | (l, Inr _) \<Rightarrow> (st\<lparr>ap_login := l\<rparr>, Inr pr))"
| "run_guard env ck q (GAttendanceLimit prefix) pr st =
     (let key = (case pr_actor pr of None \<Rightarrow> [] | Some u \<Rightarrow> prefix @ ae_uuid_text env (ac_id u))
      in case limited env q key (ap_attendance st) of
           (l, Inl e) \<Rightarrow> (st\<lparr>ap_attendance := l\<rparr>, Inl e)
         | (l, Inr _) \<Rightarrow> (st\<lparr>ap_attendance := l\<rparr>, Inr pr))"

fun run_guards ::
  "'b app_env \<Rightarrow> clock \<Rightarrow> request \<Rightarrow> guard list \<Rightarrow> principal \<Rightarrow> 'b app_state \<Rightarrow>
   'b app_state \<times> (api_error + principal)" where
  "run_guards env ck q [] pr st = (st, Inr pr)"
| "run_guards env ck q (g # gs) pr st =
     (case run_guard env ck q g pr st of
        (st', Inl e) \<Rightarrow> (st', Inl e)
      | (st', Inr pr') \<Rightarrow> run_guards env ck q gs pr' st')"

text \<open>
  \<open>admit\<close> takes a request to its endpoint, with the parameters of the path and the principal.
  A path without a route gets Fiber's 404 through \<open>ErrorHandler\<close>.
\<close>

definition ErrNoRoute :: api_error where "ErrNoRoute = httpx_new 404 ''HTTP_ERROR''"

definition admit ::
  "'b app_env \<Rightarrow> clock \<Rightarrow> request \<Rightarrow> 'b app_state \<Rightarrow>
   'b app_state \<times> (api_error + endpoint \<times> string list \<times> principal)" where
  "admit env ck q st =
     (case run_guards env ck q (group_guards (rq_path q)) nobody st of
        (st1, Inl e) \<Rightarrow> (st1, Inl e)
      | (st1, Inr pr) \<Rightarrow>
          (case find_route (rq_method q) (rq_path q) routes of
             None \<Rightarrow> (st1, Inl ErrNoRoute)
           | Some (r, ps) \<Rightarrow>
               (case run_guards env ck q (rt_guards r) pr st1 of
                  (st2, Inl e) \<Rightarrow> (st2, Inl e)
                | (st2, Inr pr') \<Rightarrow> (st2, Inr (rt_endpoint r, ps, pr')))))"

section \<open>Health\<close>

text \<open>The storage check is absent when the application runs without a store.\<close>

definition readiness :: "bool \<Rightarrow> bool option \<Rightarrow> int \<times> bool \<times> (string \<times> string) list" where
  "readiness db_ok storage_ok =
     (let word = (\<lambda>ok. if ok then ''ok'' else ''down'');
          ready = (db_ok \<and> storage_ok \<noteq> Some False)
      in (if ready then 200 else 503, ready,
          (''database'', word db_ok) #
          (case storage_ok of None \<Rightarrow> [] | Some ok \<Rightarrow> [(''storage'', word ok)])))"

end
