(* ===== verification/AppLaws.thy ===== *)
theory AppLaws
  imports App
begin

text \<open>
  The access-control matrix of the interface, stated for each endpoint and proved of the table of
  routes: who can reach which endpoint, and which need a CSRF token.
\<close>

section \<open>The matrix\<close>

datatype access = Public | SignedIn | TraineeOnly | Staff | AdminOnly
datatype effect = Reads | Writes

primrec matrix :: "endpoint \<Rightarrow> access \<times> effect" where
  "matrix EpLive = (Public, Reads)"
| "matrix EpReady = (Public, Reads)"
| "matrix EpLogin = (Public, Writes)"
| "matrix EpLogout = (SignedIn, Writes)"
| "matrix EpChangePassword = (SignedIn, Writes)"
| "matrix EpMe = (SignedIn, Reads)"
| "matrix EpUpdateMe = (SignedIn, Writes)"
| "matrix EpCSRFToken = (SignedIn, Reads)"
| "matrix EpTraineeDashboard = (TraineeOnly, Reads)"
| "matrix EpTimeIn = (TraineeOnly, Writes)"
| "matrix EpTimeOut = (TraineeOnly, Writes)"
| "matrix EpToday = (TraineeOnly, Reads)"
| "matrix EpHistory = (TraineeOnly, Reads)"
| "matrix EpSession = (SignedIn, Reads)"
| "matrix EpSessionImage = (SignedIn, Reads)"
| "matrix EpJournal = (SignedIn, Reads)"
| "matrix EpSaveDraft = (TraineeOnly, Writes)"
| "matrix EpAddEvidence = (TraineeOnly, Writes)"
| "matrix EpDeleteEvidence = (TraineeOnly, Writes)"
| "matrix EpSubmit = (TraineeOnly, Writes)"
| "matrix EpJournalImage = (SignedIn, Reads)"
| "matrix EpJournalQueue = (Staff, Reads)"
| "matrix EpReview = (Staff, Writes)"
| "matrix EpRequestCorrection = (TraineeOnly, Writes)"
| "matrix EpMyCorrections = (TraineeOnly, Reads)"
| "matrix EpCorrections = (Staff, Reads)"
| "matrix EpDecide = (Staff, Writes)"
| "matrix EpStaffDashboard = (Staff, Reads)"
| "matrix EpAttendanceList = (Staff, Reads)"
| "matrix EpExport = (Staff, Reads)"
| "matrix EpReport = (Staff, Reads)"
| "matrix EpNotifications = (SignedIn, Reads)"
| "matrix EpRead = (SignedIn, Writes)"
| "matrix EpReadAll = (SignedIn, Writes)"
| "matrix EpSites = (Staff, Reads)"
| "matrix EpCreateSite = (Staff, Writes)"
| "matrix EpSite = (Staff, Reads)"
| "matrix EpUpdateSite = (Staff, Writes)"
| "matrix EpAssignments = (Staff, Reads)"
| "matrix EpCreateAssignment = (Staff, Writes)"
| "matrix EpAssignment = (Staff, Reads)"
| "matrix EpUpdateAssignment = (Staff, Writes)"
| "matrix EpTrainees = (Staff, Reads)"
| "matrix EpCreateTrainee = (Staff, Writes)"
| "matrix EpImportValidate = (Staff, Writes)"
| "matrix EpImportCommit = (Staff, Writes)"
| "matrix EpTrainee = (Staff, Reads)"
| "matrix EpUpdateTrainee = (Staff, Writes)"
| "matrix EpTraineePassword = (Staff, Writes)"
| "matrix EpCoordinators = (AdminOnly, Reads)"
| "matrix EpCreateCoordinator = (AdminOnly, Writes)"
| "matrix EpPatchCoordinator = (AdminOnly, Writes)"
| "matrix EpSetScope = (AdminOnly, Writes)"
| "matrix EpCoordinatorPassword = (AdminOnly, Writes)"
| "matrix EpSettings = (AdminOnly, Reads)"
| "matrix EpPatchSettings = (AdminOnly, Writes)"

primrec roles_for :: "access \<Rightarrow> role list" where
  "roles_for Public = [RTrainee, RCoordinator, RAdmin]"
| "roles_for SignedIn = [RTrainee, RCoordinator, RAdmin]"
| "roles_for TraineeOnly = [RTrainee]"
| "roles_for Staff = [RCoordinator, RAdmin]"
| "roles_for AdminOnly = [RAdmin]"

section \<open>The guards of a route\<close>

lemmas route_tables = routes_def health_routes_def auth_routes_def attendance_routes_def
  journal_routes_def correction_routes_def staff_routes_def admin_routes_def

definition route_guards :: "route \<Rightarrow> guard list" where
  "route_guards r =
     (case rt_path r of Lit a # Lit b # Lit c # _ \<Rightarrow> group_guards [a, b, c] | _ \<Rightarrow> []) @ rt_guards r"

fun role_guard :: "role list \<Rightarrow> guard \<Rightarrow> bool" where
  "role_guard allowed (GRole rs) = list_all (\<lambda>r. r \<in> set allowed) rs"
| "role_guard allowed _ = False"

definition guarded :: "route \<Rightarrow> bool" where
  "guarded r =
     (case matrix (rt_endpoint r) of (access, eff) \<Rightarrow>
        access = Public \<or>
        (case route_guards r of
           GAuth # gs \<Rightarrow> GAuth \<notin> set gs \<and>
             (access = SignedIn \<or> list_ex (role_guard (roles_for access)) gs) \<and>
             (case eff of Reads \<Rightarrow> rt_method r = GET
              | Writes \<Rightarrow> rt_method r \<notin> {GET, HEAD, OPTIONS} \<and> GCSRF \<in> set gs)
         | _ \<Rightarrow> False))"

fun api_or_health :: "segment list \<Rightarrow> bool" where
  "api_or_health [Lit a, s] = (a = ''health'')"
| "api_or_health (Lit a # Lit b # Lit c # rest) = (a = ''api'' \<and> b = ''v1'')"
| "api_or_health _ = False"

lemma group_guards_eval:
  "group_guards [''api'', ''v1'', ''auth''] = []"
  "group_guards [''api'', ''v1'', ''staff''] = [GAuth, GCSRF, GRole [RCoordinator, RAdmin]]"
  "group_guards [''api'', ''v1'', ''admin''] = [GAuth, GCSRF, GRole [RAdmin]]"
  "group_guards [''api'', ''v1'', ''trainee''] = [GAuth, GCSRF, GRole [RTrainee]]"
  "group_guards [''api'', ''v1'', ''attendance''] = [GAuth, GCSRF]"
  "group_guards [''api'', ''v1'', ''journals''] = [GAuth, GCSRF]"
  "group_guards [''api'', ''v1'', ''notifications''] = [GAuth, GCSRF]"
  by (simp_all add: group_guards_def groups_def below_def)

lemma routes_guarded: "\<forall>r\<in>set routes. guarded r \<and> api_or_health (rt_path r)"
proof -
  have "list_all (\<lambda>r. guarded r \<and> api_or_health (rt_path r)) health_routes"
      "list_all (\<lambda>r. guarded r \<and> api_or_health (rt_path r)) auth_routes"
      "list_all (\<lambda>r. guarded r \<and> api_or_health (rt_path r)) attendance_routes"
      "list_all (\<lambda>r. guarded r \<and> api_or_health (rt_path r)) journal_routes"
      "list_all (\<lambda>r. guarded r \<and> api_or_health (rt_path r)) correction_routes"
      "list_all (\<lambda>r. guarded r \<and> api_or_health (rt_path r)) staff_routes"
      "list_all (\<lambda>r. guarded r \<and> api_or_health (rt_path r)) admin_routes"
    by (simp_all add: health_routes_def auth_routes_def attendance_routes_def journal_routes_def
        correction_routes_def staff_routes_def admin_routes_def guarded_def route_guards_def
        api_def group_guards_eval)
  then show ?thesis by (auto simp: routes_def list_all_iff)
qed

section \<open>The way through the guards\<close>

lemma run_guards_append:
  "run_guards env ck q (gs @ hs) pr st =
     (case run_guards env ck q gs pr st of
        (st', Inl e) \<Rightarrow> (st', Inl e) | (st', Inr pr') \<Rightarrow> run_guards env ck q hs pr' st')"
  by (induction gs arbitrary: pr st) (simp_all split: prod.split sum.split)

text \<open>After the first guard the principal and the database stay as they are.\<close>

lemma run_guards_rest:
  assumes "run_guards env ck q gs pr st = (st', Inr pr')" and "GAuth \<notin> set gs"
  shows "pr' = pr \<and> ap_db st' = ap_db st \<and>
    (\<forall>rs. GRole rs \<in> set gs \<longrightarrow> RequireRole rs (pr_actor pr) = None) \<and>
    (GCSRF \<in> set gs \<longrightarrow> CSRFProtect (ae_sha env) (ae_origins env) (rq_method q) (rq_origin q)
       (pr_session pr) (rq_csrf_token q) = None)"
  using assms
proof (induction gs arbitrary: st)
  case (Cons g gs)
  obtain st1 pr1 where g: "run_guard env ck q g pr st = (st1, Inr pr1)"
    using Cons.prems(1) by (auto split: prod.splits sum.splits)
  then have "pr1 = pr \<and> ap_db st1 = ap_db st \<and> (\<forall>rs. g = GRole rs \<longrightarrow> RequireRole rs (pr_actor pr) = None) \<and>
      (g = GCSRF \<longrightarrow> CSRFProtect (ae_sha env) (ae_origins env) (rq_method q) (rq_origin q)
         (pr_session pr) (rq_csrf_token q) = None)"
    using Cons.prems(2) by (cases g) (auto split: option.splits prod.splits sum.splits simp: Let_def)
  moreover have "run_guards env ck q gs pr1 st1 = (st', Inr pr')" using Cons.prems(1) g by simp
  ultimately show ?case using Cons.IH [of st1] Cons.prems(2) by auto
qed simp

lemma find_route_some:
  "find_route m path rs = Some (r, ps) \<Longrightarrow> r \<in> set rs \<and> rt_method r = m \<and> match_path (rt_path r) path = Some ps"
  by (induction rs) (auto split: option.splits if_splits)

lemma match_three:
  "match_path (Lit a # Lit b # Lit c # rest) path = Some ps \<Longrightarrow> \<exists>tail. path = a # b # c # tail"
  by (cases path; cases "tl path"; cases "tl (tl path)") (auto split: if_splits)

lemma match_two:
  "match_path [Lit a, s] path = Some ps \<Longrightarrow> \<exists>x. path = [a, x]"
  by (cases path; cases "tl path"; cases "tl (tl path)"; cases s) (auto split: if_splits)

lemma group_guards_health: "group_guards [''health'', x] = []"
  by (simp add: group_guards_def groups_def below_def)

text \<open>A request that matches a route of the table meets exactly that route's guards.\<close>

lemma group_guards_api: "group_guards (a # b # c # tail) = group_guards [a, b, c]"
  by (simp add: group_guards_def groups_def below_def)

lemma route_guards_met:
  assumes "r \<in> set routes" and "match_path (rt_path r) path = Some ps"
  shows "group_guards path @ rt_guards r = route_guards r"
proof -
  have "api_or_health (rt_path r)" using assms(1) routes_guarded by blast
  then consider a b c rest where "rt_path r = Lit a # Lit b # Lit c # rest"
    | s where "rt_path r = [Lit ''health'', s]"
    by (auto elim!: api_or_health.elims)
  then show ?thesis
  proof cases
    case 1
    then have "match_path (Lit a # Lit b # Lit c # rest) path = Some ps" using assms(2) by simp
    then obtain tail where "path = a # b # c # tail" using match_three by blast
    then show ?thesis using group_guards_api [of a b c tail] 1 by (simp add: route_guards_def)
  next
    case 2
    then have "match_path [Lit ''health'', s] path = Some ps" using assms(2) by simp
    then obtain x where "path = [''health'', x]" using match_two by blast
    then have "group_guards path = []" by (simp only: group_guards_health)
    then show ?thesis unfolding route_guards_def 2 by (simp split: segment.split)
  qed
qed

lemma admit_guards:
  assumes "admit env ck q st = (st', Inr (ep, ps, pr))"
  obtains r where "r \<in> set routes" "rt_endpoint r = ep" "rt_method r = rq_method q"
    "match_path (rt_path r) (rq_path q) = Some ps"
    "run_guards env ck q (route_guards r) nobody st = (st', Inr pr)"
proof -
  obtain st1 pr1 r where 1: "run_guards env ck q (group_guards (rq_path q)) nobody st = (st1, Inr pr1)"
      and f: "find_route (rq_method q) (rq_path q) routes = Some (r, ps)"
      and 2: "run_guards env ck q (rt_guards r) pr1 st1 = (st', Inr pr)" and e: "rt_endpoint r = ep"
    using assms by (auto simp: admit_def split: prod.splits sum.splits option.splits)
  have r: "r \<in> set routes" "rt_method r = rq_method q" "match_path (rt_path r) (rq_path q) = Some ps"
    using find_route_some [OF f] by simp_all
  have "run_guards env ck q (group_guards (rq_path q) @ rt_guards r) nobody st = (st', Inr pr)"
    using 1 2 by (simp add: run_guards_append)
  then show thesis using that r e route_guards_met [OF r(1,3)] by simp
qed

lemma admit_allows:
  assumes "admit env ck q st = (st', Inr (ep, ps, pr))" and "fst (matrix ep) \<noteq> Public"
  shows "\<exists>s u. Resolve (ae_sha env) ck (rq_cookie q) (ap_db st) = (ap_db st', Some (s, u)) \<and>
    pr = \<lparr>pr_session = Some s, pr_actor = Some u\<rparr> \<and> ac_status u = AccActive \<and>
    ac_role u \<in> set (roles_for (fst (matrix ep))) \<and>
    (snd (matrix ep) = Reads \<and> rq_method q = GET \<or>
     snd (matrix ep) = Writes \<and> ValidCSRF (ae_sha env) (Some s) (rq_csrf_token q) \<and>
       (rq_origin q = [] \<or> rq_origin q \<in> set (ae_origins env)))"
proof -
  obtain r where r: "r \<in> set routes" "rt_endpoint r = ep" "rt_method r = rq_method q"
      and run: "run_guards env ck q (route_guards r) nobody st = (st', Inr pr)"
    using assms(1) by (rule admit_guards)
  obtain access eff where m: "matrix ep = (access, eff)" by fastforce
  obtain gs where gs: "route_guards r = GAuth # gs" "GAuth \<notin> set gs"
      "access = SignedIn \<or> list_ex (role_guard (roles_for access)) gs"
      "case eff of Reads \<Rightarrow> rt_method r = GET
       | Writes \<Rightarrow> rt_method r \<notin> {GET, HEAD, OPTIONS} \<and> GCSRF \<in> set gs"
  proof -
    have "guarded r" using routes_guarded r(1) by blast
    then show thesis
      using that assms(2) m r(2)
      by (cases "route_guards r"; cases "hd (route_guards r)") (auto simp: guarded_def)
  qed
  obtain s u db where res: "Resolve (ae_sha env) ck (rq_cookie q) (ap_db st) = (db, Some (s, u))"
      and rest: "run_guards env ck q gs \<lparr>pr_session = Some s, pr_actor = Some u\<rparr> (st\<lparr>ap_db := db\<rparr>) =
        (st', Inr pr)"
    using run by (auto simp: gs(1) RequireAuth_def split: prod.splits sum.splits option.splits if_splits)
  note ok = run_guards_rest [OF rest gs(2)]
  have active: "ac_status u = AccActive"
    using res by (auto simp: Resolve_def auth_user_of_def split: option.splits if_splits)
  have "ac_role u \<in> set (roles_for access)"
  proof (cases "access = SignedIn")
    case True
    then show ?thesis by (cases "ac_role u") simp_all
  next
    case False
    then obtain rs where rs: "GRole rs \<in> set gs" "\<forall>r\<in>set rs. r \<in> set (roles_for access)"
      using gs(3) by (auto simp: list_ex_iff list_all_iff elim!: role_guard.elims)
    then have "RequireRole rs (Some u) = None" using ok by auto
    then show ?thesis using rs(2) by (auto simp: RequireRole_def split: if_splits)
  qed
  moreover have "eff = Reads \<and> rq_method q = GET \<or>
      eff = Writes \<and> ValidCSRF (ae_sha env) (Some s) (rq_csrf_token q) \<and>
        (rq_origin q = [] \<or> rq_origin q \<in> set (ae_origins env))"
    using gs(4) ok r(3) by (cases eff) (auto simp: CSRFProtect_def split: if_splits)
  ultimately show ?thesis using res ok active m by auto
qed

text \<open>
  C4. No request reaches an endpoint it is not meant to. Every endpoint but the two health
  checks and the login is reached only with a session cookie that resolves to an active user, who
  is then the actor, in a role the matrix allows; an endpoint that writes is reached only by an
  unsafe method, with the CSRF token of that session and from an allowed origin; and up to the
  endpoint the database changes at most by the time the session was last seen.
\<close>

theorem admit_authorized:
  assumes "admit env ck q st = (st', Inr (ep, ps, pr))" and "fst (matrix ep) \<noteq> Public"
  shows "\<exists>s u. Resolve (ae_sha env) ck (rq_cookie q) (ap_db st) = (ap_db st', Some (s, u)) \<and>
    pr = \<lparr>pr_session = Some s, pr_actor = Some u\<rparr> \<and> ac_status u = AccActive \<and>
    ac_role u \<in> set (roles_for (fst (matrix ep))) \<and>
    (snd (matrix ep) = Reads \<and> rq_method q = GET \<or>
     snd (matrix ep) = Writes \<and> ValidCSRF (ae_sha env) (Some s) (rq_csrf_token q) \<and>
       (rq_origin q = [] \<or> rq_origin q \<in> set (ae_origins env)))"
  using assms by (rule admit_allows)

text \<open>The coordinator of the example reads the staff dashboard; a trainee would not.\<close>

definition demo_app :: "(int \<times> int \<times> int \<times> int) app_env" where
  "demo_app = \<lparr>ae_sha = id, ae_origins = [''o''], ae_fresh = demo_fresh, ae_take = demo_take,
     ae_uuid_text = (\<lambda>_. ''u'')\<rparr>"

definition demo_state :: "uuid \<Rightarrow> (int \<times> int \<times> int \<times> int) app_state" where
  "demo_state u = \<lparr>ap_db = demo_db\<lparr>db_sessions := [demo_db_session\<lparr>ss_user := u\<rparr>]\<rparr>,
     ap_login = New_limiter 2 60, ap_attendance = New_limiter 2 60\<rparr>"

definition demo_request :: request where
  "demo_request = \<lparr>rq_method = GET, rq_path = [''api'', ''v1'', ''staff'', ''dashboard''],
     rq_address = ''a'', rq_cookie = ss_token_hash demo_db_session, rq_origin = [],
     rq_csrf_token = [], rq_times = (1, 1, 1)\<rparr>"

lemma demo_route:
  "find_route GET [''api'', ''v1'', ''staff'', ''dashboard''] routes =
     Some (rt GET (api ''staff'' [Lit ''dashboard'']) [] EpStaffDashboard, [])"
  by (simp add: route_tables api_def)

lemma demo_resolve:
  "find_user u demo_db = Some r \<Longrightarrow> us_status r = AccActive \<Longrightarrow>
   \<exists>db' s. Resolve id (demo_clock 5) ''tok'' (ap_db (demo_state u)) = (db', Some (s, auth_user_of r))"
  by (simp add: Resolve_def demo_state_def demo_db_session_def live_def find_user_def demo_clock_def)

theorem admit_authorized_witness:
  "(\<exists>st' pr u. admit demo_app (demo_clock 5) demo_request (demo_state 11) =
      (st', Inr (EpStaffDashboard, [], pr)) \<and> pr_actor pr = Some u \<and>
      ac_role u \<in> set (roles_for Staff)) \<and>
   (\<exists>st'. admit demo_app (demo_clock 5) demo_request (demo_state 10) = (st', Inl ErrForbidden))"
proof
  have q: "rq_path demo_request = [''api'', ''v1'', ''staff'', ''dashboard'']"
      "rq_method demo_request = GET" "rq_cookie demo_request = ''tok''" "ae_sha demo_app = id"
    by (simp_all add: demo_request_def demo_db_session_def demo_app_def)
  have users: "\<exists>r. find_user 10 demo_db = Some r \<and> us_status r = AccActive \<and> us_role r = RTrainee"
      "\<exists>r. find_user 11 demo_db = Some r \<and> us_status r = AccActive \<and> us_role r = RCoordinator"
    by (simp_all add: find_user_def by_key_def demo_db_def)
  obtain r db s where r: "us_role r = RCoordinator"
      and res: "Resolve id (demo_clock 5) ''tok'' (ap_db (demo_state 11)) = (db, Some (s, auth_user_of r))"
    using users(2) demo_resolve by blast
  have "\<exists>st' pr. admit demo_app (demo_clock 5) demo_request (demo_state 11) =
      (st', Inr (EpStaffDashboard, [], pr))"
    by (simp add: admit_def q group_guards_eval group_guards_api [of _ _ _ "[_]"] demo_route
        RequireAuth_def res CSRFProtect_def RequireRole_def auth_user_of_def r)
  then obtain st' pr where adm: "admit demo_app (demo_clock 5) demo_request (demo_state 11) =
      (st', Inr (EpStaffDashboard, [], pr))"
    by blast
  from admit_authorized [OF adm] show "\<exists>st' pr u. admit demo_app (demo_clock 5) demo_request (demo_state 11) =
      (st', Inr (EpStaffDashboard, [], pr)) \<and> pr_actor pr = Some u \<and> ac_role u \<in> set (roles_for Staff)"
    using adm by auto
  obtain r' db' s' where "us_role r' = RTrainee"
      and "Resolve id (demo_clock 5) ''tok'' (ap_db (demo_state 10)) = (db', Some (s', auth_user_of r'))"
    using users(1) demo_resolve by blast
  then show "\<exists>st'. admit demo_app (demo_clock 5) demo_request (demo_state 10) = (st', Inl ErrForbidden)"
    by (simp add: admit_def q group_guards_eval group_guards_api [of _ _ _ "[_]"]
        RequireAuth_def CSRFProtect_def RequireRole_def auth_user_of_def)
qed

end
