(* ===== verification/System.thy ===== *)
theory System
  imports Refinement AppLaws Imports Sites Settings AssignmentLaws
begin

text \<open>
  The application as one system: what each endpoint does to the database. A request is served in
  its own transaction; what its handler reads before that may come from any earlier state, so two
  requests may interleave between the reads and the write of one of them. Every endpoint is shown
  to perform one event of the ledger, of a trainee its actor may act for, or none.
\<close>

section \<open>Handlers outside the ledger\<close>

definition quiet :: "database \<Rightarrow> database \<Rightarrow> bool" where
  "quiet db db' \<longleftrightarrow> ledger_same (ledger_of db) (ledger_of db')"

named_theorems quiet_simps \<open>operations that leave the ledger\<close>

lemma quietI: "ledger_of db' = ledger_of db \<Longrightarrow> quiet db db'"
  by (simp add: quiet_def)

lemma quiet_performs: "quiet db db' \<Longrightarrow> performs p db db'"
  by (simp add: quiet_def performs_def)

lemma set_user_ledger [quiet_simps]: "ledger_of (set_user i f db) = ledger_of db"
  by (simp add: set_user_def)

lemma RevokeAll_ledger [quiet_simps]: "ledger_of (RevokeAllForUser ck i db) = ledger_of db"
  by (simp add: RevokeAllForUser_def)

lemma inserts_ledger [quiet_simps]:
  "insert_user u db = Inr db' \<Longrightarrow> ledger_of db' = ledger_of db"
  "insert_trainee r db = Inr db' \<Longrightarrow> ledger_of db' = ledger_of db"
  "insert_site s db = Inr db' \<Longrightarrow> ledger_of db' = ledger_of db"
  "update_site i s db = Inr db' \<Longrightarrow> ledger_of db' = ledger_of db"
  "update_user i email name status db = Inr db' \<Longrightarrow> ledger_of db' = ledger_of db"
  "update_profile i student program year contact db = Inr db' \<Longrightarrow> ledger_of db' = ledger_of db"
  "Create_session sha ck ttl sid v token csrf db = Inr db' \<Longrightarrow> ledger_of db' = ledger_of db"
  "insert_scope c t db = Inr db' \<Longrightarrow> ledger_of db' = ledger_of db"
  "own_scope b c t db = Inr db' \<Longrightarrow> ledger_of db' = ledger_of db"
  by (auto simp: insert_user_def insert_trainee_def insert_site_def update_site_def update_user_def
      update_profile_def Create_session_def insert_row_Inr Let_def set_user_def insert_scope_def
      own_scope_def split: if_splits)

lemma insert_scopes_ledger: "insert_scopes c ts db = Inr db' \<Longrightarrow> ledger_of db' = ledger_of db"
  by (induction c ts db rule: insert_scopes.induct)
    (auto simp: result_bind_Inr_iff dest: inserts_ledger)

lemma import_all_ledger:
  "import_all env b n rows db = Inr (db', x) \<Longrightarrow> ledger_of db' = ledger_of db"
proof (induction env b n rows db arbitrary: db' x rule: import_all.induct)
  case (2 env b n row rows db)
  obtain d cred where one: "import_one env b n row db = Inr (d, cred)"
    and rest: "\<exists>y. import_all env b (Suc n) rows d = Inr (db', y)"
    using "2.prems" by (auto simp: result_bind_Inr_iff)
  have "ledger_of d = ledger_of db"
    using one by (auto simp: import_one_def result_bind_Inr_iff dest!: inserts_ledger split: option.splits)
  then show ?case using rest "2.IH" by fastforce
qed simp

lemma in_tx_ledger:
  assumes "in_tx ok fn db = (db', r)"
    and "\<And>d x. fn db = Inr (d, x) \<Longrightarrow> ledger_of d = ledger_of db"
  shows "ledger_of db' = ledger_of db"
  using assms by (auto simp: in_tx_def split: sum.splits prod.splits if_splits)

lemma accounts_quiet:
  "handle_Create_coordinator pw uid temp u body1 db = (db', r1) \<Longrightarrow> quiet db db'"
  "handle_Patch_coordinator ck ok u param body2 db0 db = (db', r2) \<Longrightarrow> quiet db db'"
  "handle_SetPassword pw ck ok u param body4 db0 db = (db', r4) \<Longrightarrow> quiet db db'"
  by (auto intro!: quietI dest!: inserts_ledger simp: quiet_simps
      handle_Create_coordinator_def CreateCoordinator_def handle_Patch_coordinator_def
      PatchCoordinator_def PatchCoordinatorTx_def handle_SetPassword_def SetCoordinatorPassword_def
      SetPasswordTx_def in_tx_def Let_def split: option.splits sum.splits prod.splits if_splits)

lemma scope_quiet:
  assumes "handle_SetScope ok u param body db0 db = (db', r)"
  shows "quiet db db'"
proof (rule quietI)
  have "ledger_of d = ledger_of db" if "SetTraineeScope ok c ids db0 db = (d, x)" for c ids d x
    using that
    by (auto simp: SetTraineeScope_def SetTraineeScopeTx_def result_bind_Inr_iff split: if_splits
        dest!: insert_scopes_ledger elim!: in_tx_ledger)
  then show "ledger_of db' = ledger_of db"
    using assms by (auto simp: handle_SetScope_def split: option.splits sum.splits prod.splits)
qed

lemma trainee_tx_ledger:
  "CreateTraineeTx uid tid h u inp db = Inr (d, x) \<Longrightarrow> ledger_of d = ledger_of db"
  "UpdateTraineeTx ck i cur email name student status program year contact db = Inr (d, x) \<Longrightarrow>
     ledger_of d = ledger_of db"
  "SetPasswordTx ck j h db = Inr (d, x) \<Longrightarrow> ledger_of d = ledger_of db"
  by (auto dest!: inserts_ledger simp: quiet_simps result_bind_Inr_iff CreateTraineeTx_def
      UpdateTraineeTx_def SetPasswordTx_def split: sum.splits if_splits)

lemma Update_trainee_ledger:
  assumes "Update_trainee ck ok i inp db0 db = (db', r)"
  shows "ledger_of db' = ledger_of db"
proof (cases "Get_trainee i db0")
  case (Inr cur)
  define st where "st = (case tpp_status inp of None \<Rightarrow> Some (tv_status cur)
    | Some s \<Rightarrow> account_status_of s)"
  show ?thesis
  proof (cases st)
    case None
    then show ?thesis
      using assms Inr None [unfolded st_def]
      by (simp add: Update_trainee_def Let_def split: if_splits)
  next
    case (Some status)
    then show ?thesis
      using assms Inr Some [unfolded st_def]
      by (simp add: Update_trainee_def Let_def split: if_splits prod.splits sum.splits)
        (auto elim!: in_tx_ledger dest!: trainee_tx_ledger)
  qed
qed (use assms in \<open>simp add: Update_trainee_def\<close>)

lemma trainees_quiet:
  "handle_Create_trainee pw ok uid tid temp u body1 db = (db', r1) \<Longrightarrow> quiet db db'"
  "handle_Update_trainee ck ok u param body2 db0 db = (db', r2) \<Longrightarrow> quiet db db'"
  "handle_SetTraineePassword pw ck ok u param body3 db0 db = (db', r3) \<Longrightarrow> quiet db db'"
  by (auto intro!: quietI dest!: Update_trainee_ledger trainee_tx_ledger elim!: in_tx_ledger
      simp: handle_Create_trainee_def Create_trainee_def handle_Update_trainee_def
      handle_SetTraineePassword_def SetTraineePassword_def
      split: option.splits sum.splits prod.splits if_splits)

lemma import_quiet:
  assumes "handle_ImportCommit env ok now u body store db = (store', db', r)"
  shows "quiet db db'"
proof (rule quietI)
  have "ledger_of d = ledger_of db" if "Commit_import env ok now token store db = (s, d, x)" for token s d x
    using that
    by (auto simp: Commit_import_def split: option.splits prod.splits sum.splits if_splits
        elim!: in_tx_ledger dest!: import_all_ledger)
  then show "ledger_of db' = ledger_of db"
    using assms by (auto simp: handle_ImportCommit_def split: option.splits prod.splits sum.splits)
qed

lemma institution_quiet:
  "handle_Create_site sid u body1 db = (db', r1) \<Longrightarrow> quiet db db'"
  "handle_Update_site u param body2 db0 db = (db', r2) \<Longrightarrow> quiet db db'"
  "handle_Patch_settings tz sid u body3 db0 db = (db', r3) \<Longrightarrow> quiet db db'"
  by (auto intro!: quietI dest!: inserts_ledger simp: handle_Create_site_def Create_site_def
      handle_Update_site_def Update_site_def handle_Patch_settings_def Update_settings_def Let_def
      split: option.splits sum.splits prod.splits if_splits)

lemma auth_quiet:
  "handle_Login sha pw ck ttl sid token csrf body1 db = (db', r1) \<Longrightarrow> quiet db db'"
  "quiet db (handle_Logout sha ck actor tokenOf cookie db)"
  "handle_ChangePassword pw actor body2 db = (db', r2) \<Longrightarrow> quiet db db'"
  "handle_UpdateMe actor body3 db = (db', r3) \<Longrightarrow> quiet db db'"
  "handle_CSRFToken sha sess token db = (db', r4) \<Longrightarrow> quiet db db'"
  by (auto intro!: quietI dest!: inserts_ledger simp: quiet_simps handle_Login_def Login_def
      handle_Logout_def Logout_def Revoke_def handle_ChangePassword_def ChangePassword_def
      handle_UpdateMe_def UpdateProfile_def handle_CSRFToken_def RotateCSRF_def Let_def
      split: option.splits sum.splits prod.splits if_splits bool.splits)

lemma notifications_quiet:
  "ReadNotification ck u param db = (db', r) \<Longrightarrow> quiet db db'"
  "quiet db (ReadAllNotifications ck u db)"
  by (auto intro!: quietI simp: ReadNotification_def MarkRead_def ReadAllNotifications_def
      MarkAllRead_def Let_def split: option.splits sum.splits prod.splits if_splits)

lemma reminders_quiet:
  assumes "RunReminders tz ids ck ok hour db0 db = (db', r)"
  shows "quiet db db'"
proof (rule quietI)
  have frame: "ledger_of x = ledger_of d" if "emit_all CreateTx es d = (x, n)" for es d x n
    using emit_notes_frame [of es d] that by (metis fst_conv ledger_of_outside(8))
  show "ledger_of db' = ledger_of db"
    using assms
    by (auto dest!: frame simp: RunReminders_def RemindersTx_def openTimeIn_def missingJournals_def
        missingAttendanceReminders_def Let_def elim!: in_tx_ledger
        split: option.splits sum.splits prod.splits if_splits)
qed

lemma evidence_quiet:
  "handle_AddEvidence sv eid uid ck ok u param photo db0 dbc db b = ((db', b'), r1) \<Longrightarrow> quiet db db'"
  "handle_DeleteEvidence sv ok u param eparam db0 db b = ((db', b'), r2) \<Longrightarrow> quiet db db'"
  by (auto intro!: quietI simp: handle_AddEvidence_def AddEvidence_def handle_DeleteEvidence_def
      DeleteEvidence_def DeleteEvidenceTx_def insert_journal_evidence_Inr result_bind_Inr_iff
      in_tx_def Let_def split: option.splits sum.splits prod.splits if_splits)

lemma insert_assignment_quiet: "insert_assignment r db = Inr db' \<Longrightarrow> quiet db db'"
  by (auto simp: insert_assignment_def insert_row_Inr quiet_def ledger_same_def ledger_of_def)

lemma update_assignment_quiet:
  assumes "update_assignment i (set_assignment new) db = Inr db'"
  shows "quiet db db'"
proof (cases "find_assignment i db")
  case None
  then show ?thesis using assms by (simp add: update_assignment_def quiet_def)
next
  case (Some a)
  have "(\<lambda>a. (as_id a, as_trainee a)) ` set (set_by_key as_id i (set_assignment new) (db_assignments db)) =
      (\<lambda>a. (as_id a, as_trainee a)) ` set (db_assignments db)"
    by (rule image_set_by_key) (simp add: set_assignment_def)
  then show ?thesis
    using assms Some
    by (auto simp: update_assignment_def insert_row_Inr ledger_of_def intro!: quietI)
qed

lemma quiet_Record [simp]: "quiet db (Record a e t i db') \<longleftrightarrow> quiet db db'"
  by (simp add: quiet_def)

lemma assignments_quiet:
  "handle_Create_assignment up aid ck u body1 db0 db = (db', r1) \<Longrightarrow> quiet db db'"
  "handle_Update_assignment up u param body2 db0 db = (db', r2) \<Longrightarrow> quiet db db'"
proof -
  have refl: "quiet d d" for d by (simp add: quiet_def)
  have "quiet db d" if "Create_assignment up aid ck inp db0 db = (d, r)" for inp d r
    using that by (cases rule: Create_assignment_cases) (auto simp: refl dest: insert_assignment_quiet)
  then show "handle_Create_assignment up aid ck u body1 db0 db = (db', r1) \<Longrightarrow> quiet db db'"
    by (auto simp: handle_Create_assignment_def refl split: option.splits prod.splits sum.splits)
  have "quiet db d" if "Update_assignment up i inp db0 db = (d, r)" for i inp d r
    using that by (cases rule: Update_assignment_cases) (auto simp: refl dest: update_assignment_quiet)
  then show "handle_Update_assignment up u param body2 db0 db = (db', r2) \<Longrightarrow> quiet db db'"
    by (auto simp: handle_Update_assignment_def refl split: option.splits prod.splits sum.splits)
qed

section \<open>Handlers of the ledger\<close>

lemma handle_TimeIn_performs:
  assumes "handle_TimeIn sv ck ids ok u form db0 db db2 b = ((db', b'), r)" and "before db0 db"
  shows "performs (own_profile db0 u) db db'"
  using assms TimeIn_performs
  by (fastforce simp: handle_TimeIn_def split: sum.splits prod.splits if_splits)

lemma handle_TimeOut_performs:
  assumes "handle_TimeOut sv ck ids ok u param form db0 db db2 b = ((db', b'), r)" and "before db0 db"
  shows "performs (own_profile db0 u) db db'"
  using assms TimeOut_performs
  by (fastforce simp: handle_TimeOut_def split: option.splits sum.splits prod.splits)

lemma trainee_of_user_own: "trainee_of_user u db = Some tp \<Longrightarrow> own_profile db u (tp_id tp)"
  by (auto simp: trainee_of_user_def own_profile_def dest!: by_key_mem)

lemma handle_Create_correction_performs:
  assumes "handle_Create_correction cid ck ok u param body db0 db = (db', r)" and "before db0 db"
  shows "performs (own_profile db0 (ac_id u)) db db'"
proof (cases "db' = db")
  case False
  then obtain tp inp x where "trainee_of_user (ac_id u) db0 = Some tp"
      "Request cid ck ok (tp_id tp) (ac_id u) inp db0 db = (db', x)"
    using assms(1)
    by (auto simp: handle_Create_correction_def split: option.splits prod.splits sum.splits)
  then show ?thesis
    using Request_performs [OF _ assms(2)] trainee_of_user_own performs_mono by blast
qed simp

text \<open>The trainee of a correction or a journal, read earlier, is still its trainee.\<close>

lemma before_correction:
  assumes "before db0 db" and "find_correction i db0 = Some c" and "find_correction i db = Some d"
  shows "cr_trainee d = cr_trainee c"
proof -
  have "c \<in> set (db_corrections db0)" "cr_id c = i" "cr_id d = i"
    using assms(2,3) by (auto simp: find_correction_def dest: by_key_mem)
  then obtain q where q: "q \<in> set (db_corrections db)" "correction_key q = correction_key c"
    using assms(1) by (auto simp: before_def ledger_grown_def)
  moreover have "unique_on cr_id (db_corrections db)"
    using assms(1) by (simp add: before_def ledger_ok_def keys_ok_def)
  ultimately have "q = d"
    using assms(3) \<open>cr_id c = i\<close> by (auto simp: find_correction_def intro: by_key_row)
  then show ?thesis using q(2) by simp
qed

lemma before_journal:
  assumes "before db0 db" and "find_journal i db0 = Some c" and "find_journal i db = Some d"
  shows "jo_trainee d = jo_trainee c"
proof -
  have "c \<in> set (db_journals db0)" "jo_id c = i" "jo_id d = i"
    using assms(2,3) by (auto simp: find_journal_def dest: by_key_mem)
  then obtain q where q: "q \<in> set (db_journals db)" "journal_key q = journal_key c"
    using assms(1) by (auto simp: before_def ledger_grown_def)
  moreover have "unique_on jo_id (db_journals db)"
    using assms(1) by (simp add: before_def ledger_ok_def keys_ok_def)
  ultimately have "q = d"
    using assms(3) \<open>jo_id c = i\<close> by (auto simp: find_journal_def intro: by_key_row)
  then show ?thesis using q(2) by simp
qed

lemma handle_Decide_performs:
  assumes "handle_Decide ids ck ok u param body db0 db = (db', r)" and "before db0 db"
  shows "performs (may_act db0 u) db db'"
proof (cases "db' = db")
  case False
  then obtain i c decision comment x where c: "find_correction i db0 = Some c"
      and acc: "CanAccessTrainee u (cr_trainee c) db0"
      and run: "Decide ids ck ok i (ac_id u) decision comment db = (db', x)"
    using assms(1)
    by (auto simp: handle_Decide_def TraineeIDOf_def split: option.splits sum.splits prod.splits if_splits)
  have "ledger_ok (ledger_of db)" using assms(2) by (simp add: before_def)
  then show ?thesis
    using Decide_performs [OF run] before_correction [OF assms(2) c] acc
    by (auto simp: may_act_def elim!: performs_mono)
qed simp

lemma authorize_may_act:
  assumes "authorize u i db = Inr v"
  shows "\<exists>j. find_journal i db = Some j \<and> may_act db u (jo_trainee j)"
proof -
  obtain j t where load: "find_journal i db = Some j" "Load i db = Inr (v, jo_trainee j)"
    and acc: "if ac_role u = RTrainee
      then \<exists>tp. find_trainee (jo_trainee j) db = Some tp \<and> tp_user tp = ac_id u
      else CanAccessTrainee u (jo_trainee j) db"
    using assms
    by (auto simp: authorize_def result_bind_Inr_iff Load_def Let_def split: option.splits if_splits)
  then have "may_act db u (jo_trainee j)"
    by (auto simp: may_act_def own_profile_def find_trainee_def split: if_splits dest!: by_key_mem)
  then show ?thesis using load(1) by blast
qed

lemma journal_handler_performs:
  assumes "before db0 db" and "authorize u i db0 = Inr v"
    and "performs (\<lambda>t. \<exists>j. find_journal i db = Some j \<and> jo_trainee j = t) db db'"
  shows "performs (may_act db0 u) db db'"
proof -
  obtain j where "find_journal i db0 = Some j" "may_act db0 u (jo_trainee j)"
    using authorize_may_act [OF assms(2)] by blast
  then show ?thesis
    using assms(3) before_journal [OF assms(1)] by (auto elim!: performs_mono)
qed

lemma authorizeOwner_authorize: "authorizeOwner u i db = Inr v \<Longrightarrow> authorize u i db = Inr v"
  by (simp add: authorizeOwner_def split: if_splits)

lemma handle_SaveDraft_performs:
  assumes "handle_SaveDraft ck u param body db0 db = (db', r)" and "before db0 db"
  shows "performs (may_act db0 u) db db'"
proof (cases "db' = db")
  case False
  then obtain i v n x where "authorizeOwner u i db0 = Inr v" "SaveDraft ck i n db = (db', x)"
    using assms(1) by (auto simp: handle_SaveDraft_def split: option.splits sum.splits prod.splits)
  then show ?thesis
    using journal_handler_performs [OF assms(2) authorizeOwner_authorize] SaveDraft_performs assms(2)
    by (simp add: before_def)
qed simp

lemma handle_Submit_performs:
  assumes "handle_Submit ck ok u param body db0 db = (db', r)" and "before db0 db"
  shows "performs (may_act db0 u) db db'"
proof (cases "db' = db")
  case False
  then obtain i v n x where "authorizeOwner u i db0 = Inr v" "Submit ck ok i (ac_id u) n db = (db', x)"
    using assms(1) by (auto simp: handle_Submit_def split: option.splits sum.splits prod.splits)
  then show ?thesis
    using journal_handler_performs [OF assms(2) authorizeOwner_authorize] Submit_performs by simp
qed simp

lemma handle_Review_performs:
  assumes "handle_Review rid nid ck ok u param body db0 db = (db', r)" and "before db0 db"
  shows "performs (may_act db0 u) db db'"
proof (cases "db' = db")
  case False
  then obtain i v d c x where "authorize u i db0 = Inr v"
      "Review rid nid ck ok i (ac_id u) d c db = (db', x)"
    using assms(1) by (auto simp: handle_Review_def split: option.splits sum.splits prod.splits)
  then show ?thesis using journal_handler_performs [OF assms(2)] Review_performs by simp
qed simp

section \<open>Serving a request\<close>

text \<open>
  \<open>serves sv a H db ep db'\<close>: a request of the actor \<open>a\<close> that was admitted to the endpoint \<open>ep\<close>
  takes the database from \<open>db\<close> to \<open>db'\<close>; \<open>H\<close> holds the states its handler may have read before.
  The other inputs of a handler are arbitrary, and so are the bucket and the staged imports.
\<close>

inductive serves ::
  "'img service \<Rightarrow> auth_user option \<Rightarrow> database set \<Rightarrow> database \<Rightarrow> endpoint \<Rightarrow> database \<Rightarrow> bool"
  for sv :: "'img service" and a :: "auth_user option" and H :: "database set" and db :: database where
  reading: "snd (matrix ep) = Reads \<Longrightarrow> ep \<noteq> EpCSRFToken \<Longrightarrow> serves sv a H db ep db"
| validate: "serves sv a H db EpImportValidate db"
| csrf: "handle_CSRFToken sha sess token db = (db', r) \<Longrightarrow> serves sv a H db EpCSRFToken db'"
| login: "handle_Login sha pw ck ttl sid token tok body db = (db', r) \<Longrightarrow> serves sv a H db EpLogin db'"
| logout: "serves sv a H db EpLogout (handle_Logout sha ck a token cookie db)"
| password: "handle_ChangePassword pw a body db = (db', r) \<Longrightarrow> serves sv a H db EpChangePassword db'"
| profile: "handle_UpdateMe a body db = (db', r) \<Longrightarrow> serves sv a H db EpUpdateMe db'"
| time_in: "a = Some u \<Longrightarrow> db0 \<in> H \<Longrightarrow>
    handle_TimeIn sv ck ids ok (ac_id u) form db0 db later b = ((db', b'), r) \<Longrightarrow>
    serves sv a H db EpTimeIn db'"
| time_out: "a = Some u \<Longrightarrow> db0 \<in> H \<Longrightarrow>
    handle_TimeOut sv ck ids ok (ac_id u) param form db0 db later b = ((db', b'), r) \<Longrightarrow>
    serves sv a H db EpTimeOut db'"
| draft: "a = Some u \<Longrightarrow> db0 \<in> H \<Longrightarrow> handle_SaveDraft ck u param narrative db0 db = (db', r) \<Longrightarrow>
    serves sv a H db EpSaveDraft db'"
| submit: "a = Some u \<Longrightarrow> db0 \<in> H \<Longrightarrow> handle_Submit ck ok u param narrative db0 db = (db', r) \<Longrightarrow>
    serves sv a H db EpSubmit db'"
| review: "a = Some u \<Longrightarrow> db0 \<in> H \<Longrightarrow> handle_Review rid nid ck ok u param decision db0 db = (db', r) \<Longrightarrow>
    serves sv a H db EpReview db'"
| add_evidence: "a = Some u \<Longrightarrow> db0 \<in> H \<Longrightarrow> dbc \<in> H \<Longrightarrow>
    handle_AddEvidence sv eid uid ck ok u param photo db0 dbc db b = ((db', b'), r) \<Longrightarrow>
    serves sv a H db EpAddEvidence db'"
| delete_evidence: "a = Some u \<Longrightarrow> db0 \<in> H \<Longrightarrow>
    handle_DeleteEvidence sv ok u param eparam db0 db b = ((db', b'), r) \<Longrightarrow>
    serves sv a H db EpDeleteEvidence db'"
| correction: "a = Some u \<Longrightarrow> db0 \<in> H \<Longrightarrow>
    handle_Create_correction cid ck ok u param proposal db0 db = (db', r) \<Longrightarrow>
    serves sv a H db EpRequestCorrection db'"
| decide: "a = Some u \<Longrightarrow> db0 \<in> H \<Longrightarrow> handle_Decide dids ck ok u param decision db0 db = (db', r) \<Longrightarrow>
    serves sv a H db EpDecide db'"
| read: "a = Some u \<Longrightarrow> ReadNotification ck (ac_id u) param db = (db', r) \<Longrightarrow> serves sv a H db EpRead db'"
| read_all: "a = Some u \<Longrightarrow> serves sv a H db EpReadAll (ReadAllNotifications ck (ac_id u) db)"
| new_site: "a = Some u \<Longrightarrow> handle_Create_site sid u site db = (db', r) \<Longrightarrow> serves sv a H db EpCreateSite db'"
| site: "a = Some u \<Longrightarrow> db0 \<in> H \<Longrightarrow> handle_Update_site u param site db0 db = (db', r) \<Longrightarrow>
    serves sv a H db EpUpdateSite db'"
| new_assignment: "a = Some u \<Longrightarrow> db0 \<in> H \<Longrightarrow>
    handle_Create_assignment parse aid ck u asn db0 db = (db', r) \<Longrightarrow>
    serves sv a H db EpCreateAssignment db'"
| assignment: "a = Some u \<Longrightarrow> db0 \<in> H \<Longrightarrow> handle_Update_assignment parse u param patch db0 db = (db', r) \<Longrightarrow>
    serves sv a H db EpUpdateAssignment db'"
| new_trainee: "a = Some u \<Longrightarrow> handle_Create_trainee pw ok uid tid temp u trainee db = (db', r) \<Longrightarrow>
    serves sv a H db EpCreateTrainee db'"
| trainee: "a = Some u \<Longrightarrow> db0 \<in> H \<Longrightarrow> handle_Update_trainee ck ok u param change db0 db = (db', r) \<Longrightarrow>
    serves sv a H db EpUpdateTrainee db'"
| trainee_password: "a = Some u \<Longrightarrow> db0 \<in> H \<Longrightarrow>
    handle_SetTraineePassword pw ck ok u param new db0 db = (db', r) \<Longrightarrow>
    serves sv a H db EpTraineePassword db'"
| import: "a = Some u \<Longrightarrow> handle_ImportCommit ienv ok now u token store db = (store', db', r) \<Longrightarrow>
    serves sv a H db EpImportCommit db'"
| new_coordinator: "a = Some u \<Longrightarrow> handle_Create_coordinator pw uid temp u account db = (db', r) \<Longrightarrow>
    serves sv a H db EpCreateCoordinator db'"
| coordinator: "a = Some u \<Longrightarrow> db0 \<in> H \<Longrightarrow> handle_Patch_coordinator ck ok u param account db0 db = (db', r) \<Longrightarrow>
    serves sv a H db EpPatchCoordinator db'"
| scope: "a = Some u \<Longrightarrow> db0 \<in> H \<Longrightarrow> handle_SetScope ok u param trainees db0 db = (db', r) \<Longrightarrow>
    serves sv a H db EpSetScope db'"
| coordinator_password: "a = Some u \<Longrightarrow> db0 \<in> H \<Longrightarrow>
    handle_SetPassword pw ck ok u param new db0 db = (db', r) \<Longrightarrow>
    serves sv a H db EpCoordinatorPassword db'"
| settings: "a = Some u \<Longrightarrow> db0 \<in> H \<Longrightarrow> handle_Patch_settings tz sid u settings db0 db = (db', r) \<Longrightarrow>
    serves sv a H db EpPatchSettings db'"

lemmas handlers_quiet = accounts_quiet scope_quiet trainees_quiet import_quiet institution_quiet
  auth_quiet(1,3-5) notifications_quiet(1) evidence_quiet assignments_quiet

lemmas handlers_perform = handle_TimeIn_performs handle_TimeOut_performs
  handle_Create_correction_performs handle_Decide_performs handle_SaveDraft_performs
  handle_Submit_performs handle_Review_performs

text \<open>Every endpoint performs an event of a trainee its actor may act for, or none.\<close>

definition acts_for :: "auth_user option \<Rightarrow> database set \<Rightarrow> uuid \<Rightarrow> bool" where
  "acts_for a H t \<longleftrightarrow> (\<exists>u h. a = Some u \<and> h \<in> H \<and> may_act h u t)"

lemma acts_for_own: "performs (own_profile h (ac_id u)) db db' \<Longrightarrow> h \<in> H \<Longrightarrow> performs (acts_for (Some u) H) db db'"
  by (erule performs_mono) (auto simp: acts_for_def may_act_def)

lemma acts_for_may: "performs (may_act h u) db db' \<Longrightarrow> h \<in> H \<Longrightarrow> performs (acts_for (Some u) H) db db'"
  by (erule performs_mono) (auto simp: acts_for_def)

lemma serves_performs:
  assumes "serves sv a H db ep db'" and "\<forall>h\<in>H. before h db"
  shows "performs (acts_for a H) db db'"
  using assms(1)
proof (cases rule: serves.cases)
  case (time_in u db0 ck ids ok form later b b' r)
  then show ?thesis using handle_TimeIn_performs assms(2) acts_for_own by blast
next
  case (time_out u db0 ck ids ok param form later b b' r)
  then show ?thesis using handle_TimeOut_performs assms(2) acts_for_own by blast
next
  case (draft u db0 ck param narrative r)
  then show ?thesis using handle_SaveDraft_performs assms(2) acts_for_may by blast
next
  case (submit u db0 ck ok param narrative r)
  then show ?thesis using handle_Submit_performs assms(2) acts_for_may by blast
next
  case (review u db0 rid nid ck ok param decision r)
  then show ?thesis using handle_Review_performs assms(2) acts_for_may by blast
next
  case (correction u db0 cid ck ok param proposal r)
  then show ?thesis using handle_Create_correction_performs assms(2) acts_for_own by blast
next
  case (decide u db0 dids ck ok param decision r)
  then show ?thesis using handle_Decide_performs assms(2) acts_for_may by blast
qed (auto intro!: quiet_performs intro: auth_quiet(2) notifications_quiet(2) dest: handlers_quiet
    simp: quiet_def [of db db])

end
