(* ===== verification/Runs.thy ===== *)
theory Runs
  imports System
begin

text \<open>
  Runs of the application as interleavings of requests and reminder jobs, and what holds of all
  of them: the records stay consistent, nothing recorded is lost, and a trainee's record changes
  only by the hand of someone who may act for the trainee.
\<close>

section \<open>Runs\<close>

text \<open>
  A run admits and refuses requests, serves admitted ones, and runs the reminder job, in any
  order. \<open>H\<close> collects the states of the database so far and \<open>A\<close> the requests that have been
  admitted; one that is admitted may be served at any later time.
\<close>

inductive run ::
  "'b app_env \<Rightarrow> 'img service \<Rightarrow> 'b app_state \<Rightarrow> database set \<Rightarrow> (endpoint \<times> auth_user option) set \<Rightarrow>
   'b app_state \<Rightarrow> bool"
  for env :: "'b app_env" and sv :: "'img service" and st0 :: "'b app_state" where
  start: "run env sv st0 {ap_db st0} {} st0"
| refused: "run env sv st0 H A st \<Longrightarrow> admit env ck q st = (st', Inl e) \<Longrightarrow>
    run env sv st0 (insert (ap_db st') H) A st'"
| admitted: "run env sv st0 H A st \<Longrightarrow> admit env ck q st = (st', Inr (ep, ps, pr)) \<Longrightarrow>
    run env sv st0 (insert (ap_db st') H) (insert (ep, pr_actor pr) A) st'"
| served: "run env sv st0 H A st \<Longrightarrow> (ep, a) \<in> A \<Longrightarrow> serves sv a H (ap_db st) ep db' \<Longrightarrow>
    run env sv st0 (insert db' H) A (st\<lparr>ap_db := db'\<rparr>)"
| reminded: "run env sv st0 H A st \<Longrightarrow> db0 \<in> H \<Longrightarrow>
    RunReminders tz ids ck ok hour db0 (ap_db st) = (db', r) \<Longrightarrow>
    run env sv st0 (insert db' H) A (st\<lparr>ap_db := db'\<rparr>)"

lemma Resolve_ledger: "Resolve sha ck token db = (db', x) \<Longrightarrow> ledger_of db' = ledger_of db"
  by (auto simp: Resolve_def split: option.splits if_splits)

lemma run_guard_ledger:
  "run_guard env ck q g pr st = (st', x) \<Longrightarrow> ledger_of (ap_db st') = ledger_of (ap_db st)"
  by (cases g) (auto simp: RequireAuth_def Let_def dest: Resolve_ledger
      split: prod.splits sum.splits option.splits if_splits)

lemma run_guards_ledger:
  "run_guards env ck q gs pr st = (st', x) \<Longrightarrow> ledger_of (ap_db st') = ledger_of (ap_db st)"
  by (induction gs arbitrary: pr st)
    (auto dest!: run_guard_ledger split: prod.splits sum.splits)

lemma admit_ledger:
  "admit env ck q st = (st', x) \<Longrightarrow> ledger_of (ap_db st') = ledger_of (ap_db st)"
  by (auto simp: admit_def dest!: run_guards_ledger split: prod.splits sum.splits option.splits)

text \<open>What every step of a run is, on the ledger.\<close>

definition moves :: "database \<Rightarrow> database \<Rightarrow> bool" where
  "moves db db' \<longleftrightarrow> performs (\<lambda>_. True) db db'"

lemma moves_keeps:
  assumes "moves db db'" and "ledger_ok (ledger_of db)"
  shows "ledger_ok (ledger_of db') \<and> ledger_grown (ledger_of db) (ledger_of db')"
  using assms ledger_ok_step ledger_ok_same grown_step grown_same
  unfolding moves_def performs_def by blast

lemma moves_before:
  assumes "ledger_ok (ledger_of db) \<and> (\<forall>h\<in>H. before h db)" and "moves db db'"
  shows "ledger_ok (ledger_of db') \<and> (\<forall>h\<in>insert db' H. before h db')"
proof -
  have kept: "ledger_ok (ledger_of db')" "ledger_grown (ledger_of db) (ledger_of db')"
    using moves_keeps [OF assms(2)] assms(1) by blast+
  have "before h db'" if "h \<in> H" for h
    using assms(1) that kept ledger_grown_trans unfolding before_def by blast
  then show ?thesis using kept(1) by (simp add: before_def)
qed

lemma run_before:
  assumes "run env sv st0 H A st" and "ledger_ok (ledger_of (ap_db st0))"
  shows "ledger_ok (ledger_of (ap_db st)) \<and> (\<forall>h\<in>H. before h (ap_db st))"
  using assms
proof (induction rule: run.induct)
  case start
  then show ?case by (simp add: before_def)
next
  case (refused H A st ck q st' e)
  then have "moves (ap_db st) (ap_db st')"
    using admit_ledger [OF refused.hyps(2)] by (simp add: moves_def performs_def)
  then show ?case using moves_before refused.IH refused.prems by blast
next
  case (admitted H A st ck q st' ep ps pr)
  then have "moves (ap_db st) (ap_db st')"
    using admit_ledger [OF admitted.hyps(2)] by (simp add: moves_def performs_def)
  then show ?case using moves_before admitted.IH admitted.prems by blast
next
  case (served H A st ep a db')
  then have "moves (ap_db st) db'"
    using serves_performs [OF served.hyps(3)] unfolding moves_def by (blast intro: performs_mono)
  then show ?case using moves_before [OF served.IH [OF served.prems]] by simp
next
  case (reminded H A st db0 tz ids ck ok hour db' r)
  then have "moves (ap_db st) db'"
    using reminders_quiet quiet_performs unfolding moves_def by blast
  then show ?case using moves_before [OF reminded.IH [OF reminded.prems]] by simp
qed

lemma run_start: "run env sv st0 H A st \<Longrightarrow> ap_db st0 \<in> H"
  by (induction rule: run.induct) auto

lemma run_admitted:
  assumes "run env sv st0 H A st" and "(ep, a) \<in> A" and "fst (matrix ep) \<noteq> Public"
  shows "\<exists>u. a = Some u \<and> ac_status u = AccActive \<and> ac_role u \<in> set (roles_for (fst (matrix ep)))"
  using assms
proof (induction rule: run.induct)
  case (admitted H A st ck q st' ep' ps pr)
  then show ?case using admit_allows [OF admitted.hyps(2)] by auto
qed auto

section \<open>The guarantees\<close>

text \<open>
  C1. From a consistent database every run of the application, however its requests interleave,
  leads to consistent ones: a trainee has one session a day, for an assignment of the trainee's;
  every session has the evidence of its Time In and, once it was timed out, of its Time Out, with
  the same times, and no other evidence exists; an open session has no Time Out and no minutes; a
  session with an effective Time Out has its journal; journals and corrections belong to the
  trainee of their session; a submitted journal is long enough and a reviewed one has its review;
  at most one correction of a session is pending, exactly the approved ones have an adjustment,
  and a session counts with its original times until a correction is approved and with those of
  its last adjustment from then on.
\<close>

theorem runs_consistent:
  assumes "run env sv st0 H A st" and "ledger_ok (ledger_of (ap_db st0))"
  shows "ledger_ok (ledger_of (ap_db st))"
  using run_before [OF assms] by simp

lemma progress_bounds:
  assumes "\<forall>s\<in>set (db_attendance db). minutes_ok s"
  shows "0 \<le> pv_completed (progress a required db) \<and> 0 \<le> pv_percent (progress a required db) \<and>
    pv_percent (progress a required db) \<le> 100 \<and>
    (0 < required \<longrightarrow> (pv_percent (progress a required db) = 100 \<longleftrightarrow>
       required \<le> pv_completed (progress a required db)))"
proof -
  have "0 \<le> (case at_credited s of None \<Rightarrow> 0 | Some c \<Rightarrow> c)" if "s \<in> set (db_attendance db)" for s
    using bspec [OF assms that] by (auto simp: minutes_ok_def split: option.splits)
  then have "0 \<le> credited_sum (filter p (db_attendance db))" for p
    unfolding credited_sum_def by (intro sum_list_nonneg) auto
  then show ?thesis using ProgressPercent_range ProgressPercent_full_iff by (simp add: progress_def Let_def)
qed

text \<open>
  C5. Hours stay within what was worked. Along every run, a session without an effective Time Out
  has no credited minutes, every other one at least none and at most the whole minutes between its
  effective times; so the minutes of an assignment never go below zero, its percentage stays
  between 0 and 100, and it is 100 exactly when the required minutes are reached.
\<close>

theorem credited_minutes_bounded:
  assumes "run env sv st0 H A st" and "ledger_ok (ledger_of (ap_db st0))"
  shows "(\<forall>s\<in>set (db_attendance (ap_db st)). case at_effective_out s of
       None \<Rightarrow> at_credited s = None
     | Some t \<Rightarrow> \<exists>c. at_credited s = Some c \<and> 0 \<le> c \<and> c * us_per_minute \<le> t - at_effective_in s) \<and>
    (\<forall>a required. 0 \<le> pv_completed (progress a required (ap_db st)) \<and>
       0 \<le> pv_percent (progress a required (ap_db st)) \<and> pv_percent (progress a required (ap_db st)) \<le> 100 \<and>
       (0 < required \<longrightarrow> (pv_percent (progress a required (ap_db st)) = 100 \<longleftrightarrow>
          required \<le> pv_completed (progress a required (ap_db st)))))"
proof -
  have "ledger_ok (ledger_of (ap_db st))" using run_before [OF assms] by simp
  then have "\<forall>s\<in>set (db_attendance (ap_db st)). minutes_ok s"
    by (simp add: ledger_ok_def days_ok_def day_ok_def)
  then show ?thesis using progress_bounds unfolding minutes_ok_def by blast
qed

text \<open>
  C2. What is recorded stays. Along every run no session, evidence row, review or adjustment is
  deleted, a session keeps its trainee, assignment, date, original Time In and, once it has one,
  its original Time Out, and a decided correction and a reviewed journal never change again.
\<close>

theorem runs_permanent:
  assumes "run env sv st0 H A st" and "ledger_ok (ledger_of (ap_db st0))" and "h \<in> H"
  shows "(\<forall>q\<in>set (db_attendance h). \<exists>r\<in>set (db_attendance (ap_db st)). day_kept q r) \<and>
    set (db_evidence h) \<subseteq> set (db_evidence (ap_db st)) \<and>
    set (db_reviews h) \<subseteq> set (db_reviews (ap_db st)) \<and>
    set (db_adjustments h) \<subseteq> set (db_adjustments (ap_db st)) \<and>
    {c \<in> set (db_corrections h). cr_status c \<noteq> CrPending} \<subseteq> set (db_corrections (ap_db st)) \<and>
    {j \<in> set (db_journals h). jo_status j = JReviewed} \<subseteq> set (db_journals (ap_db st))"
  using run_before [OF assms(1,2)] assms(3) by (auto simp: before_def ledger_grown_def)

text \<open>
  C3. A request changes the record of a trainee - the sessions, the evidence, the journals or
  the corrections - only if it was admitted to a writing endpoint with an active actor in a role
  the endpoint allows, and the actor is that trainee, an administrator, or a coordinator in whose
  scope the trainee was when the request was served or at an earlier time of the run.
\<close>

theorem record_changes_authorized:
  assumes "run env sv st0 H A st" and "ledger_ok (ledger_of (ap_db st0))" and "(ep, a) \<in> A"
    and "serves sv a H (ap_db st) ep db'"
    and "record_of t (ledger_of db') \<noteq> record_of t (ledger_of (ap_db st))"
  shows "\<exists>u h. a = Some u \<and> h \<in> H \<and> ac_status u = AccActive \<and>
    (own_profile h (ac_id u) t \<or> CanAccessTrainee u t h) \<and>
    snd (matrix ep) = Writes \<and> ac_role u \<in> set (roles_for (fst (matrix ep)))"
proof -
  have ok: "ledger_ok (ledger_of (ap_db st))" "\<forall>h\<in>H. before h (ap_db st)"
    using run_before [OF assms(1,2)] by simp_all
  have "performs (acts_for a H) (ap_db st) db'" by (rule serves_performs [OF assms(4) ok(2)])
  then obtain u h where uh: "a = Some u" "h \<in> H" "may_act h u t"
    using assms(5) record_same record_step [OF _ ok(1)]
    unfolding performs_def acts_for_def by metis
  have "snd (matrix ep) = Writes \<and> fst (matrix ep) \<noteq> Public"
    using assms(4,5) auth_quiet(5) auth_quiet(1) record_same
    by (cases rule: serves.cases) (auto simp: quiet_def)
  then show ?thesis using uh run_admitted [OF assms(1,3)] unfolding may_act_def by auto
qed

lemma reject_tx:
  assumes "find_correction i db = Some c" and "cr_status c = CrPending"
    and "find_trainee (cr_trainee c) db = Some tp"
  shows "\<exists>ns au. DecideTx ids ck i staff CrRejected comment db =
    Inr ((update_correction i (decide_row ck staff CrRejected comment) db)
      \<lparr>db_notifications := ns, db_audit := au\<rparr>, ())"
  using assms
  by (auto simp: DecideTx_def find_trainee_def update_correction_def Let_def Record_def CreateTx_def
      intro!: exI database.equality)

text \<open>
  C6. No correction is ever stuck. In every consistent state, so along every run, a pending
  correction can be rejected by whoever may access its trainee, provided the commit goes through;
  it is then rejected, and nothing is pending for its session any more, so that the trainee may
  ask again.
\<close>

theorem pending_correction_rejectable:
  assumes ok: "ledger_ok (ledger_of db)"
    and c: "c \<in> set (db_corrections db)" "cr_status c = CrPending"
    and tp: "find_trainee (cr_trainee c) db = Some tp"
    and access: "CanAccessTrainee actor (cr_trainee c) db"
  shows "\<exists>db' c'. handle_Decide ids ck True actor (Some (cr_id c)) (Some (''rejected'', comment)) db db =
      (db', Inr ''rejected'') \<and>
    find_correction (cr_id c) db' = Some c' \<and> cr_status c' = CrRejected \<and>
    (\<forall>q\<in>set (db_corrections db'). cr_status q = CrPending \<longrightarrow> cr_attendance q \<noteq> cr_attendance c)"
proof -
  have uid: "unique_on cr_id (db_corrections db)"
    and upend: "unique_on cr_attendance (filter pending (db_corrections db))"
    using ok by (simp_all add: ledger_ok_def keys_ok_def corrections_ok_def)
  have find: "find_correction (cr_id c) db = Some c"
    unfolding find_correction_def by (rule by_key_unique [OF uid c(1)])
  define g where "g = decide_row ck (ac_id actor) CrRejected comment"
  obtain ns au where tx: "DecideTx ids ck (cr_id c) (ac_id actor) CrRejected comment db =
      Inr ((update_correction (cr_id c) g db)\<lparr>db_notifications := ns, db_audit := au\<rparr>, ())"
    using reject_tx [OF find c(2) tp] unfolding g_def by blast
  define db' where "db' = (update_correction (cr_id c) g db)\<lparr>db_notifications := ns, db_audit := au\<rparr>"
  have run: "handle_Decide ids ck True actor (Some (cr_id c)) (Some (''rejected'', comment)) db db =
      (db', Inr ''rejected'')"
    using tx access find by (simp add: handle_Decide_def TraineeIDOf_def Decide_def decision_of_def in_tx_def db'_def)
  have rows: "db_corrections db' = set_by_key cr_id (cr_id c) g (db_corrections db)"
    by (simp add: db'_def update_correction_def)
  have set: "set (db_corrections db') = insert (g c) (set (db_corrections db) - {c})"
    unfolding rows by (rule rows_updated [OF uid c(1)])
  have g: "cr_id (g c) = cr_id c" "cr_status (g c) = CrRejected" by (simp_all add: g_def decide_row_def)
  have "unique_on cr_id (db_corrections db')"
    unfolding rows using uid by (subst unique_set_by_key) (simp_all add: g_def decide_row_def)
  then have "find_correction (cr_id c) db' = Some (g c)"
    using by_key_unique [of cr_id "db_corrections db'" "g c"] set g(1) by (simp add: find_correction_def)
  moreover have "cr_attendance q \<noteq> cr_attendance c"
    if "q \<in> set (db_corrections db')" "cr_status q = CrPending" for q
  proof
    assume same: "cr_attendance q = cr_attendance c"
    have "q \<in> set (db_corrections db)" "q \<noteq> c" using that set g(2) by auto
    then show False
      using upend that(2) c same by (auto simp: partial_unique_iff [OF uid])
  qed
  ultimately show ?thesis using run g(2) by blast
qed

section \<open>A run\<close>

text \<open>The trainee of the example signs in for the day, with a cookie and its CSRF token.\<close>

definition demo_write :: request where
  "demo_write = \<lparr>rq_method = POST, rq_path = [''api'', ''v1'', ''attendance'', ''time-in''],
     rq_address = ''a'', rq_cookie = ''tok'', rq_origin = ''o'', rq_csrf_token = ''c'',
     rq_times = (1, 1, 1)\<rparr>"

definition demo_form :: evidence_form where
  "demo_form = \<lparr>fm_client_action = Some 50, fm_photo_present = True, fm_photo = Some ''p'',
     fm_device_at = None, fm_device_offset = None, fm_latitude = None, fm_longitude = None,
     fm_accuracy = None, fm_reason = ''indoors''\<rparr>"

lemma demo_write_route:
  "find_route POST [''api'', ''v1'', ''attendance'', ''time-in''] routes =
     Some (rt POST (api ''attendance'' [Lit ''time-in'']) [GRole [RTrainee], GAttendanceLimit ''attendance:'']
       EpTimeIn, [])"
  by (simp add: route_tables api_def)

lemma demo_limit:
  "\<exists>l. limited demo_app demo_write key (New_limiter 2 60) = (l, Inr ())"
  by (simp add: limited_def demo_app_def demo_write_def KeyedMiddleware_def allow_def entries_now_def
      New_limiter_def demo_fresh_def demo_take_def Let_def)

lemma demo_user:
  "find_user 10 demo_db = Some \<lparr>us_id = 10, us_email = ''t@x'', us_password_hash = ''h'',
     us_role = RTrainee, us_status = AccActive, us_display_name = ''T'', us_last_login = None\<rparr>"
  by (simp add: find_user_def by_key_def demo_db_def)

definition demo_trainee :: auth_user where
  "demo_trainee = auth_user_of \<lparr>us_id = 10, us_email = ''t@x'', us_password_hash = ''h'',
     us_role = RTrainee, us_status = AccActive, us_display_name = ''T'', us_last_login = None\<rparr>"

lemma demo_admit:
  "\<exists>st ss s. admit demo_app (demo_clock 5) demo_write (demo_state 10) =
     (st, Inr (EpTimeIn, [], \<lparr>pr_session = Some s, pr_actor = Some demo_trainee\<rparr>)) \<and>
     ap_db st = demo_db\<lparr>db_sessions := ss\<rparr>"
proof -
  define s where "s = demo_db_session\<lparr>ss_user := 10\<rparr>"
  obtain ss where res: "Resolve id (demo_clock 5) ''tok'' (ap_db (demo_state 10)) =
      (demo_db\<lparr>db_sessions := ss\<rparr>, Some (s, demo_trainee))"
    using demo_user
    by (simp add: Resolve_def demo_state_def demo_db_session_def live_def find_user_def demo_clock_def
        demo_trainee_def s_def)
  obtain l where lim: "limited demo_app demo_write (''attendance:'' @ ''u'') (New_limiter 2 60) = (l, Inr ())"
    using demo_limit by blast
  have q: "rq_path demo_write = [''api'', ''v1'', ''attendance'', ''time-in'']"
      "rq_method demo_write = POST" "rq_cookie demo_write = ''tok''" "rq_origin demo_write = ''o''"
      "rq_csrf_token demo_write = ''c''"
    by (simp_all add: demo_write_def)
  have e: "ae_sha demo_app = id" "ae_origins demo_app = [''o'']" "ae_uuid_text demo_app = (\<lambda>_. ''u'')"
    by (simp_all add: demo_app_def)
  have r: "ac_role demo_trainee = RTrainee" "ss_csrf_hash s = Some ''c''"
      "ap_attendance (demo_state 10) = New_limiter 2 60"
    by (simp_all add: demo_trainee_def auth_user_of_def s_def demo_db_session_def demo_state_def)
  show ?thesis
    using lim
    by (simp add: admit_def q e r group_guards_eval group_guards_api [of _ _ _ "[_]"] demo_write_route
        RequireAuth_def res CSRFProtect_def ValidCSRF_def RequireRole_def) blast
qed

lemma demo_time_in_sessions:
  "\<exists>db' b' r. handle_TimeIn demo_sv (demo_clock 0) (demo_ids 100) True 10 demo_form
     (demo_db\<lparr>db_sessions := ss\<rparr>) (demo_db\<lparr>db_sessions := ss\<rparr>) id (\<lambda>_. None) = ((db', b'), r) \<and>
     map at_trainee (db_attendance db') = [2]"
  by (simp add: handle_TimeIn_def demo_form_def parseEvidenceForm_def demo_defs time_in_eval Record_def)

lemma demo_ledger_ok: "ledger_ok (ledger_of (ap_db (demo_state u)))"
  by (simp add: demo_state_def ledger_ok_def keys_ok_def days_ok_def proofs_ok_def journals_ok_def
      corrections_ok_def times_ok_def unique_on_def) (simp add: demo_db_def)

lemma demo_run:
  obtains H A st db' where "run demo_app demo_sv (demo_state 10) H A st"
    and "(EpTimeIn, Some demo_trainee) \<in> A"
    and "serves demo_sv (Some demo_trainee) H (ap_db st) EpTimeIn db'" and "db_attendance (ap_db st) = []"
    and "map at_trainee (db_attendance db') = [2]"
    and "run demo_app demo_sv (demo_state 10) (insert db' H) A (st\<lparr>ap_db := db'\<rparr>)"
proof -
  obtain st ss s where adm: "admit demo_app (demo_clock 5) demo_write (demo_state 10) =
      (st, Inr (EpTimeIn, [], \<lparr>pr_session = Some s, pr_actor = Some demo_trainee\<rparr>))"
    and db: "ap_db st = demo_db\<lparr>db_sessions := ss\<rparr>"
    using demo_admit by metis
  obtain db' :: database and b' :: bucket and r where handled: "handle_TimeIn demo_sv (demo_clock 0) (demo_ids 100) True 10 demo_form
      (ap_db st) (ap_db st) id (\<lambda>_. None) = ((db', b'), r)"
    and days: "map at_trainee (db_attendance db') = [2]"
    using demo_time_in_sessions [of ss, folded db] by (elim exE conjE) rule
  define H where "H = insert (ap_db st) {ap_db (demo_state 10)}"
  define A where "A = {(EpTimeIn, Some demo_trainee)}"
  have run: "run demo_app demo_sv (demo_state 10) H A st"
    using run.admitted [OF run.start adm] by (simp add: H_def A_def)
  have "ac_id demo_trainee = 10" by (simp add: demo_trainee_def auth_user_of_def)
  note handled = handled [folded this]
  have sv: "serves demo_sv (Some demo_trainee) H (ap_db st) EpTimeIn db'"
    by (rule serves.time_in [OF refl _ handled]) (simp add: H_def)
  have A: "(EpTimeIn, Some demo_trainee) \<in> A" by (simp add: A_def)
  have "db_attendance (ap_db st) = []" by (simp add: db demo_db_def)
  then show thesis using that [OF run A sv _ days run.served [OF run A sv]] by blast
qed

definition demo_evidence :: evidence_row where
  "demo_evidence = \<lparr>ev_id = 60, ev_attendance = 100, ev_trainee = 2, ev_action = ActTimeIn,
     ev_client_action = 50, ev_server_at = 0, ev_device_at = None, ev_device_offset = None,
     ev_latitude = None, ev_longitude = None, ev_accuracy = None, ev_distance = None, ev_radius = None,
     ev_location_status = LocationUnavailable, ev_exception_reason = Some ''indoors'',
     ev_original_key = ''o'', ev_watermarked_key = ''w'', ev_original_sha = ''1'',
     ev_watermarked_sha = ''2'', ev_mime = ''image/png'', ev_size = 1, ev_width = 64, ev_height = 64,
     ev_watermark_text = ''t''\<rparr>"

definition demo_asked_db :: database where
  "demo_asked_db = (demo_pending_db GpsIssue None)\<lparr>db_evidence := [demo_evidence]\<rparr>"

lemmas demo_asked_defs = demo_asked_db_def demo_pending_db_def demo_open_db_def demo_db_def
  demo_evidence_def demo_session_def demo_correction_def demo_assignment_def

lemma demo_asked_ok: "ledger_ok (ledger_of demo_asked_db)"
proof -
  have "keys_ok (ledger_of demo_asked_db)" "days_ok (ledger_of demo_asked_db)"
    by (simp_all add: keys_ok_def days_ok_def day_ok_def opened_def minutes_ok_def unique_on_def
        ledger_of_def demo_asked_defs)
  moreover have "proofs_ok (ledger_of demo_asked_db)" "journals_ok (ledger_of demo_asked_db)"
    by (simp_all add: proofs_ok_def proved_def supports_def proof_of_def journals_ok_def ledger_of_def
        demo_asked_defs)
  moreover have "corrections_ok (ledger_of demo_asked_db)" "times_ok (ledger_of demo_asked_db)"
    by (simp_all add: corrections_ok_def correction_ok_def has_day_def times_ok_def time_ok_def adjusted_def
        unique_on_def ledger_of_def demo_asked_defs)
  ultimately show ?thesis by (simp add: ledger_ok_def)
qed

theorem pending_correction_rejectable_witness:
  "\<exists>db' c'. handle_Decide demo_decide_ids (demo_clock 5) True
      \<lparr>ac_id = 11, ac_email = ''c@x'', ac_role = RCoordinator, ac_status = AccActive, ac_name = ''C''\<rparr>
      (Some 300) (Some (''rejected'', None)) demo_asked_db demo_asked_db = (db', Inr ''rejected'') \<and>
    find_correction 300 db' = Some c' \<and> cr_status c' = CrRejected"
proof -
  have "demo_correction GpsIssue None \<in> set (db_corrections demo_asked_db)"
      "cr_status (demo_correction GpsIssue None) = CrPending" "cr_id (demo_correction GpsIssue None) = 300"
    by (simp_all add: demo_asked_defs)
  moreover obtain tp where "find_trainee (cr_trainee (demo_correction GpsIssue None)) demo_asked_db = Some tp"
    by (simp add: find_trainee_def by_key_def demo_asked_defs)
  moreover have "CanAccessTrainee \<lparr>ac_id = 11, ac_email = ''c@x'', ac_role = RCoordinator, ac_status = AccActive,
      ac_name = ''C''\<rparr> (cr_trainee (demo_correction GpsIssue None)) demo_asked_db"
    by (simp add: CanAccessTrainee_def demo_asked_defs)
  ultimately show ?thesis
    using pending_correction_rejectable [OF demo_asked_ok, of "demo_correction GpsIssue None"] by fastforce
qed

theorem credited_minutes_bounded_witness:
  "\<exists>st :: (int \<times> int \<times> int \<times> int) app_state. map at_trainee (db_attendance (ap_db st)) = [2] \<and>
     pv_percent (progress 30 480 (ap_db st)) \<le> 100"
proof (rule demo_run)
  fix H A st db'
  assume run: "run demo_app demo_sv (demo_state 10) (insert db' H) A (st\<lparr>ap_db := db'\<rparr>)"
    and "map at_trainee (db_attendance db') = [2]"
  then show ?thesis
    using credited_minutes_bounded [OF run demo_ledger_ok] by (intro exI [of _ "st\<lparr>ap_db := db'\<rparr>"]) simp
qed

theorem runs_consistent_witness:
  "\<exists>st :: (int \<times> int \<times> int \<times> int) app_state. ledger_ok (ledger_of (ap_db st)) \<and> map at_trainee (db_attendance (ap_db st)) = [2]"
proof (rule demo_run)
  fix H A st db'
  assume run: "run demo_app demo_sv (demo_state 10) (insert db' H) A (st\<lparr>ap_db := db'\<rparr>)"
    and "map at_trainee (db_attendance db') = [2]"
  then show ?thesis
    using runs_consistent [OF run demo_ledger_ok] by (intro exI [of _ "st\<lparr>ap_db := db'\<rparr>"]) simp
qed

theorem runs_permanent_witness:
  "\<exists>H A st. run demo_app demo_sv (demo_state 10) H A st \<and> ap_db (demo_state 10) \<in> H \<and>
     db_attendance (ap_db st) \<noteq> [] \<and>
     (\<forall>q\<in>set (db_attendance (ap_db (demo_state 10))). \<exists>r\<in>set (db_attendance (ap_db st)). day_kept q r)"
proof (rule demo_run)
  fix H A st db'
  assume run: "run demo_app demo_sv (demo_state 10) (insert db' H) A (st\<lparr>ap_db := db'\<rparr>)"
    and days: "map at_trainee (db_attendance db') = [2]"
  have start: "ap_db (demo_state 10) \<in> insert db' H" using run by (rule run_start)
  show ?thesis
    using runs_permanent [OF run demo_ledger_ok start] run start days
    by (intro exI [of _ "insert db' H"] exI [of _ A] exI [of _ "st\<lparr>ap_db := db'\<rparr>"]) auto
qed

theorem record_changes_authorized_witness:
  "\<exists>h. ac_status demo_trainee = AccActive \<and> (own_profile h (ac_id demo_trainee) 2 \<or> CanAccessTrainee demo_trainee 2 h)"
proof (rule demo_run)
  fix H A st db'
  assume run: "run demo_app demo_sv (demo_state 10) H A st" and A: "(EpTimeIn, Some demo_trainee) \<in> A"
    and sv: "serves demo_sv (Some demo_trainee) H (ap_db st) EpTimeIn db'"
    and days: "db_attendance (ap_db st) = []" "map at_trainee (db_attendance db') = [2]"
  have "record_of 2 (ledger_of db') \<noteq> record_of 2 (ledger_of (ap_db st))"
    using days by (cases "db_attendance db'") (auto simp: record_of_def)
  then show ?thesis
    using record_changes_authorized [OF run demo_ledger_ok A sv] by auto
qed

end
