(* ===== verification/Strconv.thy ===== *)
theory Strconv
  imports Calendar Httpx
begin

text \<open>
  The functions of Go's \<open>strings\<close>, \<open>strconv\<close> and \<open>time\<close> packages the configuration and the
  password hashes are read with: \<open>ToUpper\<close> on ASCII letters, \<open>HasSuffix\<close>, \<open>Split\<close>, \<open>Cut\<close>, \<open>Trim\<close>,
  \<open>Atoi\<close> and \<open>ParseInt\<close> in base 10, \<open>ParseBool\<close> and \<open>ParseDuration\<close>.
\<close>

section \<open>Strings\<close>

definition upper_char :: "char \<Rightarrow> char" where
  "upper_char c = (let n = of_char c :: nat in if 97 \<le> n \<and> n \<le> 122 then char_of (n - 32) else c)"

definition to_upper :: "string \<Rightarrow> string" where
  "to_upper s = map upper_char s"

definition has_suffix_of :: "string \<Rightarrow> string \<Rightarrow> bool" where
  "has_suffix_of p s = (length p \<le> length s \<and> drop (length s - length p) s = p)"

definition trim_suffix :: "string \<Rightarrow> string \<Rightarrow> string" where
  "trim_suffix p s = (if has_suffix_of p s then take (length s - length p) s else s)"

text \<open>\<open>strings.Split\<close> with a separator of one byte: one part more than separators.\<close>

fun split_at_char :: "char \<Rightarrow> string \<Rightarrow> string list" where
  "split_at_char sep [] = [[]]"
| "split_at_char sep (c # s) =
     (if c = sep then [] # split_at_char sep s
      else case split_at_char sep s of [] \<Rightarrow> [[c]] | p # ps \<Rightarrow> (c # p) # ps)"

definition cut_at :: "char \<Rightarrow> string \<Rightarrow> (string \<times> string) option" where
  "cut_at sep s = (if sep \<in> set s then Some (takeWhile (\<lambda>c. c \<noteq> sep) s, tl (dropWhile (\<lambda>c. c \<noteq> sep) s)) else None)"

definition trim_chars :: "string \<Rightarrow> string \<Rightarrow> string" where
  "trim_chars cs s = rev (dropWhile (\<lambda>c. c \<in> set cs) (rev (dropWhile (\<lambda>c. c \<in> set cs) s)))"

lemma split_at_char_not_Nil [simp]: "split_at_char sep s \<noteq> []"
  by (induction sep s rule: split_at_char.induct) (auto split: list.split)

lemma split_no_sep: "sep \<notin> set s \<Longrightarrow> split_at_char sep s = [s]"
  by (induction s) auto

lemma split_append: "sep \<notin> set p \<Longrightarrow> split_at_char sep (p @ sep # s) = p # split_at_char sep s"
  by (induction p) auto

lemma suffix_append [simp]: "has_suffix_of p (s @ p)" "trim_suffix p (s @ p) = s"
  by (simp_all add: has_suffix_of_def trim_suffix_def)

section \<open>Numbers\<close>

definition parse_int :: "string \<Rightarrow> int option" where
  "parse_int s =
     (let (neg, ds) = (case s of c # r \<Rightarrow> if c = CHR ''-'' then (True, r) else if c = CHR ''+'' then (False, r)
            else (False, s) | [] \<Rightarrow> (False, s))
      in if ds = [] then None
         else case digits_val ds 0 of
             None \<Rightarrow> None
           | Some n \<Rightarrow> (let v = (if neg then - int n else int n)
               in if min_int64 \<le> v \<and> v \<le> max_int64 then Some v else None))"

definition parse_bool :: "string \<Rightarrow> bool option" where
  "parse_bool s =
     (if s \<in> {''1'', ''t'', ''T'', ''TRUE'', ''true'', ''True''} then Some True
      else if s \<in> {''0'', ''f'', ''F'', ''FALSE'', ''false'', ''False''} then Some False
      else None)"

definition format_int :: "int \<Rightarrow> string" where
  "format_int n = (if n < 0 then CHR ''-'' # decimal (nat (- n)) else decimal (nat n))"

lemma digits_val_append:
  "digits_val (xs @ ys) a = (case digits_val xs a of None \<Rightarrow> None | Some b \<Rightarrow> digits_val ys b)"
  by (induction xs a rule: digits_val.induct) (auto split: option.split)

lemma digits_val_decimal [simp]: "digits_val (decimal n) 0 = Some n"
proof (induction n rule: decimal.induct)
  case (1 n)
  then show ?case by (subst decimal.simps) (simp add: digits_val_append)
qed

lemma decimal_digits: "c \<in> set (decimal n) \<Longrightarrow> digit_val c \<noteq> None"
proof (induction n rule: decimal.induct)
  case (1 n)
  then show ?case by (subst (asm) (2) decimal.simps) (auto split: if_splits)
qed

lemma decimal_not_Nil [simp]: "decimal n \<noteq> []"
  by (subst decimal.simps) simp

lemma decimal_no [simp]:
  assumes "digit_val c = None"
  shows "c \<notin> set (decimal n)"
  using decimal_digits assms by blast

lemma parse_int_decimal [simp]: "int n \<le> max_int64 \<Longrightarrow> parse_int (decimal n) = Some (int n)"
proof -
  assume n: "int n \<le> max_int64"
  have sign: "digit_val CHR ''-'' = None" "digit_val CHR ''+'' = None" by (simp_all add: digit_val_def)
  obtain c r where cr: "decimal n = c # r" by (cases "decimal n") auto
  then have "digit_val c \<noteq> None" using decimal_digits [of c n] by simp
  then have "c \<noteq> CHR ''-''" "c \<noteq> CHR ''+''" using sign by auto
  then show ?thesis
    using n cr digits_val_decimal [of n] by (simp add: parse_int_def min_int64_def)
qed

lemma parse_int_range: "parse_int s = Some v \<Longrightarrow> min_int64 \<le> v \<and> v \<le> max_int64"
  by (auto simp: parse_int_def Let_def split: option.splits prod.splits list.splits if_splits)

section \<open>Durations\<close>

text \<open>
  \<open>time.ParseDuration\<close>: a sign, then numbers with a unit each, in nanoseconds. The fraction of a
  number is computed in floating point; \<open>frac f unit k\<close> stands for
  \<open>uint64(float64(f) * (float64(unit) / 10^k))\<close> for the \<open>k\<close> digits \<open>f\<close> after the point.
\<close>

definition duration_unit :: "string \<Rightarrow> nat option" where
  "duration_unit u =
     (if u = ''ns'' then Some 1
      else if u = ''us'' \<or> u = [CHR 0xC2, CHR 0xB5, CHR ''s''] \<or> u = [CHR 0xCE, CHR 0xBC, CHR ''s'']
      then Some 1000
      else if u = ''ms'' then Some 1000000
      else if u = ''s'' then Some 1000000000
      else if u = ''m'' then Some 60000000000
      else if u = ''h'' then Some 3600000000000
      else None)"

definition is_digit :: "char \<Rightarrow> bool" where "is_digit c = (digit_val c \<noteq> None)"

definition DOT :: char where "DOT = CHR ''.''"

text \<open>\<open>leadingInt\<close> fails above 2^63; \<open>leadingFraction\<close> stops counting digits once they exceed it.\<close>

definition leading_int :: "string \<Rightarrow> nat option" where
  "leading_int ds = (case digits_val ds 0 of None \<Rightarrow> None | Some n \<Rightarrow> if 2 ^ 63 < n then None else Some n)"

fun leading_fraction :: "string \<Rightarrow> nat \<Rightarrow> nat \<Rightarrow> nat \<times> nat" where
  "leading_fraction [] f k = (f, k)"
| "leading_fraction (c # cs) f k =
     (case digit_val c of
        None \<Rightarrow> (f, k)
      | Some d \<Rightarrow>
          if (2 ^ 63 - 1) div 10 < f \<or> 2 ^ 63 < f * 10 + d then (f, k)
          else leading_fraction cs (f * 10 + d) (Suc k))"

text \<open>One number with its unit, at the front of \<open>s\<close>: its value and the text after it.\<close>

definition duration_part :: "(nat \<Rightarrow> nat \<Rightarrow> nat \<Rightarrow> nat) \<Rightarrow> string \<Rightarrow> (nat \<times> string) option" where
  "duration_part frac s =
     (let ds = takeWhile is_digit s; s1 = dropWhile is_digit s;
          point = (s1 \<noteq> [] \<and> hd s1 = DOT);
          fs = (if point then takeWhile is_digit (tl s1) else []);
          s2 = (if point then dropWhile is_digit (tl s1) else s1);
          u = takeWhile (\<lambda>c. c \<noteq> DOT \<and> \<not> is_digit c) s2;
          s3 = dropWhile (\<lambda>c. c \<noteq> DOT \<and> \<not> is_digit c) s2
      in if ds = [] \<and> fs = [] then None
         else case (leading_int ds, duration_unit u) of
             (Some v, Some unit) \<Rightarrow>
               (let (f, k) = leading_fraction fs 0 0;
                    w = v * unit + (if 0 < f then frac f unit k else 0)
                in if 2 ^ 63 div unit < v \<or> 2 ^ 63 < w then None else Some (w, s3))
           | _ \<Rightarrow> None)"

lemma duration_part_shorter:
  assumes "duration_part frac s = Some (w, r)"
  shows "length r < length s"
proof -
  define s1 where "s1 = dropWhile is_digit s"
  have drop: "length (dropWhile p x) \<le> length x" for p and x :: string by (rule length_dropWhile_le)
  have tl: "length (tl x) \<le> length x" for x :: string by simp
  have r: "r = dropWhile (\<lambda>c. c \<noteq> DOT \<and> \<not> is_digit c)
      (if s1 \<noteq> [] \<and> hd s1 = DOT then dropWhile is_digit (tl s1) else s1)"
    and some: "\<not> (takeWhile is_digit s = [] \<and>
      (if s1 \<noteq> [] \<and> hd s1 = DOT then takeWhile is_digit (tl s1) else []) = [])"
    using assms
    by (auto simp: duration_part_def s1_def Let_def split: if_splits option.splits prod.splits)
  have s: "length s = length (takeWhile is_digit s) + length s1"
    unfolding s1_def by (metis length_append takeWhile_dropWhile_id)
  show ?thesis
  proof (cases "s1 \<noteq> [] \<and> hd s1 = DOT")
    case True
    then have "length r \<le> length (tl s1)" "length (tl s1) < length s1"
      using drop [of _ "dropWhile is_digit (tl s1)"] drop [of is_digit "tl s1"] unfolding r
      by (auto intro: le_trans)
    then show ?thesis using s by linarith
  next
    case False
    then have "takeWhile is_digit s \<noteq> []" using some by auto
    moreover have "length r \<le> length s1" using False drop unfolding r by auto
    ultimately show ?thesis using s by (cases "takeWhile is_digit s") auto
  qed
qed

function duration_sum :: "(nat \<Rightarrow> nat \<Rightarrow> nat \<Rightarrow> nat) \<Rightarrow> string \<Rightarrow> nat \<Rightarrow> nat option" where
  "duration_sum frac s d =
     (if s = [] then Some d
      else case duration_part frac s of
          None \<Rightarrow> None
        | Some (w, r) \<Rightarrow>
            (let t = (d + w) mod 2 ^ 64 in if 2 ^ 63 < t then None else duration_sum frac r t))"
  by pat_completeness auto
termination
  by (relation "measure (\<lambda>(_, s, _). length s)") (auto dest: duration_part_shorter)

declare duration_sum.simps [simp del]

definition parse_duration :: "(nat \<Rightarrow> nat \<Rightarrow> nat \<Rightarrow> nat) \<Rightarrow> string \<Rightarrow> int option" where
  "parse_duration frac s =
     (let (neg, r) = (case s of c # t \<Rightarrow> if c = CHR ''-'' then (True, t) else if c = CHR ''+'' then (False, t)
            else (False, s) | [] \<Rightarrow> (False, s))
      in if r = ''0'' then Some 0
         else if r = [] then None
         else case duration_sum frac r 0 of
             None \<Rightarrow> None
           | Some d \<Rightarrow>
               if neg then Some (- int d) else if max_int64 < int d then None else Some (int d))"

end
