(* ===== verification/Config.thy ===== *)
theory Config
  imports Strconv
begin

text \<open>
  \<open>internal/config\<close>: the process configuration read from the environment, with the \<open>.env\<close> file
  of a developer behind it, and the conditions under which the process refuses to start. An
  environment is a map from names to values. \<open>frac\<close> is the floating-point fraction of
  \<open>time.ParseDuration\<close>; \<open>o1\<close> and \<open>o2\<close> are the orders in which the two calls of \<open>getSize\<close> iterate over
  their Go map, which the language leaves open.
\<close>

type_synonym environment = "string \<Rightarrow> string option"

section \<open>Reading one variable\<close>

definition getenv :: "environment \<Rightarrow> string \<Rightarrow> string option" where
  "getenv env key = (case env key of None \<Rightarrow> None | Some v \<Rightarrow> if v = [] then None else Some v)"

definition get :: "environment \<Rightarrow> string \<Rightarrow> string \<Rightarrow> string" where
  "get env key def = (case getenv env key of Some v \<Rightarrow> v | None \<Rightarrow> def)"

definition getInt :: "environment \<Rightarrow> string \<Rightarrow> int \<Rightarrow> int" where
  "getInt env key def =
     (case getenv env key of None \<Rightarrow> def
      | Some v \<Rightarrow> (case parse_int v of Some n \<Rightarrow> n | None \<Rightarrow> def))"

definition getBool :: "environment \<Rightarrow> string \<Rightarrow> bool \<Rightarrow> bool" where
  "getBool env key def =
     (case getenv env key of None \<Rightarrow> def
      | Some v \<Rightarrow> (case parse_bool v of Some b \<Rightarrow> b | None \<Rightarrow> def))"

definition getDur :: "(nat \<Rightarrow> nat \<Rightarrow> nat \<Rightarrow> nat) \<Rightarrow> environment \<Rightarrow> string \<Rightarrow> int \<Rightarrow> int" where
  "getDur frac env key def =
     (case getenv env key of None \<Rightarrow> def
      | Some v \<Rightarrow> (case parse_duration frac v of Some d \<Rightarrow> d | None \<Rightarrow> def))"

definition getList :: "environment \<Rightarrow> string \<Rightarrow> string list \<Rightarrow> string list" where
  "getList env key def =
     (case env key of None \<Rightarrow> def
      | Some v \<Rightarrow> filter (\<lambda>p. p \<noteq> []) (map trim_space (split_at_char CHR '','' v)))"

definition size_suffixes :: "(string \<times> int) list" where
  "size_suffixes = [(''KB'', 1024), (''MB'', 1048576), (''GB'', 1073741824), (''B'', 1)]"

definition getSize :: "(string \<times> int) list \<Rightarrow> environment \<Rightarrow> string \<Rightarrow> int \<Rightarrow> int" where
  "getSize order env key def =
     (case getenv env key of None \<Rightarrow> def
      | Some raw \<Rightarrow>
          (let v = trim_space (to_upper raw);
               (v, mult) = (case List.find (\<lambda>(suf, m). has_suffix_of suf v) order of
                  Some (suf, m) \<Rightarrow> (trim_space (trim_suffix suf v), m)
                | None \<Rightarrow> (v, 1))
           in case parse_int v of
                None \<Rightarrow> def
              | Some n \<Rightarrow> if n \<le> 0 then def else wrap64 (n * mult)))"

section \<open>The file of a developer\<close>

text \<open>
  \<open>os.Setenv\<close> refuses an empty name, a name with \<open>=\<close> or a zero byte, and a value with a zero byte;
  the code ignores its error.
\<close>

definition NUL :: char where "NUL = CHR 0x00"
definition LF :: char where "LF = CHR 0x0A"

definition setenv :: "string \<Rightarrow> string \<Rightarrow> environment \<Rightarrow> environment" where
  "setenv k v env =
     (if k = [] \<or> CHR ''='' \<in> set k \<or> NUL \<in> set k \<or> NUL \<in> set v then env else env(k \<mapsto> v))"

definition dotenv_line :: "environment \<Rightarrow> string \<Rightarrow> environment" where
  "dotenv_line env raw =
     (let line = trim_space raw
      in if line = [] \<or> hd line = CHR ''#'' then env
         else case cut_at CHR ''='' line of
             None \<Rightarrow> env
           | Some (k, v) \<Rightarrow>
               (let k = trim_space k; v = trim_chars [CHR 0x22, CHR 0x27] (trim_space v)
                in if env k = None then setenv k v env else env))"

definition loadDotEnv :: "string option \<Rightarrow> environment \<Rightarrow> environment" where
  "loadDotEnv file env =
     (case file of None \<Rightarrow> env | Some data \<Rightarrow> foldl dotenv_line env (split_at_char LF data))"

section \<open>The configuration\<close>

record db_config =
  dc_host :: string
  dc_port :: int
  dc_name :: string
  dc_user :: string
  dc_password :: string
  dc_sslmode :: string
  dc_max_conns :: int
  dc_min_conns :: int
  dc_max_conn_lifetime :: int
  dc_max_conn_idle_time :: int

record s3_config =
  s3_endpoint :: string
  s3_use_ssl :: bool
  s3_access_key :: string
  s3_secret_key :: string
  s3_bucket :: string
  s3_public_endpoint :: string
  s3_public_ssl :: bool
  s3_presign_ttl :: int

record auth_config =
  ac_session_ttl :: int
  ac_cookie_name :: string
  ac_cookie_secure :: bool
  ac_cookie_domain :: string
  ac_allowed_origins :: "string list"
  ac_login_rate_limit :: int
  ac_login_rate_window :: int
  ac_attendance_rate_limit :: int
  ac_attendance_rate_window :: int

record log_config =
  lc_level :: string
  lc_format :: string

record config =
  cf_env :: string
  cf_app_name :: string
  cf_port :: int
  cf_read_timeout :: int
  cf_write_timeout :: int
  cf_body_limit :: int
  cf_evidence_upload_limit :: int
  cf_db :: db_config
  cf_s3 :: s3_config
  cf_auth :: auth_config
  cf_log :: log_config

text \<open>Durations are in nanoseconds; \<open>int32\<close> keeps the low 32 bits.\<close>

definition second :: int where "second = 1000000000"
definition minute :: int where "minute = 60 * second"
definition hour :: int where "hour = 60 * minute"

definition wrap32 :: "int \<Rightarrow> int" where
  "wrap32 n = (n + 2 ^ 31) mod 2 ^ 32 - 2 ^ 31"

definition db_config_of :: "(nat \<Rightarrow> nat \<Rightarrow> nat \<Rightarrow> nat) \<Rightarrow> environment \<Rightarrow> db_config" where
  "db_config_of frac env =
     \<lparr>dc_host = get env ''DB_HOST'' ''127.0.0.1'',
      dc_port = getInt env ''DB_PORT'' 5432,
      dc_name = get env ''DB_NAME'' ''ojt_management'',
      dc_user = get env ''DB_USER'' ''postgres'',
      dc_password = get env ''DB_PASSWORD'' '''',
      dc_sslmode = get env ''DB_SSLMODE'' ''disable'',
      dc_max_conns = wrap32 (getInt env ''DB_MAX_CONNS'' 20),
      dc_min_conns = wrap32 (getInt env ''DB_MIN_CONNS'' 2),
      dc_max_conn_lifetime = getDur frac env ''DB_MAX_CONN_LIFETIME'' hour,
      dc_max_conn_idle_time = getDur frac env ''DB_MAX_CONN_IDLE_TIME'' (15 * minute)\<rparr>"

definition s3_config_of :: "(nat \<Rightarrow> nat \<Rightarrow> nat \<Rightarrow> nat) \<Rightarrow> environment \<Rightarrow> s3_config" where
  "s3_config_of frac env =
     \<lparr>s3_endpoint = get env ''S3_ENDPOINT'' ''127.0.0.1:9000'',
      s3_use_ssl = getBool env ''S3_USE_SSL'' False,
      s3_access_key = get env ''S3_ACCESS_KEY'' '''',
      s3_secret_key = get env ''S3_SECRET_KEY'' '''',
      s3_bucket = get env ''S3_BUCKET'' ''ojt-evidence'',
      s3_public_endpoint = get env ''S3_PUBLIC_ENDPOINT'' '''',
      s3_public_ssl = getBool env ''S3_PUBLIC_SSL'' (getBool env ''S3_USE_SSL'' False),
      s3_presign_ttl = getDur frac env ''S3_PRESIGN_TTL'' (5 * minute)\<rparr>"

definition auth_config_of :: "(nat \<Rightarrow> nat \<Rightarrow> nat \<Rightarrow> nat) \<Rightarrow> environment \<Rightarrow> auth_config" where
  "auth_config_of frac env =
     \<lparr>ac_session_ttl = getDur frac env ''SESSION_TTL'' (12 * hour),
      ac_cookie_name = get env ''SESSION_COOKIE_NAME'' ''ojt_session'',
      ac_cookie_secure = getBool env ''SESSION_COOKIE_SECURE'' False,
      ac_cookie_domain = get env ''SESSION_COOKIE_DOMAIN'' '''',
      ac_allowed_origins =
        getList env ''ALLOWED_ORIGINS'' [''http://localhost:5173'', ''http://localhost:4173''],
      ac_login_rate_limit = getInt env ''LOGIN_RATE_LIMIT_MAX'' 10,
      ac_login_rate_window = getDur frac env ''LOGIN_RATE_LIMIT_WINDOW'' minute,
      ac_attendance_rate_limit = getInt env ''ATTENDANCE_RATE_LIMIT_MAX'' 20,
      ac_attendance_rate_window = getDur frac env ''ATTENDANCE_RATE_LIMIT_WINDOW'' minute\<rparr>"

definition config_of ::
  "(nat \<Rightarrow> nat \<Rightarrow> nat \<Rightarrow> nat) \<Rightarrow> (string \<times> int) list \<Rightarrow> (string \<times> int) list \<Rightarrow> environment \<Rightarrow> config" where
  "config_of frac o1 o2 env =
     \<lparr>cf_env = get env ''APP_ENV'' ''development'',
      cf_app_name = get env ''APP_NAME'' ''OJT Attendance'',
      cf_port = getInt env ''APP_PORT'' 8080,
      cf_read_timeout = getDur frac env ''APP_READ_TIMEOUT'' (10 * second),
      cf_write_timeout = getDur frac env ''APP_WRITE_TIMEOUT'' (30 * second),
      cf_body_limit = getSize o1 env ''APP_BODY_LIMIT'' 1048576,
      cf_evidence_upload_limit = getSize o2 env ''EVIDENCE_UPLOAD_LIMIT'' 6291456,
      cf_db = db_config_of frac env,
      cf_s3 = s3_config_of frac env,
      cf_auth = auth_config_of frac env,
      cf_log = \<lparr>lc_level = get env ''LOG_LEVEL'' ''info'', lc_format = get env ''LOG_FORMAT'' ''console''\<rparr>\<rparr>"

section \<open>Validation\<close>

datatype problem =
    BadEnv string
  | NoDbName | NoDbUser | NoSslMode | NoStorage | NoStorageKeys | BadSessionTTL
  | NoDbPassword | SslDisabled | NoOrigins | WildcardOrigin | InsecureCookie | InsecureStorage

definition IsProduction :: "config \<Rightarrow> bool" where
  "IsProduction c = (cf_env c = ''production'')"

definition SessionTTL :: "config \<Rightarrow> int" where
  "SessionTTL c = ac_session_ttl (cf_auth c)"

definition problem_if :: "bool \<Rightarrow> problem \<Rightarrow> problem list" where
  "problem_if b p = (if b then [p] else [])"

definition validate_production :: "config \<Rightarrow> problem list" where
  "validate_production c =
     problem_if (dc_password (cf_db c) = []) NoDbPassword @
     problem_if (dc_sslmode (cf_db c) = ''disable'') SslDisabled @
     problem_if (ac_allowed_origins (cf_auth c) = []) NoOrigins @
     map (\<lambda>_. WildcardOrigin) (filter (\<lambda>og. og = ''*'') (ac_allowed_origins (cf_auth c))) @
     problem_if (\<not> ac_cookie_secure (cf_auth c)) InsecureCookie @
     problem_if (\<not> s3_use_ssl (cf_s3 c)) InsecureStorage"

definition validate :: "config \<Rightarrow> problem list" where
  "validate c =
     problem_if (cf_env c \<notin> {''development'', ''staging'', ''production''}) (BadEnv (cf_env c)) @
     problem_if (dc_name (cf_db c) = []) NoDbName @
     problem_if (dc_user (cf_db c) = []) NoDbUser @
     problem_if (dc_sslmode (cf_db c) = []) NoSslMode @
     problem_if (s3_endpoint (cf_s3 c) = [] \<or> s3_bucket (cf_s3 c) = []) NoStorage @
     problem_if (s3_access_key (cf_s3 c) = [] \<or> s3_secret_key (cf_s3 c) = []) NoStorageKeys @
     problem_if (SessionTTL c \<le> 0) BadSessionTTL @
     (if IsProduction c then validate_production c else [])"

definition Load_config ::
  "(nat \<Rightarrow> nat \<Rightarrow> nat \<Rightarrow> nat) \<Rightarrow> (string \<times> int) list \<Rightarrow> (string \<times> int) list \<Rightarrow>
   string option \<Rightarrow> environment \<Rightarrow> problem list + config" where
  "Load_config frac o1 o2 file env =
     (let c = config_of frac o1 o2 (loadDotEnv file env); ps = validate c
      in if ps \<noteq> [] then Inl ps else Inr c)"

definition DSN :: "db_config \<Rightarrow> string" where
  "DSN d =
     ''host='' @ dc_host d @ '' port='' @ format_int (dc_port d) @ '' dbname='' @ dc_name d @
     '' user='' @ dc_user d @ '' password='' @ dc_password d @ '' sslmode='' @ dc_sslmode d"

end
