(* ===== verification/Observability.thy ===== *)
theory Observability
  imports Config
begin

text \<open>
  \<open>internal/platform/observability/log.go\<close> and the request identifier of \<open>httpx.go\<close>: the level and the
  format of the log, the redaction of sensitive attributes and the line written for a request.
  The sink is \<open>log/slog\<close>, which is not part of the repository.
\<close>

section \<open>The logger\<close>

datatype log_level = LevelDebug | LevelInfo | LevelWarn | LevelError

datatype log_sink = JSONHandler | TextHandler

definition log_level_of :: "string \<Rightarrow> log_level" where
  "log_level_of s =
     (let l = to_lower s
      in if l = ''debug'' then LevelDebug else if l = ''warn'' then LevelWarn
         else if l = ''error'' then LevelError else LevelInfo)"

definition NewLogger :: "log_config \<Rightarrow> log_level \<times> log_sink" where
  "NewLogger cfg = (log_level_of (lc_level cfg), if lc_format cfg = ''json'' then JSONHandler else TextHandler)"

section \<open>Redaction\<close>

definition sensitiveKeys :: "string list" where
  "sensitiveKeys =
     [''password'', ''password_hash'', ''token'', ''session_token'', ''csrf_token'', ''secret'',
      ''authorization'', ''cookie'', ''photo'', ''image'', ''media'', ''object_body'',
      ''latitude'', ''longitude'', ''lat'', ''lng'']"

record attr =
  at_key :: string
  at_value :: string

definition redacted :: "attr \<Rightarrow> attr" where
  "redacted a = a\<lparr>at_value := ''[redacted]''\<rparr>"

definition redactAttr :: "attr \<Rightarrow> attr" where
  "redactAttr a =
     (let k = to_lower (at_key a)
      in if list_ex (\<lambda>part. part \<in> set sensitiveKeys) (split_at_char DOT k) then redacted a
         else if k \<in> set sensitiveKeys then redacted a
         else a)"

text \<open>The second test of the code never decides: no sensitive key contains a point.\<close>

lemma sensitive_no_dot: "k \<in> set sensitiveKeys \<Longrightarrow> DOT \<notin> set k"
  by (auto simp: sensitiveKeys_def DOT_def)

lemma redactAttr_iff:
  "redactAttr a = (if \<exists>part\<in>set (split_at_char DOT (to_lower (at_key a))). part \<in> set sensitiveKeys
     then redacted a else a)"
proof (cases "to_lower (at_key a) \<in> set sensitiveKeys")
  case True
  then have "split_at_char DOT (to_lower (at_key a)) = [to_lower (at_key a)]"
    by (intro split_no_sep sensitive_no_dot)
  then show ?thesis using True by (simp add: redactAttr_def)
qed (auto simp: redactAttr_def Let_def list_ex_iff)

section \<open>The line of a request\<close>

text \<open>\<open>fresh\<close> are the 24 hexadecimal digits of \<open>randHex(12)\<close>.\<close>

definition RequestIDMiddleware :: "string \<Rightarrow> string \<Rightarrow> string" where
  "RequestIDMiddleware header fresh =
     (if header = [] \<or> 64 < length header then ''req_'' @ fresh else header)"

definition RequestLogger ::
  "string \<Rightarrow> string \<Rightarrow> string \<Rightarrow> int \<Rightarrow> string \<Rightarrow> string option \<Rightarrow> log_level \<times> attr list" where
  "RequestLogger rid meth path status ip err =
     (if 500 \<le> status then LevelError else LevelInfo,
      [\<lparr>at_key = ''request_id'', at_value = rid\<rparr>, \<lparr>at_key = ''method'', at_value = meth\<rparr>,
       \<lparr>at_key = ''path'', at_value = path\<rparr>, \<lparr>at_key = ''status'', at_value = format_int status\<rparr>,
       \<lparr>at_key = ''ip'', at_value = ip\<rparr>] @
      (case err of None \<Rightarrow> [] | Some e \<Rightarrow> [\<lparr>at_key = ''error'', at_value = e\<rparr>]))"

end
