(* ===== verification/Migrate.thy ===== *)
theory Migrate
  imports Strconv "HOL-Library.List_Lexorder" "HOL-Library.Char_ord"
begin

text \<open>
  \<open>internal/platform/db/migrate.go\<close>: the migration runner. \<open>files\<close> are the embedded files with their
  contents, \<open>exec\<close> runs a script on the data of the database, \<open>None\<close> when a statement of it fails,
  \<open>commit\<close> says whether the transaction of a file commits, and \<open>coll\<close> is the sort key the database
  gives a text. \<open>sort.Strings\<close> compares bytes, as the order on lists of characters does. No embedded
  script names \<open>schema_migrations\<close>, so the recorded versions are kept apart from the data.
\<close>

section \<open>Up\<close>

record 'd schema_state =
  mg_versions :: "string list option"
  mg_data :: 'd

definition UP :: string where "UP = ''.up.sql''"
definition DOWN :: string where "DOWN = ''.down.sql''"

definition up_files :: "(string \<times> string) list \<Rightarrow> string list" where
  "up_files files = sort (filter (has_suffix_of UP) (map fst files))"

definition create_migrations :: "'d schema_state \<Rightarrow> 'd schema_state" where
  "create_migrations st = (case mg_versions st of None \<Rightarrow> st\<lparr>mg_versions := Some []\<rparr> | Some _ \<Rightarrow> st)"

definition recorded :: "'d schema_state \<Rightarrow> string list" where
  "recorded st = (case mg_versions st of None \<Rightarrow> [] | Some vs \<Rightarrow> vs)"

definition apply_up ::
  "(string \<Rightarrow> 'd \<Rightarrow> 'd option) \<Rightarrow> string \<Rightarrow> string \<Rightarrow> 'd schema_state \<Rightarrow> go_error + 'd schema_state \<times> unit" where
  "apply_up exec sql version st =
     (case exec sql (mg_data st) of
        None \<Rightarrow> Inl QueryFailed
      | Some d \<Rightarrow>
          if version \<in> set (recorded st) then Inl (UniqueViolation ''schema_migrations_pkey'')
          else Inr (st\<lparr>mg_versions := Some (recorded st @ [version]), mg_data := d\<rparr>, ()))"

text \<open>The loop over the sorted files; \<open>acc\<close> are the versions it has applied.\<close>

fun up_loop ::
  "(string \<times> string) list \<Rightarrow> (string \<Rightarrow> 'd \<Rightarrow> 'd option) \<Rightarrow> (string \<Rightarrow> bool) \<Rightarrow> string set \<Rightarrow>
   string list \<Rightarrow> string list \<Rightarrow> 'd schema_state \<Rightarrow> 'd schema_state \<times> string list \<times> go_error option" where
  "up_loop files exec commit applied [] acc st = (st, acc, None)"
| "up_loop files exec commit applied (name # names) acc st =
     (let version = trim_suffix UP name
      in if version \<in> applied then up_loop files exec commit applied names acc st
         else case map_of files name of
             None \<Rightarrow> (st, acc, Some QueryFailed)
           | Some sql \<Rightarrow>
               (case in_tx (commit name) (apply_up exec sql version) st of
                  (st', Inl e) \<Rightarrow> (st', acc, Some e)
                | (st', Inr _) \<Rightarrow> up_loop files exec commit applied names (acc @ [version]) st'))"

text \<open>
  \<open>ready\<close> is \<open>False\<close> when the table of migrations can be neither created nor read.
\<close>

definition Up ::
  "bool \<Rightarrow> (string \<times> string) list \<Rightarrow> (string \<Rightarrow> 'd \<Rightarrow> 'd option) \<Rightarrow> (string \<Rightarrow> bool) \<Rightarrow>
   'd schema_state \<Rightarrow> 'd schema_state \<times> string list \<times> go_error option" where
  "Up ready files exec commit st =
     (if \<not> ready then (st, [], Some QueryFailed)
      else
        let st0 = create_migrations st
        in up_loop files exec commit (set (recorded st0)) (up_files files) [] st0)"

section \<open>Down\<close>

definition Down ::
  "(string \<times> string) list \<Rightarrow> (string \<Rightarrow> 'd \<Rightarrow> 'd option) \<Rightarrow> bool \<Rightarrow> (string \<Rightarrow> 'k :: linorder) \<Rightarrow>
   'd schema_state \<Rightarrow> 'd schema_state \<times> (go_error + string)" where
  "Down files exec commit coll st =
     (if recorded st = [] then (st, Inl NoRows)
      else
          let version = last (sort_key coll (recorded st))
          in case map_of files (version @ DOWN) of
               None \<Rightarrow> (st, Inl QueryFailed)
             | Some sql \<Rightarrow>
                 in_tx commit (\<lambda>st. case exec sql (mg_data st) of
                     None \<Rightarrow> Inl QueryFailed
                   | Some d \<Rightarrow> Inr (st\<lparr>mg_versions := Some (filter (\<lambda>v. v \<noteq> version) (recorded st)),
                       mg_data := d\<rparr>, version)) st)"

section \<open>What a run of Up does\<close>

text \<open>
  \<open>pending_versions\<close> are the versions not recorded yet, in the order of their files; \<open>scripts\<close> runs the
  scripts of some versions one after the other.
\<close>

definition pending_versions :: "(string \<times> string) list \<Rightarrow> 'd schema_state \<Rightarrow> string list" where
  "pending_versions files st =
     filter (\<lambda>v. v \<notin> set (recorded st)) (map (trim_suffix UP) (up_files files))"

fun scripts ::
  "(string \<times> string) list \<Rightarrow> (string \<Rightarrow> 'd \<Rightarrow> 'd option) \<Rightarrow> string list \<Rightarrow> 'd \<Rightarrow> 'd option" where
  "scripts files exec [] d = Some d"
| "scripts files exec (v # vs) d =
     (case map_of files (v @ UP) of None \<Rightarrow> None
      | Some sql \<Rightarrow> (case exec sql d of None \<Rightarrow> None | Some d' \<Rightarrow> scripts files exec vs d'))"

lemma scripts_append:
  "scripts files exec (vs @ ws) d =
     (case scripts files exec vs d of None \<Rightarrow> None | Some d' \<Rightarrow> scripts files exec ws d')"
  by (induction vs arbitrary: d) (auto split: option.split)

lemma recorded_create [simp]: "recorded (create_migrations st) = recorded st"
  by (simp add: recorded_def create_migrations_def split: option.split)

lemma data_create [simp]: "mg_data (create_migrations st) = mg_data st"
  by (simp add: create_migrations_def split: option.split)

lemma up_file_name: "name \<in> set (up_files files) \<Longrightarrow> trim_suffix UP name @ UP = name"
  by (auto simp: up_files_def has_suffix_of_def trim_suffix_def) (metis append_take_drop_id)

lemma up_loop_result:
  assumes "up_loop files exec commit applied names acc st = (st', acc', err)"
    and "\<forall>n\<in>set names. trim_suffix UP n @ UP = n"
  shows "\<exists>run rest. filter (\<lambda>v. v \<notin> applied) (map (trim_suffix UP) names) = run @ rest \<and>
    acc' = acc @ run \<and> recorded st' = recorded st @ run \<and>
    scripts files exec run (mg_data st) = Some (mg_data st') \<and> (err = None \<longleftrightarrow> rest = [])"
  using assms
proof (induction names arbitrary: acc st)
  case Nil
  then show ?case by simp
next
  case (Cons name names)
  define v where "v = trim_suffix UP name"
  have fname: "v @ UP = name" using Cons.prems(2) by (simp add: v_def)
  show ?case
  proof (cases "v \<in> applied")
    case True
    then show ?thesis using Cons by (simp add: v_def)
  next
    case new: False
    have stop: ?thesis if "st' = st" "acc' = acc" "err \<noteq> None"
      using that new
      by (intro exI [of _ "[]"] exI [of _ "filter (\<lambda>v. v \<notin> applied) (map (trim_suffix UP) (name # names))"])
        (simp add: v_def)
    show ?thesis
    proof (cases "map_of files name")
      case None
      then show ?thesis using Cons.prems(1) new by (intro stop) (auto simp: v_def)
    next
      case (Some sql)
      obtain st1 r where tx: "in_tx (commit name) (apply_up exec sql v) st = (st1, r)" by fastforce
      then show ?thesis
      proof (cases rule: in_tx_cases)
        case (error e)
        then show ?thesis using Cons.prems(1) new Some tx
          by (intro stop) (auto simp: v_def)
      next
        case (ok x)
        have step: "recorded st1 = recorded st @ [v]" "exec sql (mg_data st) = Some (mg_data st1)"
          using ok(3) by (auto simp: apply_up_def recorded_def split: option.splits if_splits)
        have "up_loop files exec commit applied names (acc @ [v]) st1 = (st', acc', err)"
          using Cons.prems(1) new Some tx ok(2) by (simp add: v_def)
        from Cons.IH [OF this] Cons.prems(2) obtain d rest where
            "filter (\<lambda>v. v \<notin> applied) (map (trim_suffix UP) names) = d @ rest" "acc' = (acc @ [v]) @ d"
            "recorded st' = recorded st1 @ d" "scripts files exec d (mg_data st1) = Some (mg_data st')"
            "err = None \<longleftrightarrow> rest = []" by auto
        then show ?thesis using step new Some fname
          by (intro exI [of _ "v # d"] exI [of _ rest]) (simp add: v_def [symmetric])
      qed
    qed
  qed
qed

lemma Up_result:
  assumes "Up True files exec commit st = (st', vs, err)"
  shows "\<exists>rest. pending_versions files st = vs @ rest \<and> recorded st' = recorded st @ vs \<and>
    scripts files exec vs (mg_data st) = Some (mg_data st') \<and> (err = None \<longleftrightarrow> rest = [])"
  using up_loop_result [of files exec commit "set (recorded st)" "up_files files" "[]" "create_migrations st"]
    assms by (auto simp: Up_def pending_versions_def up_file_name)

lemma distinct_versions:
  assumes "distinct (map fst files)"
  shows "distinct (map (trim_suffix UP) (up_files files))"
proof -
  have "inj_on (trim_suffix UP) (set (up_files files))"
    by (rule inj_onI) (metis up_file_name)
  moreover have "distinct (up_files files)" using assms by (simp add: up_files_def)
  ultimately show ?thesis by (simp add: distinct_map)
qed

lemma pending_after:
  assumes "distinct (map fst files)" and "pending_versions files st = vs @ rest"
    and "recorded st' = recorded st @ vs"
  shows "pending_versions files st' = rest"
proof -
  have "distinct (vs @ rest)"
    using distinct_versions [OF assms(1)] assms(2) by (metis distinct_filter pending_versions_def)
  moreover have "pending_versions files st' = filter (\<lambda>v. v \<notin> set vs) (vs @ rest)"
    unfolding assms(2) [symmetric] by (simp add: pending_versions_def assms(3) conj_commute)
  ultimately show ?thesis by (auto simp: filter_empty_conv filter_id_conv)
qed

lemma up_loop_nothing:
  "\<forall>n\<in>set names. trim_suffix UP n \<in> applied \<Longrightarrow> up_loop files exec commit applied names acc st = (st, acc, None)"
  by (induction names) auto

lemma Up_nothing:
  assumes "pending_versions files st = []"
  shows "Up True files exec commit st = (create_migrations st, [], None)"
  using assms by (simp add: Up_def up_loop_nothing pending_versions_def filter_empty_conv)

lemma up_loop_table: "mg_versions st \<noteq> None \<Longrightarrow>
    mg_versions (fst (up_loop files exec commit applied names acc st)) \<noteq> None"
proof (induction names arbitrary: acc st)
  case (Cons name names)
  define v where "v = trim_suffix UP name"
  show ?case
  proof (cases "v \<in> applied \<or> map_of files name = None")
    case True
    then show ?thesis using Cons by (auto simp: v_def [symmetric])
  next
    case False
    then obtain sql where sql: "v \<notin> applied" "map_of files name = Some sql" by auto
    obtain st1 r where tx: "in_tx (commit name) (apply_up exec sql v) st = (st1, r)" by fastforce
    then have "mg_versions st1 \<noteq> None"
      using Cons.prems by (cases rule: in_tx_cases) (auto simp: apply_up_def split: option.splits if_splits)
    then show ?thesis using Cons sql tx by (cases r) (simp_all add: v_def [symmetric])
  qed
qed simp

lemma Up_table:
  assumes "Up True files exec commit st = (st', vs, err)"
  shows "create_migrations st' = st'"
proof -
  have "mg_versions (create_migrations st) \<noteq> None"
    by (simp add: create_migrations_def split: option.split)
  from up_loop_table [OF this, of files exec commit "set (recorded st)" "up_files files" "[]"]
  have "mg_versions st' \<noteq> None" using assms by (simp add: Up_def)
  then show ?thesis by (auto simp: create_migrations_def)
qed

text \<open>
  C37. A run of \<open>Up\<close> applies the pending migrations in the order of their names, until one fails. What it
  ran is recorded, in that order and with nothing else; what it did not run stays pending, for the
  next run to resume with; the data is what the scripts it ran make of it. A run that succeeds
  leaves nothing to do: the next one changes nothing.
\<close>

theorem Up_applies_pending:
  assumes "Up True files exec commit st = (st', vs, err)" and "distinct (map fst files)"
  shows "pending_versions files st = vs @ pending_versions files st' \<and> recorded st' = recorded st @ vs \<and>
    scripts files exec vs (mg_data st) = Some (mg_data st') \<and>
    (err = None \<longleftrightarrow> pending_versions files st' = []) \<and>
    (err = None \<longrightarrow> Up True files exec commit' st' = (st', [], None))"
proof -
  obtain rest where r: "pending_versions files st = vs @ rest" "recorded st' = recorded st @ vs"
      "scripts files exec vs (mg_data st) = Some (mg_data st')" "err = None \<longleftrightarrow> rest = []"
    using Up_result [OF assms(1)] by blast
  moreover have "pending_versions files st' = rest" by (rule pending_after [OF assms(2) r(1,2)])
  ultimately show ?thesis using Up_nothing [of files st'] Up_table [OF assms(1)] by auto
qed

lemma up_loop_completes:
  assumes "\<forall>n\<in>set names. trim_suffix UP n @ UP = n \<and> commit n"
    and "scripts files exec (filter (\<lambda>v. v \<notin> applied) (map (trim_suffix UP) names)) (mg_data st) \<noteq> None"
    and "distinct (filter (\<lambda>v. v \<notin> applied) (map (trim_suffix UP) names))"
    and "set (recorded st) \<inter> set (filter (\<lambda>v. v \<notin> applied) (map (trim_suffix UP) names)) = {}"
  shows "\<exists>st'. up_loop files exec commit applied names acc st =
    (st', acc @ filter (\<lambda>v. v \<notin> applied) (map (trim_suffix UP) names), None)"
  using assms
proof (induction names arbitrary: acc st)
  case Nil
  then show ?case by simp
next
  case (Cons name names)
  define v where "v = trim_suffix UP name"
  define vs where "vs = filter (\<lambda>v. v \<notin> applied) (map (trim_suffix UP) names)"
  have fname: "v @ UP = name" "commit name" using Cons.prems(1) by (simp_all add: v_def)
  show ?case
  proof (cases "v \<in> applied")
    case True
    then show ?thesis using Cons by (simp add: v_def)
  next
    case False
    then have all: "filter (\<lambda>v. v \<notin> applied) (map (trim_suffix UP) (name # names)) = v # vs"
      by (simp add: v_def vs_def)
    obtain sql d where sql: "map_of files name = Some sql" "exec sql (mg_data st) = Some d"
        "scripts files exec vs d \<noteq> None"
      using Cons.prems(2) fname unfolding all by (auto split: option.splits)
    define st1 where "st1 = st\<lparr>mg_versions := Some (recorded st @ [v]), mg_data := d\<rparr>"
    have fresh: "v \<notin> set (recorded st)" using Cons.prems(4) unfolding all by simp
    have tx: "in_tx (commit name) (apply_up exec sql v) st = (st1, Inr ())"
      using fname(2) sql(2) fresh by (simp add: in_tx_def apply_up_def st1_def)
    have "set (recorded st1) \<inter> set vs = {}"
      using Cons.prems(3,4) unfolding all by (auto simp: st1_def recorded_def)
    moreover have "distinct vs" using Cons.prems(3) unfolding all by simp
    ultimately obtain st' where
      "up_loop files exec commit applied names (acc @ [v]) st1 = (st', (acc @ [v]) @ vs, None)"
      using Cons.IH [of st1 "acc @ [v]", folded vs_def] Cons.prems(1) sql(3)
      by (auto simp: st1_def)
    then show ?thesis using False sql(1) tx unfolding all by (simp add: v_def)
  qed
qed

text \<open>
  C38. \<open>Up\<close> gets to its end: when the scripts of the pending migrations succeed one after the other and
  their transactions commit, one run applies them all and reports no error.
\<close>

theorem Up_completes:
  assumes "distinct (map fst files)" and "\<forall>n\<in>set (up_files files). commit n"
    and "scripts files exec (pending_versions files st) (mg_data st) = Some d"
  shows "\<exists>st'. Up True files exec commit st = (st', pending_versions files st, None) \<and>
    mg_data st' = d \<and> pending_versions files st' = []"
proof -
  have "\<exists>st'. up_loop files exec commit (set (recorded st)) (up_files files) [] (create_migrations st) =
      (st', [] @ pending_versions files st, None)"
    unfolding pending_versions_def
    by (rule up_loop_completes) (use assms distinct_versions [OF assms(1)] in
      \<open>auto simp: up_file_name pending_versions_def\<close>)
  then obtain st' where run: "Up True files exec commit st = (st', pending_versions files st, None)"
    by (auto simp: Up_def)
  then show ?thesis
    using Up_result [OF run] pending_after [OF assms(1), of st "pending_versions files st" "[]" st'] assms(3) by auto
qed

definition demo_files :: "(string \<times> string) list" where
  "demo_files = [(''2.up.sql'', ''b''), (''1.up.sql'', ''a''), (''1.down.sql'', ''x'')]"

lemma demo_up:
  "Up True demo_files (\<lambda>s d. Some (d @ s)) (\<lambda>n. n \<noteq> ''2.up.sql'') \<lparr>mg_versions = None, mg_data = []\<rparr> =
     (\<lparr>mg_versions = Some [''1''], mg_data = ''a''\<rparr>, [''1''], Some CommitFailed)"
  by code_simp

theorem Up_applies_pending_witness:
  "pending_versions demo_files \<lparr>mg_versions = Some [''1''], mg_data = ''a''\<rparr> = [''2''] \<and>
   pending_versions demo_files \<lparr>mg_versions = None, mg_data = [] :: string\<rparr> = [''1'', ''2'']"
proof -
  have "distinct (map fst demo_files)" by (simp add: demo_files_def)
  moreover have "pending_versions demo_files \<lparr>mg_versions = Some [''1''], mg_data = ''a''\<rparr> = [''2'']" by code_simp
  ultimately show ?thesis using conjunct1 [OF Up_applies_pending [OF demo_up, of "\<lambda>_. True"]] by simp
qed

theorem Up_completes_witness:
  "\<exists>st'. Up True demo_files (\<lambda>s d. Some (d @ s)) (\<lambda>_. True) \<lparr>mg_versions = None, mg_data = []\<rparr> =
    (st', [''1'', ''2''], None) \<and> mg_data st' = ''ab''"
proof -
  have p: "pending_versions demo_files \<lparr>mg_versions = None, mg_data = [] :: string\<rparr> = [''1'', ''2'']" by code_simp
  have "scripts demo_files (\<lambda>s d. Some (d @ s)) (pending_versions demo_files \<lparr>mg_versions = None, mg_data = []\<rparr>)
      (mg_data \<lparr>mg_versions = None, mg_data = []\<rparr>) = Some ''ab''" by code_simp
  from Up_completes [OF _ _ this, of "\<lambda>_. True"] show ?thesis unfolding p by (auto simp: demo_files_def)
qed

lemma Down_Inr:
  assumes "Down files exec commit coll st = (st', Inr v)"
  shows "v \<in> set (recorded st) \<and> (\<forall>w\<in>set (recorded st). coll w \<le> coll v) \<and>
    recorded st' = filter (\<lambda>w. w \<noteq> v) (recorded st) \<and>
    (\<exists>sql. map_of files (v @ DOWN) = Some sql \<and> exec sql (mg_data st) = Some (mg_data st'))"
proof -
  define w where "w = last (sort_key coll (recorded st))"
  have ne: "recorded st \<noteq> []" using assms by (auto simp: Down_def)
  then obtain sql where sql: "map_of files (w @ DOWN) = Some sql"
    using assms by (auto simp: Down_def w_def Let_def split: option.splits)
  have tx: "in_tx commit (\<lambda>st. case exec sql (mg_data st) of None \<Rightarrow> Inl QueryFailed
      | Some d \<Rightarrow> Inr (st\<lparr>mg_versions := Some (filter (\<lambda>v. v \<noteq> w) (recorded st)), mg_data := d\<rparr>, w)) st =
      (st', Inr v)"
    using assms ne sql unfolding w_def by (simp add: Down_def Let_def)
  have "sort_key coll (recorded st) \<noteq> []" using ne by (metis set_empty set_sort)
  then have "w \<in> set (recorded st)" unfolding w_def by (metis last_in_set set_sort)
  moreover have "\<forall>x\<in>set (recorded st). coll x \<le> coll w"
  proof
    fix x assume "x \<in> set (recorded st)"
    then have "x \<in> set (sort_key coll (recorded st))" by simp
    moreover obtain ys where ys: "sort_key coll (recorded st) = ys @ [w]"
      using \<open>sort_key coll (recorded st) \<noteq> []\<close> unfolding w_def by (metis append_butlast_last_id)
    moreover have "sorted (map coll (ys @ [w]))" using ys sorted_sort_key by metis
    ultimately show "coll x \<le> coll w" by (auto simp: sorted_append)
  qed
  moreover have "v = w" "recorded st' = filter (\<lambda>x. x \<noteq> w) (recorded st)"
      "exec sql (mg_data st) = Some (mg_data st')"
    using tx by (auto simp: in_tx_ok recorded_def split: option.splits)
  ultimately show ?thesis using sql by blast
qed

end
