(* ===== verification/Password.thy ===== *)
theory Password
  imports Strconv
begin

text \<open>
  \<open>internal/auth/password.go\<close>: Argon2id hashes in their PHC text form, with the parts of
  \<open>encoding/base64\<close> and \<open>fmt.Sscanf\<close> it uses. \<open>idkey password salt time memory threads keyLen\<close> is
  \<open>argon2.IDKey\<close> of golang.org/x/crypto, \<open>None\<close> where it panics.
\<close>

section \<open>Base64 without padding\<close>

definition b64_alphabet :: string where
  "b64_alphabet = ''ABCDEFGHIJKLMNOPQRSTUVWXYZabcdefghijklmnopqrstuvwxyz0123456789+/''"

definition b64_char :: "nat \<Rightarrow> char" where
  "b64_char n = b64_alphabet ! (n mod 64)"

definition b64_val :: "char \<Rightarrow> nat option" where
  "b64_val c =
     (let i = length (takeWhile (\<lambda>a. a \<noteq> c) b64_alphabet) in if i < 64 then Some i else None)"

definition byte_val :: "char \<Rightarrow> nat" where
  "byte_val c = of_char c"

fun b64_encode :: "string \<Rightarrow> string" where
  "b64_encode [] = []"
| "b64_encode [a] =
     (let n = byte_val a * 65536 in [b64_char (n div 262144), b64_char (n div 4096)])"
| "b64_encode [a, b] =
     (let n = byte_val a * 65536 + byte_val b * 256
      in [b64_char (n div 262144), b64_char (n div 4096), b64_char (n div 64)])"
| "b64_encode (a # b # c # s) =
     (let n = byte_val a * 65536 + byte_val b * 256 + byte_val c
      in [b64_char (n div 262144), b64_char (n div 4096), b64_char (n div 64), b64_char n] @ b64_encode s)"

text \<open>
  The decoder skips line ends, takes quanta of four characters, accepts a last quantum of two or
  three, and ignores the bits left over.
\<close>

fun b64_quanta :: "nat list \<Rightarrow> string option" where
  "b64_quanta [] = Some []"
| "b64_quanta [w] = None"
| "b64_quanta [w, x] = (let n = w * 262144 + x * 4096 in Some [char_of (n div 65536)])"
| "b64_quanta [w, x, y] =
     (let n = w * 262144 + x * 4096 + y * 64 in Some [char_of (n div 65536), char_of (n div 256)])"
| "b64_quanta (w # x # y # z # s) =
     (let n = w * 262144 + x * 4096 + y * 64 + z
      in case b64_quanta s of None \<Rightarrow> None
         | Some r \<Rightarrow> Some ([char_of (n div 65536), char_of (n div 256), char_of n] @ r))"

definition b64_decode :: "string \<Rightarrow> string option" where
  "b64_decode s =
     (let vs = map b64_val (filter (\<lambda>c. c \<noteq> CHR 0x0D \<and> c \<noteq> CHR 0x0A) s)
      in if None \<in> set vs then None else b64_quanta (map the vs))"

section \<open>Scanning numbers\<close>

text \<open>
  \<open>Sscanf\<close> matches the literal text of its format, skips white space before each number (a line end
  makes it fail), and leaves what follows the last number unread.
\<close>

definition skip_space :: "string \<Rightarrow> string" where
  "skip_space s = trim_front (filter (\<lambda>p. p \<noteq> [CHR 0x0A]) space_encodings) s"

definition scan_digits :: "string \<Rightarrow> (nat \<times> string) option" where
  "scan_digits s =
     (let ds = takeWhile is_digit s
      in if ds = [] then None
         else case digits_val ds 0 of None \<Rightarrow> None | Some n \<Rightarrow> Some (n, dropWhile is_digit s))"

definition scan_uint :: "nat \<Rightarrow> string \<Rightarrow> (nat \<times> string) option" where
  "scan_uint bits s =
     (case scan_digits (skip_space s) of
        None \<Rightarrow> None
      | Some (n, r) \<Rightarrow> if n < 2 ^ bits then Some (n, r) else None)"

definition scan_int :: "string \<Rightarrow> (int \<times> string) option" where
  "scan_int s =
     (let s = skip_space s;
          (neg, t) = (case s of c # r \<Rightarrow> if c = CHR ''-'' then (True, r) else if c = CHR ''+'' then (False, r)
            else (False, s) | [] \<Rightarrow> (False, s))
      in case scan_digits t of
           None \<Rightarrow> None
         | Some (n, r) \<Rightarrow>
             (let v = (if neg then - int n else int n)
              in if min_int64 \<le> v \<and> v \<le> max_int64 then Some (v, r) else None))"

definition scan_version :: "string \<Rightarrow> int option" where
  "scan_version s =
     (case strip_prefix ''v='' s of None \<Rightarrow> None
      | Some s1 \<Rightarrow> map_option fst (scan_int s1))"

definition scan_params :: "string \<Rightarrow> (nat \<times> nat \<times> nat) option" where
  "scan_params s =
     (case strip_prefix ''m='' s of None \<Rightarrow> None
      | Some s1 \<Rightarrow> (case scan_uint 32 s1 of None \<Rightarrow> None
      | Some (m, s2) \<Rightarrow> (case strip_prefix '',t='' s2 of None \<Rightarrow> None
      | Some s3 \<Rightarrow> (case scan_uint 32 s3 of None \<Rightarrow> None
      | Some (t, s4) \<Rightarrow> (case strip_prefix '',p='' s4 of None \<Rightarrow> None
      | Some s5 \<Rightarrow> (case scan_uint 8 s5 of None \<Rightarrow> None
      | Some (p, _) \<Rightarrow> Some (m, t, p)))))))"

section \<open>Hashing and verification\<close>

type_synonym argon2 = "string \<Rightarrow> string \<Rightarrow> nat \<Rightarrow> nat \<Rightarrow> nat \<Rightarrow> nat \<Rightarrow> string option"

datatype hash_error = EmptyPassword | NoRandomBytes | MalformedHash | HashPanics

definition argonVersion :: nat where "argonVersion = 19"
definition argonTime :: nat where "argonTime = 2"
definition argonMemory :: nat where "argonMemory = 64 * 1024"
definition argonThreads :: nat where "argonThreads = 2"
definition argonKeyLen :: nat where "argonKeyLen = 32"

definition phc :: "string \<Rightarrow> string \<Rightarrow> string" where
  "phc salt key =
     ''$argon2id$v='' @ decimal argonVersion @ ''$m='' @ decimal argonMemory @ '',t='' @
     decimal argonTime @ '',p='' @ decimal argonThreads @ ''$'' @ b64_encode salt @ ''$'' @ b64_encode key"

text \<open>\<open>rand\<close> is what the random source gives for the salt, \<open>None\<close> when it fails.\<close>

definition HashPassword :: "argon2 \<Rightarrow> string option \<Rightarrow> string \<Rightarrow> hash_error + string" where
  "HashPassword idkey rand password =
     (if password = [] then Inl EmptyPassword
      else case rand of
          None \<Rightarrow> Inl NoRandomBytes
        | Some salt \<Rightarrow>
            (case idkey password salt argonTime argonMemory argonThreads argonKeyLen of
               None \<Rightarrow> Inl HashPanics
             | Some key \<Rightarrow> Inr (phc salt key)))"

definition VerifyPassword :: "argon2 \<Rightarrow> string \<Rightarrow> string \<Rightarrow> hash_error + bool \<times> bool" where
  "VerifyPassword idkey password encoded =
     (case split_at_char CHR ''$'' encoded of
        [_, alg, ver, params, salt64, key64] \<Rightarrow>
          if alg \<noteq> ''argon2id'' then Inl MalformedHash
          else if scan_version ver \<noteq> Some (int argonVersion) then Inl MalformedHash
          else case scan_params params of
              None \<Rightarrow> Inl MalformedHash
            | Some (memory, timeCost, threads) \<Rightarrow>
                (case (b64_decode salt64, b64_decode key64) of
                   (Some salt, Some wantKey) \<Rightarrow>
                     (let keyLen = length wantKey mod 2 ^ 32
                      in case idkey password salt timeCost memory threads keyLen of
                           None \<Rightarrow> Inl HashPanics
                         | Some got \<Rightarrow>
                             Inr (got = wantKey,
                               memory \<noteq> argonMemory \<or> timeCost \<noteq> argonTime \<or>
                               threads \<noteq> argonThreads \<or> keyLen \<noteq> argonKeyLen))
                 | _ \<Rightarrow> Inl MalformedHash)
      | _ \<Rightarrow> Inl MalformedHash)"

end
