(* ===== verification/ConfigLaws.thy ===== *)
theory ConfigLaws
  imports Config
begin

text \<open>
  What \<open>internal/config\<close> guarantees: which environments the process starts in, what a \<open>.env\<close> file
  can and cannot change, and how far a byte size depends on the order of a Go map.
\<close>

section \<open>Values\<close>

lemma get_not_Nil: "def \<noteq> [] \<Longrightarrow> get env key def \<noteq> []"
  by (auto simp: get_def getenv_def split: option.splits)

lemma get_Nil_iff: "get env key [] = [] \<longleftrightarrow> getenv env key = None"
  by (auto simp: get_def getenv_def split: option.splits)

lemma getInt_range:
  "min_int64 \<le> def \<Longrightarrow> def \<le> max_int64 \<Longrightarrow> min_int64 \<le> getInt env key def \<and> getInt env key def \<le> max_int64"
  by (auto simp: getInt_def dest: parse_int_range split: option.splits)

lemma getList_items: "p \<in> set (getList env key def) \<Longrightarrow> p \<noteq> [] \<or> p \<in> set def"
  by (auto simp: getList_def split: option.splits)

section \<open>Which environments the process starts in\<close>

lemma problem_if_Nil [simp]: "problem_if b p = [] \<longleftrightarrow> \<not> b"
  by (simp add: problem_if_def)

lemma validate_production_Nil:
  "validate_production c = [] \<longleftrightarrow>
     dc_password (cf_db c) \<noteq> [] \<and> dc_sslmode (cf_db c) \<noteq> ''disable'' \<and>
     ac_allowed_origins (cf_auth c) \<noteq> [] \<and> ''*'' \<notin> set (ac_allowed_origins (cf_auth c)) \<and>
     ac_cookie_secure (cf_auth c) \<and> s3_use_ssl (cf_s3 c)"
  by (auto simp: validate_production_def filter_empty_conv)

lemma config_of_defaults [simp]:
  "dc_name (cf_db (config_of frac o1 o2 env)) \<noteq> []"
  "dc_user (cf_db (config_of frac o1 o2 env)) \<noteq> []"
  "dc_sslmode (cf_db (config_of frac o1 o2 env)) \<noteq> []"
  "s3_endpoint (cf_s3 (config_of frac o1 o2 env)) \<noteq> []"
  "s3_bucket (cf_s3 (config_of frac o1 o2 env)) \<noteq> []"
  by (simp_all add: config_of_def db_config_of_def s3_config_of_def get_not_Nil)

text \<open>\<open>startable env\<close> is the environment-level reading of an empty list of problems.\<close>

definition startable :: "(nat \<Rightarrow> nat \<Rightarrow> nat \<Rightarrow> nat) \<Rightarrow> environment \<Rightarrow> bool" where
  "startable frac env \<longleftrightarrow>
     get env ''APP_ENV'' ''development'' \<in> {''development'', ''staging'', ''production''} \<and>
     getenv env ''S3_ACCESS_KEY'' \<noteq> None \<and> getenv env ''S3_SECRET_KEY'' \<noteq> None \<and>
     0 < getDur frac env ''SESSION_TTL'' (12 * hour) \<and>
     (env ''APP_ENV'' = Some ''production'' \<longrightarrow>
        getenv env ''DB_PASSWORD'' \<noteq> None \<and>
        get env ''DB_SSLMODE'' ''disable'' \<noteq> ''disable'' \<and>
        getBool env ''S3_USE_SSL'' False \<and> getBool env ''SESSION_COOKIE_SECURE'' False \<and>
        (\<forall>v. env ''ALLOWED_ORIGINS'' = Some v \<longrightarrow>
           (\<exists>p\<in>set (split_at_char CHR '','' v). trim_space p \<noteq> []) \<and>
           (\<forall>p\<in>set (split_at_char CHR '','' v). trim_space p \<noteq> ''*'')))"

lemma production_iff: "IsProduction (config_of frac o1 o2 env) \<longleftrightarrow> env ''APP_ENV'' = Some ''production''"
  by (auto simp: IsProduction_def config_of_def get_def getenv_def split: option.splits)

lemma origins_ok:
  "getList env key [''http://localhost:5173'', ''http://localhost:4173''] \<noteq> [] \<and>
   ''*'' \<notin> set (getList env key [''http://localhost:5173'', ''http://localhost:4173'']) \<longleftrightarrow>
   (\<forall>v. env key = Some v \<longrightarrow>
      (\<exists>p\<in>set (split_at_char CHR '','' v). trim_space p \<noteq> []) \<and>
      (\<forall>p\<in>set (split_at_char CHR '','' v). trim_space p \<noteq> ''*''))"
proof (cases "env key")
  case (Some v)
  then show ?thesis by (auto simp: getList_def filter_empty_conv image_iff)
qed (simp add: getList_def)

lemma config_of_fields:
  "cf_env (config_of frac o1 o2 env) = get env ''APP_ENV'' ''development''"
  "s3_access_key (cf_s3 (config_of frac o1 o2 env)) = get env ''S3_ACCESS_KEY'' []"
  "s3_secret_key (cf_s3 (config_of frac o1 o2 env)) = get env ''S3_SECRET_KEY'' []"
  "SessionTTL (config_of frac o1 o2 env) = getDur frac env ''SESSION_TTL'' (12 * hour)"
  "dc_password (cf_db (config_of frac o1 o2 env)) = get env ''DB_PASSWORD'' []"
  "dc_sslmode (cf_db (config_of frac o1 o2 env)) = get env ''DB_SSLMODE'' ''disable''"
  "s3_use_ssl (cf_s3 (config_of frac o1 o2 env)) = getBool env ''S3_USE_SSL'' False"
  "ac_cookie_secure (cf_auth (config_of frac o1 o2 env)) = getBool env ''SESSION_COOKIE_SECURE'' False"
  "ac_allowed_origins (cf_auth (config_of frac o1 o2 env)) =
     getList env ''ALLOWED_ORIGINS'' [''http://localhost:5173'', ''http://localhost:4173'']"
  by (simp_all add: config_of_def db_config_of_def s3_config_of_def auth_config_of_def SessionTTL_def)

lemma validate_iff: "validate (config_of frac o1 o2 env) = [] \<longleftrightarrow> startable frac env"
  unfolding startable_def validate_def append_is_Nil_conv problem_if_Nil production_iff
    validate_production_Nil config_of_fields origins_ok [symmetric] if_split [of "\<lambda>x. x = []"] get_Nil_iff
  by (auto simp: not_le get_not_Nil)

lemma Load_config_Inr:
  "Load_config frac o1 o2 file env = Inr c \<longleftrightarrow>
     c = config_of frac o1 o2 (loadDotEnv file env) \<and> startable frac (loadDotEnv file env)"
  by (auto simp: Load_config_def Let_def validate_iff)

section \<open>The file of a developer\<close>

lemma dotenv_line_keeps: "env k = Some v \<Longrightarrow> dotenv_line env raw k = Some v"
  by (auto simp: dotenv_line_def Let_def setenv_def split: option.splits)

lemma dotenv_lines_keep: "env k = Some v \<Longrightarrow> foldl dotenv_line env ls k = Some v"
  by (induction ls arbitrary: env) (auto simp: dotenv_line_keeps)

lemma loadDotEnv_keeps: "env k = Some v \<Longrightarrow> loadDotEnv file env k = Some v"
  by (auto simp: loadDotEnv_def dotenv_lines_keep split: option.split)

section \<open>What the process starts with\<close>

text \<open>The spellings \<open>strconv.ParseBool\<close> takes for true.\<close>

definition says_true :: "string option \<Rightarrow> bool" where
  "says_true v \<longleftrightarrow> v \<in> {Some ''1'', Some ''t'', Some ''T'', Some ''TRUE'', Some ''true'', Some ''True''}"

lemma getBool_False: "getBool env key False \<longleftrightarrow> says_true (env key)"
  by (auto simp: getBool_def getenv_def says_true_def parse_bool_def split: option.splits if_splits)

lemma getDur_positive:
  "0 < def \<Longrightarrow> 0 < getDur frac env key def \<longleftrightarrow>
     (\<forall>v d. getenv env key = Some v \<and> parse_duration frac v = Some d \<longrightarrow> 0 < d)"
  by (auto simp: getDur_def split: option.splits)

lemma get_default: "get env key def = (case getenv env key of None \<Rightarrow> def | Some v \<Rightarrow> v)"
  by (simp add: get_def split: option.split)

lemma getenv_Some: "getenv env key = Some v \<longleftrightarrow> env key = Some v \<and> v \<noteq> []"
  by (auto simp: getenv_def split: option.splits)

lemma startable_iff:
  "startable frac e \<longleftrightarrow>
     (\<forall>v. getenv e ''APP_ENV'' = Some v \<longrightarrow> v = ''development'' \<or> v = ''staging'' \<or> v = ''production'') \<and>
     getenv e ''S3_ACCESS_KEY'' \<noteq> None \<and> getenv e ''S3_SECRET_KEY'' \<noteq> None \<and>
     (\<forall>v d. getenv e ''SESSION_TTL'' = Some v \<and> parse_duration frac v = Some d \<longrightarrow> 0 < d) \<and>
     (e ''APP_ENV'' = Some ''production'' \<longrightarrow>
        getenv e ''DB_PASSWORD'' \<noteq> None \<and>
        getenv e ''DB_SSLMODE'' \<noteq> None \<and> e ''DB_SSLMODE'' \<noteq> Some ''disable'' \<and>
        says_true (e ''S3_USE_SSL'') \<and> says_true (e ''SESSION_COOKIE_SECURE'') \<and>
        (\<forall>v. e ''ALLOWED_ORIGINS'' = Some v \<longrightarrow>
           (\<exists>p\<in>set (split_at_char CHR '','' v). trim_space p \<noteq> []) \<and>
           (\<forall>p\<in>set (split_at_char CHR '','' v). trim_space p \<noteq> ''*'')))"
proof -
  have "get e ''DB_SSLMODE'' ''disable'' \<noteq> ''disable'' \<longleftrightarrow>
      getenv e ''DB_SSLMODE'' \<noteq> None \<and> e ''DB_SSLMODE'' \<noteq> Some ''disable''"
    by (auto simp: get_default getenv_def split: option.splits)
  moreover have "get e ''APP_ENV'' ''development'' \<in> {''development'', ''staging'', ''production''} \<longleftrightarrow>
      (\<forall>v. getenv e ''APP_ENV'' = Some v \<longrightarrow> v = ''development'' \<or> v = ''staging'' \<or> v = ''production'')"
    by (auto simp: get_default split: option.splits)
  moreover have "0 < 12 * hour" by (simp add: hour_def minute_def second_def)
  ultimately show ?thesis
    unfolding startable_def getBool_False using getDur_positive [of "12 * hour" frac e "''SESSION_TTL''"] by simp
qed

text \<open>What the process runs with when only the keys of the object store are given.\<close>

definition documented_defaults :: "string \<Rightarrow> string \<Rightarrow> config" where
  "documented_defaults access secret =
     \<lparr>cf_env = ''development'', cf_app_name = ''OJT Attendance'', cf_port = 8080,
      cf_read_timeout = 10 * 10 ^ 9, cf_write_timeout = 30 * 10 ^ 9,
      cf_body_limit = 1024 * 1024, cf_evidence_upload_limit = 6 * 1024 * 1024,
      cf_db = \<lparr>dc_host = ''127.0.0.1'', dc_port = 5432, dc_name = ''ojt_management'',
        dc_user = ''postgres'', dc_password = [], dc_sslmode = ''disable'', dc_max_conns = 20,
        dc_min_conns = 2, dc_max_conn_lifetime = 60 * 60 * 10 ^ 9,
        dc_max_conn_idle_time = 15 * 60 * 10 ^ 9\<rparr>,
      cf_s3 = \<lparr>s3_endpoint = ''127.0.0.1:9000'', s3_use_ssl = False, s3_access_key = access,
        s3_secret_key = secret, s3_bucket = ''ojt-evidence'', s3_public_endpoint = [],
        s3_public_ssl = False, s3_presign_ttl = 5 * 60 * 10 ^ 9\<rparr>,
      cf_auth = \<lparr>ac_session_ttl = 12 * 60 * 60 * 10 ^ 9, ac_cookie_name = ''ojt_session'',
        ac_cookie_secure = False, ac_cookie_domain = [],
        ac_allowed_origins = [''http://localhost:5173'', ''http://localhost:4173''],
        ac_login_rate_limit = 10, ac_login_rate_window = 60 * 10 ^ 9,
        ac_attendance_rate_limit = 20, ac_attendance_rate_window = 60 * 10 ^ 9\<rparr>,
      cf_log = \<lparr>lc_level = ''info'', lc_format = ''console''\<rparr>\<rparr>"

lemma config_of_unset:
  assumes "access \<noteq> []" and "secret \<noteq> []"
  shows "config_of frac o1 o2 [''S3_ACCESS_KEY'' \<mapsto> access, ''S3_SECRET_KEY'' \<mapsto> secret] =
    documented_defaults access secret"
  using assms
  by (simp add: config_of_def db_config_of_def s3_config_of_def auth_config_of_def documented_defaults_def
      get_def getenv_def getInt_def getBool_def getDur_def getList_def getSize_def wrap32_def
      hour_def minute_def second_def)

lemma production_values:
  assumes "Load_config frac o1 o2 file env = Inr c"
    and "loadDotEnv file env ''APP_ENV'' = Some ''production''"
  shows "loadDotEnv file env ''DB_PASSWORD'' = Some (dc_password (cf_db c)) \<and>
    loadDotEnv file env ''DB_SSLMODE'' = Some (dc_sslmode (cf_db c)) \<and>
    ac_cookie_secure (cf_auth c) \<and> s3_use_ssl (cf_s3 c) \<and> 0 < ac_session_ttl (cf_auth c) \<and>
    ac_allowed_origins (cf_auth c) \<noteq> [] \<and> ''*'' \<notin> set (ac_allowed_origins (cf_auth c)) \<and>
    (loadDotEnv file env ''ALLOWED_ORIGINS'' = None \<longrightarrow>
       ac_allowed_origins (cf_auth c) = [''http://localhost:5173'', ''http://localhost:4173''])"
proof -
  define e where "e = loadDotEnv file env"
  have c: "c = config_of frac o1 o2 e" and st: "startable frac e"
    using assms(1) by (simp_all add: Load_config_Inr e_def)
  have pw: "getenv e ''DB_PASSWORD'' \<noteq> None" "getenv e ''DB_SSLMODE'' \<noteq> None"
    using st assms(2) unfolding startable_iff e_def [symmetric] by auto
  have val: "e key = Some (get e key def)" if "getenv e key \<noteq> None" for key def
    using that by (auto simp: get_default getenv_def split: option.splits if_splits)
  have "ac_session_ttl (cf_auth c) = SessionTTL c" by (simp add: SessionTTL_def)
  then have "0 < ac_session_ttl (cf_auth c)" using st by (simp add: c config_of_fields startable_def)
  moreover have "ac_allowed_origins (cf_auth c) \<noteq> [] \<and> ''*'' \<notin> set (ac_allowed_origins (cf_auth c))"
    using st assms(2) unfolding c config_of_fields origins_ok startable_def e_def [symmetric] by blast
  moreover have "e ''ALLOWED_ORIGINS'' = None \<longrightarrow>
      ac_allowed_origins (cf_auth c) = [''http://localhost:5173'', ''http://localhost:4173'']"
    unfolding c config_of_fields by (simp add: getList_def)
  moreover have "ac_cookie_secure (cf_auth c)" "s3_use_ssl (cf_s3 c)"
    using st assms(2) unfolding c config_of_fields startable_def e_def [symmetric] by blast+
  moreover have "e ''DB_PASSWORD'' = Some (dc_password (cf_db c))" "e ''DB_SSLMODE'' = Some (dc_sslmode (cf_db c))"
    unfolding c config_of_fields by (rule val [OF pw(1)], rule val [OF pw(2)])
  ultimately show ?thesis unfolding e_def by blast
qed

text \<open>
  C36. When and with what the process starts. A variable of the environment is never replaced by
  the \<open>.env\<close> file. The process starts exactly with a known \<open>APP_ENV\<close>, the two keys of the object
  store and no session lifetime of zero or less, and in production moreover with a database
  password, a given \<open>sslmode\<close> that is not \<open>disable\<close>, a true \<open>S3_USE_SSL\<close> and \<open>SESSION_COOKIE_SECURE\<close>,
  and, where \<open>ALLOWED_ORIGINS\<close> is set, at least one origin in it and no \<open>*\<close>. What it runs with in
  production is then the given password and mode, secure cookies, an encrypted object store, a
  positive session lifetime, and explicit origins - those of a developer's machine when the
  variable is not set, against the README, which promises a refusal. With nothing but the two
  keys it runs with the values \<open>.env.example\<close> documents.
\<close>

theorem Load_config_decides:
  assumes "e = loadDotEnv file env"
  shows "(\<forall>k v. env k = Some v \<longrightarrow> e k = Some v) \<and>
    ((\<exists>c. Load_config frac o1 o2 file env = Inr c) \<longleftrightarrow>
       (\<forall>v. getenv e ''APP_ENV'' = Some v \<longrightarrow> v = ''development'' \<or> v = ''staging'' \<or> v = ''production'') \<and>
       getenv e ''S3_ACCESS_KEY'' \<noteq> None \<and> getenv e ''S3_SECRET_KEY'' \<noteq> None \<and>
       (\<forall>v d. getenv e ''SESSION_TTL'' = Some v \<and> parse_duration frac v = Some d \<longrightarrow> 0 < d) \<and>
       (e ''APP_ENV'' = Some ''production'' \<longrightarrow>
          getenv e ''DB_PASSWORD'' \<noteq> None \<and>
          getenv e ''DB_SSLMODE'' \<noteq> None \<and> e ''DB_SSLMODE'' \<noteq> Some ''disable'' \<and>
          says_true (e ''S3_USE_SSL'') \<and> says_true (e ''SESSION_COOKIE_SECURE'') \<and>
          (\<forall>v. e ''ALLOWED_ORIGINS'' = Some v \<longrightarrow>
             (\<exists>p\<in>set (split_at_char CHR '','' v). trim_space p \<noteq> []) \<and>
             (\<forall>p\<in>set (split_at_char CHR '','' v). trim_space p \<noteq> ''*'')))) \<and>
    (\<forall>c. Load_config frac o1 o2 file env = Inr c \<and> e ''APP_ENV'' = Some ''production'' \<longrightarrow>
       e ''DB_PASSWORD'' = Some (dc_password (cf_db c)) \<and>
       e ''DB_SSLMODE'' = Some (dc_sslmode (cf_db c)) \<and>
       ac_cookie_secure (cf_auth c) \<and> s3_use_ssl (cf_s3 c) \<and> 0 < ac_session_ttl (cf_auth c) \<and>
       ac_allowed_origins (cf_auth c) \<noteq> [] \<and> ''*'' \<notin> set (ac_allowed_origins (cf_auth c)) \<and>
       (e ''ALLOWED_ORIGINS'' = None \<longrightarrow>
          ac_allowed_origins (cf_auth c) = [''http://localhost:5173'', ''http://localhost:4173''])) \<and>
    (\<forall>access secret. access \<noteq> [] \<and> secret \<noteq> [] \<longrightarrow>
       Load_config frac o1 o2 None [''S3_ACCESS_KEY'' \<mapsto> access, ''S3_SECRET_KEY'' \<mapsto> secret] =
         Inr (documented_defaults access secret))"
proof -
  have 1: "\<forall>k v. env k = Some v \<longrightarrow> e k = Some v" by (simp add: assms loadDotEnv_keeps)
  have 2: "(\<exists>c. Load_config frac o1 o2 file env = Inr c) \<longleftrightarrow> startable frac e"
    by (simp add: Load_config_Inr assms)
  note 3 = production_values [of frac o1 o2 "file" env, folded assms]
  have 4: "Load_config frac o1 o2 None [''S3_ACCESS_KEY'' \<mapsto> access, ''S3_SECRET_KEY'' \<mapsto> secret] =
      Inr (documented_defaults access secret)" if "access \<noteq> []" "secret \<noteq> []" for access secret
    using config_of_unset [OF that, of frac o1 o2] that
    by (simp add: Load_config_Inr loadDotEnv_def startable_iff getenv_def)
  show ?thesis
    by (intro conjI; (rule 1 | rule 2 [unfolded startable_iff] | use 3 in blast | use 4 in blast))
qed

text \<open>A production environment without \<open>ALLOWED_ORIGINS\<close>, and its \<open>.env\<close> file, which does not count.\<close>

definition demo_production :: environment where
  "demo_production = [''APP_ENV'' \<mapsto> ''production'', ''S3_ACCESS_KEY'' \<mapsto> ''k'', ''S3_SECRET_KEY'' \<mapsto> ''s'',
     ''DB_PASSWORD'' \<mapsto> ''p'', ''DB_SSLMODE'' \<mapsto> ''require'', ''S3_USE_SSL'' \<mapsto> ''true'',
     ''SESSION_COOKIE_SECURE'' \<mapsto> ''1'']"

theorem Load_config_decides_witness:
  "\<exists>c. Load_config (\<lambda>_ _ _. 0) [] [] None demo_production = Inr c \<and> ac_cookie_secure (cf_auth c) \<and>
     ac_allowed_origins (cf_auth c) = [''http://localhost:5173'', ''http://localhost:4173'']"
proof -
  have e: "demo_production = loadDotEnv None demo_production" by (simp add: loadDotEnv_def)
  note decides = Load_config_decides [OF e, of "\<lambda>_ _ _. 0" "[]" "[]"]
  obtain c where c: "Load_config (\<lambda>_ _ _. 0) [] [] None demo_production = Inr c"
    using decides [THEN conjunct2, THEN conjunct1]
    by (auto simp: demo_production_def getenv_def says_true_def)
  have "demo_production ''APP_ENV'' = Some ''production''" "demo_production ''ALLOWED_ORIGINS'' = None"
    by (simp_all add: demo_production_def)
  then show ?thesis
    using c decides [THEN conjunct2, THEN conjunct2, THEN conjunct1, rule_format, of c] by simp
qed

section \<open>What it refuses\<close>

lemma in_problem_if [simp]: "q \<in> set (problem_if b p) \<longleftrightarrow> b \<and> q = p"
  by (auto simp: problem_if_def)

lemma not_in_production:
  "NoDbName \<notin> set (validate_production c)" "NoDbUser \<notin> set (validate_production c)"
  "NoSslMode \<notin> set (validate_production c)" "NoStorage \<notin> set (validate_production c)"
  by (auto simp: validate_production_def)

lemma Load_config_problems:
  assumes "Load_config frac o1 o2 file env = Inl ps"
  shows "ps \<noteq> [] \<and> set ps \<inter> {NoDbName, NoDbUser, NoSslMode, NoStorage} = {}"
proof -
  have "ps \<noteq> []" and "ps = validate (config_of frac o1 o2 (loadDotEnv file env))"
    using assms by (auto simp: Load_config_def Let_def split: if_splits)
  then show ?thesis by (simp add: validate_def not_in_production if_distrib [of set])
qed

text \<open>Only the two byte sizes can depend on the order of the map.\<close>

lemma Load_config_orders:
  assumes "Load_config frac o1 o2 file env = Inr c"
  obtains d where "Load_config frac p1 p2 file env = Inr d"
    and "d\<lparr>cf_body_limit := cf_body_limit c, cf_evidence_upload_limit := cf_evidence_upload_limit c\<rparr> = c"
proof
  show "Load_config frac p1 p2 file env = Inr (config_of frac p1 p2 (loadDotEnv file env))"
    using assms by (simp add: Load_config_Inr)
  show "(config_of frac p1 p2 (loadDotEnv file env))
      \<lparr>cf_body_limit := cf_body_limit c, cf_evidence_upload_limit := cf_evidence_upload_limit c\<rparr> = c"
    using assms by (simp add: Load_config_Inr config_of_def)
qed

section \<open>Trimming text without white space\<close>

definition visible :: "char \<Rightarrow> bool" where
  "visible c = (33 \<le> (of_char c :: nat) \<and> (of_char c :: nat) < 128)"

lemma strip_prefix_hd: "p \<noteq> [] \<Longrightarrow> hd p \<noteq> c \<Longrightarrow> strip_prefix p (c # s) = None"
  by (cases p) auto

lemma strip_any_hd: "\<forall>p\<in>set ps. p \<noteq> [] \<and> hd p \<noteq> c \<Longrightarrow> strip_any ps (c # s) = None"
  by (induction ps) (auto simp: strip_prefix_hd)

lemma trim_front_hd: "\<forall>p\<in>set ps. p \<noteq> [] \<and> hd p \<noteq> c \<Longrightarrow> trim_front ps (c # s) = c # s"
  by (subst trim_front.simps) (simp add: strip_any_hd)

lemma space_heads:
  "visible c \<Longrightarrow> \<forall>p\<in>set space_encodings. p \<noteq> [] \<and> hd p \<noteq> c"
  "visible c \<Longrightarrow> \<forall>p\<in>set (map rev space_encodings). p \<noteq> [] \<and> hd p \<noteq> c"
  by (auto simp: space_encodings_def visible_def)

lemma trim_space_plain:
  assumes "s \<noteq> []" and "visible (hd s)" and "visible (last s)"
  shows "trim_space s = s"
proof -
  have 1: "trim_front space_encodings s = s"
    using trim_front_hd [OF space_heads(1) [OF assms(2)], of "tl s"] assms(1) by simp
  have "rev s = last s # tl (rev s)"
    using assms(1) by (metis hd_rev list.collapse rev_is_Nil_conv)
  then have "trim_front (map rev space_encodings) (rev s) = rev s"
    using trim_front_hd [OF space_heads(2) [OF assms(3)], of "tl (rev s)"] by metis
  then show ?thesis by (simp add: trim_space_def 1)
qed

lemma visible_digit: "digit_val c \<noteq> None \<Longrightarrow> visible c \<and> upper_char c = c"
  by (auto simp: digit_val_def visible_def upper_char_def Let_def split: if_splits)

lemma decimal_ends: "visible (hd (decimal n))" "visible (last (decimal n))"
  using visible_digit [OF decimal_digits, of _ n] by simp_all

lemma upper_decimal [simp]: "to_upper (decimal n) = decimal n"
  unfolding to_upper_def by (rule map_idI) (use visible_digit [OF decimal_digits] in blast)

section \<open>Byte sizes\<close>

text \<open>
  A number with the unit \<open>KB\<close>, \<open>MB\<close> or \<open>GB\<close> also ends in \<open>B\<close>: when the map's iteration reaches \<open>B\<close>
  first, what is left before it is no number and the default is taken.
\<close>

lemma unit_suffix:
  assumes "(u, m) \<in> set size_suffixes" and "u \<noteq> ''B''" and "(suf, k) \<in> set size_suffixes"
  shows "has_suffix_of suf (d @ u) \<longleftrightarrow> suf = u \<or> suf = ''B''"
  using assms by (auto simp: size_suffixes_def has_suffix_of_def)

lemma unit_ends:
  assumes "(u, m) \<in> set size_suffixes" and "u \<noteq> ''B''"
  shows "\<exists>x. u = [x, CHR ''B''] \<and> visible x \<and> digit_val x = None \<and> upper_char x = x \<and> 1 \<le> m"
proof -
  have "(u, m) \<in> {(''KB'', 1024), (''MB'', 1048576), (''GB'', 1073741824)}"
    using assms by (auto simp: size_suffixes_def)
  then show ?thesis
    by (elim insertE emptyE) (simp_all add: visible_def digit_val_def upper_char_def)
qed

lemma parse_int_bad: "digit_val x = None \<Longrightarrow> parse_int (decimal n @ [x]) = None"
proof -
  assume x: "digit_val x = None"
  have sign: "digit_val CHR ''-'' = None" "digit_val CHR ''+'' = None" by (simp_all add: digit_val_def)
  obtain c r where cr: "decimal n = c # r" by (cases "decimal n") auto
  then have "digit_val c \<noteq> None" using decimal_digits [of c n] by simp
  then have "c \<noteq> CHR ''-''" "c \<noteq> CHR ''+''" using sign by auto
  moreover have "digits_val (c # r @ [x]) 0 = None"
    using x digits_val_append [of "decimal n" "[x]" 0] digits_val_decimal [of n]
    unfolding cr append_Cons [symmetric] by simp
  ultimately show ?thesis by (simp add: parse_int_def cr)
qed

lemma find_cong2: "(\<And>x. x \<in> set xs \<Longrightarrow> P x = Q x) \<Longrightarrow> List.find P xs = List.find Q xs"
  by (induction xs) auto

lemma getSize_unit:
  assumes order: "set order = set size_suffixes" and u: "(u, m) \<in> set size_suffixes" "u \<noteq> ''B''"
    and env: "env key = Some (decimal n @ u)" and n: "0 < n" "int n * m \<le> max_int64"
  shows "getSize order env key def =
    (if List.find (\<lambda>(suf, m). suf = u \<or> suf = ''B'') order = Some (u, m) then int n * m else def)"
proof -
  define Q where "Q = (\<lambda>(suf :: string, m :: int). suf = u \<or> suf = ''B'')"
  obtain x where x: "u = [x, CHR ''B'']" "visible x" "digit_val x = None" "upper_char x = x" "1 \<le> m"
    using unit_ends [OF u] by blast
  have up: "to_upper (decimal n @ u) = decimal n @ u"
    using x upper_decimal [of n] by (simp add: to_upper_def upper_char_def)
  have ts: "trim_space (decimal n @ u) = decimal n @ u"
    using decimal_ends x(1) by (intro trim_space_plain) (simp_all add: visible_def)
  have find: "List.find (\<lambda>(suf, m). has_suffix_of suf (decimal n @ u)) order = List.find Q order"
    unfolding Q_def using unit_suffix [OF u] order by (intro find_cong2) auto
  have "List.find Q order \<noteq> None" using u order by (auto simp: find_None_all Q_def)
  then obtain suf k where sk: "List.find Q order = Some (suf, k)" by auto
  then have mem: "(suf, k) \<in> set size_suffixes" "suf = u \<or> suf = ''B''"
    using find_Some_iff2 [OF sk] order by (auto simp: Q_def)
  have eq: "getSize order env key def =
      (case parse_int (trim_space (trim_suffix suf (decimal n @ u))) of None \<Rightarrow> def
       | Some i \<Rightarrow> if i \<le> 0 then def else wrap64 (i * k))"
    using env x(1) unfolding getSize_def getenv_def by (simp add: up [unfolded x(1)] ts [unfolded x(1)]
      find [unfolded x(1)] sk)
  show ?thesis
  proof (cases "suf = u")
    case True
    then have "k = m" using mem(1) u by (auto simp: size_suffixes_def)
    have "int n \<le> int n * m" using x(5) by (simp add: mult_le_cancel_left1)
    then have "parse_int (decimal n) = Some (int n)" using n(2) by simp
    moreover have "trim_space (decimal n) = decimal n"
      using decimal_ends by (intro trim_space_plain) simp_all
    moreover have "wrap64 (int n * m) = int n * m"
      using n x(5) by (intro wrap64_id) (simp_all add: min_int64_def order_trans [of _ 0])
    ultimately show ?thesis
      using n(1) sk \<open>k = m\<close> by (simp add: eq True Q_def [symmetric])
  next
    case False
    then have "suf = ''B''" using mem(2) by simp
    have "trim_suffix ''B'' (decimal n @ u) = decimal n @ [x]"
      using suffix_append(2) [of "''B''" "decimal n @ [x]"] by (simp add: x(1))
    moreover have "trim_space (decimal n @ [x]) = decimal n @ [x]"
      using decimal_ends x(2) by (intro trim_space_plain) simp_all
    ultimately have "getSize order env key def = def"
      using parse_int_bad [OF x(3)] by (simp add: eq \<open>suf = ''B''\<close>)
    then show ?thesis using False sk by (simp add: Q_def [symmetric])
  qed
qed

end
