(* ===== verification/PasswordLaws.thy ===== *)
theory PasswordLaws
  imports Password ConfigLaws AccessLaws
begin

text \<open>
  What \<open>password.go\<close> guarantees: base64 decodes what it encoded, a hash verifies against its own
  password and needs no rehash, and a changed password is the one that logs in.
\<close>

section \<open>Base64\<close>

lemma byte_val_less: "byte_val c < 256"
  by (simp add: byte_val_def)

lemma char_of_byte_val [simp]: "char_of (byte_val c) = c"
  by (simp add: byte_val_def)

lemma b64_distinct: "distinct b64_alphabet"
  by code_simp

lemma b64_length [simp]: "length b64_alphabet = 64"
  by (simp add: b64_alphabet_def)

lemma takeWhile_index:
  assumes "distinct xs" and "i < length xs"
  shows "takeWhile (\<lambda>a. a \<noteq> xs ! i) xs = take i xs"
  using assms by (intro takeWhile_eq_take_P_nth) (auto simp: nth_eq_iff_index_eq)

definition low6 :: "nat \<Rightarrow> nat" where "low6 n = n mod 64"

lemma b64_val_char [simp]: "b64_val (b64_char n) = Some (low6 n)"
  using takeWhile_index [OF b64_distinct, of "n mod 64"]
  by (simp add: b64_val_def b64_char_def Let_def low6_def)

lemma b64_char_in: "b64_char n \<in> set b64_alphabet"
  by (simp add: b64_char_def)

lemma b64_encode_set: "set (b64_encode s) \<subseteq> set b64_alphabet"
  by (induction s rule: b64_encode.induct) (auto simp: Let_def b64_char_in)

lemma b64_not_special:
  "CHR ''$'' \<notin> set b64_alphabet" "CHR 0x0D \<notin> set b64_alphabet" "CHR 0x0A \<notin> set b64_alphabet"
  by (simp_all add: b64_alphabet_def)

lemma six_bits:
  fixes n :: nat
  assumes "n < 16777216"
  shows "(n div 262144) mod 64 * 262144 + (n div 4096) mod 64 * 4096 + (n div 64) mod 64 * 64 + n mod 64 = n"
proof -
  have "n div 64 div 64 = n div 4096" "n div 4096 div 64 = n div 262144"
    by (simp_all add: div_mult2_eq [symmetric])
  then have "64 * (n div 262144) + n div 4096 mod 64 = n div 4096"
    "64 * (n div 4096) + n div 64 mod 64 = n div 64" "64 * (n div 64) + n mod 64 = n"
    by (metis mult_div_mod_eq)+
  moreover have "n div 262144 mod 64 = n div 262144" using assms by simp
  ultimately show ?thesis by linarith
qed

lemma char_of_low: "char_of (256 * k + m) = char_of (m :: nat)"
  by (subst char_of_mod_256 [symmetric]) simp

definition three :: "char \<Rightarrow> char \<Rightarrow> char \<Rightarrow> nat" where
  "three a b c = byte_val a * 65536 + byte_val b * 256 + byte_val c"

lemma three_less: "three a b c < 16777216"
  using byte_val_less [of a] byte_val_less [of b] byte_val_less [of c] unfolding three_def by linarith

lemma three_bytes:
  "char_of (three a b c div 65536) = a" "char_of (three a b c div 256) = b" "char_of (three a b c) = c"
proof -
  have "three a b c = 65536 * byte_val a + (256 * byte_val b + byte_val c)"
      "256 * byte_val b + byte_val c < 65536"
    using byte_val_less [of b] byte_val_less [of c] by (simp_all add: three_def)
  then have "three a b c div 65536 = byte_val a" by simp
  then show "char_of (three a b c div 65536) = a" by simp
  have "three a b c = 256 * (256 * byte_val a + byte_val b) + byte_val c"
    by (simp add: three_def)
  then have "three a b c div 256 = 256 * byte_val a + byte_val b" and
      "char_of (three a b c) = (char_of (byte_val c) :: char)"
    using byte_val_less [of c] by (simp, metis char_of_low)
  then show "char_of (three a b c div 256) = b" "char_of (three a b c) = c"
    by (simp_all add: char_of_low)
qed

lemma six_three:
  fixes a b c :: char
  defines "n \<equiv> three a b c"
  shows "low6 (n div 262144) * 262144 + low6 (n div 4096) * 4096 + low6 (n div 64) * 64 + low6 n = n"
  unfolding n_def low6_def by (rule six_bits [OF three_less])

lemma byte_val_zero [simp]: "byte_val CHR 0x00 = 0"
  by (simp add: byte_val_def)

lemma b64_encode_three:
  "b64_encode [a] = (let n = three a CHR 0x00 CHR 0x00 in [b64_char (n div 262144), b64_char (n div 4096)])"
  "b64_encode [a, b] = (let n = three a b CHR 0x00
     in [b64_char (n div 262144), b64_char (n div 4096), b64_char (n div 64)])"
  "b64_encode (a # b # c # s) = (let n = three a b c
     in [b64_char (n div 262144), b64_char (n div 4096), b64_char (n div 64), b64_char n] @ b64_encode s)"
  by (simp_all add: three_def)

lemma three_zero_mod:
  "low6 (three a CHR 0x00 CHR 0x00 div 64) = 0" "low6 (three a b CHR 0x00) = 0"
  by (simp_all add: three_def low6_def)

lemma b64_quanta_encode: "b64_quanta (map (\<lambda>c. the (b64_val c)) (b64_encode s)) = Some s"
proof (induction s rule: b64_encode.induct)
  case (2 a)
  then show ?case
    using six_three [of a "CHR 0x00" "CHR 0x00"] three_zero_mod three_bytes(1) [of a "CHR 0x00" "CHR 0x00"]
    by (simp add: b64_encode_three Let_def del: b64_encode.simps)
next
  case (3 a b)
  then show ?case
    using six_three [of a b "CHR 0x00"] three_zero_mod three_bytes [of a b "CHR 0x00"]
    by (simp add: b64_encode_three Let_def del: b64_encode.simps)
next
  case (4 a b c s)
  then show ?case
    using six_three [of a b c] three_bytes [of a b c]
    by (simp add: b64_encode_three Let_def del: b64_encode.simps)
qed simp

lemma b64_roundtrip: "b64_decode (b64_encode s) = Some s"
proof -
  have some: "b64_val c \<noteq> None" if "c \<in> set (b64_encode t)" for c t
    using that by (induction t rule: b64_encode.induct) (auto simp: Let_def)
  have line: "c \<noteq> CHR 0x0D \<and> c \<noteq> CHR 0x0A" if "c \<in> set (b64_encode t)" for c t
    using that b64_encode_set [of t] b64_not_special by blast
  have "filter (\<lambda>c. c \<noteq> CHR 0x0D \<and> c \<noteq> CHR 0x0A) (b64_encode s) = b64_encode s"
    using line by (simp add: filter_id_conv)
  moreover have "None \<notin> set (map b64_val (b64_encode s))"
    using some [of _ s] by (metis imageE set_map)
  ultimately show ?thesis
    using b64_quanta_encode [of s] by (simp add: b64_decode_def comp_def)
qed

section \<open>The parameters of a hash\<close>

lemma is_digit_takes:
  assumes "\<forall>c\<in>set ds. is_digit c" and "s = [] \<or> \<not> is_digit (hd s)"
  shows "takeWhile is_digit (ds @ s) = ds" "dropWhile is_digit (ds @ s) = s"
  using assms by (cases s; simp add: takeWhile_append2 dropWhile_append2)+

lemma scan_digits_decimal:
  "s = [] \<or> \<not> is_digit (hd s) \<Longrightarrow> scan_digits (decimal n @ s) = Some (n, s)"
  using is_digit_takes [of "decimal n" s] decimal_digits [of _ n]
  by (simp add: scan_digits_def is_digit_def)

lemma skip_plain: "visible c \<Longrightarrow> skip_space (c # s) = c # s"
  unfolding skip_space_def using space_heads(1) [of c] by (intro trim_front_hd) auto

lemma skip_decimal: "skip_space (decimal n @ s) = decimal n @ s"
proof -
  obtain c r where "decimal n = c # r" by (cases "decimal n") auto
  then show ?thesis using skip_plain decimal_ends(1) [of n] by simp
qed

lemma scan_uint_decimal:
  "n < 2 ^ bits \<Longrightarrow> s = [] \<or> \<not> is_digit (hd s) \<Longrightarrow> scan_uint bits (decimal n @ s) = Some (n, s)"
  by (simp add: scan_uint_def skip_decimal scan_digits_decimal)

lemma strip_prefix_front [simp]: "strip_prefix p (p @ s) = Some s"
  by (induction p) auto

lemma scan_version_decimal: "int n \<le> max_int64 \<Longrightarrow> scan_version (''v='' @ decimal n) = Some (int n)"
proof -
  assume n: "int n \<le> max_int64"
  obtain c r where cr: "decimal n = c # r" by (cases "decimal n") auto
  then have "digit_val c \<noteq> None" using decimal_digits [of c n] by simp
  then have "c \<noteq> CHR ''-''" "c \<noteq> CHR ''+''" by (auto simp: digit_val_def)
  then have "scan_int (decimal n) = Some (int n, [])"
    using n skip_decimal [of n "[]"] scan_digits_decimal [of "[]" n]
    by (simp add: scan_int_def cr min_int64_def)
  then show ?thesis unfolding scan_version_def strip_prefix_front by simp
qed

lemma scan_params_decimal:
  assumes "m < 2 ^ 32" and "t < 2 ^ 32" and "p < 2 ^ 8"
  shows "scan_params (''m='' @ decimal m @ '',t='' @ decimal t @ '',p='' @ decimal p) = Some (m, t, p)"
proof -
  have comma: "\<not> is_digit CHR '',''" by (simp add: is_digit_def digit_val_def)
  have "scan_uint 32 (decimal k @ '','' @ s) = Some (k, '','' @ s)" if "k < 2 ^ 32" for k s
    using that comma by (simp add: scan_uint_decimal)
  note scans = this [OF assms(1), of "''t='' @ s" for s] this [OF assms(2), of "''p='' @ s" for s]
  have "scan_uint 8 (decimal p) = Some (p, [])" using scan_uint_decimal [of p 8 "[]"] assms(3) by simp
  then show ?thesis
    unfolding scan_params_def strip_prefix_front using scans
    by (simp only: append_Cons append_Nil option.case prod.case strip_prefix_front
        strip_prefix.simps if_True refl simp_thms)
qed

section \<open>A hash verifies against its own password\<close>

lemma phc_parts:
  "split_at_char CHR ''$'' (phc salt key) =
     [[], ''argon2id'', ''v='' @ decimal argonVersion,
      ''m='' @ decimal argonMemory @ '',t='' @ decimal argonTime @ '',p='' @ decimal argonThreads,
      b64_encode salt, b64_encode key]"
proof -
  have dollar: "CHR ''$'' \<notin> set (decimal n)" for n by (simp add: digit_val_def)
  have b64: "CHR ''$'' \<notin> set (b64_encode t)" for t
    using b64_encode_set [of t] b64_not_special(1) by blast
  define M where "M = ''m='' @ decimal argonMemory @ '',t='' @ decimal argonTime @ '',p='' @ decimal argonThreads"
  define V where "V = ''v='' @ decimal argonVersion"
  have "phc salt key = [] @ CHR ''$'' # ''argon2id'' @ CHR ''$'' # V @ CHR ''$'' # M @ CHR ''$'' #
      b64_encode salt @ CHR ''$'' # b64_encode key"
    by (simp add: phc_def M_def V_def)
  moreover have "CHR ''$'' \<notin> set V" "CHR ''$'' \<notin> set M" using dollar by (simp_all add: V_def M_def)
  ultimately show ?thesis
    using b64 unfolding M_def [symmetric] V_def [symmetric]
    by (simp only: split_append split_no_sep list.set empty_iff insert_iff char.inject simp_thms)
qed

text \<open>What the documentation of \<open>IDKey\<close> promises: a key of \<open>keyLen\<close> bytes.\<close>

definition key_lengths :: "argon2 \<Rightarrow> bool" where
  "key_lengths idkey \<longleftrightarrow> (\<forall>p s t m k n key. idkey p s t m k n = Some key \<longrightarrow> length key = n)"

lemma HashPassword_verifies:
  assumes hash: "HashPassword idkey rand password = Inr encoded"
    and len: "key_lengths idkey"
  obtains salt key where "rand = Some salt"
    and "idkey password salt argonTime argonMemory argonThreads argonKeyLen = Some key"
    and "\<And>other. VerifyPassword idkey other encoded =
      (case idkey other salt argonTime argonMemory argonThreads argonKeyLen of
         None \<Rightarrow> Inl HashPanics | Some got \<Rightarrow> Inr (got = key, False))"
proof -
  obtain salt key where r: "rand = Some salt" "encoded = phc salt key"
      and k: "idkey password salt argonTime argonMemory argonThreads argonKeyLen = Some key"
    using hash by (auto simp: HashPassword_def split: if_splits option.splits)
  have v: "scan_version (''v='' @ decimal argonVersion) = Some (int argonVersion)"
    by (rule scan_version_decimal) (simp add: argonVersion_def max_int64_def)
  have p: "scan_params (''m='' @ decimal argonMemory @ '',t='' @ decimal argonTime @ '',p='' @
      decimal argonThreads) = Some (argonMemory, argonTime, argonThreads)"
    by (rule scan_params_decimal) (simp_all add: argonMemory_def argonTime_def argonThreads_def)
  have "length key mod 2 ^ 32 = argonKeyLen" using len k by (auto simp: key_lengths_def argonKeyLen_def)
  then show ?thesis
    using v p by (intro that [OF r(1) k])
      (simp add: VerifyPassword_def r(2) phc_parts b64_roundtrip Let_def split: option.split)
qed

text \<open>
  C24. A password that was hashed verifies against its hash and asks for no new one; any other password
  verifies exactly when Argon2 gives it the same key under the salt of the hash.
\<close>

theorem HashPassword_roundtrip:
  assumes "HashPassword idkey rand password = Inr encoded"
    and "key_lengths idkey"
  shows "VerifyPassword idkey password encoded = Inr (True, False) \<and>
    (\<exists>salt. rand = Some salt \<and> (\<forall>other ok rehash. VerifyPassword idkey other encoded = Inr (ok, rehash) \<longrightarrow>
      \<not> rehash \<and> (ok \<longleftrightarrow> idkey other salt argonTime argonMemory argonThreads argonKeyLen =
        idkey password salt argonTime argonMemory argonThreads argonKeyLen)))"
proof (rule HashPassword_verifies [OF assms])
  fix salt key
  assume rand: "rand = Some salt"
    and key: "idkey password salt argonTime argonMemory argonThreads argonKeyLen = Some key"
    and ver: "\<And>other. VerifyPassword idkey other encoded =
      (case idkey other salt argonTime argonMemory argonThreads argonKeyLen of
         None \<Rightarrow> Inl HashPanics | Some got \<Rightarrow> Inr (got = key, False))"
  then show ?thesis by (auto simp: ver key split: option.splits)
qed

definition demo_idkey :: argon2 where
  "demo_idkey p s t m k n = (if 1 \<le> t \<and> 1 \<le> k then Some (take n (p @ s @ replicate n CHR ''.'')) else None)"

lemma demo_key_lengths: "key_lengths demo_idkey"
  by (auto simp: key_lengths_def demo_idkey_def min_def split: if_splits)

theorem HashPassword_roundtrip_witness:
  "\<exists>encoded. HashPassword demo_idkey (Some ''0123456789abcdef'') ''secret'' = Inr encoded \<and>
     VerifyPassword demo_idkey ''secret'' encoded = Inr (True, False)"
proof -
  obtain encoded where h: "HashPassword demo_idkey (Some ''0123456789abcdef'') ''secret'' = Inr encoded"
    by (simp add: HashPassword_def demo_idkey_def argonTime_def argonThreads_def)
  show ?thesis using h HashPassword_roundtrip [OF h demo_key_lengths] by blast
qed

section \<open>A changed password logs in\<close>

text \<open>The password functions the services are given.\<close>

definition argon_env :: "argon2 \<Rightarrow> string option \<Rightarrow> password_env" where
  "argon_env idkey rand =
     \<lparr>pw_verify = (\<lambda>p h. case VerifyPassword idkey p h of Inr r \<Rightarrow> Some r | Inl _ \<Rightarrow> None),
      pw_hash = (\<lambda>p. case HashPassword idkey rand p of Inr h \<Rightarrow> Some h | Inl _ \<Rightarrow> None)\<rparr>"

lemma find_kept: "(\<And>r. p (f r) = p r) \<Longrightarrow> List.find p (map f t) = map_option f (List.find p t)"
  by (induction t) auto

lemma ChangePassword_Inr:
  assumes "ChangePassword pw (Some a) current new db = (db', Inr ())"
  obtains r h b where "find_user (ac_id a) db = Some r" and "pw_verify pw current (us_password_hash r) = Some (True, b)"
    and "pw_hash pw new = Some h" and "8 \<le> length new"
    and "db' = set_user (ac_id a) (\<lambda>r. r\<lparr>us_password_hash := h\<rparr>) db"
  using assms
  by (auto simp: ChangePassword_def Let_def split: if_splits option.splits prod.splits bool.splits)

lemma user_by_email_set_hash:
  assumes "user_by_email email db = Some r" and "unique_on us_id (db_users db)"
  shows "user_by_email email (set_user (us_id r) (\<lambda>r. r\<lparr>us_password_hash := h\<rparr>) db) =
    Some (r\<lparr>us_password_hash := h\<rparr>)"
  using assms
  by (simp add: user_by_email_def set_user_def set_by_key_def update_where_def find_kept)

lemma Login_active:
  assumes "user_by_email email db = Some u" and "us_status u = AccActive"
    and "pw_verify pw password (us_password_hash u) = Some (True, False)"
    and "sid \<notin> ss_id ` set (db_sessions db)" and "sha token \<notin> ss_token_hash ` set (db_sessions db)"
  shows "\<exists>db'. Login sha pw ck ttl sid token csrf email password db = (db', Inr (auth_user_of u, ck_now ck + ttl))"
proof -
  obtain db2 where "Create_session sha ck ttl sid (us_id u) token csrf db = Inr db2"
    using assms(4,5) by (auto simp: Create_session_Inr)
  then show ?thesis using assms(1-3) by (simp add: Login_def)
qed

text \<open>
  C23. After a password change, the new password logs the account in as long as it is active, and the
  old one no longer does, unless Argon2 gives both the same key.
\<close>

theorem changed_password_logs_in:
  assumes change: "ChangePassword (argon_env idkey rand) (Some a) current new db = (db', Inr ())"
    and len: "key_lengths idkey"
    and u: "user_by_email email db = Some u" "us_id u = ac_id a" "us_status u = AccActive"
    and uniq: "unique_on us_id (db_users db)"
    and fresh: "sid \<notin> ss_id ` set (db_sessions db)" "sha token \<notin> ss_token_hash ` set (db_sessions db)"
  shows "(\<exists>db''. Login sha (argon_env idkey rand') ck ttl sid token csrf email new db' =
      (db'', Inr (auth_user_of u, ck_now ck + ttl))) \<and>
    (\<exists>salt. rand = Some salt \<and>
      (idkey current salt argonTime argonMemory argonThreads argonKeyLen \<noteq>
       idkey new salt argonTime argonMemory argonThreads argonKeyLen \<longrightarrow>
       Login sha (argon_env idkey rand') ck ttl sid token csrf email current db' =
         (db', Inl ErrInvalidCredentials)))"
proof (rule ChangePassword_Inr [OF change])
  fix r h b
  assume h: "pw_hash (argon_env idkey rand) new = Some h"
    and db': "db' = set_user (ac_id a) (\<lambda>r. r\<lparr>us_password_hash := h\<rparr>) db"
  have hash: "HashPassword idkey rand new = Inr h" using h by (simp add: argon_env_def split: sum.splits)
  have u': "user_by_email email db' = Some (u\<lparr>us_password_hash := h\<rparr>)"
    using user_by_email_set_hash [OF u(1) uniq] u(2) by (simp add: db')
  show ?thesis
  proof (rule HashPassword_verifies [OF hash len])
    fix salt key
    assume rand: "rand = Some salt"
      and key: "idkey new salt argonTime argonMemory argonThreads argonKeyLen = Some key"
      and ver: "\<And>other. VerifyPassword idkey other h =
        (case idkey other salt argonTime argonMemory argonThreads argonKeyLen of
           None \<Rightarrow> Inl HashPanics | Some got \<Rightarrow> Inr (got = key, False))"
    have "\<exists>db''. Login sha (argon_env idkey rand') ck ttl sid token csrf email new db' =
        (db'', Inr (auth_user_of (u\<lparr>us_password_hash := h\<rparr>), ck_now ck + ttl))"
      using u' u(3) fresh
      by (intro Login_active) (simp_all add: argon_env_def ver key db' set_user_def)
    moreover have "auth_user_of (u\<lparr>us_password_hash := h\<rparr>) = auth_user_of u" by (simp add: auth_user_of_def)
    moreover have "Login sha (argon_env idkey rand') ck ttl sid token csrf email current db' =
        (db', Inl ErrInvalidCredentials)"
      if "idkey current salt argonTime argonMemory argonThreads argonKeyLen \<noteq>
        idkey new salt argonTime argonMemory argonThreads argonKeyLen"
      using that u' by (auto simp: Login_def argon_env_def ver key split: option.splits)
    ultimately show ?thesis using rand by auto
  qed
qed

definition demo_actor :: auth_user where
  "demo_actor = \<lparr>ac_id = 10, ac_email = ''t@x'', ac_role = RTrainee, ac_status = AccActive, ac_name = ''T''\<rparr>"

theorem changed_password_logs_in_witness:
  "\<exists>db db' db''.
     ChangePassword (argon_env demo_idkey (Some ''0123456789abcdef'')) (Some demo_actor) ''oldsecret'' ''newsecret'' db =
       (db', Inr ()) \<and>
     Login (\<lambda>x. x) (argon_env demo_idkey None) (demo_clock 0) 100 70 ''tok'' ''csrf'' ''T@X'' ''newsecret'' db' =
       (db'', Inr (demo_actor, 100)) \<and>
     Login (\<lambda>x. x) (argon_env demo_idkey None) (demo_clock 0) 100 70 ''tok'' ''csrf'' ''T@X'' ''oldsecret'' db' =
       (db', Inl ErrInvalidCredentials)"
proof -
  define rand where "rand = Some ''0123456789abcdef''"
  obtain h0 where h0: "HashPassword demo_idkey rand ''oldsecret'' = Inr h0"
    by (simp add: HashPassword_def demo_idkey_def argonTime_def argonThreads_def rand_def)
  obtain h1 where h1: "HashPassword demo_idkey rand ''newsecret'' = Inr h1"
    by (simp add: HashPassword_def demo_idkey_def argonTime_def argonThreads_def rand_def)
  have old: "VerifyPassword demo_idkey ''oldsecret'' h0 = Inr (True, False)"
    by (rule HashPassword_verifies [OF h0 demo_key_lengths]) simp
  define u where "u = \<lparr>us_id = 10, us_email = ''t@x'', us_password_hash = h0, us_role = RTrainee,
    us_status = AccActive, us_display_name = ''T'', us_last_login = None\<rparr>"
  define db where "db = demo_db\<lparr>db_users := [u]\<rparr>"
  have mail: "to_lower ''T@X'' = ''t@x''" "to_lower ''t@x'' = ''t@x''" by code_simp+
  have user: "user_by_email ''T@X'' db = Some u" "us_id u = ac_id demo_actor" "us_status u = AccActive"
      "auth_user_of u = demo_actor" "find_user 10 db = Some u"
    by (simp_all add: user_by_email_def db_def u_def mail demo_actor_def auth_user_of_def find_user_def by_key_def)
  obtain db' where change: "ChangePassword (argon_env demo_idkey rand) (Some demo_actor) ''oldsecret'' ''newsecret'' db =
      (db', Inr ())"
    using user(5) h1 old
    by (simp add: ChangePassword_def demo_actor_def argon_env_def u_def)
  have "demo_idkey ''oldsecret'' s 2 m 2 32 \<noteq> demo_idkey ''newsecret'' s 2 m 2 32" for s m
    by (simp add: demo_idkey_def)
  then show ?thesis
    using changed_password_logs_in [OF change demo_key_lengths user(1-3), of 70 "\<lambda>x. x" "''tok''" None
        "demo_clock 0" 100 "''csrf''"] change
    by (auto simp: user(4) db_def unique_on_def demo_db_defs rand_def argonTime_def argonThreads_def
        argonKeyLen_def demo_clock_def)
qed

end
