(* ===== verification/Storage.thy ===== *)
theory Storage
  imports Config Evidence
begin

text \<open>
  The two services the process connects to: the pool of \<open>internal/platform/db/db.go\<close>, and the clients
  and operations of \<open>internal/platform/storage/s3.go\<close>, whose \<open>Put\<close> and \<open>Delete\<close> are \<open>store_put\<close> and
  \<open>store_delete\<close> of the theory of evidence. \<open>new_client endpoint secure region access secret\<close> is
  \<open>minio.New\<close> and \<open>presign client bucket key ttl\<close> its offline signature, both \<open>None\<close> on an error.
\<close>

section \<open>The database pool\<close>

text \<open>
  \<open>NewPool\<close> of \<open>platform/db/db.go\<close>: \<open>parse\<close> accepts or refuses the connection string, \<open>dial\<close> and \<open>ping\<close>
  tell whether the pool opens and answers. A pool that does not answer is closed again.
\<close>

record pool_config =
  po_dsn :: string
  po_max_conns :: int
  po_min_conns :: int
  po_max_lifetime :: int
  po_max_idle :: int
  po_connect_timeout :: int

definition NewPool ::
  "(string \<Rightarrow> bool) \<Rightarrow> (pool_config \<Rightarrow> bool) \<Rightarrow> (pool_config \<Rightarrow> bool) \<Rightarrow> db_config \<Rightarrow> pool_config option" where
  "NewPool parse dial ping cfg =
     (if \<not> parse (DSN cfg) then None
      else
        let pc = \<lparr>po_dsn = DSN cfg, po_max_conns = dc_max_conns cfg, po_min_conns = dc_min_conns cfg,
              po_max_lifetime = dc_max_conn_lifetime cfg, po_max_idle = dc_max_conn_idle_time cfg,
              po_connect_timeout = 10 * second\<rparr>
        in if \<not> dial pc then None else if \<not> ping pc then None else Some pc)"

section \<open>The object store\<close>

record 'c s3_store =
  so_client :: 'c
  so_presign :: 'c
  so_bucket :: string
  so_ttl :: int

type_synonym 'c minio_new = "string \<Rightarrow> bool \<Rightarrow> string option \<Rightarrow> string \<Rightarrow> string \<Rightarrow> 'c option"

definition NewS3 :: "'c minio_new \<Rightarrow> s3_config \<Rightarrow> 'c s3_store option" where
  "NewS3 new_client cfg =
     (case new_client (s3_endpoint cfg) (s3_use_ssl cfg) None (s3_access_key cfg) (s3_secret_key cfg) of
        None \<Rightarrow> None
      | Some client \<Rightarrow>
          (case (if s3_public_endpoint cfg \<noteq> []
                 then new_client (s3_public_endpoint cfg) (s3_public_ssl cfg) (Some ''us-east-1'')
                   (s3_access_key cfg) (s3_secret_key cfg)
                 else Some client) of
             None \<Rightarrow> None
           | Some signer \<Rightarrow> Some \<lparr>so_client = client, so_presign = signer, so_bucket = s3_bucket cfg,
               so_ttl = s3_presign_ttl cfg\<rparr>))"

text \<open>The buckets that exist, as the two calls see them; \<open>check_ok\<close> and \<open>make_ok\<close> are their fates.\<close>

definition EnsureBucket ::
  "bool \<Rightarrow> bool \<Rightarrow> 'c s3_store \<Rightarrow> string set \<Rightarrow> string set \<times> (go_error + unit)" where
  "EnsureBucket check_ok make_ok st buckets =
     (if \<not> check_ok then (buckets, Inl StorageFailed)
      else if so_bucket st \<in> buckets then (buckets, Inr ())
      else if \<not> make_ok then (buckets, Inl StorageFailed)
      else (insert (so_bucket st) buckets, Inr ()))"

definition PresignGet ::
  "('c \<Rightarrow> string \<Rightarrow> string \<Rightarrow> int \<Rightarrow> string option) \<Rightarrow> 'c s3_store \<Rightarrow> string \<Rightarrow> go_error + string" where
  "PresignGet presign st key =
     (case presign (so_presign st) (so_bucket st) key (so_ttl st) of
        None \<Rightarrow> Inl StorageFailed | Some u \<Rightarrow> Inr u)"

lemma EnsureBucket_twice:
  "EnsureBucket c m st bs = (bs', Inr ()) \<Longrightarrow> EnsureBucket True m' st bs' = (bs', Inr ())"
  by (auto simp: EnsureBucket_def split: if_splits)

end
