(* ===== verification/Commands.thy ===== *)
theory Commands
  imports Migrate PasswordLaws Storage Reminders Users
begin

text \<open>
  \<open>cmd/api/main.go\<close>: the commands of the binary. Exactly one of them runs, chosen by the flags in the
  order of the code, after the configuration, the database pool and the object store are set up.
  The HTTP server is the application of the theory \<open>App\<close>, here a parameter \<open>serve\<close>.
\<close>

section \<open>The initial administrator\<close>

datatype seed_error = SeedVariables | SeedHash hash_error | SeedInsert go_error

text \<open>
  \<open>INSERT ... ON CONFLICT (lower(email)) DO NOTHING\<close>: no row when the address is taken, which is no
  error. The result tells whether an account was created.
\<close>

definition admin_row :: "uuid \<Rightarrow> string \<Rightarrow> string \<Rightarrow> string \<Rightarrow> user_row" where
  "admin_row uid email hash name =
     \<lparr>us_id = uid, us_email = email, us_password_hash = hash, us_role = RAdmin,
      us_status = AccActive, us_display_name = name, us_last_login = None\<rparr>"

definition os_getenv :: "environment \<Rightarrow> string \<Rightarrow> string" where
  "os_getenv env key = (case env key of None \<Rightarrow> [] | Some v \<Rightarrow> v)"

definition seedAdminAccount ::
  "argon2 \<Rightarrow> string option \<Rightarrow> environment \<Rightarrow> uuid \<Rightarrow> database \<Rightarrow> database \<times> (seed_error + bool)" where
  "seedAdminAccount idkey rand env uid db =
     (let email = os_getenv env ''ADMIN_EMAIL'';
          password = os_getenv env ''ADMIN_PASSWORD'';
          name = os_getenv env ''ADMIN_NAME''
      in if email = [] \<or> password = [] then (db, Inl SeedVariables)
         else
           let name = (if name = [] then ''Administrator'' else name)
           in case HashPassword idkey rand password of
                Inl e \<Rightarrow> (db, Inl (SeedHash e))
              | Inr hash \<Rightarrow>
                  if list_ex (\<lambda>u. to_lower (us_email u) = to_lower email) (db_users db)
                  then (db, Inr False)
                  else case insert_user (admin_row uid email hash name) db of
                      Inl e \<Rightarrow> (db, Inl (SeedInsert e))
                    | Inr db' \<Rightarrow> (db', Inr True))"

section \<open>The commands\<close>

record flags =
  fl_migrate_up :: bool
  fl_migrate_down :: bool
  fl_seed_admin :: bool
  fl_reminders :: bool
  fl_health_check :: bool

record api_state =
  as_schema :: "database schema_state"
  as_buckets :: "string set"

text \<open>What the process meets: the environment, the two services, the embedded files, the clock.\<close>

record 'c api_world =
  aw_env :: environment
  aw_dotenv :: "string option"
  aw_frac :: "nat \<Rightarrow> nat \<Rightarrow> nat \<Rightarrow> nat"
  aw_order1 :: "(string \<times> int) list"
  aw_order2 :: "(string \<times> int) list"
  aw_parse :: "string \<Rightarrow> bool"
  aw_dial :: "pool_config \<Rightarrow> bool"
  aw_client :: "'c minio_new"
  aw_ready :: bool
  aw_files :: "(string \<times> string) list"
  aw_exec :: "string \<Rightarrow> database \<Rightarrow> database option"
  aw_commit :: "string \<Rightarrow> bool"
  aw_coll :: "string \<Rightarrow> string"
  aw_idkey :: argon2
  aw_rand :: "string option"
  aw_uid :: uuid
  aw_tzdb :: tzdb
  aw_ids :: "nat \<Rightarrow> uuid"
  aw_clock :: clock
  aw_db_up :: bool
  aw_store_up :: bool
  aw_make_ok :: bool

datatype exit_code = Exit0 | Exit1

definition exit_of :: "bool \<Rightarrow> exit_code" where
  "exit_of ok = (if ok then Exit0 else Exit1)"

definition run_up :: "'c api_world \<Rightarrow> api_state \<Rightarrow> api_state \<times> exit_code" where
  "run_up w st =
     (let (sch, _, err) = Up (aw_ready w) (aw_files w) (aw_exec w) (aw_commit w) (as_schema st)
      in (st\<lparr>as_schema := sch\<rparr>, exit_of (err = None)))"

definition run_down :: "'c api_world \<Rightarrow> api_state \<Rightarrow> api_state \<times> exit_code" where
  "run_down w st =
     (let (sch, r) = Down (aw_files w) (aw_exec w) (aw_commit w ''down'') (aw_coll w) (as_schema st)
      in (st\<lparr>as_schema := sch\<rparr>, exit_of (\<not> isl r)))"

definition on_data :: "(database \<Rightarrow> database \<times> ('e + 'a)) \<Rightarrow> api_state \<Rightarrow> api_state \<times> exit_code" where
  "on_data f st =
     (let (db, r) = f (mg_data (as_schema st))
      in (st\<lparr>as_schema := (as_schema st)\<lparr>mg_data := db\<rparr>\<rparr>, exit_of (\<not> isl r)))"

definition run_seed :: "'c api_world \<Rightarrow> api_state \<Rightarrow> api_state \<times> exit_code" where
  "run_seed w = on_data (seedAdminAccount (aw_idkey w) (aw_rand w) (loadDotEnv (aw_dotenv w) (aw_env w)) (aw_uid w))"

definition run_reminders :: "'c api_world \<Rightarrow> api_state \<Rightarrow> api_state \<times> exit_code" where
  "run_reminders w = on_data (\<lambda>db.
     RunReminders (aw_tzdb w) (aw_ids w) (aw_clock w) (aw_commit w ''reminders'') 12 db db)"

text \<open>In development the bucket is created; failing to only warns.\<close>

definition run_serve ::
  "'c api_world \<Rightarrow> (config \<Rightarrow> api_state \<Rightarrow> api_state \<times> bool) \<Rightarrow> config \<Rightarrow> 'c s3_store \<Rightarrow>
   api_state \<Rightarrow> api_state \<times> exit_code" where
  "run_serve w serve cfg store st =
     (let st1 = (if IsProduction cfg then st
            else st\<lparr>as_buckets := fst (EnsureBucket (aw_store_up w) (aw_make_ok w) store (as_buckets st))\<rparr>);
          (st2, ok) = serve cfg st1
      in (st2, exit_of ok))"

definition api_main ::
  "'c api_world \<Rightarrow> (config \<Rightarrow> api_state \<Rightarrow> api_state \<times> bool) \<Rightarrow> flags \<Rightarrow> api_state \<Rightarrow>
   api_state \<times> exit_code" where
  "api_main w serve fl st =
     (case Load_config (aw_frac w) (aw_order1 w) (aw_order2 w) (aw_dotenv w) (aw_env w) of
        Inl _ \<Rightarrow> (st, Exit1)
      | Inr cfg \<Rightarrow>
          if NewPool (aw_parse w) (aw_dial w) (\<lambda>_. aw_db_up w) (cf_db cfg) = None then (st, Exit1)
          else case NewS3 (aw_client w) (cf_s3 cfg) of
              None \<Rightarrow> (st, Exit1)
            | Some store \<Rightarrow>
                if fl_migrate_up fl then run_up w st
                else if fl_migrate_down fl then run_down w st
                else if fl_seed_admin fl then run_seed w st
                else if fl_reminders fl then run_reminders w st
                else if fl_health_check fl then (st, exit_of (aw_db_up w \<and> aw_store_up w))
                else run_serve w serve cfg store st)"

section \<open>What the commands guarantee\<close>

lemma seedAdminAccount_True:
  assumes "seedAdminAccount idkey rand env uid db = (db', Inr True)"
  obtains email password hash name where "env ''ADMIN_EMAIL'' = Some email" and "email \<noteq> []"
    and "env ''ADMIN_PASSWORD'' = Some password" and "password \<noteq> []"
    and "HashPassword idkey rand password = Inr hash"
    and "\<not> list_ex (\<lambda>u. to_lower (us_email u) = to_lower email) (db_users db)"
    and "uid \<notin> us_id ` set (db_users db)"
    and "db' = db\<lparr>db_users := db_users db @ [admin_row uid email hash name]\<rparr>"
proof -
  define e where "e = os_getenv env ''ADMIN_EMAIL''"
  define p where "p = os_getenv env ''ADMIN_PASSWORD''"
  define n where "n = (if os_getenv env ''ADMIN_NAME'' = [] then ''Administrator'' else os_getenv env ''ADMIN_NAME'')"
  have ne: "e \<noteq> []" "p \<noteq> []"
    using assms unfolding seedAdminAccount_def e_def p_def by (auto simp: Let_def)
  obtain h where h: "HashPassword idkey rand p = Inr h"
    using assms ne unfolding seedAdminAccount_def e_def [symmetric] p_def [symmetric]
    by (auto simp: Let_def split: sum.splits)
  have free: "\<not> list_ex (\<lambda>u. to_lower (us_email u) = to_lower e) (db_users db)"
    using assms ne h unfolding seedAdminAccount_def e_def [symmetric] p_def [symmetric]
    by (auto simp: Let_def)
  have "insert_user (admin_row uid e h n) db = Inr db'"
    using assms ne h free unfolding seedAdminAccount_def e_def [symmetric] p_def [symmetric]
    by (auto simp: Let_def n_def split: sum.splits)
  then have "uid \<notin> us_id ` set (db_users db)"
      "db' = db\<lparr>db_users := db_users db @ [admin_row uid e h n]\<rparr>"
    by (auto simp: insert_user_def insert_row_Inr taken_iff admin_row_def)
  moreover have "env ''ADMIN_EMAIL'' = Some e" "env ''ADMIN_PASSWORD'' = Some p"
    using ne by (auto simp: e_def p_def os_getenv_def split: option.splits)
  ultimately show ?thesis using that ne h free by blast
qed

lemma seedAdminAccount_again:
  assumes "seedAdminAccount idkey rand env uid db = (db', Inr b)"
    and "HashPassword idkey rand' (os_getenv env ''ADMIN_PASSWORD'') = Inr h"
  shows "seedAdminAccount idkey rand' env uid' db' = (db', Inr False)"
  using assms
  by (auto simp: seedAdminAccount_def Let_def insert_user_def insert_row_Inr admin_row_def
      split: sum.splits if_splits)

text \<open>
  C40. After \<open>--seed-admin\<close> reports a new account, that address and that password log in, as an active
  administrator, provided the address has no white space around it.
\<close>

theorem seeded_admin_logs_in:
  assumes seed: "seedAdminAccount idkey rand env uid db = (db', Inr True)"
    and len: "key_lengths idkey"
    and env: "env ''ADMIN_EMAIL'' = Some email" "env ''ADMIN_PASSWORD'' = Some password"
    and trim: "trim_space email = email"
    and fresh: "sid \<notin> ss_id ` set (db_sessions db)" "sha token \<notin> ss_token_hash ` set (db_sessions db)"
  shows "\<exists>db'' a. handle_Login sha (argon_env idkey rand') ck ttl sid token csrf (Some (email, password)) db' =
      (db'', Inr (a, ck_now ck + ttl)) \<and> ac_id a = uid \<and> ac_role a = RAdmin \<and> ac_status a = AccActive"
proof (rule seedAdminAccount_True [OF seed])
  fix email' password' hash name
  assume e: "env ''ADMIN_EMAIL'' = Some email'" "email' \<noteq> []"
    and p: "env ''ADMIN_PASSWORD'' = Some password'" "password' \<noteq> []"
    and hash: "HashPassword idkey rand password' = Inr hash"
    and free: "\<not> list_ex (\<lambda>u. to_lower (us_email u) = to_lower email') (db_users db)"
    and db': "db' = db\<lparr>db_users := db_users db @ [admin_row uid email' hash name]\<rparr>"
  define u where "u = admin_row uid email' hash name"
  have eq: "email' = email" "password' = password" using e p env by simp_all
  have "List.find (\<lambda>u. to_lower (us_email u) = to_lower email) (db_users db) = None"
    using free eq by (auto simp: find_None_all list_ex_iff)
  then have u: "user_by_email email db' = Some u" "us_status u = AccActive"
    by (simp_all add: user_by_email_def db' find_append u_def admin_row_def eq)
  have "VerifyPassword idkey password hash = Inr (True, False)"
    by (rule HashPassword_verifies [OF hash len]) (simp add: eq)
  then have "pw_verify (argon_env idkey rand') password (us_password_hash u) = Some (True, False)"
    by (simp add: argon_env_def u_def admin_row_def)
  then obtain db'' where login: "Login sha (argon_env idkey rand') ck ttl sid token csrf email password db' =
      (db'', Inr (auth_user_of u, ck_now ck + ttl))"
    using Login_active [OF u] fresh by (fastforce simp: db')
  have "auth_user_of u = \<lparr>ac_id = uid, ac_email = email', ac_role = RAdmin, ac_status = AccActive, ac_name = name\<rparr>"
    by (simp add: auth_user_of_def u_def admin_row_def)
  then show ?thesis
    using login e(2) p(2) by (simp add: handle_Login_def trim eq)
qed

definition demo_admin_env :: environment where
  "demo_admin_env = [''ADMIN_EMAIL'' \<mapsto> ''root@x'', ''ADMIN_PASSWORD'' \<mapsto> ''xyz'']"

theorem seeded_admin_logs_in_witness:
  "\<exists>db' db'' a. seedAdminAccount demo_idkey (Some ''0123456789abcdef'') demo_admin_env 20 demo_db = (db', Inr True) \<and>
     handle_Login (\<lambda>x. x) (argon_env demo_idkey None) (demo_clock 0) 100 70 ''tok'' ''csrf''
       (Some (''root@x'', ''xyz'')) db' = (db'', Inr (a, 100)) \<and> ac_role a = RAdmin"
proof -
  have env: "demo_admin_env ''ADMIN_EMAIL'' = Some ''root@x''" "demo_admin_env ''ADMIN_PASSWORD'' = Some ''xyz''"
    by (simp_all add: demo_admin_env_def)
  have trim: "trim_space ''root@x'' = ''root@x''" by code_simp
  have mail: "to_lower ''t@x'' = ''t@x''" "to_lower ''c@x'' = ''c@x''" "to_lower ''root@x'' = ''root@x''" by code_simp+
  obtain h where "HashPassword demo_idkey (Some ''0123456789abcdef'') ''xyz'' = Inr h"
    by (simp add: HashPassword_def demo_idkey_def argonTime_def argonThreads_def)
  then obtain db' where seed: "seedAdminAccount demo_idkey (Some ''0123456789abcdef'') demo_admin_env 20 demo_db =
      (db', Inr True)"
    by (simp add: seedAdminAccount_def os_getenv_def env mail demo_db_defs insert_user_def insert_row_def
        taken_def admin_row_def Let_def)
  show ?thesis
    using seed seeded_admin_logs_in [OF seed demo_key_lengths env trim, of 70 "\<lambda>x. x" "''tok''" None
        "demo_clock 0" 100 "''csrf''"]
    by (auto simp: demo_db_defs)
qed

text \<open>An address with a blank in front is stored as it is, and no login looks for it.\<close>

lemma seeded_blank_locked_out:
  "\<exists>db'. seedAdminAccount demo_idkey (Some ''0123456789abcdef'')
       (demo_admin_env(''ADMIN_EMAIL'' \<mapsto> '' root@x'')) 20 demo_db = (db', Inr True) \<and>
     handle_Login (\<lambda>x. x) (argon_env demo_idkey None) (demo_clock 0) 100 70 ''tok'' ''csrf''
       (Some ('' root@x'', ''xyz'')) db' =
       (Record None ''auth.login_failed'' ''user'' None db', Inl ErrInvalidCredentials)"
proof -
  have trim: "trim_space '' root@x'' = ''root@x''" by code_simp
  have mail: "to_lower ''t@x'' = ''t@x''" "to_lower ''c@x'' = ''c@x''" "to_lower ''root@x'' = ''root@x''"
    "to_lower '' root@x'' = '' root@x''" by code_simp+
  obtain h where "HashPassword demo_idkey (Some ''0123456789abcdef'') ''xyz'' = Inr h"
    by (simp add: HashPassword_def demo_idkey_def argonTime_def argonThreads_def)
  then show ?thesis
    by (simp add: seedAdminAccount_def os_getenv_def demo_admin_env_def mail demo_db_defs insert_user_def
        insert_row_def taken_def admin_row_def Let_def handle_Login_def trim Login_def user_by_email_def)
qed

text \<open>A configuration that does not load, or a service that cannot be reached, changes nothing.\<close>

lemma api_main_refuses:
  assumes "\<not> startable (aw_frac w) (loadDotEnv (aw_dotenv w) (aw_env w))"
  shows "api_main w serve fl st = (st, Exit1)"
proof (cases "Load_config (aw_frac w) (aw_order1 w) (aw_order2 w) (aw_dotenv w) (aw_env w)")
  case (Inr c)
  then show ?thesis using assms unfolding Load_config_Inr by simp
qed (simp add: api_main_def)

end
