(* ===== verification/Tokens.thy ===== *)
theory Tokens
  imports PasswordLaws
begin

text \<open>
  What the service draws at random, hashes and hands out: session tokens and their hashes
  (\<open>auth/session.go\<close>), one-time passwords (\<open>trainees.go\<close>), request identifiers (\<open>httpx.go\<close>), and the
  session cookie (\<open>auth/handlers.go\<close>). The random bytes are arguments, \<open>None\<close> when the source fails;
  \<open>digest\<close> is SHA-256.
\<close>

section \<open>Texts of bytes\<close>

definition hex_digit :: "nat \<Rightarrow> char" where
  "hex_digit n = ''0123456789abcdef'' ! (n mod 16)"

definition hex_encode :: "string \<Rightarrow> string" where
  "hex_encode s = concat (map (\<lambda>c. [hex_digit (byte_val c div 16), hex_digit (byte_val c)]) s)"

definition url_char :: "char \<Rightarrow> char" where
  "url_char c = (if c = CHR ''+'' then CHR ''-'' else if c = CHR ''/'' then CHR ''_'' else c)"

definition b64url_encode :: "string \<Rightarrow> string" where
  "b64url_encode s = map url_char (b64_encode s)"

definition randToken :: "string option \<Rightarrow> string option" where
  "randToken rand = map_option b64url_encode rand"

definition TempPassword :: "string option \<Rightarrow> string option" where
  "TempPassword rand = map_option b64url_encode rand"

text \<open>\<open>randHex\<close> ignores a failing source: the bytes then stay zero.\<close>

definition randHex :: "nat \<Rightarrow> string option \<Rightarrow> string" where
  "randHex n rand = hex_encode (case rand of None \<Rightarrow> replicate n CHR 0x00 | Some b \<Rightarrow> b)"

definition sha256Hex :: "(string \<Rightarrow> string) \<Rightarrow> string \<Rightarrow> string" where
  "sha256Hex digest s = hex_encode (digest s)"

section \<open>The session cookie\<close>

datatype same_site = SameSiteLax | SameSiteNone

record cookie =
  ck_name :: string
  ck_value :: string
  ck_path :: string
  ck_domain :: string
  ck_expires :: "instant option"
  ck_max_age :: int
  ck_secure :: bool
  ck_http_only :: bool
  ck_same_site :: same_site

definition setSessionCookie :: "auth_config \<Rightarrow> string \<Rightarrow> instant \<Rightarrow> cookie" where
  "setSessionCookie cfg token ex =
     \<lparr>ck_name = ac_cookie_name cfg, ck_value = token, ck_path = ''/'', ck_domain = ac_cookie_domain cfg,
      ck_expires = Some ex, ck_max_age = 0, ck_secure = ac_cookie_secure cfg, ck_http_only = True,
      ck_same_site = SameSiteLax\<rparr>"

definition clearSessionCookie :: "auth_config \<Rightarrow> cookie" where
  "clearSessionCookie cfg =
     \<lparr>ck_name = ac_cookie_name cfg, ck_value = [], ck_path = ''/'', ck_domain = ac_cookie_domain cfg,
      ck_expires = None, ck_max_age = -1, ck_secure = ac_cookie_secure cfg, ck_http_only = True,
      ck_same_site = SameSiteLax\<rparr>"

section \<open>What they are worth\<close>

lemma b64_encode_length: "length (b64_encode s) = (4 * length s + 2) div 3"
  by (induction s rule: b64_encode.induct) (simp_all add: Let_def)

lemma hex_encode_length [simp]: "length (hex_encode s) = 2 * length s"
  by (induction s) (simp_all add: hex_encode_def)

lemma url_char_inj: "inj_on url_char (set b64_alphabet)"
proof -
  have away: "CHR ''-'' \<notin> set b64_alphabet" "CHR ''_'' \<notin> set b64_alphabet"
    by (simp_all add: b64_alphabet_def)
  show ?thesis
  proof (rule inj_onI)
    fix c d
    assume cd: "c \<in> set b64_alphabet" "d \<in> set b64_alphabet" "url_char c = url_char d"
    then have "c \<noteq> CHR ''-''" "c \<noteq> CHR ''_''" "d \<noteq> CHR ''-''" "d \<noteq> CHR ''_''" using away by metis+
    then show "c = d" using cd(3) unfolding url_char_def by (simp split: if_splits)
  qed
qed

lemma b64url_inj: "b64url_encode s = b64url_encode t \<Longrightarrow> s = t"
proof -
  assume "b64url_encode s = b64url_encode t"
  moreover have "inj_on url_char (set (b64_encode s) \<union> set (b64_encode t))"
    by (rule inj_on_subset [OF url_char_inj]) (use b64_encode_set in blast)
  ultimately have "b64_encode s = b64_encode t"
    unfolding b64url_encode_def using inj_on_map_eq_map by blast
  then show "s = t" by (metis b64_roundtrip option.inject)
qed

lemma b64url_safe:
  assumes "c \<in> set (b64url_encode s)"
  shows "c \<noteq> CHR ''+'' \<and> c \<noteq> CHR ''/'' \<and> c \<noteq> CHR ''='' \<and> c \<noteq> CHR '';''"
proof -
  obtain d where d: "c = url_char d" "d \<in> set b64_alphabet"
    using assms b64_encode_set [of s] by (auto simp: b64url_encode_def)
  have "CHR ''='' \<notin> set b64_alphabet" "CHR '';'' \<notin> set b64_alphabet" by (simp_all add: b64_alphabet_def)
  then have "d \<noteq> CHR ''=''" "d \<noteq> CHR '';''" using d(2) by metis+
  then show ?thesis by (simp add: d(1) url_char_def)
qed

text \<open>
  A one-time password of 12 random bytes has 16 characters, so it meets the rule for passwords; a
  token of 32 bytes has 43; and two of them are equal only when the bytes drawn were.
\<close>

lemma TempPassword_length: "TempPassword (Some b) = Some p \<Longrightarrow> length b = 12 \<Longrightarrow> length p = 16"
  by (auto simp: TempPassword_def b64url_encode_def b64_encode_length)

lemma randToken_length: "randToken (Some b) = Some t \<Longrightarrow> length b = 32 \<Longrightarrow> length t = 43"
  by (auto simp: randToken_def b64url_encode_def b64_encode_length)

lemma randToken_inj: "randToken (Some b) = randToken (Some b') \<Longrightarrow> b = b'"
  by (auto simp: randToken_def dest: b64url_inj)

text \<open>In production the cookie travels over TLS only, and scripts never see it.\<close>

lemma production_cookie:
  assumes "Load_config fr o1 o2 file env = Inr c" and "IsProduction c"
  shows "ck_secure (setSessionCookie (cf_auth c) token ex) \<and> ck_http_only (setSessionCookie (cf_auth c) token ex)"
proof -
  have c: "c = config_of fr o1 o2 (loadDotEnv file env)" "startable fr (loadDotEnv file env)"
    using assms(1) by (simp_all add: Load_config_Inr)
  then have "ac_cookie_secure (cf_auth c)"
    using assms(2) by (simp add: production_iff startable_def config_of_fields)
  then show ?thesis by (simp add: setSessionCookie_def)
qed

end
