(* ===== verification/Accounts.thy ===== *)
theory Accounts
  imports Tokens ImportLaws UserLaws
begin

text \<open>
  An account from its creation by the staff to the first login of its owner, across the trainee
  service, the password functions and the sessions.
\<close>

lemma HashPassword_not_Nil: "HashPassword idkey rand p = Inr h \<Longrightarrow> p \<noteq> []"
  by (auto simp: HashPassword_def)

lemma own_scope_frame:
  assumes "own_scope b c t db = Inr db'"
  shows "db_users db' = db_users db \<and> db_sessions db' = db_sessions db \<and>
    (b \<longrightarrow> (\<exists>s\<in>set (db_scopes db'). sc_coordinator s = c \<and> sc_trainee s = t))"
  using assms
  by (auto simp: own_scope_def insert_scope_def split: if_splits)
    (auto intro!: bexI [of _ "\<lparr>sc_coordinator = c, sc_trainee = t\<rparr>"])

lemma CreateTraineeTx_Inr:
  assumes "CreateTraineeTx uid tid h creator inp db = Inr (db', u)"
  shows "db_users db' = db_users db @ [new_account uid (to_lower (trim_space (tn_email inp))) h
      (trim_space (tn_name inp))] \<and>
    to_lower (trim_space (tn_email inp)) \<notin> emails db \<and> uid \<notin> us_id ` set (db_users db) \<and>
    db_sessions db' = db_sessions db \<and>
    (ac_role creator = RCoordinator \<longrightarrow>
      (\<exists>s\<in>set (db_scopes db'). sc_coordinator s = ac_id creator \<and> sc_trainee s = tid))"
proof -
  define a where "a = new_account uid (to_lower (trim_space (tn_email inp))) h (trim_space (tn_name inp))"
  define t where "t = new_profile tid uid (trim_space (tn_student inp)) (tn_program inp) (tn_year inp) (tn_contact inp)"
  obtain d1 d2 where d: "insert_user a db = Inr d1" "insert_trainee t d1 = Inr d2"
      "own_scope (ac_role creator = RCoordinator) (ac_id creator) tid d2 = Inr db'"
    using assms unfolding CreateTraineeTx_def a_def [symmetric] t_def [symmetric]
    by (auto simp: result_bind_Inr_iff split: sum.splits)
  have sel: "us_id a = uid" "to_lower (us_email a) = to_lower (trim_space (tn_email inp))"
    by (simp_all add: a_def new_account_def)
  show ?thesis
    using d own_scope_frame [OF d(3)] unfolding insert_user_Inr insert_trainee_Inr sel
    by (simp add: a_def)
qed

text \<open>
  C39. An account the staff creates is ready for use: the one-time password shown to its creator
  logs the trainee in under every spelling of the address the creator gave, whatever its case and
  the white space around it, and a creating coordinator finds the trainee in scope.
\<close>

theorem created_trainee_logs_in:
  assumes new: "Create_trainee (argon_env idkey rand) ok uid tid temp creator inp db = (db', Inr (t, password))"
    and len: "key_lengths idkey"
    and mail: "to_lower (trim_space email) = to_lower (trim_space (tn_email inp))"
    and staff: "ac_role creator = RCoordinator \<or> ac_role creator = RAdmin"
    and fresh: "sid \<notin> ss_id ` set (db_sessions db)" "sha token \<notin> ss_token_hash ` set (db_sessions db)"
  shows "temp = Some password \<and> CanAccessTrainee creator tid db' \<and>
    (\<exists>db'' a. handle_Login sha (argon_env idkey rand') ck ttl sid token csrf (Some (email, password)) db' =
       (db'', Inr (a, ck_now ck + ttl)) \<and> ac_id a = uid \<and> ac_role a = RTrainee)"
proof -
  have valid: "validateCreate inp = []" and temp: "temp = Some password"
    using new by (auto simp: Create_trainee_def result_bind_Inr_iff split: if_splits option.splits prod.splits sum.splits)
  obtain h where h: "HashPassword idkey rand password = Inr h" "pw_hash (argon_env idkey rand) password = Some h"
    using new valid temp by (auto simp: Create_trainee_def argon_env_def split: option.splits sum.splits)
  obtain u where tx: "CreateTraineeTx uid tid h creator inp db = Inr (db', u)"
    using new valid temp h(2) by (auto simp: Create_trainee_def in_tx_ok split: prod.splits sum.splits)
  define a where "a = new_account uid (to_lower (trim_space (tn_email inp))) h (trim_space (tn_name inp))"
  have db': "db_users db' = db_users db @ [a]" "to_lower (trim_space (tn_email inp)) \<notin> emails db"
      "db_sessions db' = db_sessions db"
      "ac_role creator = RCoordinator \<longrightarrow>
        (\<exists>s\<in>set (db_scopes db'). sc_coordinator s = ac_id creator \<and> sc_trainee s = tid)"
    using CreateTraineeTx_Inr [OF tx] by (simp_all add: a_def)
  have "List.find (\<lambda>u. to_lower (us_email u) = to_lower (trim_space email)) (db_users db) = None"
    using db'(2) by (auto simp: find_None_all emails_def mail image_iff)
  then have u: "user_by_email (trim_space email) db' = Some a" "us_status a = AccActive"
    by (simp_all add: user_by_email_def db'(1) find_append a_def new_account_def mail)
  have "VerifyPassword idkey password h = Inr (True, False)"
    by (rule HashPassword_verifies [OF h(1) len]) simp
  then have "pw_verify (argon_env idkey rand') password (us_password_hash a) = Some (True, False)"
    by (simp add: argon_env_def a_def new_account_def)
  then obtain db'' where "Login sha (argon_env idkey rand') ck ttl sid token csrf (trim_space email) password db' =
      (db'', Inr (auth_user_of a, ck_now ck + ttl))"
    using Login_active [OF u] fresh by (fastforce simp: db'(3))
  moreover have "trim_space (tn_email inp) \<noteq> []"
    using valid by (auto simp: validateCreate_def account_fields_def split: if_splits)
  then have "trim_space email \<noteq> []" using mail by (auto simp: to_lower_def)
  moreover have "ac_id (auth_user_of a) = uid" "ac_role (auth_user_of a) = RTrainee"
    by (simp_all add: auth_user_of_def a_def new_account_def)
  moreover have "CanAccessTrainee creator tid db'"
    using staff db'(4) by (auto simp: CanAccessTrainee_def list_ex_iff)
  ultimately show ?thesis
    using temp HashPassword_not_Nil [OF h(1)] by (simp add: handle_Login_def)
qed

definition demo_new_trainee :: trainee_create where
  "demo_new_trainee = \<lparr>tn_email = '' N@x'', tn_name = ''N'', tn_student = ''S9'', tn_program = [], tn_year = [],
     tn_contact = []\<rparr>"

theorem created_trainee_logs_in_witness:
  "\<exists>db' t p db'' a. Create_trainee (argon_env demo_idkey (Some ''0123456789abcdef'')) True 20 21
       (TempPassword (Some ''123456789012'')) demo_staff demo_new_trainee demo_db = (db', Inr (t, p)) \<and>
     length p = 16 \<and> handle_Login (\<lambda>x. x) (argon_env demo_idkey None) (demo_clock 0) 100 70 ''tok'' ''csrf''
       (Some (''n@X'', p)) db' = (db'', Inr (a, 100)) \<and> ac_role a = RTrainee"
proof -
  obtain p where temp: "TempPassword (Some ''123456789012'') = Some p" by (simp add: TempPassword_def)
  have "length ''123456789012'' = 12" by code_simp
  with temp have p: "length p = 16" by (rule TempPassword_length)
  have trim: "trim_space '' N@x'' = ''N@x''" "trim_space ''N'' = ''N''" "trim_space ''S9'' = ''S9''"
      "trim_space ''n@X'' = ''n@X''" "trim_space [] = []" by code_simp+
  have low: "to_lower ''t@x'' = ''t@x''" "to_lower ''c@x'' = ''c@x''" "to_lower ''N@x'' = ''n@x''"
      "to_lower ''n@X'' = ''n@x''" "to_lower ''n@x'' = ''n@x''" by code_simp+
  have mail: "to_lower (trim_space ''n@X'') = to_lower (trim_space (tn_email demo_new_trainee))"
    by (simp add: trim low demo_new_trainee_def)
  obtain key where "demo_idkey p ''0123456789abcdef'' argonTime argonMemory argonThreads argonKeyLen = Some key"
    by (simp add: demo_idkey_def argonTime_def argonThreads_def)
  moreover have "p \<noteq> []" using p by auto
  ultimately obtain h where h: "HashPassword demo_idkey (Some ''0123456789abcdef'') p = Inr h"
    by (simp add: HashPassword_def)
  obtain db' t where new: "Create_trainee (argon_env demo_idkey (Some ''0123456789abcdef'')) True 20 21
      (TempPassword (Some ''123456789012'')) demo_staff demo_new_trainee demo_db = (db', Inr (t, p))"
    unfolding temp
    by (simp add: Create_trainee_def validateCreate_def account_fields_def demo_new_trainee_def trim argon_env_def h
        in_tx_def CreateTraineeTx_def insert_user_def insert_row_def taken_def new_account_def low demo_db_defs
        insert_trainee_def new_profile_def own_scope_def insert_scope_def find_user_def by_key_def find_trainee_def
        demo_staff_def Get_trainee_def trainee_rows_def trainee_join_def trainee_view_of_def)
  show ?thesis
    using new p created_trainee_logs_in [OF new demo_key_lengths mail, of 70 "\<lambda>x. x" "''tok''" None
        "demo_clock 0" 100 "''csrf''"]
    by (auto simp: demo_db_defs demo_staff_def)
qed

end
