(* ===== verification/SessionLaws.thy ===== *)
theory SessionLaws
  imports System UserLaws
begin

text \<open>
  What every endpoint does to the sessions: most leave the table as it is; a login adds a session
  under a new token, and the others change sessions in ways that never bring a revoked one back.
\<close>

section \<open>How the table of sessions grows\<close>

definition tokens_ok :: "session_row list \<Rightarrow> bool" where
  "tokens_ok ss \<longleftrightarrow> unique_on ss_id ss \<and> unique_on ss_token_hash ss"

definition ended :: "string \<Rightarrow> session_row list \<Rightarrow> bool" where
  "ended h ss \<longleftrightarrow> (\<exists>s\<in>set ss. ss_token_hash s = h \<and> ss_revoked s \<noteq> None)"

definition sessions_grown :: "database \<Rightarrow> database \<Rightarrow> bool" where
  "sessions_grown db db' \<longleftrightarrow>
     (tokens_ok (db_sessions db) \<longrightarrow> tokens_ok (db_sessions db')) \<and>
     (\<forall>h. ended h (db_sessions db) \<longrightarrow> ended h (db_sessions db'))"

lemma sessions_same: "db_sessions db' = db_sessions db \<Longrightarrow> sessions_grown db db'"
  by (simp add: sessions_grown_def)

lemma sessions_grown_refl [simp]: "sessions_grown db db"
  by (simp add: sessions_same)

lemma sessions_grown_trans: "sessions_grown a b \<Longrightarrow> sessions_grown b c \<Longrightarrow> sessions_grown a c"
  by (simp add: sessions_grown_def)

lemma sessions_grown_Record [simp]: "sessions_grown db (Record a t ty i db') \<longleftrightarrow> sessions_grown db db'"
  by (simp add: sessions_grown_def Record_def)

lemma sessions_updated:
  assumes "db_sessions db' = update_where p f (db_sessions db)"
    and "\<And>s. ss_id (f s) = ss_id s \<and> ss_token_hash (f s) = ss_token_hash s"
    and "\<And>s. ss_revoked s \<noteq> None \<Longrightarrow> ss_revoked (f s) \<noteq> None"
  shows "sessions_grown db db'"
proof -
  have "key_update ss_id f" "key_update ss_token_hash f" by unfold_locales (simp_all add: assms(2))
  then have "tokens_ok (db_sessions db') \<longleftrightarrow> tokens_ok (db_sessions db)"
    by (simp add: tokens_ok_def assms(1) key_update.unique_update)
  moreover have "ended h (db_sessions db')" if e: "ended h (db_sessions db)" for h
  proof -
    obtain s where s: "s \<in> set (db_sessions db)" "ss_token_hash s = h" "ss_revoked s \<noteq> None"
      using e unfolding ended_def by blast
    have "(if p s then f s else s) \<in> set (db_sessions db')"
      unfolding assms(1) in_update_where using s(1) by blast
    then show ?thesis using s(2,3) assms(2,3) unfolding ended_def by (metis (full_types))
  qed
  ultimately show ?thesis by (simp add: sessions_grown_def)
qed

lemma Create_session_grown:
  "Create_session sha ck ttl sid v token csrf db = Inr db' \<Longrightarrow> sessions_grown db db'"
  by (auto simp: Create_session_Inr sessions_grown_def tokens_ok_def ended_def unique_on_append)

lemma Revoke_grown: "sessions_grown db (Revoke sha ck token db)"
  by (rule sessions_updated [where f = "revoke ck" and
        p = "\<lambda>s. ss_token_hash s = sha token \<and> ss_revoked s = None"])
    (simp_all add: Revoke_def revoke_def)

lemma RevokeAll_grown: "sessions_grown db d \<Longrightarrow> sessions_grown db (RevokeAllForUser ck i d)"
  by (erule sessions_grown_trans, rule sessions_updated [where f = "revoke ck" and
        p = "\<lambda>s. ss_user s = i \<and> ss_revoked s = None"])
    (simp_all add: RevokeAllForUser_def revoke_def)

lemma RotateCSRF_grown: "sessions_grown db (RotateCSRF sha j token db)"
  by (rule sessions_updated [where f = "\<lambda>s. s\<lparr>ss_csrf_hash := Some (sha token)\<rparr>" and p = "\<lambda>s. ss_id s = j"])
    (simp_all add: RotateCSRF_def set_by_key_def)

lemma set_user_grown [simp]: "sessions_grown db (set_user i f d) \<longleftrightarrow> sessions_grown db d"
  by (simp add: sessions_grown_def)

lemma Resolve_grown: "Resolve sha ck token db = (db', x) \<Longrightarrow> sessions_grown db db'"
  by (auto simp: Resolve_def set_by_key_def intro!: sessions_updated split: option.splits if_splits)

section \<open>Endpoints that leave the sessions\<close>

lemma Record_sessions [simp]: "db_sessions (Record a t ty i db) = db_sessions db"
  by (simp add: Record_def)

lemma inserts_sessions:
  "insert_user u db = Inr db' \<Longrightarrow> db_sessions db' = db_sessions db"
  "insert_trainee r db = Inr db' \<Longrightarrow> db_sessions db' = db_sessions db"
  "insert_site s db = Inr db' \<Longrightarrow> db_sessions db' = db_sessions db"
  "update_site i s db = Inr db' \<Longrightarrow> db_sessions db' = db_sessions db"
  "update_user i email name status db = Inr db' \<Longrightarrow> db_sessions db' = db_sessions db"
  "update_profile i student program year contact db = Inr db' \<Longrightarrow> db_sessions db' = db_sessions db"
  "insert_scope c t db = Inr db' \<Longrightarrow> db_sessions db' = db_sessions db"
  "own_scope b c t db = Inr db' \<Longrightarrow> db_sessions db' = db_sessions db"
  "insert_assignment a db = Inr db' \<Longrightarrow> db_sessions db' = db_sessions db"
  "update_assignment i g db = Inr db' \<Longrightarrow> db_sessions db' = db_sessions db"
  by (auto simp: insert_user_def insert_trainee_def insert_site_def update_site_def update_user_def
      update_profile_def insert_row_Inr Let_def set_user_def insert_scope_def
      own_scope_def insert_assignment_def update_assignment_def split: if_splits option.splits)

lemmas inserts_grown = inserts_sessions [THEN sessions_same]

lemma insert_scopes_sessions: "insert_scopes c ts db = Inr db' \<Longrightarrow> db_sessions db' = db_sessions db"
  by (induction c ts db rule: insert_scopes.induct)
    (auto simp: result_bind_Inr_iff dest: inserts_sessions)

lemma import_all_sessions:
  "import_all env b n rows db = Inr (db', x) \<Longrightarrow> db_sessions db' = db_sessions db"
proof (induction env b n rows db arbitrary: db' x rule: import_all.induct)
  case (2 env b n row rows db)
  obtain d cred where one: "import_one env b n row db = Inr (d, cred)"
    and rest: "\<exists>y. import_all env b (Suc n) rows d = Inr (db', y)"
    using "2.prems" by (auto simp: result_bind_Inr_iff)
  have "db_sessions d = db_sessions db"
    using one by (auto simp: import_one_def result_bind_Inr_iff dest!: inserts_sessions split: option.splits)
  then show ?case using rest "2.IH" by fastforce
qed simp

text \<open>A transaction relates the states before and after it as its body does, if that is reflexive.\<close>

lemma in_tx_sessions:
  assumes "in_tx ok fn db = (db', r)"
    and "\<And>d x. fn db = Inr (d, x) \<Longrightarrow> sessions_grown db d"
  shows "sessions_grown db db'"
  using assms by (auto simp: in_tx_def split: sum.splits prod.splits if_splits)

lemma TimeIn_sessions:
  assumes "TimeIn sv ck ids ok u inp db0 db db2 b = ((db', b'), r)"
  shows "sessions_grown db db'"
proof -
  have "sessions_grown db d" if "TimeInTx ids ck u' tc site today inp' loc ev db = Inr (d, x)"
    for u' tc site today inp' loc ev d x
    using TimeInTx_frame [OF that] by (auto intro: sessions_same)
  then show ?thesis
    using assms by (auto simp: TimeIn_def Let_def elim!: in_tx_sessions
        split: sum.splits option.splits prod.splits)
qed

lemma TimeOut_sessions:
  assumes "TimeOut sv ck ids ok u i inp db0 db db2 b = ((db', b'), r)"
  shows "sessions_grown db db'"
proof -
  have "sessions_grown db d" if "TimeOutTx ids ck u' tc site i' a inp' loc ev db = Inr (d, v, j)"
    for u' tc site i' a inp' loc ev d v j
    by (rule TimeOutTx_Inr [OF that]) (simp add: sessions_same)
  then show ?thesis
    using assms by (auto simp: TimeOut_def Let_def elim!: in_tx_sessions
        split: sum.splits option.splits prod.splits if_splits)
qed

lemma journal_sessions:
  "SaveDraft ck i narrative db = (db', r) \<Longrightarrow> sessions_grown db db'"
  "Submit ck ok i u narrative db = (db', r) \<Longrightarrow> sessions_grown db db'"
  "Review rid nid ck ok i u d c db = (db', r) \<Longrightarrow> sessions_grown db db'"
proof -
  show "SaveDraft ck i narrative db = (db', r) \<Longrightarrow> sessions_grown db db'"
    by (cases rule: SaveDraft_cases) (auto intro: sessions_same)
  show "Submit ck ok i u narrative db = (db', r) \<Longrightarrow> sessions_grown db db'"
    by (cases rule: Submit_cases) (auto intro: sessions_same simp: update_journal_def)
  show "Review rid nid ck ok i u d c db = (db', r) \<Longrightarrow> sessions_grown db db'"
    by (cases rule: Review_cases) (auto intro: sessions_same)
qed

lemma Decide_sessions:
  assumes "Decide ids ck ok i staff d comment db = (db', r)"
  shows "sessions_grown db db'"
proof -
  have "sessions_grown db e" if "DecideTx ids ck i staff dec comment db = Inr (e, x)" for dec e x
  proof (rule DecideTx_Inr [OF that])
    fix c d1 ns au
    assume d1: "if dec = CrRejected
        then d1 = update_correction i (decide_row ck staff CrRejected comment) db
        else \<exists>asn. approve_correction ids ck staff comment c db = Inr (d1, asn)"
      and e: "e = d1\<lparr>db_notifications := ns, db_audit := au\<rparr>"
    have "db_sessions d1 = db_sessions db"
      using d1 by (auto simp: update_correction_def split: if_splits elim!: approve_correction_Inr)
    then show ?thesis by (simp add: e sessions_same)
  qed
  then show ?thesis
    using assms by (auto simp: Decide_def elim!: in_tx_sessions split: option.splits)
qed

lemma Request_sessions:
  assumes "Request cid ck ok t actor inp db0 db = (db', r)"
  shows "sessions_grown db db'"
proof -
  have "sessions_grown db d" if "RequestTx cid ck t' a ty inp' db = Inr (d, x)" for t' a ty inp' d x
    using that by (auto simp: RequestTx_def insert_correction_Inr intro: sessions_same
        split: sum.splits if_splits)
  then show ?thesis
    using assms by (auto simp: Request_def elim!: in_tx_sessions split: option.splits if_splits sum.splits)
qed

section \<open>Every handler\<close>

lemma account_txs_sessions:
  "PatchCoordinatorTx ck i name st rst db = Inr (d, x) \<Longrightarrow> sessions_grown db d"
  "SetPasswordTx ck i h db = Inr (d, x) \<Longrightarrow> sessions_grown db d"
  "SetTraineeScopeTx c ids db = Inr (d, x) \<Longrightarrow> sessions_grown db d"
  "CreateTraineeTx uid tid h u inp db = Inr (d, x) \<Longrightarrow> sessions_grown db d"
  "UpdateTraineeTx ck i cur email name student st program year contact db = Inr (d, x) \<Longrightarrow> sessions_grown db d"
  "import_all env b n rows db = Inr (d, y) \<Longrightarrow> sessions_grown db d"
  by (auto dest!: inserts_sessions insert_scopes_sessions import_all_sessions
      intro!: RevokeAll_grown intro: sessions_same simp: result_bind_Inr_iff
      PatchCoordinatorTx_def SetPasswordTx_def SetTraineeScopeTx_def CreateTraineeTx_def
      UpdateTraineeTx_def Let_def split: sum.splits if_splits)

lemma account_handlers_sessions:
  "handle_Create_coordinator pw uid temp u body1 db = (db', r1) \<Longrightarrow> sessions_grown db db'"
  "handle_Patch_coordinator ck ok u param body2 db0 db = (db', r2) \<Longrightarrow> sessions_grown db db'"
  "handle_SetScope ok u param body3 db0 db = (db', r3) \<Longrightarrow> sessions_grown db db'"
  "handle_SetPassword pw ck ok u param body4 db0 db = (db', r4) \<Longrightarrow> sessions_grown db db'"
  "handle_Create_trainee pw ok uid tid temp u body5 db = (db', r5) \<Longrightarrow> sessions_grown db db'"
  "handle_SetTraineePassword pw ck ok u param body6 db0 db = (db', r6) \<Longrightarrow> sessions_grown db db'"
  "handle_ImportCommit ienv ok now u body7 store db = (store', db', r7) \<Longrightarrow> sessions_grown db db'"
  by (auto intro: inserts_grown account_txs_sessions elim!: in_tx_sessions
      simp: handle_Create_coordinator_def CreateCoordinator_def handle_Patch_coordinator_def
      PatchCoordinator_def handle_SetScope_def SetTraineeScope_def handle_SetPassword_def
      SetCoordinatorPassword_def handle_Create_trainee_def Create_trainee_def
      handle_SetTraineePassword_def SetTraineePassword_def handle_ImportCommit_def Commit_import_def
      Let_def split: option.splits sum.splits prod.splits if_splits)

lemma Update_trainee_sessions:
  assumes "Update_trainee ck ok i inp db0 db = (db', r)"
  shows "sessions_grown db db'"
proof (cases "Get_trainee i db0")
  case (Inr cur)
  define st where "st = (case tpp_status inp of None \<Rightarrow> Some (tv_status cur)
    | Some s \<Rightarrow> account_status_of s)"
  show ?thesis
  proof (cases st)
    case None
    then show ?thesis
      using assms Inr None [unfolded st_def]
      by (simp add: Update_trainee_def Let_def split: if_splits)
  next
    case (Some status)
    then show ?thesis
      using assms Inr Some [unfolded st_def]
      by (simp add: Update_trainee_def Let_def split: if_splits prod.splits sum.splits)
        (auto elim!: in_tx_sessions intro: account_txs_sessions)
  qed
qed (use assms in \<open>simp add: Update_trainee_def\<close>)

lemma institution_sessions:
  "handle_Create_site sid u body1 db = (db', r1) \<Longrightarrow> sessions_grown db db'"
  "handle_Update_site u param body2 db0 db = (db', r2) \<Longrightarrow> sessions_grown db db'"
  "handle_Patch_settings tz sid u body3 db0 db = (db', r3) \<Longrightarrow> sessions_grown db db'"
  by (auto intro!: sessions_same dest!: inserts_sessions simp: handle_Create_site_def Create_site_def
      handle_Update_site_def Update_site_def handle_Patch_settings_def Update_settings_def Let_def
      split: option.splits sum.splits prod.splits if_splits)

lemma Login_sessions:
  assumes "Login sha pw ck ttl sid token csrf email password db = (db', r)"
  shows "sessions_grown db db'"
proof -
  have "sessions_grown db d" if "Create_session sha ck ttl sid v token csrf e = Inr d" "db_sessions e = db_sessions db"
    for v d e
    using Create_session_grown [OF that(1)] sessions_same [OF that(2)] sessions_grown_trans by blast
  then show ?thesis
    using assms by (auto simp: Login_def Let_def split: option.splits sum.splits if_splits bool.splits)
qed

lemma auth_sessions:
  "handle_Login sha pw ck ttl sid token csrf body1 db = (db', r1) \<Longrightarrow> sessions_grown db db'"
  "sessions_grown db (handle_Logout sha ck actor tokenOf cookie db)"
  "handle_ChangePassword pw actor body2 db = (db', r2) \<Longrightarrow> sessions_grown db db'"
  "handle_UpdateMe actor body3 db = (db', r3) \<Longrightarrow> sessions_grown db db'"
  "handle_CSRFToken sha sess token db = (db', r4) \<Longrightarrow> sessions_grown db db'"
  by (auto dest: Login_sessions intro: Revoke_grown RotateCSRF_grown simp: handle_Login_def
      handle_Logout_def Logout_def handle_ChangePassword_def ChangePassword_def
      handle_UpdateMe_def UpdateProfile_def handle_CSRFToken_def Let_def
      split: option.splits sum.splits prod.splits if_splits bool.splits)

lemma notifications_sessions:
  "ReadNotification ck u param db = (db', r) \<Longrightarrow> sessions_grown db db'"
  "sessions_grown db (ReadAllNotifications ck u db)"
  by (auto intro!: sessions_same simp: ReadNotification_def MarkRead_def ReadAllNotifications_def
      MarkAllRead_def Let_def split: option.splits sum.splits prod.splits if_splits)

lemma reminders_sessions:
  assumes "RunReminders tz ids ck ok hour db0 db = (db', r)"
  shows "sessions_grown db db'"
proof -
  have frame: "db_sessions x = db_sessions d" if "emit_all CreateTx es d = (x, n)" for es d x n
    using emit_notes_frame [of es d] that by auto
  show ?thesis
    using assms
    by (auto dest!: frame simp: RunReminders_def RemindersTx_def openTimeIn_def
        missingJournals_def missingAttendanceReminders_def Let_def elim!: in_tx_sessions
        split: option.splits sum.splits prod.splits if_splits)
      (simp_all add: sessions_same)
qed

lemma evidence_sessions:
  "handle_AddEvidence sv eid uid ck ok u param photo db0 dbc db b = ((db', b'), r1) \<Longrightarrow> sessions_grown db db'"
  "handle_DeleteEvidence sv ok u param eparam db0 db b = ((db', b'), r2) \<Longrightarrow> sessions_grown db db'"
  by (auto intro!: sessions_same simp: handle_AddEvidence_def AddEvidence_def handle_DeleteEvidence_def
      DeleteEvidence_def DeleteEvidenceTx_def insert_journal_evidence_Inr result_bind_Inr_iff
      in_tx_def Let_def split: option.splits sum.splits prod.splits if_splits)

lemma assignments_sessions:
  "handle_Create_assignment up aid ck u body1 db0 db = (db', r1) \<Longrightarrow> sessions_grown db db'"
  "handle_Update_assignment up u param body2 db0 db = (db', r2) \<Longrightarrow> sessions_grown db db'"
proof -
  have "sessions_grown db d" if "Create_assignment up aid ck inp db0 db = (d, r)" for inp d r
    using that by (cases rule: Create_assignment_cases) (auto intro: sessions_same dest: inserts_sessions)
  then show "handle_Create_assignment up aid ck u body1 db0 db = (db', r1) \<Longrightarrow> sessions_grown db db'"
    by (auto simp: handle_Create_assignment_def split: option.splits prod.splits sum.splits)
  have "sessions_grown db d" if "Update_assignment up i inp db0 db = (d, r)" for i inp d r
    using that by (cases rule: Update_assignment_cases) (auto intro: sessions_same dest: inserts_sessions)
  then show "handle_Update_assignment up u param body2 db0 db = (db', r2) \<Longrightarrow> sessions_grown db db'"
    by (auto simp: handle_Update_assignment_def split: option.splits prod.splits sum.splits)
qed

lemma record_handlers_sessions:
  "handle_TimeIn sv ck ids ok v form db0 db later b = ((db', b'), r1) \<Longrightarrow> sessions_grown db db'"
  "handle_TimeOut sv ck ids ok v param form db0 db later b = ((db', b'), r2) \<Longrightarrow> sessions_grown db db'"
  "handle_SaveDraft ck u param body db0 db = (db', r3) \<Longrightarrow> sessions_grown db db'"
  "handle_Submit ck ok u param body db0 db = (db', r4) \<Longrightarrow> sessions_grown db db'"
  "handle_Review rid nid ck ok u param decision db0 db = (db', r5) \<Longrightarrow> sessions_grown db db'"
  "handle_Create_correction cid ck ok u param proposal db0 db = (db', r6) \<Longrightarrow> sessions_grown db db'"
  "handle_Decide dids ck ok u param verdict db0 db = (db', r7) \<Longrightarrow> sessions_grown db db'"
  "handle_Update_trainee ck ok u param change db0 db = (db', r8) \<Longrightarrow> sessions_grown db db'"
  by (auto dest: TimeIn_sessions TimeOut_sessions journal_sessions Request_sessions Decide_sessions
      Update_trainee_sessions simp: handle_TimeIn_def handle_TimeOut_def handle_SaveDraft_def
      handle_Submit_def handle_Review_def handle_Create_correction_def handle_Decide_def
      handle_Update_trainee_def split: option.splits sum.splits prod.splits if_splits)

lemmas handlers_sessions = account_handlers_sessions institution_sessions auth_sessions(1,3-5)
  notifications_sessions(1) evidence_sessions assignments_sessions record_handlers_sessions

lemma serves_sessions: "serves sv a H db ep db' \<Longrightarrow> sessions_grown db db'"
  by (cases rule: serves.cases)
    (auto dest: handlers_sessions intro: auth_sessions(2) notifications_sessions(2))

end
