(* ===== verification/SignOut.thy ===== *)
theory SignOut
  imports Runs SessionLaws
begin

text \<open>
  Signing a user out is for good: once all sessions of a user have been revoked - by a change of the
  status of the account or by a new password - no later state of the application accepts one of
  their tokens, however requests, logins and reminder jobs interleave.
\<close>

lemma run_guard_sessions:
  "run_guard env ck q g pr st = (st', x) \<Longrightarrow> sessions_grown (ap_db st) (ap_db st')"
  by (cases g) (auto simp: RequireAuth_def Let_def dest: Resolve_grown
      split: prod.splits sum.splits option.splits if_splits)

lemma run_guards_sessions:
  "run_guards env ck q gs pr st = (st', x) \<Longrightarrow> sessions_grown (ap_db st) (ap_db st')"
proof (induction gs arbitrary: pr st)
  case (Cons g gs)
  obtain st1 y where g: "run_guard env ck q g pr st = (st1, y)" by (metis surj_pair)
  show ?case
    using run_guard_sessions [OF g] Cons g sessions_grown_trans
    by (auto split: sum.splits)
qed simp

lemma admit_sessions:
  assumes "admit env ck q st = (st', x)"
  shows "sessions_grown (ap_db st) (ap_db st')"
proof -
  obtain st1 y where 1: "run_guards env ck q (group_guards (rq_path q)) nobody st = (st1, y)"
    by (metis surj_pair)
  have "sessions_grown (ap_db st1) (ap_db st')"
    using assms by (auto simp: admit_def 1 dest: run_guards_sessions
        split: prod.splits sum.splits option.splits)
  with run_guards_sessions [OF 1] show ?thesis by (rule sessions_grown_trans)
qed

text \<open>Along a run, tokens stay distinct, and a session that was revoked in some state is in every later one.\<close>

lemma grown_run:
  assumes "tokens_ok (db_sessions db) \<and> (\<forall>h\<in>H. \<forall>t. ended t (db_sessions h) \<longrightarrow> ended t (db_sessions db))"
    and "sessions_grown db db'"
  shows "tokens_ok (db_sessions db') \<and>
    (\<forall>h\<in>insert db' H. \<forall>t. ended t (db_sessions h) \<longrightarrow> ended t (db_sessions db'))"
  using assms unfolding sessions_grown_def by blast

lemma run_sessions:
  assumes "run env sv st0 H A st" and "tokens_ok (db_sessions (ap_db st0))"
  shows "tokens_ok (db_sessions (ap_db st)) \<and>
    (\<forall>h\<in>H. \<forall>t. ended t (db_sessions h) \<longrightarrow> ended t (db_sessions (ap_db st)))"
  using assms
proof (induction rule: run.induct)
  case start
  then show ?case by simp
next
  case (refused H A st ck q st' e)
  show ?case using grown_run [OF refused.IH [OF refused.prems] admit_sessions [OF refused.hyps(2)]] by simp
next
  case (admitted H A st ck q st' ep ps pr)
  show ?case using grown_run [OF admitted.IH [OF admitted.prems] admit_sessions [OF admitted.hyps(2)]] by simp
next
  case (served H A st ep a db')
  show ?case using grown_run [OF served.IH [OF served.prems] serves_sessions [OF served.hyps(3)]] by simp
next
  case (reminded H A st db0 tz ids ck ok hour db' r)
  show ?case using grown_run [OF reminded.IH [OF reminded.prems] reminders_sessions [OF reminded.hyps(3)]] by simp
qed

lemma ended_Resolve:
  assumes "tokens_ok (db_sessions db)" and "ended (sha token) (db_sessions db)"
  shows "Resolve sha ck token db = (db, None)"
proof -
  obtain s where s: "s \<in> set (db_sessions db)" "ss_token_hash s = sha token" "ss_revoked s \<noteq> None"
    using assms(2) unfolding ended_def by blast
  have "ss_revoked q \<noteq> None" if "q \<in> set (db_sessions db)" "ss_token_hash q = sha token" for q
    using unique_on_inj [of ss_token_hash "db_sessions db" q s] assms(1) that s by (simp add: tokens_ok_def)
  then have "List.find (\<lambda>s. ss_token_hash s = sha token \<and> live (ck_dbnow ck) s \<and>
      find_user (ss_user s) db \<noteq> None) (db_sessions db) = None"
    by (auto simp: find_None_all live_def)
  then show ?thesis by (simp add: Resolve_def)
qed

text \<open>
  C21. Signed out is signed out. If all sessions of a user were revoked in some state of a run,
  then whatever happens after it - logins of the same user, rotations, logouts, changes of any
  account, its reactivation included - a token of a session the user had then authenticates no
  request, and no request that carries it reaches an endpoint other than the public ones.
\<close>

theorem revoked_for_good:
  assumes "run env sv st0 H A st" and "tokens_ok (db_sessions (ap_db st0))"
    and "h \<in> H" and "db_sessions h = db_sessions (RevokeAllForUser ck userID db)"
    and "s \<in> set (db_sessions db)" and "ss_user s = userID"
    and "ae_sha env token = ss_token_hash s"
  shows "RequireAuth (ae_sha env) ck' token (ap_db st) = (ap_db st, Inl ErrUnauthorized) \<and>
    (\<forall>q st' ep ps pr. rq_cookie q = token \<and> admit env ck' q st = (st', Inr (ep, ps, pr)) \<longrightarrow>
       fst (matrix ep) = Public)"
proof -
  define p where "p = (\<lambda>s :: session_row. ss_user s = userID \<and> ss_revoked s = None)"
  have revoked: "db_sessions h = update_where p (revoke ck) (db_sessions db)"
    by (simp add: assms(4) RevokeAllForUser_def p_def)
  have "(if p s then revoke ck s else s) \<in> set (db_sessions h)"
    unfolding revoked in_update_where using assms(5) by blast
  then have "ended (ae_sha env token) (db_sessions h)"
    unfolding ended_def
    by (rule bexI [rotated]) (auto simp: assms(6,7) p_def revoke_def)
  then have "tokens_ok (db_sessions (ap_db st))" "ended (ae_sha env token) (db_sessions (ap_db st))"
    using run_sessions [OF assms(1,2)] assms(3) by blast+
  then have none: "Resolve (ae_sha env) ck' token (ap_db st) = (ap_db st, None)" by (rule ended_Resolve)
  have "fst (matrix ep) = Public"
    if "rq_cookie q = token" "admit env ck' q st = (st', Inr (ep, ps, pr))" for q st' ep ps pr
    using admit_allows [OF that(2)] that(1) none by auto
  then show ?thesis using none by (auto simp: RequireAuth_def)
qed

text \<open>A state in which the sessions of the trainee have just been revoked, and a retry.\<close>

theorem revoked_for_good_witness:
  "\<exists>st :: (int \<times> int \<times> int \<times> int) app_state. ss_token_hash demo_db_session = ''tok'' \<and>
     db_sessions (ap_db (demo_state 10)) = [demo_db_session\<lparr>ss_user := 10\<rparr>] \<and>
     ap_db st = RevokeAllForUser (demo_clock 5) 10 (ap_db (demo_state 10)) \<and>
     RequireAuth (ae_sha demo_app) (demo_clock 6) ''tok'' (ap_db st) = (ap_db st, Inl ErrUnauthorized)"
proof -
  define db where "db = ap_db (demo_state 10)"
  define st where "st = (demo_state 10)\<lparr>ap_db := RevokeAllForUser (demo_clock 5) 10 db\<rparr>"
  have ss: "db_sessions db = [demo_db_session\<lparr>ss_user := 10\<rparr>]" by (simp add: db_def demo_state_def)
  have ok: "tokens_ok (db_sessions (ap_db st))"
    by (simp add: st_def ss RevokeAllForUser_def update_where_def tokens_ok_def unique_on_def)
  have start: "run demo_app demo_sv st {ap_db st} {} st" by (rule run.start)
  have revoked: "db_sessions (ap_db st) = db_sessions (RevokeAllForUser (demo_clock 5) 10 db)"
    by (simp add: st_def)
  have mem: "demo_db_session\<lparr>ss_user := 10\<rparr> \<in> set (db_sessions db)" by (simp add: ss)
  have tok: "ss_user (demo_db_session\<lparr>ss_user := 10\<rparr>) = 10"
      "ae_sha demo_app ''tok'' = ss_token_hash (demo_db_session\<lparr>ss_user := 10\<rparr>)"
    by (simp_all add: demo_app_def demo_db_session_def)
  have "RequireAuth (ae_sha demo_app) (demo_clock 6) ''tok'' (ap_db st) = (ap_db st, Inl ErrUnauthorized)"
    using revoked_for_good [OF start ok _ revoked mem tok] by simp
  then show ?thesis
    using ss by (intro exI [of _ st]) (simp add: st_def db_def demo_db_session_def)
qed

end
