(* ===== verification/Spec2Isabelle.thy ===== *)
theory Spec2Isabelle
  imports AssignmentLaws AccessLaws CorrectionLaws JournalLaws Reminders Sites Settings UserLaws ImportLaws
    ReportLaws CorrectionLists Runs Observability Commands Accounts SignOut
begin

text \<open>
  A model of the backend of OJT Tracking, the Go service under \<open>src/backend\<close> that records the
  on-the-job training of students: they time in and out with a photo and a location, write a journal
  of each day and ask for corrections; coordinators and administrators review, correct, assign and
  report. The development translates the service, handler by handler, into HOL functions and proves
  what they guarantee, alone and together.

  \<^bold>\<open>How the program is put together.\<close> \<open>cmd/api/main.go\<close> reads the configuration and runs one command:
  migrations, the first administrator, the reminder job, a health check, or the server. The server
  (\<open>internal/app\<close>) registers the routes, and the guards in front of them: authentication by a session
  cookie, CSRF protection, roles, rate limits. A handler parses its request, checks the scope of the
  actor and calls a service, which reads and writes a PostgreSQL database in transactions; evidence
  photos go to an object store. Services call each other inside a transaction: a Time Out opens the
  journal of the day and may raise the completion notification, a decided correction rewrites the
  effective times of a session and notifies the trainee, and nearly everything writes the audit log.

  \<^bold>\<open>The state.\<close> The theory \<open>Schema\<close> has one record per table of \<open>internal/platform/db/migrations\<close>, with
  the CHECK constraints and unique indexes that the inserts and updates of the services meet; the
  record \<open>database\<close> holds the tables as lists of rows. An operation takes the database, the clock
  (the server's and the database's), the identifiers that would be drawn, and returns the new
  database with its answer or an error. A transaction is \<open>in_tx\<close>: an error or a failed commit leaves
  the database as it was. Operations that read outside their transaction take one database for
  each read, so that other requests may run between; the state such a read sees is any earlier one.
  The object store is a map from keys to bytes whose calls may fail.

  \<^bold>\<open>Theories and code.\<close>
  \<^item> \<open>Prelude\<close>: results, truncated division, \<open>strings.TrimSpace\<close>, tables with lookup and update, and the
    locale of updates that keep a key. \<open>Httpx\<close>: \<open>platform/httpx\<close> (errors, pages) and \<open>Pool.InTx\<close>.
    \<open>Clock\<close>, \<open>Calendar\<close>, \<open>Strconv\<close>, \<open>Search\<close>, \<open>Csv\<close>, \<open>CsvWriter\<close>: what the code uses of Go's \<open>time\<close>,
    \<open>strings\<close>, \<open>strconv\<close> and \<open>encoding/csv\<close>, and of PostgreSQL's \<open>ILIKE\<close>.
  \<^item> \<open>Hours\<close>, \<open>Geofence\<close>, \<open>Evidence\<close>, \<open>Attendance\<close>, with \<open>AttendanceLaws\<close> and \<open>TimeOutLaws\<close>:
    \<open>internal/attendance\<close> but its reads. Credited minutes and progress (\<open>hours.go\<close>), distance and
    location status (\<open>geofence.go\<close>), photo checks, keys and storage (\<open>evidence_*.go\<close>, \<open>watermark.go\<close>),
    and Time In and Time Out with their replays, transactions and failures (\<open>service.go\<close>).
    \<open>AttendanceRead\<close>: \<open>read.go\<close>.
  \<^item> \<open>Corrections\<close>, \<open>CorrectionLists\<close>, \<open>CorrectionLaws\<close>: \<open>internal/corrections\<close>. \<open>Journals\<close>, \<open>JournalLaws\<close>:
    \<open>internal/journals\<close>. \<open>Notifications\<close>, \<open>Reminders\<close>: the packages of these names.
  \<^item> \<open>Access\<close>, \<open>AccessLaws\<close>: sessions, CSRF, scope, login and the own account (\<open>internal/auth\<close>).
    \<open>Password\<close>, \<open>PasswordLaws\<close>: \<open>auth/password.go\<close>. \<open>Tokens\<close>: tokens, one-time passwords and the
    session cookie. \<open>Accounts\<close>: from the creation of an account to its first login. \<open>Ratelimit\<close>: \<open>platform/ratelimit\<close>. \<open>App\<close>, \<open>AppLaws\<close>:
    \<open>internal/app\<close>, the routes of \<open>auth/handlers.go\<close> and \<open>httpx/health.go\<close>, and the access matrix.
  \<^item> \<open>Assignments\<close>, \<open>AssignmentLaws\<close>, \<open>Sites\<close>, \<open>Settings\<close>, \<open>Users\<close>, \<open>UserLaws\<close>, \<open>Trainees\<close>, \<open>Imports\<close>,
    \<open>ImportLaws\<close>, \<open>Dashboard\<close>: the administration and the trainee's dashboard, by package;
    \<open>Imports\<close> is \<open>trainees/import.go\<close> and \<open>Dashboard\<close> \<open>trainees/dashboard.go\<close>.
  \<^item> \<open>Reports\<close>, \<open>ReportLaws\<close>, \<open>Monitoring\<close>, \<open>MonitoringLaws\<close>: \<open>internal/reports\<close> with its CSV export, and
    the staff dashboard of \<open>internal/monitoring\<close>.
  \<^item> \<open>Config\<close>, \<open>ConfigLaws\<close>: \<open>internal/config\<close>. \<open>Migrate\<close>: \<open>platform/db/migrate.go\<close>. \<open>Storage\<close>:
    \<open>platform/storage/s3.go\<close> and \<open>NewPool\<close>. \<open>Observability\<close>: \<open>platform/observability/log.go\<close>. \<open>Commands\<close>:
    \<open>cmd/api/main.go\<close>.
  \<^item> \<open>Ledger\<close>, \<open>LedgerLaws\<close>, \<open>Refinement\<close>, \<open>System\<close>, \<open>Runs\<close>, \<open>SessionLaws\<close>, \<open>SignOut\<close>: the
    specification of the whole, below.
    \<open>Examples\<close> holds the data of the examples.

  Definitions keep the names of the code where HOL allows it; \<open>handle_X\<close> is the handler of a service
  operation, \<open>XTx\<close> the body of its transaction.

  \<^bold>\<open>The abstract specification.\<close> The ledger is the part of the database that is a trainee's record:
  sessions, evidence, journals, reviews, corrections, adjustments and the owners of assignments. Its
  seven events (\<open>ledger_step\<close>) are the ways a record is meant to change. \<open>LedgerLaws\<close> proves of the
  events, once, that they keep the ledger consistent (\<open>ledger_ok\<close>), lose nothing (\<open>ledger_grown\<close>) and
  touch one trainee's record. \<open>Refinement\<close> and \<open>System\<close> prove of the code's model that each endpoint
  performs one event, of a trainee its actor may act for, or none: \<open>performs\<close>. \<open>Runs\<close> interleaves
  requests and reminder jobs in an inductive relation: a request is admitted through routes and
  guards in one state and served in a later one, with its reads from any state in between.
  Invariants, permanence, bounds and authorization of all runs follow. \<open>SessionLaws\<close> and \<open>SignOut\<close>
  do the same for the table of sessions: every endpoint keeps what was revoked revoked.

  \<^bold>\<open>What the groups of lemmas show.\<close> Of runs: consistency, permanence of what is recorded, changes by
  authorized actors only, minutes and percentages within bounds, and that no correction is stuck. Of
  the interface: who is admitted to which endpoint, which requests pass the CSRF check, that revoked
  sessions stay dead along every run, that a changed password logs in, and so do the seeded administrator and a trainee the staff
  created, that the
  rate limiter answers as if it never forgot a key. Of each operation: the state a success
  leaves and that a failure changes nothing, for Time In, Time Out, corrections, journals,
  assignments, scopes and imports. Of optimised or doubled computations: floating-point minutes and
  percentages against integers, the list filter against the single check of scope. Of reads: that
  reports, dashboards and session reads show nothing outside the reader's scope. Round trips of
  dates, CSV exports, base64 and password hashes; types of settings, and of sites; which environments
  the process starts in; and that migrations resume, stop and complete as they should. Lemmas
  that show the code falling short carry the reason in their text; they are about concurrency
  outside a transaction, identifiers and addresses with blanks, NaN coordinates, merged report
  groups, and byte sizes read in the order of a Go map.

  \<^bold>\<open>Parameters.\<close> Code that is not in the repository is an argument of the definitions that use it, and
  what is relied on is a named hypothesis: Fiber's dispatch (guards of a group before those of the
  route, first match); the time zone database and its offsets; SHA-256, Argon2 (a key of the length
  asked for), random bytes and drawn identifiers; the decoding of images and the drawing of
  watermarks; the token buckets of golang.org/x/time/rate (they answer as if filled up when dropped
  late enough); the minio client; the collation and casts of PostgreSQL; \<open>uuid.Parse\<close>; the rounding
  of \<open>float64\<close> (relative error at most 2^-53, exact on integers it holds) and the fraction of
  \<open>time.ParseDuration\<close>; the contents and the effect of the migration scripts.

  \<^bold>\<open>Numbers, bounds and termination.\<close> Go's \<open>int\<close> and \<open>time.Duration\<close> are 64 bits wide: where a value a
  client or an operator chooses can reach the width, the wrap is written out (page offsets, reminder
  cut-offs, byte sizes, connection counts, durations); database columns have their own width and
  refuse what does not fit. Instants are in microseconds, as the columns keep them. No definition
  uses fuel: recursions that are not structural (trimming, CSV, patterns, durations) come with a
  measure, the length of what is left to read.

  \<^bold>\<open>Not modelled.\<close> \<open>internal/testutil\<close> and \<open>cmd/seed\<close> are support code of tests and demonstrations. The pgx pool
  (\<open>Health\<close>, \<open>Shutdown\<close>), the listening socket, the signal handler and \<open>Store.Get\<close> only call
  into libraries; JSON encoding and the texts shown to humans are left out of the answers, the metadata of audit
  events and the address and browser of a session out of their rows. Fiber adds
  HEAD routes of its own, and its recovery turns a panic into an error 500; both are outside the
  repository. The pixels of watermarks and the decoders of images are parameters.
\<close>

end
